(* ===== verification/Mango_Prelude.thy ===== *)
theory Mango_Prelude
  imports Main "HOL-Library.Word"
begin

text \<open>
  Shared vocabulary of the development: the machine types of the code, the
  kinds of failure a call can end in, the state-and-failure actions in which the
  host runtime and the OpenCL layer are written, an ordered map with the
  operations the code uses of \<^verbatim>\<open>std::map\<close>, and list lemmas that several
  components need.
\<close>

section \<open>Machine types\<close>

type_synonym u8 = "8 word"
type_synonym u16 = "16 word"
type_synonym u32 = "32 word"
type_synonym u64 = "64 word"

section \<open>Collections of facts\<close>

named_theorems act_simps \<open>evaluation of actions on a state\<close>
named_theorems count_simps \<open>counting list elements after an update\<close>

section \<open>Failures\<close>

text \<open>
  How a call of the code can end without returning: a failed \<^verbatim>\<open>assert\<close>, an
  exception that leaves \<^verbatim>\<open>std::map::at\<close> (inside a \<^verbatim>\<open>noexcept\<close> function both end the
  process), a dereferenced null or dangling pointer, an access outside an
  object, a second release of one object, a call of \<^verbatim>\<open>std::terminate\<close>, an
  uncaught \<^verbatim>\<open>std::runtime_error\<close>, or a thrown OpenCL error code.
\<close>

datatype fault =
    Assert_failed
  | Out_of_range
  | Bad_pointer
  | Out_of_bounds
  | Double_free
  | Terminated
  | Runtime_error
  | Thrown int

definition bindE :: "'e + 'a \<Rightarrow> ('a \<Rightarrow> 'e + 'b) \<Rightarrow> 'e + 'b" where
  "bindE x f = (case x of Inl e \<Rightarrow> Inl e | Inr a \<Rightarrow> f a)"

lemma bindE_simps [simp]: "bindE (Inl e) f = Inl e" "bindE (Inr a) f = f a"
  by (simp_all add: bindE_def)

section \<open>Actions: state, failure and divergence\<close>

text \<open>
  An action takes the state and either does not return (\<open>None\<close>) or gives a
  failure or a value together with the state it leaves. The state survives a
  failure, because an exception does not undo what the code did before it.
\<close>

type_synonym ('s, 'a) act = "'s \<Rightarrow> ((fault + 'a) \<times> 's) option"

definition ret :: "'a \<Rightarrow> ('s, 'a) act" where
  "ret a = (\<lambda>s. Some (Inr a, s))"

definition fail :: "fault \<Rightarrow> ('s, 'a) act" where
  "fail e = (\<lambda>s. Some (Inl e, s))"

definition andThen :: "('s, 'a) act \<Rightarrow> ('a \<Rightarrow> ('s, 'b) act) \<Rightarrow> ('s, 'b) act" where
  "andThen m f = (\<lambda>s. case m s of
      None \<Rightarrow> None
    | Some (r, s') \<Rightarrow> (case r of Inl e \<Rightarrow> Some (Inl e, s') | Inr a \<Rightarrow> f a s'))"

definition reads :: "('s \<Rightarrow> 'a) \<Rightarrow> ('s, 'a) act" where
  "reads f = (\<lambda>s. Some (Inr (f s), s))"

definition modify :: "('s \<Rightarrow> 's) \<Rightarrow> ('s, unit) act" where
  "modify f = (\<lambda>s. Some (Inr (), f s))"

definition assert_that :: "bool \<Rightarrow> ('s, unit) act" where
  "assert_that b = (if b then ret () else fail Assert_failed)"

definition throw_unless :: "bool \<Rightarrow> int \<Rightarrow> ('s, unit) act" where
  "throw_unless b e = (if b then ret () else fail (Thrown e))"

definition from_option :: "fault \<Rightarrow> 'a option \<Rightarrow> ('s, 'a) act" where
  "from_option e x = (case x of None \<Rightarrow> fail e | Some a \<Rightarrow> ret a)"

primrec forEach :: "'a list \<Rightarrow> ('a \<Rightarrow> ('s, unit) act) \<Rightarrow> ('s, unit) act" where
  "forEach [] f = ret ()"
| "forEach (x # xs) f = andThen (f x) (\<lambda>_. forEach xs f)"

primrec mapEach :: "'a list \<Rightarrow> ('a \<Rightarrow> ('s, 'b) act) \<Rightarrow> ('s, 'b list) act" where
  "mapEach [] f = ret []"
| "mapEach (x # xs) f =
     andThen (f x) (\<lambda>y. andThen (mapEach xs f) (\<lambda>ys. ret (y # ys)))"

primrec foldEach :: "'a list \<Rightarrow> 'b \<Rightarrow> ('a \<Rightarrow> 'b \<Rightarrow> ('s, 'b) act) \<Rightarrow> ('s, 'b) act" where
  "foldEach [] b f = ret b"
| "foldEach (x # xs) b f = andThen (f x b) (\<lambda>c. foldEach xs c f)"

definition lift_sum :: "fault + 'a \<Rightarrow> ('s, 'a) act" where
  "lift_sum r = (\<lambda>s. Some (r, s))"

lemma lift_sum_run [act_simps]: "lift_sum r s = Some (r, s)"
  by (simp add: lift_sum_def)

lemma ret_run [act_simps]: "ret a s = Some (Inr a, s)"
  by (simp add: ret_def)

lemma fail_run [act_simps]: "fail e s = Some (Inl e, s)"
  by (simp add: fail_def)

lemma reads_run [act_simps]: "reads f s = Some (Inr (f s), s)"
  by (simp add: reads_def)

lemma modify_run [act_simps]: "modify f s = Some (Inr (), f s)"
  by (simp add: modify_def)

lemma assert_that_run [act_simps]:
  "assert_that b s = Some (if b then Inr () else Inl Assert_failed, s)"
  by (simp add: assert_that_def act_simps)

lemma throw_unless_run [act_simps]:
  "throw_unless b e s = Some (if b then Inr () else Inl (Thrown e), s)"
  by (simp add: throw_unless_def act_simps)

lemma from_option_run [act_simps]:
  "from_option e x s = Some (case x of None \<Rightarrow> Inl e | Some a \<Rightarrow> Inr a, s)"
  by (simp add: from_option_def act_simps split: option.split)

lemma andThen_run [act_simps]:
  "andThen m f s = (case m s of None \<Rightarrow> None
     | Some (Inl e, s') \<Rightarrow> Some (Inl e, s') | Some (Inr a, s') \<Rightarrow> f a s')"
  by (simp add: andThen_def split: option.split sum.split prod.split)

lemma andThen_ret_left [simp]: "andThen (ret a) f = f a"
  by (simp add: andThen_def ret_def)

lemma andThen_fail [simp]: "andThen (fail e) f = fail e"
  by (simp add: andThen_def fail_def)

lemma andThen_assoc:
  "andThen (andThen m f) g = andThen m (\<lambda>a. andThen (f a) g)"
  by (rule ext) (simp add: andThen_def split: option.split sum.split prod.split)

text \<open>An action keeps a property of the state when every way it returns does.\<close>

definition keeps :: "('s \<Rightarrow> bool) \<Rightarrow> ('s, 'a) act \<Rightarrow> bool" where
  "keeps P m \<longleftrightarrow> (\<forall>s r s'. P s \<longrightarrow> m s = Some (r, s') \<longrightarrow> P s')"

lemma keepsI: "(\<And>s r s'. P s \<Longrightarrow> m s = Some (r, s') \<Longrightarrow> P s') \<Longrightarrow> keeps P m"
  by (auto simp: keeps_def)

lemma keepsD: "keeps P m \<Longrightarrow> P s \<Longrightarrow> m s = Some (r, s') \<Longrightarrow> P s'"
  by (auto simp: keeps_def)

lemma keeps_ret [intro!]: "keeps P (ret a)"
  and keeps_fail [intro!]: "keeps P (fail e)"
  and keeps_reads [intro!]: "keeps P (reads f)"
  and keeps_assert [intro!]: "keeps P (assert_that b)"
  and keeps_throw [intro!]: "keeps P (throw_unless b c)"
  and keeps_from_option [intro!]: "keeps P (from_option e x)"
  by (auto simp: keeps_def act_simps)

lemma keeps_modify: "(\<And>s. P s \<Longrightarrow> P (f s)) \<Longrightarrow> keeps P (modify f)"
  by (auto simp: keeps_def act_simps)

lemma keeps_andThen [intro]:
  assumes "keeps P m" and f: "\<And>a. keeps P (f a)"
  shows "keeps P (andThen m f)"
proof (rule keepsI)
  fix s r s'
  assume "P s" and run: "andThen m f s = Some (r, s')"
  then obtain q t where m: "m s = Some (q, t)"
    by (auto simp: act_simps split: option.splits)
  with assms(1) \<open>P s\<close> have "P t" by (rule keepsD)
  with m run show "P s'"
    by (cases q) (auto simp: act_simps intro: keepsD [OF f])
qed

lemma keeps_lift_sum [intro!]: "keeps P (lift_sum r)"
  by (auto simp: keeps_def act_simps)

lemma keeps_foldEach: "(\<And>x b. x \<in> set xs \<Longrightarrow> keeps P (f x b)) \<Longrightarrow> keeps P (foldEach xs b f)"
  by (induction xs arbitrary: b) auto

lemma keeps_mapEach: "(\<And>x. x \<in> set xs \<Longrightarrow> keeps P (f x)) \<Longrightarrow> keeps P (mapEach xs f)"
  by (induction xs) auto

lemma keeps_forEach: "(\<And>x. x \<in> set xs \<Longrightarrow> keeps P (f x)) \<Longrightarrow> keeps P (forEach xs f)"
  by (induction xs) auto

section \<open>Ordered maps\<close>

text \<open>
  \<^verbatim>\<open>std::map\<close> as an association list sorted by key, which is also the order in which
  the code iterates over it. \<open>emplace\<close> keeps an existing binding, \<open>operator[] =\<close>
  (here \<open>sm_assign\<close>) replaces it, \<open>erase\<close> of an absent key does nothing, and
  \<open>at\<close> of an absent key throws.
\<close>

type_synonym ('k, 'v) smap = "('k \<times> 'v) list"

fun sm_at :: "('k, 'v) smap \<Rightarrow> 'k \<Rightarrow> 'v option" where
  "sm_at [] k = None"
| "sm_at ((a, b) # m) k = (if a = k then Some b else sm_at m k)"

fun sm_assign :: "'k :: linorder \<Rightarrow> 'v \<Rightarrow> ('k, 'v) smap \<Rightarrow> ('k, 'v) smap" where
  "sm_assign k v [] = [(k, v)]"
| "sm_assign k v ((a, b) # m) =
     (if k < a then (k, v) # (a, b) # m
      else if k = a then (k, v) # m
      else (a, b) # sm_assign k v m)"

definition sm_emplace :: "'k :: linorder \<Rightarrow> 'v \<Rightarrow> ('k, 'v) smap \<Rightarrow> ('k, 'v) smap" where
  "sm_emplace k v m = (case sm_at m k of None \<Rightarrow> sm_assign k v m | Some _ \<Rightarrow> m)"

fun sm_erase :: "'k \<Rightarrow> ('k, 'v) smap \<Rightarrow> ('k, 'v) smap" where
  "sm_erase k [] = []"
| "sm_erase k ((a, b) # m) = (if a = k then m else (a, b) # sm_erase k m)"

definition sm_ok :: "('k :: linorder, 'v) smap \<Rightarrow> bool" where
  "sm_ok m \<longleftrightarrow> sorted_wrt (<) (map fst m)"

lemma sm_at_assign: "sm_at (sm_assign k v m) = (sm_at m)(k \<mapsto> v)"
  by (induction m) (auto simp: fun_eq_iff)

definition sm_keys :: "('k, 'v) smap \<Rightarrow> 'k set" where
  "sm_keys m = fst ` set m"

lemma sm_keys_Nil [simp]: "sm_keys [] = {}"
  and sm_keys_Cons [simp]: "sm_keys ((a, b) # m) = insert a (sm_keys m)"
  by (simp_all add: sm_keys_def)

lemma sm_at_None_iff: "sm_at m k = None \<longleftrightarrow> k \<notin> sm_keys m"
  by (induction m) (auto split: if_splits)

lemma keys_assign: "sm_keys (sm_assign k v m) = insert k (sm_keys m)"
  by (induction m) (auto split: if_splits)

lemma sm_ok_Nil [simp]: "sm_ok []"
  by (simp add: sm_ok_def)

lemma sm_ok_Cons [simp]: "sm_ok ((a, b) # m) \<longleftrightarrow> (\<forall>k \<in> sm_keys m. a < k) \<and> sm_ok m"
  by (auto simp: sm_ok_def sm_keys_def)

lemma sm_ok_assign: "sm_ok m \<Longrightarrow> sm_ok (sm_assign k v m)"
  proof (induction m)
  case (Cons p m)
  obtain a b where p: "p = (a, b)" by (cases p)
  show ?case
  proof (cases "k < a")
    case True
    with Cons.prems p show ?thesis by (auto intro: less_trans)
  next
    case False
    then have "k = a \<or> a < k" by auto
    with False Cons p show ?thesis by (auto simp: keys_assign)
  qed
qed simp

lemma keys_erase: "sm_keys (sm_erase j m) \<subseteq> sm_keys m"
  by (induction m) (auto split: if_splits)

lemma sm_ok_erase: "sm_ok m \<Longrightarrow> sm_ok (sm_erase k m)"
proof (induction m)
  case (Cons p m)
  obtain a b where "p = (a, b)" by (cases p)
  with Cons keys_erase [of k m] show ?case by auto
qed simp

lemma sm_at_erase: "sm_ok m \<Longrightarrow> sm_at (sm_erase k m) = (sm_at m)(k := None)"
proof (induction m)
  case (Cons p m)
  obtain a b where p: "p = (a, b)" by (cases p)
  show ?case
  proof (cases "a = k")
    case True
    with Cons.prems p have "k \<notin> sm_keys m" by auto
    then have "sm_at m k = None" by (simp add: sm_at_None_iff)
    with True p show ?thesis by (auto simp: fun_eq_iff)
  next
    case False
    with Cons p show ?thesis by (auto simp: fun_eq_iff)
  qed
qed auto

lemma sm_at_in_set: "sm_at m k = Some v \<Longrightarrow> (k, v) \<in> set m"
  by (induction m) (auto split: if_splits)

lemma in_set_sm_at: "sm_ok m \<Longrightarrow> (k, v) \<in> set m \<Longrightarrow> sm_at m k = Some v"
  by (induction m) (fastforce simp: sm_keys_def)+

text \<open>
  The contract of a registry: what its clients (the context, the TLBs, the memory
  manager's pools) rely on, whichever structure implements it.
\<close>

locale registry =
  fixes empty :: "'m" and at :: "'m \<Rightarrow> 'k \<Rightarrow> 'v option"
    and assign :: "'k \<Rightarrow> 'v \<Rightarrow> 'm \<Rightarrow> 'm" and emplace :: "'k \<Rightarrow> 'v \<Rightarrow> 'm \<Rightarrow> 'm"
    and erase :: "'k \<Rightarrow> 'm \<Rightarrow> 'm" and ok :: "'m \<Rightarrow> bool"
  assumes at_empty: "at empty k = None"
    and ok_empty: "ok empty"
    and at_assign: "ok m \<Longrightarrow> at (assign k v m) = (at m)(k \<mapsto> v)"
    and ok_assign: "ok m \<Longrightarrow> ok (assign k v m)"
    and emplace_absent: "at m k = None \<Longrightarrow> emplace k v m = assign k v m"
    and emplace_present: "at m k = Some u \<Longrightarrow> emplace k v m = m"
    and at_erase: "ok m \<Longrightarrow> at (erase k m) = (at m)(k := None)"
    and ok_erase: "ok m \<Longrightarrow> ok (erase k m)"
begin

lemma ok_emplace: "ok m \<Longrightarrow> ok (emplace k v m)"
  by (cases "at m k") (simp_all add: emplace_absent emplace_present ok_assign)

lemma at_emplace:
  "ok m \<Longrightarrow> at (emplace k v m) j = (if at m k = None \<and> j = k then Some v else at m j)"
  by (cases "at m k") (simp_all add: emplace_absent emplace_present at_assign)

lemma emplace_keeps: "ok m \<Longrightarrow> at m j = Some u \<Longrightarrow> at (emplace k v m) j = Some u"
  by (simp add: at_emplace) auto

lemma emplace_bound: "ok m \<Longrightarrow> \<exists>u. at (emplace k v m) k = Some u"
  by (cases "at m k") (auto simp: at_emplace)

lemma erase_absent: "ok m \<Longrightarrow> at m k = None \<Longrightarrow> at (erase k m) = at m"
  by (simp add: at_erase fun_upd_idem)

lemma erase_emplace:
  "ok m \<Longrightarrow> at m k = None \<Longrightarrow> at (erase k (emplace k v m)) = at m"
  by (simp add: at_erase ok_assign emplace_absent at_assign fun_upd_idem)

end

interpretation sm: registry "[]" sm_at sm_assign sm_emplace sm_erase sm_ok
  by unfold_locales
    (simp_all add: sm_at_assign sm_ok_assign sm_at_erase sm_ok_erase sm_emplace_def)

section \<open>Updates of lists\<close>

lemma map_update_same: "x = map f xs ! r \<Longrightarrow> f y = x \<Longrightarrow> map f (xs[r := y]) = map f xs"
  by (metis list_update_id map_update)

section \<open>Counting in lists\<close>

definition count_of :: "('a \<Rightarrow> bool) \<Rightarrow> 'a list \<Rightarrow> nat" where
  "count_of P xs = length (filter P xs)"

lemma count_of_Nil [simp]: "count_of P [] = 0"
  by (simp add: count_of_def)

lemma count_of_Cons [simp]: "count_of P (x # xs) = (if P x then 1 else 0) + count_of P xs"
  by (simp add: count_of_def)

lemma count_of_replicate: "count_of P (replicate n x) = (if P x then n else 0)"
  by (induction n) auto

lemma count_of_le: "count_of P xs \<le> length xs"
  by (simp add: count_of_def)

lemma count_of_update:
  "i < length xs \<Longrightarrow> count_of P (xs[i := y]) + (if P (xs ! i) then 1 else 0)
     = count_of P xs + (if P y then 1 else 0)"
proof (induction xs arbitrary: i)
  case (Cons x xs)
  show ?case
  proof (cases i)
    case (Suc j)
    with Cons.prems have "j < length xs" by simp
    with Cons.IH [of j] Suc show ?thesis by simp
  qed simp
qed simp

lemma count_of_keep [count_simps]:
  "i < length xs \<Longrightarrow> P y = P (xs ! i) \<Longrightarrow> count_of P (xs[i := y]) = count_of P xs"
  using count_of_update [of i xs P y] by (auto split: if_splits)

lemma count_of_inc [count_simps]:
  "i < length xs \<Longrightarrow> P y \<Longrightarrow> \<not> P (xs ! i) \<Longrightarrow> count_of P (xs[i := y]) = Suc (count_of P xs)"
  using count_of_update [of i xs P y] by auto

lemma count_of_dec [count_simps]:
  "i < length xs \<Longrightarrow> \<not> P y \<Longrightarrow> P (xs ! i) \<Longrightarrow> count_of P (xs[i := y]) = count_of P xs - 1"
  using count_of_update [of i xs P y] by auto

lemma count_of_pos: "i < length xs \<Longrightarrow> P (xs ! i) \<Longrightarrow> 0 < count_of P xs"
  by (auto simp: count_of_def filter_empty_conv)

lemma count_of_zero: "count_of P xs = 0 \<longleftrightarrow> (\<forall>i < length xs. \<not> P (xs ! i))"
  by (auto simp: count_of_def filter_empty_conv all_set_conv_all_nth)

lemma count_of_ex: "0 < count_of P xs \<Longrightarrow> \<exists>i < length xs. P (xs ! i)"
  using count_of_zero [of P xs] by auto

lemma count_of_all: "count_of P xs = length xs \<longleftrightarrow> (\<forall>i < length xs. P (xs ! i))"
proof -
  have "count_of P xs + count_of (\<lambda>x. \<not> P x) xs = length xs"
    unfolding count_of_def by (rule sum_length_filter_compl)
  then have "count_of P xs = length xs \<longleftrightarrow> count_of (\<lambda>x. \<not> P x) xs = 0" by linarith
  then show ?thesis by (simp add: count_of_zero)
qed

lemma count_of_two:
  assumes "i < length xs" "j < length xs" "i \<noteq> j" "P (xs ! i)" "P (xs ! j)"
  shows "2 \<le> count_of P xs"
proof -
  have "{i, j} \<subseteq> {k. k < length xs \<and> P (xs ! k)}" using assms by auto
  then have "card {i, j} \<le> card {k. k < length xs \<and> P (xs ! k)}"
    by (intro card_mono) auto
  with \<open>i \<noteq> j\<close> show ?thesis by (simp add: count_of_def length_filter_conv_card)
qed

lemma count_of_unique:
  "count_of P xs \<le> 1 \<Longrightarrow> i < length xs \<Longrightarrow> j < length xs \<Longrightarrow> P (xs ! i) \<Longrightarrow> P (xs ! j) \<Longrightarrow> i = j"
  using count_of_two [of i xs j P] by fastforce

lemma count_of_cong:
  "(\<And>x. x \<in> set xs \<Longrightarrow> P x = Q x) \<Longrightarrow> count_of P xs = count_of Q xs"
  by (simp add: count_of_def cong: filter_cong)

lemma count_of_mono:
  "(\<And>x. x \<in> set xs \<Longrightarrow> P x \<Longrightarrow> Q x) \<Longrightarrow> count_of P xs \<le> count_of Q xs"
  by (induction xs) auto

end
