(* ===== verification/Mango_Types.thy ===== *)
theory Mango_Types
  imports Mango_Prelude
begin

text \<open>
  The data types shared by the host and the device side
  (\<^verbatim>\<open>host/include/mango_types.h\<close>, \<^verbatim>\<open>host/include/mango_types_c.h\<close>,
  \<^verbatim>\<open>include/mango_types_c.h\<close>): enumerations with the integer each enumerator has,
  the casts between the C and the C++ enumerations, units and memory banks. Unit
  types are the keys of the kernel maps, so they are ordered by their code.
\<close>

section \<open>Exit codes\<close>

datatype exit_code =
    SUCCESS
  | ERR_INVALID_VALUE
  | ERR_INVALID_TASK_ID
  | ERR_INVALID_KERNEL
  | ERR_FEATURE_NOT_IMPLEMENTED
  | ERR_INVALID_KERNEL_FILE
  | ERR_UNSUPPORTED_UNIT
  | ERR_OUT_OF_MEMORY
  | ERR_SEM_FAILED
  | ERR_MMAP_FAILED
  | ERR_FOPEN
  | ERR_OTHER

definition all_exit_codes :: "exit_code list" where
  "all_exit_codes =
     [SUCCESS, ERR_INVALID_VALUE, ERR_INVALID_TASK_ID, ERR_INVALID_KERNEL,
      ERR_FEATURE_NOT_IMPLEMENTED, ERR_INVALID_KERNEL_FILE, ERR_UNSUPPORTED_UNIT,
      ERR_OUT_OF_MEMORY, ERR_SEM_FAILED, ERR_MMAP_FAILED, ERR_FOPEN, ERR_OTHER]"

section \<open>Event states\<close>

text \<open>The values of a synchronisation register that the protocol gives a meaning.\<close>

datatype event_status = LOCK | READ | WRITE | END_FIFO_OPERATION

fun status_code :: "event_status \<Rightarrow> u32" where
  "status_code LOCK = 0"
| "status_code READ = 1"
| "status_code WRITE = 2"
| "status_code END_FIFO_OPERATION = 3"

section \<open>Unit types\<close>

datatype unit_type = PEAK | NUP | DCT | GN | GPU | ARM | STOP

fun unit_code :: "unit_type \<Rightarrow> nat" where
  "unit_code PEAK = 0"
| "unit_code NUP = 1"
| "unit_code DCT = 2"
| "unit_code GN = 3"
| "unit_code GPU = 4"
| "unit_code ARM = 5"
| "unit_code STOP = 6"

lemma unit_code_inj: "unit_code a = unit_code b \<Longrightarrow> a = b"
  by (cases a; cases b) simp_all

instantiation unit_type :: linorder
begin

definition less_eq_unit_type :: "unit_type \<Rightarrow> unit_type \<Rightarrow> bool" where
  "less_eq_unit_type a b \<longleftrightarrow> unit_code a \<le> unit_code b"

definition less_unit_type :: "unit_type \<Rightarrow> unit_type \<Rightarrow> bool" where
  "less_unit_type a b \<longleftrightarrow> unit_code a < unit_code b"

instance
  by standard (auto simp: less_eq_unit_type_def less_unit_type_def intro: unit_code_inj)

end

text \<open>The C enumeration calls the fifth unit \<^verbatim>\<open>GPGPU\<close>; the codes agree.\<close>

datatype c_unit_type = C_PEAK | C_NUP | C_DCT | C_GN | C_GPGPU | C_ARM | C_STOP

fun c_unit_code :: "c_unit_type \<Rightarrow> nat" where
  "c_unit_code C_PEAK = 0"
| "c_unit_code C_NUP = 1"
| "c_unit_code C_DCT = 2"
| "c_unit_code C_GN = 3"
| "c_unit_code C_GPGPU = 4"
| "c_unit_code C_ARM = 5"
| "c_unit_code C_STOP = 6"

section \<open>File types and buffer types\<close>

datatype file_type = UNKNOWN_KERNEL_SOURCE_TYPE | BINARY | HARDWARE | STRING | SOURCE

fun file_type_code :: "file_type \<Rightarrow> nat" where
  "file_type_code UNKNOWN_KERNEL_SOURCE_TYPE = 0"
| "file_type_code BINARY = 1"
| "file_type_code HARDWARE = 2"
| "file_type_code STRING = 3"
| "file_type_code SOURCE = 4"

text \<open>The public header \<^verbatim>\<open>include/mango_types_c.h\<close> declares one enumerator less.\<close>

datatype pub_filetype = PUB_UNKNOWN_KERNEL_SOURCE_TYPE | PUB_BINARY | PUB_STRING | PUB_SOURCE

fun pub_filetype_code :: "pub_filetype \<Rightarrow> nat" where
  "pub_filetype_code PUB_UNKNOWN_KERNEL_SOURCE_TYPE = 0"
| "pub_filetype_code PUB_BINARY = 1"
| "pub_filetype_code PUB_STRING = 2"
| "pub_filetype_code PUB_SOURCE = 3"

datatype buffer_type = NONE | FIFO | BUFFER | SCALAR

fun buffer_type_code :: "buffer_type \<Rightarrow> nat" where
  "buffer_type_code NONE = 0"
| "buffer_type_code FIFO = 1"
| "buffer_type_code BUFFER = 2"
| "buffer_type_code SCALAR = 3"

text \<open>The C buffer types add \<^verbatim>\<open>EVENT\<close> for event parameters.\<close>

datatype c_buffer_type = C_NONE | C_FIFO | C_BUFFER | C_SCALAR | C_EVENT

datatype communication_mode = DIRECT | BURST

section \<open>Casts between enumerations\<close>

text \<open>
  A C-style cast keeps the integer. The result is the enumerator of the target that
  has this code, if there is one.
\<close>

definition cast_by :: "('b \<Rightarrow> nat) \<Rightarrow> 'b list \<Rightarrow> nat \<Rightarrow> 'b option" where
  "cast_by code all n = find (\<lambda>b. code b = n) all"

definition cast_unit :: "c_unit_type \<Rightarrow> unit_type option" where
  "cast_unit u = cast_by unit_code [PEAK, NUP, DCT, GN, GPU, ARM, STOP] (c_unit_code u)"

definition cast_filetype :: "pub_filetype \<Rightarrow> file_type option" where
  "cast_filetype t = cast_by file_type_code
     [UNKNOWN_KERNEL_SOURCE_TYPE, BINARY, HARDWARE, STRING, SOURCE] (pub_filetype_code t)"

section \<open>Units and memory banks\<close>

record unit_desc =
  u_id :: u32
  u_arch :: unit_type
  u_nr_cores :: int

record memory_bank =
  mb_id :: u32
  mb_phy_addr :: u32
  mb_size :: u32
  mb_tile :: u32

end
