(* ===== verification/Dev_Runtime.thy ===== *)
theory Dev_Runtime
  imports Mango_Types "HOL-Library.Monad_Syntax"
begin

text \<open>
  The device-side runtime (\<^verbatim>\<open>dev/src/mango_hn.c\<close>): locks, waits, signals and the
  work-group barrier over synchronisation registers, written against the operations
  that \<^verbatim>\<open>ARCH(...)\<close> selects for a unit. The world \<open>'w\<close> is the memory the
  registers live in together with whatever runs beside the calling thread. A spin
  loop that never sees the value it waits for does not return: \<open>None\<close>.
\<close>

section \<open>Data\<close>

record mango_event =
  vaddr :: u64

record task_args =
  ta_event :: mango_event
  ta_tid :: u32
  ta_barrier :: mango_event
  ta_release :: mango_event
  ta_ntasks :: u32

record 'w arch_ops =
  read_synchronization :: "mango_event \<Rightarrow> 'w \<Rightarrow> u32 \<times> 'w"
  write_synchronization :: "mango_event \<Rightarrow> u32 \<Rightarrow> 'w \<Rightarrow> 'w"
  arch_suspend :: "'w \<Rightarrow> 'w"
  arch_task_arg_free :: "task_args \<Rightarrow> 'w \<Rightarrow> 'w"

section \<open>Operations\<close>

definition mango_write_synchronization :: "'w arch_ops \<Rightarrow> mango_event \<Rightarrow> u32 \<Rightarrow> 'w \<Rightarrow> 'w" where
  "mango_write_synchronization A e value w = write_synchronization A e value w"

definition mango_read_synchronization :: "'w arch_ops \<Rightarrow> mango_event \<Rightarrow> 'w \<Rightarrow> u32 \<times> 'w" where
  "mango_read_synchronization A e w = read_synchronization A e w"

partial_function (option) mango_lock ::
  "'w arch_ops \<Rightarrow> mango_event \<Rightarrow> 'w \<Rightarrow> (u32 \<times> 'w) option" where
  "mango_lock A e w =
     (case mango_read_synchronization A e w of (value, w') \<Rightarrow>
        if value = 0 then mango_lock A e w' else Some (value, w'))"

text \<open>
  The wait of \<^verbatim>\<open>dev/src/mango_hn.c\<close> writes back every value it reads, the awaited
  one included.
\<close>

partial_function (option) mango_wait ::
  "'w arch_ops \<Rightarrow> mango_event \<Rightarrow> u32 \<Rightarrow> 'w \<Rightarrow> 'w option" where
  "mango_wait A e state w =
     do {
       (value, w1) \<leftarrow> mango_lock A e w;
       let w2 = mango_write_synchronization A e value w1;
       if value \<noteq> state then mango_wait A e state (arch_suspend A w2) else Some w2
     }"

definition mango_join :: "'w arch_ops \<Rightarrow> mango_event \<Rightarrow> 'w \<Rightarrow> 'w option" where
  "mango_join A e w = mango_wait A e (status_code READ) w"

definition mango_signal :: "'w arch_ops \<Rightarrow> mango_event \<Rightarrow> 'w \<Rightarrow> (u32 \<times> 'w) option" where
  "mango_signal A e w =
     do {
       (value, w1) \<leftarrow> mango_lock A e w;
       Some (value - 1, mango_write_synchronization A e (value - 1) w1)
     }"

definition mango_exit :: "'w arch_ops \<Rightarrow> task_args \<Rightarrow> 'w \<Rightarrow> 'w option" where
  "mango_exit A a w =
     do {
       (v, w1) \<leftarrow> mango_lock A (ta_event a) w;
       Some (arch_task_arg_free A a (mango_write_synchronization A (ta_event a) (v - 1) w1))
     }"

text \<open>
  The barrier, for a given wait: \<open>go\<close> is the phase the group moves to; the thread
  whose signal leaves 1 in the counter synchronises the FIFO, resets the counter and
  publishes the new phase in the release register.
\<close>

definition barrier_fifo ::
  "('w arch_ops \<Rightarrow> mango_event \<Rightarrow> u32 \<Rightarrow> 'w \<Rightarrow> 'w option) \<Rightarrow> 'w arch_ops \<Rightarrow> mango_event option
     \<Rightarrow> 'w \<Rightarrow> 'w option" where
  "barrier_fifo wait A fifo w =
     (case fifo of
        None \<Rightarrow> Some w
      | Some f \<Rightarrow>
          do {
            (value, w1) \<leftarrow> mango_lock A f w;
            w2 \<leftarrow> (if value \<noteq> status_code READ
                   then do {
                     wa \<leftarrow> wait A f (status_code READ)
                             (mango_write_synchronization A f (status_code WRITE) w1);
                     (_, wb) \<leftarrow> mango_lock A f wa;
                     Some wb
                   }
                   else Some w1);
            Some (mango_write_synchronization A f 3 w2)
          })"

definition barrier_with ::
  "('w arch_ops \<Rightarrow> mango_event \<Rightarrow> u32 \<Rightarrow> 'w \<Rightarrow> 'w option) \<Rightarrow> 'w arch_ops \<Rightarrow> task_args
     \<Rightarrow> mango_event option \<Rightarrow> 'w \<Rightarrow> 'w option" where
  "barrier_with wait A args fifo w =
     do {
       (go0, w1) \<leftarrow> mango_lock A (ta_release args) w;
       let w2 = mango_write_synchronization A (ta_release args) go0 w1;
       let go = (if go0 = 1 then 2 else 1);
       (count, w3) \<leftarrow> mango_signal A (ta_barrier args) w2;
       if count > 1 then wait A (ta_release args) go w3
       else do {
         w4 \<leftarrow> barrier_fifo wait A fifo w3;
         (_, w5) \<leftarrow> mango_lock A (ta_barrier args) w4;
         let w6 = mango_write_synchronization A (ta_barrier args) (ta_ntasks args + 1) w5;
         (_, w7) \<leftarrow> mango_lock A (ta_release args) w6;
         Some (mango_write_synchronization A (ta_release args) go w7)
       }
     }"

definition mango_barrier ::
  "'w arch_ops \<Rightarrow> task_args \<Rightarrow> mango_event option \<Rightarrow> 'w \<Rightarrow> 'w option" where
  "mango_barrier A args fifo w = barrier_with mango_wait A args fifo w"

text \<open>
  The copies of the runtime that are built for a unit wait differently: they write a
  value back only when it is not the awaited one, so the awaited value is consumed.
  The wait of the NU+ copy does not suspend.
\<close>

partial_function (option) wait_consume ::
  "'w arch_ops \<Rightarrow> mango_event \<Rightarrow> u32 \<Rightarrow> 'w \<Rightarrow> 'w option" where
  "wait_consume A e state w =
     do {
       (value, w1) \<leftarrow> mango_lock A e w;
       if value \<noteq> state
       then wait_consume A e state (arch_suspend A (mango_write_synchronization A e value w1))
       else Some w1
     }"

partial_function (option) wait_consume_busy ::
  "'w arch_ops \<Rightarrow> mango_event \<Rightarrow> u32 \<Rightarrow> 'w \<Rightarrow> 'w option" where
  "wait_consume_busy A e state w =
     do {
       (value, w1) \<leftarrow> mango_lock A e w;
       if value \<noteq> state
       then wait_consume_busy A e state (mango_write_synchronization A e value w1)
       else Some w1
     }"

section \<open>The contract of the synchronisation registers\<close>

text \<open>
  What \<^verbatim>\<open>mango_hn.h\<close> documents of an event register, for a world in which nobody
  else writes: reading returns the value and resets it to 0 and touches no other
  register; writing an empty register stores the value. A write to a register that
  is not empty may overwrite (GN emulation) or accumulate (TILEREG hardware); the two
  extensions say which.
\<close>

locale sync_arch =
  fixes A :: "'w arch_ops" and reg :: "'w \<Rightarrow> mango_event \<Rightarrow> u32"
  assumes read_val: "fst (read_synchronization A e w) = reg w e"
    and read_reg: "reg (snd (read_synchronization A e w)) = (reg w)(e := 0)"
    and write_empty: "reg w e = 0 \<Longrightarrow> reg (write_synchronization A e v w) = (reg w)(e := v)"
    and suspend_reg: "reg (arch_suspend A w) = reg w"
    and free_reg: "reg (arch_task_arg_free A a w) = reg w"
begin

lemma read_eq: "mango_read_synchronization A e w = (reg w e, snd (read_synchronization A e w))"
  by (simp add: mango_read_synchronization_def prod_eq_iff read_val)

lemma lock_some:
  "reg w e \<noteq> 0 \<Longrightarrow> mango_lock A e w = Some (reg w e, snd (read_synchronization A e w))"
  by (subst mango_lock.simps) (simp add: read_eq)

lemma lock_needs_value:
  assumes "mango_lock A e w = Some r"
  shows "reg w e \<noteq> 0"
proof -
  have "B = A \<Longrightarrow> reg w e \<noteq> 0" if "mango_lock B e w = Some r" for B
  proof (rule mango_lock.raw_induct [where P = "\<lambda>B e w r. B = A \<longrightarrow> reg w e \<noteq> 0", OF _ that, THEN mp])
    fix f :: "'w arch_ops \<Rightarrow> mango_event \<Rightarrow> 'w \<Rightarrow> (u32 \<times> 'w) option" and B e w r
    assume IH: "\<And>B e w r. f B e w = Some r \<Longrightarrow> B = A \<longrightarrow> reg w e \<noteq> 0"
      and eq: "(case mango_read_synchronization B e w of (value, w') \<Rightarrow>
                  if value = 0 then f B e w' else Some (value, w')) = Some r"
    show "B = A \<longrightarrow> reg w e \<noteq> 0"
    proof (intro impI notI)
      assume B: "B = A" and z: "reg w e = 0"
      with eq have "f A e (snd (read_synchronization A e w)) = Some r"
        by (simp add: read_eq)
      with IH have "reg (snd (read_synchronization A e w)) e \<noteq> 0" by blast
      then show False by (simp add: read_reg)
    qed
  qed
  with assms show ?thesis by simp
qed

lemma lock_none: "reg w e = 0 \<Longrightarrow> mango_lock A e w = None"
  using lock_needs_value [of e w] by (cases "mango_lock A e w") auto

lemma lock_cases:
  obtains (stuck) "reg w e = 0" "mango_lock A e w = None"
  | (locked) w' where "reg w e \<noteq> 0" "mango_lock A e w = Some (reg w e, w')"
      "reg w' = (reg w)(e := 0)"
  using lock_none [of w e] lock_some [of w e] read_reg [of e w] by metis

lemma write_back:
  "reg w' = (reg w)(e := 0) \<Longrightarrow> reg (mango_write_synchronization A e v w') = (reg w)(e := v)"
  by (simp add: mango_write_synchronization_def write_empty)

lemma signal_spec:
  "reg w e \<noteq> 0 \<Longrightarrow> \<exists>w'. mango_signal A e w = Some (reg w e - 1, w')
     \<and> reg w' = (reg w)(e := reg w e - 1)"
  by (cases rule: lock_cases [of w e]) (auto simp: mango_signal_def write_back)

lemma signal_none: "reg w e = 0 \<Longrightarrow> mango_signal A e w = None"
  by (simp add: mango_signal_def lock_none)

lemma exit_spec:
  "reg w (ta_event a) \<noteq> 0 \<Longrightarrow> \<exists>w'. mango_exit A a w = Some w'
     \<and> reg w' = (reg w)(ta_event a := reg w (ta_event a) - 1)"
  by (cases rule: lock_cases [of w "ta_event a"]) (auto simp: mango_exit_def write_back free_reg)

text \<open>The two waits: both return exactly when the register holds the awaited value.\<close>

lemma wait_some:
  "reg w e = v \<Longrightarrow> v \<noteq> 0 \<Longrightarrow> \<exists>w'. mango_wait A e v w = Some w' \<and> reg w' = reg w"
  by (cases rule: lock_cases [of w e]) (auto simp: mango_wait.simps [of A e v w] write_back)

lemma wait_consume_some:
  "reg w e = v \<Longrightarrow> v \<noteq> 0 \<Longrightarrow> \<exists>w'. wait_consume A e v w = Some w' \<and> reg w' = (reg w)(e := 0)"
  by (cases rule: lock_cases [of w e]) (auto simp: wait_consume.simps [of A e v w])

lemma wait_needs_value:
  assumes "mango_wait A e v w = Some r"
  shows "reg w e = v \<and> v \<noteq> 0"
proof -
  have "B = A \<Longrightarrow> reg w e = v \<and> v \<noteq> 0" if "mango_wait B e v w = Some r" for B
  proof (rule mango_wait.raw_induct
      [where P = "\<lambda>B e v w r. B = A \<longrightarrow> reg w e = v \<and> v \<noteq> 0", OF _ that, THEN mp])
    fix f :: "'w arch_ops \<Rightarrow> mango_event \<Rightarrow> u32 \<Rightarrow> 'w \<Rightarrow> 'w option" and B e v w r
    assume IH: "\<And>B e v w r. f B e v w = Some r \<Longrightarrow> B = A \<longrightarrow> reg w e = v \<and> v \<noteq> 0"
      and eq: "do {
         (value, w1) \<leftarrow> mango_lock B e w;
         let w2 = mango_write_synchronization B e value w1;
         if value \<noteq> v then f B e v (arch_suspend B w2) else Some w2
       } = Some r"
    show "B = A \<longrightarrow> reg w e = v \<and> v \<noteq> 0"
    proof
      assume B: "B = A"
      show "reg w e = v \<and> v \<noteq> 0"
      proof (cases rule: lock_cases [of w e])
        case stuck
        with eq B show ?thesis by simp
      next
        case (locked w')
        with eq B IH have "reg w e \<noteq> v \<Longrightarrow>
            reg (arch_suspend A (mango_write_synchronization A e (reg w e) w')) e = v"
          by (fastforce simp: Let_def split: if_splits)
        with locked show ?thesis by (auto simp: suspend_reg write_back)
      qed
    qed
  qed
  with assms show ?thesis by simp
qed

lemma wait_consume_needs_value:
  assumes "wait_consume A e v w = Some r"
  shows "reg w e = v \<and> v \<noteq> 0"
proof -
  have "B = A \<Longrightarrow> reg w e = v \<and> v \<noteq> 0" if "wait_consume B e v w = Some r" for B
  proof (rule wait_consume.raw_induct
      [where P = "\<lambda>B e v w r. B = A \<longrightarrow> reg w e = v \<and> v \<noteq> 0", OF _ that, THEN mp])
    fix f :: "'w arch_ops \<Rightarrow> mango_event \<Rightarrow> u32 \<Rightarrow> 'w \<Rightarrow> 'w option" and B e v w r
    assume IH: "\<And>B e v w r. f B e v w = Some r \<Longrightarrow> B = A \<longrightarrow> reg w e = v \<and> v \<noteq> 0"
      and eq: "do {
         (value, w1) \<leftarrow> mango_lock B e w;
         if value \<noteq> v
         then f B e v (arch_suspend B (mango_write_synchronization B e value w1)) else Some w1
       } = Some r"
    show "B = A \<longrightarrow> reg w e = v \<and> v \<noteq> 0"
    proof
      assume B: "B = A"
      show "reg w e = v \<and> v \<noteq> 0"
      proof (cases rule: lock_cases [of w e])
        case stuck
        with eq B show ?thesis by simp
      next
        case (locked w')
        with eq B IH have "reg w e \<noteq> v \<Longrightarrow>
            reg (arch_suspend A (mango_write_synchronization A e (reg w e) w')) e = v"
          by (fastforce simp: Let_def split: if_splits)
        with locked show ?thesis by (auto simp: suspend_reg write_back)
      qed
    qed
  qed
  with assms show ?thesis by simp
qed

lemma wait_iff: "(\<exists>w'. mango_wait A e v w = Some w') \<longleftrightarrow> reg w e = v \<and> v \<noteq> 0"
  using wait_some wait_needs_value by blast

lemma wait_consume_iff: "(\<exists>w'. wait_consume A e v w = Some w') \<longleftrightarrow> reg w e = v \<and> v \<noteq> 0"
  using wait_consume_some wait_consume_needs_value by blast

text \<open>A group of one: the barrier is passed, the counter reset and the phase flipped.\<close>

lemma barrier_alone:
  assumes "ta_release a \<noteq> ta_barrier a"
    and "reg w (ta_release a) = r" "r \<noteq> 0"
    and "reg w (ta_barrier a) = 2"
  shows "\<exists>w'. barrier_with W A a None w = Some w'
    \<and> reg w' = (reg w)(ta_barrier a := ta_ntasks a + 1,
                       ta_release a := (if r = 1 then 2 else 1))"
proof -
  let ?R = "ta_release a" and ?B = "ta_barrier a"
  obtain w1 where l1: "mango_lock A ?R w = Some (r, w1)" "reg w1 = (reg w)(?R := 0)"
    using assms by (cases rule: lock_cases [of w ?R]) auto
  let ?w2 = "mango_write_synchronization A ?R r w1"
  have r2: "reg ?w2 = reg w" using write_back [OF l1(2)] assms(2) by auto
  obtain w3 where l3: "mango_signal A ?B ?w2 = Some (1, w3)" "reg w3 = (reg w)(?B := 1)"
    using signal_spec [of ?w2 ?B] assms r2 by auto
  obtain w5 where l5: "mango_lock A ?B w3 = Some (1, w5)" "reg w5 = (reg w3)(?B := 0)"
    using l3 by (cases rule: lock_cases [of w3 ?B]) auto
  let ?w6 = "mango_write_synchronization A ?B (ta_ntasks a + 1) w5"
  have r6: "reg ?w6 = (reg w)(?B := ta_ntasks a + 1)" using write_back [OF l5(2)] l3(2) by simp
  obtain w7 where l7: "mango_lock A ?R ?w6 = Some (r, w7)" "reg w7 = (reg ?w6)(?R := 0)"
    using r6 assms by (cases rule: lock_cases [of ?w6 ?R]) auto
  show ?thesis
    using l1 l3 l5 l7 write_back [OF l7(2)] r6
    by (simp add: barrier_with_def barrier_fifo_def Let_def)
qed

end

locale overwriting_arch = sync_arch +
  assumes write_over: "reg (write_synchronization A e v w) = (reg w)(e := v)"
begin

lemma write_write:
  "reg (mango_write_synchronization A e u (mango_write_synchronization A e v w)) = (reg w)(e := u)"
  by (simp add: mango_write_synchronization_def write_over)

end

locale accumulating_arch = sync_arch +
  assumes write_add: "reg (write_synchronization A e v w) = (reg w)(e := reg w e + v)"
begin

text \<open>
  On an accumulating register a value is stored only after a read has emptied it: the
  read-then-write the host performs on every event before use.
\<close>

lemma read_then_write:
  "reg (mango_write_synchronization A e v (snd (mango_read_synchronization A e w)))
     = (reg w)(e := v)"
  by (simp add: mango_write_synchronization_def mango_read_synchronization_def write_add read_reg)

end

end
