(* ===== verification/Hex_Text.thy ===== *)
theory Hex_Text
  imports Mango_Types
begin

text \<open>
  Numbers as text. The host prints kernel arguments with \<^verbatim>\<open>std::hex\<close>; a device reads
  them back with \<^verbatim>\<open>strtol(.., NULL, 16)\<close> (GN, PEAK and the generated \<^verbatim>\<open>main\<close>) or with
  the NU+ library's own \<^verbatim>\<open>mango_nuplus_atox\<close>
  (\<^verbatim>\<open>dev/src/nuplus/mango_hn_nuplus.c\<close>). The printer and \<^verbatim>\<open>strtol\<close> are the standard
  library's; the lemmas say which texts the readers turn back into the number.
\<close>

unbundle bit_operations_syntax

section \<open>Printing in base 16\<close>

definition hex_char :: "nat \<Rightarrow> char" where
  "hex_char d = char_of (if d < 10 then 48 + d else 87 + d)"

fun show_hex :: "nat \<Rightarrow> string" where
  "show_hex n = (if n < 16 then [hex_char n] else show_hex (n div 16) @ [hex_char (n mod 16)])"

declare show_hex.simps [simp del]

section \<open>strtol in base 16\<close>

definition is_space :: "char \<Rightarrow> bool" where
  "is_space c \<longleftrightarrow> of_char c \<in> {9, 10, 11, 12, 13, 32 :: nat}"

definition hex_val :: "char \<Rightarrow> nat option" where
  "hex_val c = (let n = of_char c :: nat in
     if 48 \<le> n \<and> n \<le> 57 then Some (n - 48)
     else if 97 \<le> n \<and> n \<le> 102 then Some (n - 87)
     else if 65 \<le> n \<and> n \<le> 70 then Some (n - 55)
     else None)"

fun hex_digits :: "nat \<Rightarrow> string \<Rightarrow> nat" where
  "hex_digits acc [] = acc"
| "hex_digits acc (c # s) =
     (case hex_val c of None \<Rightarrow> acc | Some d \<Rightarrow> hex_digits (16 * acc + d) s)"

fun take_sign :: "string \<Rightarrow> bool \<times> string" where
  "take_sign [] = (False, [])"
| "take_sign (c # s) =
     (if c = CHR ''-'' then (True, s) else if c = CHR ''+'' then (False, s) else (False, c # s))"

fun skip_0x :: "string \<Rightarrow> string" where
  "skip_0x (a # b # c # s) =
     (if a = CHR ''0'' \<and> (b = CHR ''x'' \<or> b = CHR ''X'') \<and> hex_val c \<noteq> None
      then c # s else a # b # c # s)"
| "skip_0x s = s"

definition strtol16 :: "string \<Rightarrow> int" where
  "strtol16 s =
     (case take_sign (dropWhile is_space s) of (neg, t) \<Rightarrow>
        let v = int (hex_digits 0 (skip_0x t)); r = (if neg then - v else v)
        in max (- (2 ^ 63)) (min (2 ^ 63 - 1) r))"

section \<open>mango_nuplus_atox\<close>

text \<open>
  The comparisons are on unsigned 32-bit values, so \<open>c - 9 < 5\<close> is false for a
  character below 9. The accumulator is an \<^verbatim>\<open>int\<close>; its arithmetic is taken with
  wrap-around (in C, exceeding it is undefined).
\<close>

definition char_u32 :: "char \<Rightarrow> u32" where
  "char_u32 c = of_nat (of_char c)"

definition atox_space :: "char \<Rightarrow> bool" where
  "atox_space c \<longleftrightarrow> char_u32 c - 9 < 5 \<or> c = CHR '' ''"

definition atox_accepts :: "char \<Rightarrow> bool" where
  "atox_accepts c \<longleftrightarrow> (char_u32 c OR 0x20) - 97 < 26 \<or> char_u32 c - 48 < 10"

definition atox_next :: "u32 \<Rightarrow> char \<Rightarrow> u32" where
  "atox_next v c =
     (if char_u32 c - 48 < 10 then v * 16 + char_u32 c - 48
      else v * 16 + (char_u32 c AND 0x5F) - 65 + 10)"

fun atox_digits :: "u32 \<Rightarrow> string \<Rightarrow> u32" where
  "atox_digits v [] = v"
| "atox_digits v (c # s) = (if atox_accepts c then atox_digits (atox_next v c) s else v)"

definition mango_nuplus_atox :: "string \<Rightarrow> u32" where
  "mango_nuplus_atox s =
     (case take_sign (dropWhile atox_space s) of (neg, t) \<Rightarrow>
        let v = atox_digits 0 t in if neg then - v else v)"

section \<open>Reading back what was printed\<close>

lemma below_16: "d < 16 \<Longrightarrow> d \<in> {0, 1, 2, 3, 4, 5, 6, 7, 8, 9, 10, 11, 12, 13, 14, 15 :: nat}"
  unfolding insert_iff empty_iff by presburger

lemma of_hex_char [simp]:
  "d < 16 \<Longrightarrow> (of_char (hex_char d) :: nat) = (if d < 10 then 48 + d else 87 + d)"
  by (simp add: hex_char_def)

lemma hex_val_hex_char: "d < 16 \<Longrightarrow> hex_val (hex_char d) = Some d"
  by (simp add: hex_val_def Let_def)

lemma atox_hex_char:
  assumes "d < 16"
  shows "atox_accepts (hex_char d)" and "atox_next v (hex_char d) = v * 16 + of_nat d"
  using below_16 [OF assms]
  by (auto simp: atox_accepts_def atox_next_def char_u32_def hex_char_def)

lemma hex_digits_show: "hex_digits acc (show_hex n @ s)
    = hex_digits (acc * 16 ^ length (show_hex n) + n) s"
proof (induction n arbitrary: acc s rule: show_hex.induct)
  case (1 n)
  show ?case
  proof (cases "n < 16")
    case True
    then show ?thesis by (subst (1 2) show_hex.simps) (simp add: hex_val_hex_char mult.commute)
  next
    case False
    have m: "n mod 16 < 16" by simp
    have "16 * (acc * 16 ^ length (show_hex (n div 16)) + n div 16) + n mod 16
        = acc * 16 ^ length (show_hex n) + n"
      using False by (simp add: show_hex.simps [of n] algebra_simps)
    note e = this
    have "show_hex n @ s = show_hex (n div 16) @ hex_char (n mod 16) # s"
      using False by (subst show_hex.simps) simp
    then have "hex_digits acc (show_hex n @ s)
        = hex_digits (16 * (acc * 16 ^ length (show_hex (n div 16)) + n div 16) + n mod 16) s"
      using 1 [OF False] m by (simp only: hex_digits.simps hex_val_hex_char option.case)
    then show ?thesis by (simp only: e)
  qed
qed

lemma atox_digits_show: "atox_digits v (show_hex n @ s)
    = atox_digits (v * 16 ^ length (show_hex n) + of_nat n) s"
proof (induction n arbitrary: v s rule: show_hex.induct)
  case (1 n)
  show ?case
  proof (cases "n < 16")
    case True
    then show ?thesis by (subst (1 2) show_hex.simps) (simp add: atox_hex_char)
  next
    case False
    have m: "n mod 16 < 16" by simp
    have "(of_nat n :: u32) = of_nat (n mod 16 + 16 * (n div 16))" by simp
    then have n: "(of_nat n :: u32) = of_nat (n mod 16) + 16 * of_nat (n div 16)"
      unfolding of_nat_add of_nat_mult by simp
    then have "(v * 16 ^ length (show_hex (n div 16)) + of_nat (n div 16)) * 16 + of_nat (n mod 16)
        = v * 16 ^ length (show_hex n) + of_nat n"
      using False by (simp add: show_hex.simps [of n] algebra_simps)
    note e = this
    have "show_hex n @ s = show_hex (n div 16) @ hex_char (n mod 16) # s"
      using False by (subst show_hex.simps) simp
    then have "atox_digits v (show_hex n @ s) = atox_digits
        ((v * 16 ^ length (show_hex (n div 16)) + of_nat (n div 16)) * 16 + of_nat (n mod 16)) s"
      using 1 [OF False] m by (simp only: atox_digits.simps atox_hex_char if_True)
    then show ?thesis by (simp only: e)
  qed
qed

lemma show_hex_not_Nil: "show_hex n \<noteq> []"
  by (subst show_hex.simps) simp

lemma show_hex_chars: "c \<in> set (show_hex n) \<Longrightarrow> \<exists>d < 16. c = hex_char d"
proof (induction n rule: show_hex.induct)
  case (1 n)
  have "\<exists>d < 16. hex_char (n mod 16) = hex_char d" by (intro exI [of _ "n mod 16"]) simp
  with 1 show ?case
    by (cases "n < 16") (auto simp: show_hex.simps [of n])
qed

lemma show_hex_Cons: obtains d s where "show_hex n = hex_char d # s" "d < 16"
    "\<forall>c \<in> set s. \<exists>d < 16. c = hex_char d"
proof -
  obtain c s where cs: "show_hex n = c # s"
    using show_hex_not_Nil [of n] by (cases "show_hex n") auto
  with show_hex_chars [of _ n] obtain d where "c = hex_char d" "d < 16" by auto
  with cs show_hex_chars [of _ n] show ?thesis by (intro that [of d s]) auto
qed

lemma hex_char_neq:
  assumes "d < 16" and "(of_char c :: nat) \<notin> {48..57} \<union> {97..102}"
  shows "hex_char d \<noteq> c"
  using of_hex_char [OF assms(1)] assms by (auto split: if_splits)

lemma hex_char_plain:
  assumes "d < 16"
  shows "\<not> is_space (hex_char d)" "\<not> atox_space (hex_char d)"
    "hex_char d \<noteq> CHR ''-''" "hex_char d \<noteq> CHR ''+''" "hex_char d \<noteq> CHR '' ''"
    "hex_char d \<noteq> CHR ''x''" "hex_char d \<noteq> CHR ''X''"
proof -
  show n: "hex_char d \<noteq> CHR ''-''" "hex_char d \<noteq> CHR ''+''" "hex_char d \<noteq> CHR '' ''"
    "hex_char d \<noteq> CHR ''x''" "hex_char d \<noteq> CHR ''X''"
    using assms by (simp_all add: hex_char_neq)
  show "\<not> is_space (hex_char d)" using assms by (auto simp: is_space_def)
  show "\<not> atox_space (hex_char d)"
    using below_16 [OF assms] n(3) by (auto simp: atox_space_def char_u32_def)
qed

lemma skip_0x_show: "skip_0x (show_hex n) = show_hex n"
proof -
  obtain d s where s: "show_hex n = hex_char d # s" "d < 16"
      "\<forall>c \<in> set s. \<exists>d < 16. c = hex_char d" by (rule show_hex_Cons)
  then have "s \<noteq> [] \<Longrightarrow> hd s \<noteq> CHR ''x'' \<and> hd s \<noteq> CHR ''X''"
    by (cases s) (auto simp: hex_char_plain)
  then show ?thesis unfolding s(1) by (cases s; cases "tl s") auto
qed

lemma skip_0x_prefix: "skip_0x (''0x'' @ show_hex n) = show_hex n"
  by (rule show_hex_Cons [of n]) (simp add: hex_val_hex_char)

lemma take_sign_show: "take_sign (dropWhile is_space (show_hex n)) = (False, show_hex n)"
  by (rule show_hex_Cons [of n]) (simp add: hex_char_plain)

lemma hex_digits_show_0: "hex_digits 0 (show_hex n) = n"
  using hex_digits_show [of 0 n "[]"] by simp

lemma strtol16_show: "n < 2 ^ 63 \<Longrightarrow> strtol16 (show_hex n) = int n"
  by (simp add: strtol16_def take_sign_show skip_0x_show hex_digits_show_0 Let_def)

lemma is_space_0: "\<not> is_space (CHR ''0'')"
  by (simp add: is_space_def)

lemma strtol16_show_0x: "n < 2 ^ 63 \<Longrightarrow> strtol16 (''0x'' @ show_hex n) = int n"
  using skip_0x_prefix [of n]
  by (simp add: strtol16_def is_space_0 hex_digits_show_0 Let_def)

lemma atox_show: "mango_nuplus_atox (show_hex n) = of_nat n"
proof -
  have "dropWhile atox_space (show_hex n) = show_hex n"
    by (rule show_hex_Cons [of n]) (simp add: hex_char_plain)
  moreover have "take_sign (show_hex n) = (False, show_hex n)"
    by (rule show_hex_Cons [of n]) (simp add: hex_char_plain)
  ultimately show ?thesis
    using atox_digits_show [of 0 n "[]"] by (simp add: mango_nuplus_atox_def)
qed

text \<open>
  The prefix \<^verbatim>\<open>0x\<close>, which the host prints and \<^verbatim>\<open>strtol\<close> skips, is not skipped by the NU+
  reader: it takes the letter \<open>x\<close> for a digit of value 33.
\<close>

lemma atox_show_0x:
  "mango_nuplus_atox (''0x'' @ show_hex n) = of_nat n + 33 * 16 ^ length (show_hex n)"
proof -
  have "mango_nuplus_atox (''0x'' @ show_hex n) = atox_digits 33 (show_hex n)"
    by (simp add: mango_nuplus_atox_def atox_space_def atox_accepts_def atox_next_def char_u32_def)
  then show ?thesis using atox_digits_show [of 33 n "[]"] by simp
qed

end
