(* ===== verification/Dev_Arch.thy ===== *)
theory Dev_Arch
  imports Dev_Runtime Hex_Text
begin

text \<open>
  The device side for each kind of unit: the architecture layer
  (\<^verbatim>\<open>dev/src/gn/mango_hn_gn.c\<close>, \<^verbatim>\<open>dev/src/peak/mango_hn_peak.c\<close>,
  \<^verbatim>\<open>dev/src/nuplus/mango_hn_nuplus.c\<close>) and the copy of the runtime built on it
  (\<^verbatim>\<open>mango_hn.c\<close> in the same directories). GN registers are words of the shared
  memory file; PEAK and NU+ registers are reached by loads and stores on a bus, whose
  behaviour is a parameter.
\<close>

section \<open>The device context\<close>

record mango_context =
  event_a :: mango_event
  event_b :: mango_event
  event_r :: mango_event
  event_exit :: mango_event
  memory_size :: u64
  memory :: u64

text \<open>Reading \<^verbatim>\<open>argv[i]\<close> past the last argument passes a null pointer to \<^verbatim>\<open>strtol\<close>.\<close>

definition arg_long :: "string list \<Rightarrow> nat \<Rightarrow> fault + int" where
  "arg_long argv i = (if i < length argv then Inr (strtol16 (argv ! i)) else Inl Bad_pointer)"

section \<open>GN: registers in the shared memory file\<close>

record gn_world =
  gw_mem :: "u64 \<Rightarrow> u32"
  gw_threads :: "task_args list"
  gw_mapped :: bool
  gw_exit :: "int option"

text \<open>
  The operating system calls of the initialisation: whether the semaphore and the file
  open, and where \<^verbatim>\<open>mmap\<close> puts the given number of bytes.
\<close>

record posix =
  sem_open_ok :: bool
  open_ok :: bool
  mmap_at :: "u64 \<Rightarrow> u64 option"

text \<open>C division of a \<^verbatim>\<open>long\<close> by 4, and the pointer \<^verbatim>\<open>ctx.memory + off/4\<close>.\<close>

definition quot4 :: "int \<Rightarrow> int" where
  "quot4 x = sgn x * (\<bar>x\<bar> div 4)"

definition event_at :: "u64 \<Rightarrow> int \<Rightarrow> mango_event" where
  "event_at base off = \<lparr>vaddr = base + 4 * word_of_int (quot4 off)\<rparr>"

definition gn_mango_memory_map :: "mango_context \<Rightarrow> u64 \<Rightarrow> u64" where
  "gn_mango_memory_map ctx a = memory ctx + 4 * (a div 4)"

definition mango_gn_init ::
  "posix \<Rightarrow> string list \<Rightarrow> mango_context \<Rightarrow> fault + exit_code \<times> mango_context" where
  "mango_gn_init os argv ctx =
     (if \<not> sem_open_ok os then Inr (ERR_SEM_FAILED, ctx)
      else if \<not> open_ok os then Inr (ERR_FOPEN, ctx)
      else bindE (arg_long argv 1) (\<lambda>msize.
        let ctx1 = ctx\<lparr>memory_size := word_of_int msize\<rparr> in
        (case mmap_at os (memory_size ctx1) of
          None \<Rightarrow> Inr (ERR_MMAP_FAILED, ctx1\<lparr>memory := - 1\<rparr>)
        | Some base \<Rightarrow>
            bindE (arg_long argv 2) (\<lambda>x.
            bindE (arg_long argv 3) (\<lambda>a.
            bindE (arg_long argv 4) (\<lambda>b.
            bindE (arg_long argv 5) (\<lambda>r.
              Inr (SUCCESS, ctx1\<lparr>memory := base, event_exit := event_at base x,
                event_a := event_at base a, event_b := event_at base b,
                event_r := event_at base r\<rparr>))))))))"

text \<open>
  Both register accesses are bracketed by the process-wide semaphore, so each is one
  atomic step.
\<close>

definition mango_gn_write_synchronization :: "mango_event \<Rightarrow> u32 \<Rightarrow> gn_world \<Rightarrow> gn_world" where
  "mango_gn_write_synchronization e value w = w\<lparr>gw_mem := (gw_mem w)(vaddr e := value)\<rparr>"

definition mango_gn_read_synchronization :: "mango_event \<Rightarrow> gn_world \<Rightarrow> u32 \<times> gn_world" where
  "mango_gn_read_synchronization e w =
     (gw_mem w (vaddr e), w\<lparr>gw_mem := (gw_mem w)(vaddr e := 0)\<rparr>)"

definition mango_gn_close :: "mango_context \<Rightarrow> int \<Rightarrow> gn_world \<Rightarrow> gn_world" where
  "mango_gn_close ctx status w =
     (mango_gn_write_synchronization (event_exit ctx) 1 w)
       \<lparr>gw_mapped := False, gw_exit := Some status\<rparr>"

definition mango_gn_spawn :: "mango_context \<Rightarrow> u64 \<Rightarrow> gn_world \<Rightarrow> mango_event \<times> gn_world" where
  "mango_gn_spawn ctx count w =
     (let w1 = w\<lparr>gw_mem := ((gw_mem w)(vaddr (event_a ctx) := ucast (count + 1)))
            (vaddr (event_b ctx) := ucast (count + 1), vaddr (event_r ctx) := 2)\<rparr>;
          task = (\<lambda>i. \<lparr>ta_event = event_a ctx, ta_tid = of_nat i, ta_barrier = event_b ctx,
                       ta_release = event_r ctx, ta_ntasks = ucast count\<rparr>)
      in (event_a ctx, w1\<lparr>gw_threads := gw_threads w1 @ map task [0..<unat count]\<rparr>))"

definition mango_gn_task_arg_free :: "task_args \<Rightarrow> gn_world \<Rightarrow> gn_world" where
  "mango_gn_task_arg_free a w = w\<lparr>gw_threads := remove1 a (gw_threads w)\<rparr>"

definition mango_gn_suspend :: "gn_world \<Rightarrow> gn_world" where
  "mango_gn_suspend w = w"

definition gn_arch :: "gn_world arch_ops" where
  "gn_arch = \<lparr>read_synchronization = mango_gn_read_synchronization,
              write_synchronization = mango_gn_write_synchronization,
              arch_suspend = mango_gn_suspend,
              arch_task_arg_free = mango_gn_task_arg_free\<rparr>"

definition gn_reg :: "gn_world \<Rightarrow> mango_event \<Rightarrow> u32" where
  "gn_reg w e = gw_mem w (vaddr e)"

subsection \<open>The GN copy of the runtime\<close>

definition gn_mango_init where "gn_mango_init = mango_gn_init"

definition gn_mango_close where "gn_mango_close = mango_gn_close"

definition gn_mango_exit :: "task_args \<Rightarrow> gn_world \<Rightarrow> gn_world option" where
  "gn_mango_exit = mango_exit gn_arch"

definition gn_mango_spawn :: "mango_context \<Rightarrow> u32 \<Rightarrow> gn_world \<Rightarrow> mango_event \<times> gn_world" where
  "gn_mango_spawn ctx count = mango_gn_spawn ctx (ucast count)"

definition gn_mango_lock :: "mango_event \<Rightarrow> gn_world \<Rightarrow> (u32 \<times> gn_world) option" where
  "gn_mango_lock = mango_lock gn_arch"

definition gn_mango_wait :: "mango_event \<Rightarrow> u32 \<Rightarrow> gn_world \<Rightarrow> gn_world option" where
  "gn_mango_wait = wait_consume gn_arch"

definition gn_mango_join :: "mango_event \<Rightarrow> gn_world \<Rightarrow> gn_world option" where
  "gn_mango_join e = gn_mango_wait e (status_code READ)"

definition gn_mango_signal :: "mango_event \<Rightarrow> gn_world \<Rightarrow> (u32 \<times> gn_world) option" where
  "gn_mango_signal = mango_signal gn_arch"

definition gn_mango_barrier :: "task_args \<Rightarrow> mango_event option \<Rightarrow> gn_world \<Rightarrow> gn_world option" where
  "gn_mango_barrier = barrier_with wait_consume gn_arch"

section \<open>PEAK and NU+: registers on a bus\<close>

record 'w bus =
  bus_load :: "u64 \<Rightarrow> 'w \<Rightarrow> u32 \<times> 'w"
  bus_store :: "u64 \<Rightarrow> u32 \<Rightarrow> 'w \<Rightarrow> 'w"

subsection \<open>PEAK\<close>

definition mango_peak_init ::
  "string list \<Rightarrow> mango_context \<Rightarrow> fault + exit_code \<times> mango_context" where
  "mango_peak_init argv ctx =
     bindE (arg_long argv 1) (\<lambda>x.
     bindE (arg_long argv 2) (\<lambda>a.
     bindE (arg_long argv 3) (\<lambda>b.
     bindE (arg_long argv 4) (\<lambda>r.
       Inr (SUCCESS, ctx\<lparr>event_exit := \<lparr>vaddr = word_of_int x\<rparr>,
         event_a := \<lparr>vaddr = word_of_int a\<rparr>, event_b := \<lparr>vaddr = word_of_int b\<rparr>,
         event_r := \<lparr>vaddr = word_of_int r\<rparr>\<rparr>)))))"

definition mango_peak_write_synchronization ::
  "'w bus \<Rightarrow> mango_event \<Rightarrow> u32 \<Rightarrow> 'w \<Rightarrow> 'w" where
  "mango_peak_write_synchronization B e value w = bus_store B (vaddr e) value w"

definition mango_peak_read_synchronization :: "'w bus \<Rightarrow> mango_event \<Rightarrow> 'w \<Rightarrow> u32 \<times> 'w" where
  "mango_peak_read_synchronization B e w = bus_load B (vaddr e) w"

definition mango_peak_close :: "'w bus \<Rightarrow> mango_context \<Rightarrow> int \<Rightarrow> 'w \<Rightarrow> int \<times> 'w" where
  "mango_peak_close B ctx status w =
     (status, mango_peak_write_synchronization B (event_exit ctx) 1 w)"

definition mango_peak_suspend :: "'w \<Rightarrow> 'w" where
  "mango_peak_suspend w = w"

definition mango_peak_spawn :: "u32 \<Rightarrow> 'w \<Rightarrow> mango_event option \<times> 'w" where
  "mango_peak_spawn count w = (None, w)"

definition mango_peak_task_arg_free :: "task_args \<Rightarrow> 'w \<Rightarrow> 'w" where
  "mango_peak_task_arg_free a w = w"

definition peak_mango_memory_map :: "u64 \<Rightarrow> u64" where
  "peak_mango_memory_map a = a"

definition peak_arch :: "'w bus \<Rightarrow> 'w arch_ops" where
  "peak_arch B = \<lparr>read_synchronization = mango_peak_read_synchronization B,
                  write_synchronization = mango_peak_write_synchronization B,
                  arch_suspend = mango_peak_suspend,
                  arch_task_arg_free = mango_peak_task_arg_free\<rparr>"

definition peak_mango_exit :: "'w bus \<Rightarrow> task_args \<Rightarrow> 'w \<Rightarrow> 'w option" where
  "peak_mango_exit B = mango_exit (peak_arch B)"

definition peak_mango_lock :: "'w bus \<Rightarrow> mango_event \<Rightarrow> 'w \<Rightarrow> (u32 \<times> 'w) option" where
  "peak_mango_lock B = mango_lock (peak_arch B)"

definition peak_mango_wait :: "'w bus \<Rightarrow> mango_event \<Rightarrow> u32 \<Rightarrow> 'w \<Rightarrow> 'w option" where
  "peak_mango_wait B = wait_consume (peak_arch B)"

definition peak_mango_join :: "'w bus \<Rightarrow> mango_event \<Rightarrow> 'w \<Rightarrow> 'w option" where
  "peak_mango_join B e = peak_mango_wait B e (status_code READ)"

definition peak_mango_signal :: "'w bus \<Rightarrow> mango_event \<Rightarrow> 'w \<Rightarrow> (u32 \<times> 'w) option" where
  "peak_mango_signal B = mango_signal (peak_arch B)"

definition peak_mango_barrier ::
  "'w bus \<Rightarrow> task_args \<Rightarrow> mango_event option \<Rightarrow> 'w \<Rightarrow> 'w option" where
  "peak_mango_barrier B = barrier_with wait_consume (peak_arch B)"

subsection \<open>NU+\<close>

text \<open>The NU+ initialisation takes the argument pointers themselves as addresses.\<close>

definition mango_nuplus_init ::
  "u64 list \<Rightarrow> mango_context \<Rightarrow> fault + exit_code \<times> mango_context" where
  "mango_nuplus_init argv ctx =
     (if length argv \<le> 4 then Inl Out_of_bounds
      else Inr (SUCCESS, ctx\<lparr>event_exit := \<lparr>vaddr = argv ! 1\<rparr>, event_a := \<lparr>vaddr = argv ! 2\<rparr>,
        event_b := \<lparr>vaddr = argv ! 3\<rparr>, event_r := \<lparr>vaddr = argv ! 4\<rparr>\<rparr>))"

definition mango_nuplus_write_synchronization ::
  "'w bus \<Rightarrow> mango_event \<Rightarrow> u32 \<Rightarrow> 'w \<Rightarrow> 'w" where
  "mango_nuplus_write_synchronization B e value w = bus_store B (vaddr e) value w"

definition mango_nuplus_read_synchronization :: "'w bus \<Rightarrow> mango_event \<Rightarrow> 'w \<Rightarrow> u32 \<times> 'w" where
  "mango_nuplus_read_synchronization B e w = bus_load B (vaddr e) w"

definition mango_nuplus_close :: "'w bus \<Rightarrow> mango_context \<Rightarrow> int \<Rightarrow> 'w \<Rightarrow> 'w" where
  "mango_nuplus_close B ctx status w =
     mango_nuplus_write_synchronization B (event_exit ctx) 1 w"

definition mango_nuplus_spawn :: "u32 \<Rightarrow> 'w \<Rightarrow> mango_event option \<times> 'w" where
  "mango_nuplus_spawn count w = (None, w)"

definition mango_nuplus_task_arg_free :: "task_args \<Rightarrow> 'w \<Rightarrow> 'w" where
  "mango_nuplus_task_arg_free a w = w"

definition mango_nuplus_suspend :: "'w \<Rightarrow> 'w" where
  "mango_nuplus_suspend w = w"

definition nuplus_mango_memory_map :: "u64 \<Rightarrow> u64" where
  "nuplus_mango_memory_map a = a"

definition nuplus_arch :: "'w bus \<Rightarrow> 'w arch_ops" where
  "nuplus_arch B = \<lparr>read_synchronization = mango_nuplus_read_synchronization B,
                    write_synchronization = mango_nuplus_write_synchronization B,
                    arch_suspend = mango_nuplus_suspend,
                    arch_task_arg_free = mango_nuplus_task_arg_free\<rparr>"

definition nuplus_mango_exit :: "'w bus \<Rightarrow> task_args \<Rightarrow> 'w \<Rightarrow> 'w option" where
  "nuplus_mango_exit B = mango_exit (nuplus_arch B)"

definition nuplus_mango_lock :: "'w bus \<Rightarrow> mango_event \<Rightarrow> 'w \<Rightarrow> (u32 \<times> 'w) option" where
  "nuplus_mango_lock B = mango_lock (nuplus_arch B)"

definition nuplus_mango_wait :: "'w bus \<Rightarrow> mango_event \<Rightarrow> u32 \<Rightarrow> 'w \<Rightarrow> 'w option" where
  "nuplus_mango_wait B = wait_consume_busy (nuplus_arch B)"

definition nuplus_mango_join :: "'w bus \<Rightarrow> mango_event \<Rightarrow> 'w \<Rightarrow> 'w option" where
  "nuplus_mango_join B e = nuplus_mango_wait B e (status_code READ)"

definition nuplus_mango_signal :: "'w bus \<Rightarrow> mango_event \<Rightarrow> 'w \<Rightarrow> (u32 \<times> 'w) option" where
  "nuplus_mango_signal B = mango_signal (nuplus_arch B)"

definition nuplus_mango_barrier ::
  "'w bus \<Rightarrow> task_args \<Rightarrow> mango_event option \<Rightarrow> 'w \<Rightarrow> 'w option" where
  "nuplus_mango_barrier B = barrier_with wait_consume_busy (nuplus_arch B)"

section \<open>The layers meet the register contract\<close>

lemma mango_event_eq_iff: "(e = f) = (vaddr e = vaddr (f :: mango_event))"
  by (cases e; cases f) simp

interpretation gn: overwriting_arch gn_arch gn_reg
  by unfold_locales
    (auto simp: gn_arch_def gn_reg_def mango_gn_read_synchronization_def
      mango_gn_write_synchronization_def mango_gn_suspend_def mango_gn_task_arg_free_def
      fun_eq_iff mango_event_eq_iff)

text \<open>
  A tile-register bus as the hardware note of \<^verbatim>\<open>mango.h\<close> documents it: a load returns
  the content and clears it, a store adds to it.
\<close>

definition tilereg_bus :: "(u64 \<Rightarrow> u32) bus" where
  "tilereg_bus = \<lparr>bus_load = (\<lambda>a w. (w a, w(a := 0))), bus_store = (\<lambda>a v w. w(a := w a + v))\<rparr>"

definition tile_reg :: "(u64 \<Rightarrow> u32) \<Rightarrow> mango_event \<Rightarrow> u32" where
  "tile_reg w e = w (vaddr e)"

interpretation peak: accumulating_arch "peak_arch tilereg_bus" tile_reg
  by unfold_locales
    (auto simp: peak_arch_def tile_reg_def tilereg_bus_def mango_peak_read_synchronization_def
      mango_peak_write_synchronization_def mango_peak_suspend_def mango_peak_task_arg_free_def
      fun_eq_iff mango_event_eq_iff)

interpretation nuplus: accumulating_arch "nuplus_arch tilereg_bus" tile_reg
  by unfold_locales
    (auto simp: nuplus_arch_def tile_reg_def tilereg_bus_def mango_nuplus_read_synchronization_def
      mango_nuplus_write_synchronization_def mango_nuplus_suspend_def
      mango_nuplus_task_arg_free_def fun_eq_iff mango_event_eq_iff)

section \<open>GN: exact behaviour\<close>

lemma gn_lock_exact:
  "gn_mango_lock e w =
     (if gn_reg w e = 0 then None
      else Some (gn_reg w e, w\<lparr>gw_mem := (gw_mem w)(vaddr e := 0)\<rparr>))"
  using gn.lock_none [of w e] gn.lock_some [of w e]
  by (simp add: gn_mango_lock_def gn_arch_def mango_gn_read_synchronization_def)

lemma gn_wait_exact:
  "gn_mango_wait e v w =
     (if gn_reg w e = v \<and> v \<noteq> 0 then Some (w\<lparr>gw_mem := (gw_mem w)(vaddr e := 0)\<rparr>) else None)"
proof (cases "gn_reg w e = v \<and> v \<noteq> 0")
  case True
  with gn_lock_exact [of e w] show ?thesis
    by (simp add: gn_mango_wait_def wait_consume.simps [of gn_arch e v w] gn_mango_lock_def)
next
  case False
  then have "wait_consume gn_arch e v w = None"
    using gn.wait_consume_needs_value [of e v w] by (cases "wait_consume gn_arch e v w") auto
  with False show ?thesis by (simp add: gn_mango_wait_def)
qed

section \<open>NU+ waits as PEAK does\<close>

lemma busy_wait_le:
  assumes "wait_consume_busy A e v w = Some r" and "\<And>w. arch_suspend A w = w"
  shows "wait_consume A e v w = Some r"
proof -
  have "(\<forall>w. arch_suspend A w = w) \<longrightarrow> wait_consume A e v w = Some r"
  proof (rule wait_consume_busy.raw_induct
      [where P = "\<lambda>A e v w r. (\<forall>w. arch_suspend A w = w) \<longrightarrow> wait_consume A e v w = Some r",
        OF _ assms(1)])
    fix f :: "'a arch_ops \<Rightarrow> mango_event \<Rightarrow> u32 \<Rightarrow> 'a \<Rightarrow> 'a option" and A e v w r
    assume IH: "\<And>A e v w r. f A e v w = Some r \<Longrightarrow>
        (\<forall>w. arch_suspend A w = w) \<longrightarrow> wait_consume A e v w = Some r"
      and eq: "do {
         (value, w1) \<leftarrow> mango_lock A e w;
         if value \<noteq> v then f A e v (mango_write_synchronization A e value w1) else Some w1
       } = Some r"
    show "(\<forall>w. arch_suspend A w = w) \<longrightarrow> wait_consume A e v w = Some r"
      using eq IH
      by (subst wait_consume.simps) (auto split: if_splits Option.bind_splits)
  qed
  with assms(2) show ?thesis by blast
qed

lemma busy_wait_ge:
  assumes "wait_consume A e v w = Some r" and "\<And>w. arch_suspend A w = w"
  shows "wait_consume_busy A e v w = Some r"
proof -
  have "(\<forall>w. arch_suspend A w = w) \<longrightarrow> wait_consume_busy A e v w = Some r"
  proof (rule wait_consume.raw_induct
      [where P = "\<lambda>A e v w r. (\<forall>w. arch_suspend A w = w) \<longrightarrow> wait_consume_busy A e v w = Some r",
        OF _ assms(1)])
    fix f :: "'a arch_ops \<Rightarrow> mango_event \<Rightarrow> u32 \<Rightarrow> 'a \<Rightarrow> 'a option" and A e v w r
    assume IH: "\<And>A e v w r. f A e v w = Some r \<Longrightarrow>
        (\<forall>w. arch_suspend A w = w) \<longrightarrow> wait_consume_busy A e v w = Some r"
      and eq: "do {
         (value, w1) \<leftarrow> mango_lock A e w;
         if value \<noteq> v
         then f A e v (arch_suspend A (mango_write_synchronization A e value w1)) else Some w1
       } = Some r"
    show "(\<forall>w. arch_suspend A w = w) \<longrightarrow> wait_consume_busy A e v w = Some r"
      using eq IH
      by (subst wait_consume_busy.simps) (auto split: if_splits Option.bind_splits)
  qed
  with assms(2) show ?thesis by blast
qed

lemma busy_wait_eq:
  assumes "\<And>w. arch_suspend A w = w"
  shows "wait_consume_busy A e v w = wait_consume A e v w"
  using busy_wait_le [OF _ assms, of e v w] busy_wait_ge [OF _ assms, of e v w]
  by (cases "wait_consume_busy A e v w"; cases "wait_consume A e v w") auto

lemma nuplus_arch_eq: "nuplus_arch B = peak_arch B"
  by (simp add: nuplus_arch_def peak_arch_def fun_eq_iff mango_nuplus_read_synchronization_def
      mango_nuplus_write_synchronization_def mango_nuplus_suspend_def
      mango_nuplus_task_arg_free_def mango_peak_read_synchronization_def
      mango_peak_write_synchronization_def mango_peak_suspend_def mango_peak_task_arg_free_def)

end
