(* ===== verification/Dev_Threads.thy ===== *)
theory Dev_Threads
  imports Dev_Arch
begin

text \<open>
  The end of a work group: \<open>N\<close> threads run \<^verbatim>\<open>mango_exit\<close> while the kernel's main
  thread runs \<^verbatim>\<open>mango_join\<close>, interleaved at the accesses to the group's event. The
  counter starts at \<open>N + 1\<close>, as \<^verbatim>\<open>mango_gn_spawn\<close> stores it. The parameter \<open>wb\<close> is as
  in the barrier: whether the wait writes the awaited value back.
\<close>

section \<open>The machine\<close>

datatype tpc = Exit_lock | Exit_put u32 | Exited

datatype jpc = Join_lock | Join_put u32 | Joined

record jcfg =
  cell :: u32
  threads :: "tpc list"
  joiner :: jpc

fun tstep :: "tpc \<Rightarrow> u32 \<Rightarrow> tpc \<times> u32" where
  "tstep Exit_lock v = (if v = 0 then (Exit_lock, v) else (Exit_put v, 0))"
| "tstep (Exit_put x) v = (Exited, x - 1)"
| "tstep Exited v = (Exited, v)"

fun jstep :: "bool \<Rightarrow> jpc \<Rightarrow> u32 \<Rightarrow> jpc \<times> u32" where
  "jstep wb Join_lock v =
     (if v = 0 then (Join_lock, v)
      else if wb \<or> v \<noteq> status_code READ then (Join_put v, 0) else (Joined, 0))"
| "jstep wb (Join_put x) v = (if x \<noteq> status_code READ then Join_lock else Joined, x)"
| "jstep wb Joined v = (Joined, v)"

inductive join_next :: "bool \<Rightarrow> jcfg \<Rightarrow> jcfg \<Rightarrow> bool" for wb where
  thread: "i < length (threads c) \<Longrightarrow> tstep (threads c ! i) (cell c) = (p, v) \<Longrightarrow>
     join_next wb c (c\<lparr>cell := v, threads := (threads c)[i := p]\<rparr>)"
| join: "jstep wb (joiner c) (cell c) = (p, v) \<Longrightarrow> join_next wb c (c\<lparr>cell := v, joiner := p\<rparr>)"

abbreviation join_runs :: "bool \<Rightarrow> jcfg \<Rightarrow> jcfg \<Rightarrow> bool" where
  "join_runs wb \<equiv> (join_next wb)\<^sup>*\<^sup>*"

definition join_start :: "nat \<Rightarrow> jcfg" where
  "join_start N = \<lparr>cell = of_nat N + 1, threads = replicate N Exit_lock, joiner = Join_lock\<rparr>"

section \<open>The invariant\<close>

fun holds_cell :: "tpc \<Rightarrow> bool" where
  "holds_cell (Exit_put _) = True"
| "holds_cell _ = False"

fun join_holds :: "jpc \<Rightarrow> nat" where
  "join_holds (Join_put _) = 1"
| "join_holds _ = 0"

definition holders :: "jcfg \<Rightarrow> nat" where
  "holders c = count_of holds_cell (threads c) + join_holds (joiner c)"

abbreviation exited :: "tpc \<Rightarrow> bool" where
  "exited p \<equiv> p = Exited"

definition left :: "jcfg \<Rightarrow> nat" where
  "left c = length (threads c) + 1 - count_of exited (threads c)"

definition join_inv :: "bool \<Rightarrow> jcfg \<Rightarrow> bool" where
  "join_inv wb c \<longleftrightarrow>
     holders c \<le> 1
   \<and> (\<forall>i < length (threads c). \<forall>x. threads c ! i = Exit_put x \<longrightarrow> x = of_nat (left c))
   \<and> (\<forall>x. joiner c = Join_put x \<longrightarrow> x = of_nat (left c) \<and> (wb \<or> left c \<noteq> Suc 0))
   \<and> (joiner c = Joined \<longrightarrow> left c = Suc 0)
   \<and> cell c = (if holders c = 0 \<and> (joiner c \<noteq> Joined \<or> wb) then of_nat (left c) else 0)"

lemma left_one: "left c = Suc 0 \<longleftrightarrow> (\<forall>i < length (threads c). threads c ! i = Exited)"
proof -
  have "left c = Suc 0 \<longleftrightarrow> count_of exited (threads c) = length (threads c)"
    using count_of_le [of exited "threads c"] unfolding left_def by linarith
  then show ?thesis by (simp add: count_of_all)
qed

lemma left_bounds: "1 \<le> left c \<and> left c \<le> length (threads c) + 1"
  using count_of_le [of exited "threads c"] by (auto simp: left_def)

lemma of_nat_left:
  assumes "length (threads c) + 1 < 2 ^ 32"
  shows "(of_nat (left c) :: u32) \<noteq> 0" and "(of_nat (left c) :: u32) = 1 \<longleftrightarrow> left c = Suc 0"
proof -
  have small: "unat (of_nat (left c) :: u32) = left c"
    using left_bounds [of c] assms by (simp add: unat_of_nat)
  show "(of_nat (left c) :: u32) \<noteq> 0"
    using small left_bounds [of c] by (metis unat_0 not_one_le_zero)
  show "(of_nat (left c) :: u32) = 1 \<longleftrightarrow> left c = Suc 0"
    using small by (metis One_nat_def unat_1 of_nat_1)
qed

lemma join_inv_start: "join_inv wb (join_start N)"
  by (auto simp: join_inv_def join_start_def holders_def left_def count_of_replicate)

lemma exited_left_one: "left c = Suc 0 \<Longrightarrow> i < length (threads c) \<Longrightarrow> threads c ! i = Exited"
  by (simp add: left_one)

lemma thread_lock_inv:
  assumes inv: "join_inv wb c" and i: "i < length (threads c)"
    and pc: "threads c ! i = Exit_lock" and nz: "cell c \<noteq> 0"
  shows "join_inv wb (c\<lparr>cell := 0, threads := (threads c)[i := Exit_put (cell c)]\<rparr>)"
proof -
  have "cell c = of_nat (left c)" "holders c = 0" using inv nz by (auto simp: join_inv_def split: if_splits)
  moreover have "joiner c \<noteq> Joined" using exited_left_one [OF _ i] pc inv by (auto simp: join_inv_def)
  moreover have "x = of_nat (left c)" if "k < length (threads c)"
    "(threads c)[i := Exit_put (cell c)] ! k = Exit_put x" for k x
    using inv calculation(1) that by (cases "k = i") (simp_all add: join_inv_def del: of_nat_Suc)
  moreover have "left (c\<lparr>cell := 0, threads := (threads c)[i := Exit_put (cell c)]\<rparr>) = left c"
    using i pc by (simp add: left_def count_simps)
  moreover have "holders (c\<lparr>cell := 0, threads := (threads c)[i := Exit_put (cell c)]\<rparr>)
      = Suc (holders c)"
    using i pc by (simp add: holders_def count_simps)
  ultimately show ?thesis
    using inv unfolding join_inv_def by (auto simp del: of_nat_Suc)
qed

lemma thread_put_inv:
  assumes inv: "join_inv wb c" and i: "i < length (threads c)"
    and pc: "threads c ! i = Exit_put x"
  shows "join_inv wb (c\<lparr>cell := x - 1, threads := (threads c)[i := Exited]\<rparr>)"
    (is "join_inv wb ?d")
proof -
  have x: "x = of_nat (left c)" and one: "holders c \<le> 1"
    using inv i pc by (auto simp: join_inv_def)
  have pos: "0 < count_of holds_cell (threads c)" using i pc by (intro count_of_pos) auto
  then have j: "join_holds (joiner c) = 0" and c1: "count_of holds_cell (threads c) = 1"
    using one by (auto simp: holders_def)
  then have nj: "\<And>y. joiner c \<noteq> Join_put y" by auto
  have nJ: "joiner c \<noteq> Joined" using exited_left_one [OF _ i] pc inv by (auto simp: join_inv_def)
  have others: "threads c ! k \<noteq> Exit_put y" if "k < length (threads c)" "k \<noteq> i" for k y
    using count_of_unique [of holds_cell "threads c" i k] c1 i pc that by auto
  have h: "holders ?d = 0" using i pc c1 j by (simp add: holders_def count_simps)
  have "count_of exited ((threads c)[i := Exited]) = Suc (count_of exited (threads c))"
    using i pc by (simp add: count_simps)
  moreover from this have "count_of exited (threads c) < length (threads c)"
    using count_of_le [of exited "(threads c)[i := Exited]"] by simp
  ultimately have "left c = Suc (left ?d)" by (simp add: left_def)
  then have "of_nat (left c) = (1 :: u32) + of_nat (left ?d)" by simp
  with x have "x - 1 = of_nat (left ?d)" by (metis add_diff_cancel_left')
  moreover have "(threads c)[i := Exited] ! k \<noteq> Exit_put y" if "k < length (threads c)" for k y
    using others [OF that] i by (cases "k = i") auto
  ultimately show ?thesis using h nj nJ by (auto simp: join_inv_def)
qed

lemma join_step_inv:
  assumes inv: "join_inv wb c" and N: "length (threads c) + 1 < 2 ^ 32"
    and s: "jstep wb (joiner c) (cell c) = (p, v)"
  shows "join_inv wb (c\<lparr>cell := v, joiner := p\<rparr>)"
proof -
  have l: "left (c\<lparr>cell := v, joiner := p\<rparr>) = left c" by (simp add: left_def)
  note nz = of_nat_left [OF N]
  show ?thesis
  proof (cases "joiner c")
    case Join_lock
    show ?thesis
    proof (cases "cell c = 0")
      case True
      with Join_lock s have "c\<lparr>cell := v, joiner := p\<rparr> = c" by (cases c) auto
      with inv show ?thesis by simp
    next
      case False
      then have "holders c = 0" "cell c = of_nat (left c)"
        using inv by (auto simp: join_inv_def split: if_splits)
      with False Join_lock s inv l nz show ?thesis
        by (auto simp: join_inv_def holders_def count_of_zero split: if_splits)
    qed
  next
    case (Join_put x)
    then have x: "x = of_nat (left c)" and "wb \<or> left c \<noteq> Suc 0"
      and "count_of holds_cell (threads c) = 0"
      using inv by (auto simp: join_inv_def holders_def)
    with Join_put s inv l nz show ?thesis
      by (auto simp: join_inv_def holders_def split: if_splits)
  next
    case Joined
    with s have "c\<lparr>cell := v, joiner := p\<rparr> = c" by (cases c) auto
    with inv show ?thesis by simp
  qed
qed

lemma thread_step_inv:
  assumes inv: "join_inv wb c" and i: "i < length (threads c)"
    and s: "tstep (threads c ! i) (cell c) = (p, v)"
  shows "join_inv wb (c\<lparr>cell := v, threads := (threads c)[i := p]\<rparr>)"
proof (cases "threads c ! i")
  case Exit_lock
  show ?thesis
  proof (cases "cell c = 0")
    case True
    with Exit_lock s have "p = threads c ! i" "v = cell c" by auto
    then have "c\<lparr>cell := v, threads := (threads c)[i := p]\<rparr> = c" by simp
    with inv show ?thesis by simp
  next
    case False
    with thread_lock_inv [OF inv i Exit_lock] s Exit_lock show ?thesis by simp
  qed
next
  case (Exit_put x)
  with thread_put_inv [OF inv i Exit_put] s show ?thesis by simp
next
  case Exited
  with s have "p = threads c ! i" "v = cell c" by auto
  then have "c\<lparr>cell := v, threads := (threads c)[i := p]\<rparr> = c" by simp
  with inv show ?thesis by simp
qed

lemma join_next_inv:
  "join_next wb c c' \<Longrightarrow> join_inv wb c \<Longrightarrow> length (threads c) + 1 < 2 ^ 32
     \<Longrightarrow> join_inv wb c' \<and> length (threads c') = length (threads c)"
  by (induction rule: join_next.induct) (auto intro: thread_step_inv join_step_inv)

lemma join_runs_inv:
  assumes "join_runs wb (join_start N) c" and "N + 1 < 2 ^ 32"
  shows "join_inv wb c \<and> length (threads c) = N"
  using assms(1)
proof (induction rule: rtranclp_induct)
  case base
  show ?case using join_inv_start [of wb N] by (simp add: join_start_def)
next
  case (step c c')
  then show ?case using join_next_inv assms(2) by metis
qed

section \<open>Progress\<close>

fun trank :: "tpc \<Rightarrow> nat" where
  "trank Exit_lock = 2"
| "trank (Exit_put _) = 1"
| "trank Exited = 0"

fun jrank :: "jpc \<Rightarrow> nat" where
  "jrank Join_lock = 2"
| "jrank (Join_put x) = (if x = status_code READ then 1 else 3)"
| "jrank Joined = 0"

definition jweight :: "jcfg \<Rightarrow> nat" where
  "jweight c = sum_list (map trank (threads c)) + jrank (joiner c)"

lemma jweight_thread:
  assumes "i < length (threads c)" and "trank p < trank (threads c ! i)"
  shows "jweight (c\<lparr>cell := v, threads := (threads c)[i := p]\<rparr>) < jweight c"
proof -
  have "trank (threads c ! i) \<le> sum_list (map trank (threads c))"
    using assms(1) by (intro member_le_sum_list) auto
  with assms show ?thesis by (simp add: jweight_def map_update sum_list_update)
qed

lemma thread_advances:
  assumes "i < length (threads c)" and "trank (fst (tstep (threads c ! i) (cell c))) < trank (threads c ! i)"
  shows "\<exists>c'. join_next wb c c' \<and> jweight c' < jweight c"
proof -
  obtain p v where s: "tstep (threads c ! i) (cell c) = (p, v)" by fastforce
  with assms show ?thesis using join_next.thread [OF assms(1) s] jweight_thread [OF assms(1)] by auto
qed

lemma joiner_advances:
  assumes "jrank (fst (jstep wb (joiner c) (cell c))) < jrank (joiner c)"
  shows "\<exists>c'. join_next wb c c' \<and> jweight c' < jweight c"
proof -
  obtain p v where s: "jstep wb (joiner c) (cell c) = (p, v)" by fastforce
  with assms show ?thesis
    by (intro exI [of _ "c\<lparr>cell := v, joiner := p\<rparr>"]) (auto simp: jweight_def intro: join_next.join)
qed

lemma join_advances:
  assumes inv: "join_inv wb c" and N: "length (threads c) + 1 < 2 ^ 32" and "joiner c \<noteq> Joined"
  shows "\<exists>c'. join_next wb c c' \<and> jweight c' < jweight c"
proof (cases "holders c = 0")
  case True
  then have cell: "cell c = of_nat (left c)" and nz: "cell c \<noteq> 0" and j: "joiner c = Join_lock"
    using inv assms(3) of_nat_left(1) [OF N] by (cases "joiner c"; auto simp: join_inv_def holders_def)+
  show ?thesis
  proof (cases "left c = Suc 0")
    case True
    then show ?thesis using cell j by (intro joiner_advances) auto
  next
    case False
    then obtain i where i: "i < length (threads c)" "threads c ! i \<noteq> Exited"
      by (auto simp: left_one)
    moreover have "\<not> holds_cell (threads c ! i)"
      using True i(1) by (simp add: holders_def count_of_zero)
    ultimately have "threads c ! i = Exit_lock" by (cases "threads c ! i") auto
    with nz i show ?thesis by (intro thread_advances [of i]) auto
  qed
next
  case False
  then consider (j) x where "joiner c = Join_put x" | (t) i where "i < length (threads c)"
      "holds_cell (threads c ! i)"
    using count_of_ex [of holds_cell "threads c"] by (cases "joiner c") (auto simp: holders_def)
  then show ?thesis
  proof cases
    case j
    then show ?thesis by (intro joiner_advances) simp
  next
    case t
    then show ?thesis by (intro thread_advances [of i]) (cases "threads c ! i"; simp)+
  qed
qed

lemma join_finishes:
  "join_inv wb c \<Longrightarrow> length (threads c) + 1 < 2 ^ 32
     \<Longrightarrow> \<exists>c'. join_runs wb c c' \<and> joiner c' = Joined"
proof (induction c rule: measure_induct_rule [of jweight])
  case (less c)
  show ?case
  proof (cases "joiner c = Joined")
    case True
    then show ?thesis by blast
  next
    case False
    with join_advances [OF less.prems] obtain d where d: "join_next wb c d" "jweight d < jweight c"
      by blast
    with less.IH [OF d(2)] join_next_inv [OF d(1) less.prems] less.prems(2) show ?thesis
      by (metis converse_rtranclp_into_rtranclp)
  qed
qed

text \<open>A given schedule: \<open>None\<close> is a step of the joiner, \<open>Some i\<close> one of thread \<open>i\<close>.\<close>

fun jsched :: "bool \<Rightarrow> nat option list \<Rightarrow> jcfg \<Rightarrow> jcfg" where
  "jsched wb [] c = c"
| "jsched wb (None # is) c =
     (case jstep wb (joiner c) (cell c) of (p, v) \<Rightarrow> jsched wb is (c\<lparr>cell := v, joiner := p\<rparr>))"
| "jsched wb (Some i # is) c =
     jsched wb is
       (if i < length (threads c)
        then (case tstep (threads c ! i) (cell c) of
                (p, v) \<Rightarrow> c\<lparr>cell := v, threads := (threads c)[i := p]\<rparr>)
        else c)"

lemma jsched_runs: "join_runs wb c (jsched wb is c)"
proof (induction wb "is" c rule: jsched.induct)
  case (2 wb "is" c)
  then show ?case
    by (auto split: prod.splits intro: converse_rtranclp_into_rtranclp join_next.join)
next
  case (3 wb i "is" c)
  then show ?case
    by (auto split: prod.splits intro: converse_rtranclp_into_rtranclp join_next.thread)
qed simp

section \<open>The properties\<close>


text \<open>
  C19. \<^verbatim>\<open>mango_join\<close> cannot be blocked for ever: from every reachable configuration the
  group can be run until the join returns.
\<close>

theorem join_progress:
  assumes "N + 1 < 2 ^ 32" and "join_runs wb (join_start N) c"
  shows "\<exists>c'. join_runs wb c c' \<and> joiner c' = Joined"
  using join_runs_inv [OF assms(2,1)] join_finishes assms(1) by blast

section \<open>Concrete runs\<close>





lemma join_progress_witness:
  "\<exists>c'. join_runs False (jsched False [Some 0] (join_start 2)) c' \<and> joiner c' = Joined"
  by (rule join_progress [OF _ jsched_runs]) simp

end
