(* ===== verification/Dev_Barrier.thy ===== *)
theory Dev_Barrier
  imports Dev_Runtime
begin

text \<open>
  The work-group barrier as an interleaving of threads. Every thread runs
  \<^verbatim>\<open>mango_barrier\<close>; one step of a thread is one access to a synchronisation register,
  which the architecture layer makes atomic. The machine covers both waits of the
  sources: \<open>wb\<close> holds for the wait that writes the awaited value back
  (\<^verbatim>\<open>dev/src/mango_hn.c\<close>) and fails for the one that consumes it (the GN, PEAK and NU+
  copies).
\<close>

section \<open>The machine\<close>

datatype breg = Rel | Cnt | Fifo

type_synonym bmem = "breg \<Rightarrow> u32"

text \<open>
  The program counter of a thread: the access it makes next, with the values of its
  local variables (\<open>go\<close>, then the value read by the lock it holds).
\<close>

datatype bpc =
    Rel_lock
  | Rel_put u32
  | Cnt_lock u32
  | Cnt_put u32 u32
  | Wait_lock u32
  | Wait_put u32 u32
  | Fifo_lock u32
  | Fifo_ask u32
  | Fwait_lock u32
  | Fwait_put u32 u32
  | Fifo_relock u32
  | Fifo_end u32
  | Reset_lock u32
  | Reset_put u32
  | Go_lock u32
  | Go_put u32
  | Passed

definition flip :: "u32 \<Rightarrow> u32" where
  "flip go = (if go = 1 then 2 else 1)"

text \<open>One read-and-reset of a spinning lock: it stays where it is while the value is 0.\<close>

definition take_reg :: "bmem \<Rightarrow> breg \<Rightarrow> bpc \<Rightarrow> (u32 \<Rightarrow> bpc) \<Rightarrow> bpc \<times> bmem" where
  "take_reg m r stay nxt = (if m r = 0 then (stay, m) else (nxt (m r), m(r := 0)))"

fun bstep :: "bool \<Rightarrow> bool \<Rightarrow> u32 \<Rightarrow> bpc \<Rightarrow> bmem \<Rightarrow> bpc \<times> bmem" where
  "bstep wb ff n Rel_lock m = take_reg m Rel Rel_lock Rel_put"
| "bstep wb ff n (Rel_put v) m = (Cnt_lock (flip v), m(Rel := v))"
| "bstep wb ff n (Cnt_lock go) m = take_reg m Cnt (Cnt_lock go) (Cnt_put go)"
| "bstep wb ff n (Cnt_put go v) m =
     (if v - 1 > 1 then Wait_lock go else if ff then Fifo_lock go else Reset_lock go,
      m(Cnt := v - 1))"
| "bstep wb ff n (Wait_lock go) m =
     take_reg m Rel (Wait_lock go) (\<lambda>v. if wb \<or> v \<noteq> go then Wait_put go v else Passed)"
| "bstep wb ff n (Wait_put go v) m = (if v \<noteq> go then Wait_lock go else Passed, m(Rel := v))"
| "bstep wb ff n (Fifo_lock go) m =
     take_reg m Fifo (Fifo_lock go) (\<lambda>v. if v \<noteq> 1 then Fifo_ask go else Fifo_end go)"
| "bstep wb ff n (Fifo_ask go) m = (Fwait_lock go, m(Fifo := 2))"
| "bstep wb ff n (Fwait_lock go) m =
     take_reg m Fifo (Fwait_lock go) (\<lambda>v. if wb \<or> v \<noteq> 1 then Fwait_put go v else Fifo_relock go)"
| "bstep wb ff n (Fwait_put go v) m =
     (if v \<noteq> 1 then Fwait_lock go else Fifo_relock go, m(Fifo := v))"
| "bstep wb ff n (Fifo_relock go) m = take_reg m Fifo (Fifo_relock go) (\<lambda>_. Fifo_end go)"
| "bstep wb ff n (Fifo_end go) m = (Reset_lock go, m(Fifo := 3))"
| "bstep wb ff n (Reset_lock go) m = take_reg m Cnt (Reset_lock go) (\<lambda>_. Reset_put go)"
| "bstep wb ff n (Reset_put go) m = (Go_lock go, m(Cnt := n + 1))"
| "bstep wb ff n (Go_lock go) m = take_reg m Rel (Go_lock go) (\<lambda>_. Go_put go)"
| "bstep wb ff n (Go_put go) m = (Passed, m(Rel := go))"
| "bstep wb ff n Passed m = (Passed, m)"

record bcfg =
  regs :: bmem
  pcs :: "bpc list"

text \<open>
  Any thread may move; with a FIFO event the other end of the FIFO may store any value
  in its register at any time.
\<close>

inductive bar_next :: "bool \<Rightarrow> bool \<Rightarrow> u32 \<Rightarrow> bcfg \<Rightarrow> bcfg \<Rightarrow> bool" for wb ff n where
  thread: "i < length (pcs c) \<Longrightarrow> bstep wb ff n (pcs c ! i) (regs c) = (p, m) \<Longrightarrow>
     bar_next wb ff n c \<lparr>regs = m, pcs = (pcs c)[i := p]\<rparr>"
| other_end: "ff \<Longrightarrow> bar_next wb ff n c (c\<lparr>regs := (regs c)(Fifo := v)\<rparr>)"

abbreviation bar_runs :: "bool \<Rightarrow> bool \<Rightarrow> u32 \<Rightarrow> bcfg \<Rightarrow> bcfg \<Rightarrow> bool" where
  "bar_runs wb ff n \<equiv> (bar_next wb ff n)\<^sup>*\<^sup>*"

text \<open>
  The registers as \<^verbatim>\<open>mango_gn_spawn\<close> leaves them, or as an earlier barrier did: the
  counter one above the number of threads, the release register at the phase \<open>r0\<close>.
\<close>

definition bar_start :: "nat \<Rightarrow> u32 \<Rightarrow> u32 \<Rightarrow> bcfg" where
  "bar_start N r0 f = \<lparr>regs = (\<lambda>r. case r of Rel \<Rightarrow> r0 | Cnt \<Rightarrow> of_nat N + 1 | Fifo \<Rightarrow> f),
                      pcs = replicate N Rel_lock\<rparr>"

text \<open>Running a given schedule, to evaluate concrete interleavings.\<close>

fun bar_sched :: "bool \<Rightarrow> bool \<Rightarrow> u32 \<Rightarrow> nat list \<Rightarrow> bcfg \<Rightarrow> bcfg" where
  "bar_sched wb ff n [] c = c"
| "bar_sched wb ff n (i # is) c =
     bar_sched wb ff n is
       (if i < length (pcs c)
        then (case bstep wb ff n (pcs c ! i) (regs c) of
                (p, m) \<Rightarrow> \<lparr>regs = m, pcs = (pcs c)[i := p]\<rparr>)
        else c)"

lemma bar_sched_runs: "bar_runs wb ff n c (bar_sched wb ff n is c)"
proof (induction "is" arbitrary: c)
  case (Cons i "is")
  obtain p m where b: "bstep wb ff n (pcs c ! i) (regs c) = (p, m)" by fastforce
  show ?case
    using Cons.IH [of c] Cons.IH [of "\<lparr>regs = m, pcs = (pcs c)[i := p]\<rparr>"]
      bar_next.thread [of i c wb ff n p m] b
    by (auto intro: converse_rtranclp_into_rtranclp)
qed simp

section \<open>What a thread holds and where it stands\<close>

fun has_rel :: "bpc \<Rightarrow> bool" where
  "has_rel (Rel_put _) = True"
| "has_rel (Wait_put _ _) = True"
| "has_rel (Go_put _) = True"
| "has_rel _ = False"

fun has_cnt :: "bpc \<Rightarrow> bool" where
  "has_cnt (Cnt_put _ _) = True"
| "has_cnt (Reset_put _) = True"
| "has_cnt _ = False"

text \<open>A thread has arrived once its decrement of the counter is stored.\<close>

fun arrived :: "bpc \<Rightarrow> bool" where
  "arrived Rel_lock = False"
| "arrived (Rel_put _) = False"
| "arrived (Cnt_lock _) = False"
| "arrived (Cnt_put _ _) = False"
| "arrived _ = True"

definition waiting :: "u32 \<Rightarrow> u32 \<Rightarrow> bpc \<Rightarrow> bool" where
  "waiting g r0 p \<longleftrightarrow> p = Wait_lock g \<or> p = Wait_put g r0"

section \<open>The phases of one barrier\<close>

fun gather_pc :: "u32 \<Rightarrow> u32 \<Rightarrow> u32 \<Rightarrow> bpc \<Rightarrow> bool" where
  "gather_pc g r0 k Rel_lock = True"
| "gather_pc g r0 k (Rel_put v) = (v = r0)"
| "gather_pc g r0 k (Cnt_lock h) = (h = g)"
| "gather_pc g r0 k (Cnt_put h v) = (h = g \<and> v = k)"
| "gather_pc g r0 k (Wait_lock h) = (h = g)"
| "gather_pc g r0 k (Wait_put h v) = (h = g \<and> v = r0)"
| "gather_pc g r0 k _ = False"

definition missing :: "bcfg \<Rightarrow> nat" where
  "missing c = length (pcs c) + 1 - count_of arrived (pcs c)"

definition rel_free :: "u32 \<Rightarrow> bcfg \<Rightarrow> bool" where
  "rel_free v c \<longleftrightarrow> count_of has_rel (pcs c) \<le> 1
     \<and> regs c Rel = (if count_of has_rel (pcs c) = 0 then v else 0)"

definition gathering :: "u32 \<Rightarrow> u32 \<Rightarrow> bcfg \<Rightarrow> bool" where
  "gathering g r0 c \<longleftrightarrow>
     count_of arrived (pcs c) < length (pcs c)
   \<and> (\<forall>j < length (pcs c). gather_pc g r0 (of_nat (missing c)) (pcs c ! j))
   \<and> rel_free r0 c
   \<and> count_of has_cnt (pcs c) \<le> 1
   \<and> regs c Cnt = (if count_of has_cnt (pcs c) = 0 then of_nat (missing c) else 0)"

fun lead_pc :: "bool \<Rightarrow> u32 \<Rightarrow> nat \<Rightarrow> u32 \<Rightarrow> bpc \<Rightarrow> bool" where
  "lead_pc ff g N k (Fifo_lock h) = (ff \<and> h = g \<and> k = 1)"
| "lead_pc ff g N k (Fifo_ask h) = (ff \<and> h = g \<and> k = 1)"
| "lead_pc ff g N k (Fwait_lock h) = (ff \<and> h = g \<and> k = 1)"
| "lead_pc ff g N k (Fwait_put h _) = (ff \<and> h = g \<and> k = 1)"
| "lead_pc ff g N k (Fifo_relock h) = (ff \<and> h = g \<and> k = 1)"
| "lead_pc ff g N k (Fifo_end h) = (ff \<and> h = g \<and> k = 1)"
| "lead_pc ff g N k (Reset_lock h) = (h = g \<and> k = 1)"
| "lead_pc ff g N k (Reset_put h) = (h = g \<and> k = 0)"
| "lead_pc ff g N k (Go_lock h) = (h = g \<and> k = of_nat N + 1)"
| "lead_pc ff g N k (Go_put h) = (h = g \<and> k = of_nat N + 1)"
| "lead_pc ff g N k _ = False"

definition closing :: "bool \<Rightarrow> u32 \<Rightarrow> u32 \<Rightarrow> bcfg \<Rightarrow> bool" where
  "closing ff g r0 c \<longleftrightarrow>
     (\<exists>l < length (pcs c). lead_pc ff g (length (pcs c)) (regs c Cnt) (pcs c ! l)
        \<and> (\<forall>j < length (pcs c). j \<noteq> l \<longrightarrow> waiting g r0 (pcs c ! j)))
   \<and> rel_free r0 c"

definition leaving :: "bool \<Rightarrow> u32 \<Rightarrow> bpc \<Rightarrow> bool" where
  "leaving wb g p \<longleftrightarrow> p = Wait_lock g \<or> p = Passed \<or> (wb \<and> p = Wait_put g g)"

abbreviation passed :: "bcfg \<Rightarrow> nat" where
  "passed c \<equiv> count_of (\<lambda>p. p = Passed) (pcs c)"

definition released :: "bool \<Rightarrow> u32 \<Rightarrow> bcfg \<Rightarrow> bool" where
  "released wb g c \<longleftrightarrow>
     regs c Cnt = of_nat (length (pcs c)) + 1
   \<and> (\<forall>j < length (pcs c). leaving wb g (pcs c ! j))
   \<and> 1 \<le> passed c
   \<and> (if wb then rel_free g c
      else passed c \<le> 2 \<and> regs c Rel = (if passed c = 1 then g else 0))"

definition bar_inv :: "bool \<Rightarrow> bool \<Rightarrow> u32 \<Rightarrow> u32 \<Rightarrow> bcfg \<Rightarrow> bool" where
  "bar_inv wb ff g r0 c \<longleftrightarrow> gathering g r0 c \<or> closing ff g r0 c \<or> released wb g c"

section \<open>The invariant holds initially and is kept\<close>

lemma has_rel_iff: "gather_pc g r0 k p \<Longrightarrow> has_rel p \<longleftrightarrow> p = Rel_put r0 \<or> p = Wait_put g r0"
  by (cases p) auto

lemma waiting_arrived: "waiting g r0 p \<Longrightarrow> arrived p"
  by (auto simp: waiting_def)

lemma lead_arrived: "lead_pc ff g N k p \<Longrightarrow> arrived p"
  by (cases p) auto

lemma gather_waiting: "gather_pc g r0 k p \<Longrightarrow> arrived p \<Longrightarrow> waiting g r0 p"
  by (cases p) (auto simp: waiting_def)

lemma gather_other_k:
  "gather_pc g r0 k p \<Longrightarrow> \<not> has_cnt p \<Longrightarrow> gather_pc g r0 k' p"
  by (cases p) auto

lemma unat_small: "k < 2 ^ 32 \<Longrightarrow> unat (of_nat k :: u32) = k"
  by (simp add: unat_of_nat)

lemma of_nat_gt_1: "k < 2 ^ 32 \<Longrightarrow> (1 < (of_nat k :: u32)) = (1 < k)"
  by (simp add: word_less_nat_alt unat_small)


lemma start_gathering:
  assumes "0 < N"
  shows "gathering g r0 (bar_start N r0 f)"
  using assms
  by (simp add: gathering_def bar_start_def missing_def rel_free_def count_of_replicate)

abbreviation upd :: "bcfg \<Rightarrow> nat \<Rightarrow> bpc \<Rightarrow> bmem \<Rightarrow> bcfg" where
  "upd c i p m \<equiv> \<lparr>regs = m, pcs = (pcs c)[i := p]\<rparr>"

lemma rel_take:
  "rel_free v c \<Longrightarrow> regs c Rel \<noteq> 0 \<Longrightarrow> i < length (pcs c) \<Longrightarrow> has_rel p \<Longrightarrow> \<not> has_rel (pcs c ! i)
     \<Longrightarrow> m Rel = 0 \<Longrightarrow> rel_free v (upd c i p m)"
  by (auto simp: rel_free_def count_simps split: if_splits)

lemma rel_give:
  "rel_free v c \<Longrightarrow> i < length (pcs c) \<Longrightarrow> \<not> has_rel p \<Longrightarrow> has_rel (pcs c ! i)
     \<Longrightarrow> m Rel = u \<Longrightarrow> rel_free u (upd c i p m)"
  by (auto simp: rel_free_def count_simps)

lemma rel_same:
  "rel_free v c \<Longrightarrow> i < length (pcs c) \<Longrightarrow> has_rel p = has_rel (pcs c ! i)
     \<Longrightarrow> m Rel = regs c Rel \<Longrightarrow> rel_free v (upd c i p m)"
  by (auto simp: rel_free_def count_simps)

lemma rel_holder_unique:
  "rel_free v c \<Longrightarrow> i < length (pcs c) \<Longrightarrow> has_rel (pcs c ! i) \<Longrightarrow> j < length (pcs c) \<Longrightarrow> j \<noteq> i
     \<Longrightarrow> \<not> has_rel (pcs c ! j)"
  using count_of_unique [of has_rel "pcs c" i j] by (auto simp: rel_free_def)

lemma rel_held: "rel_free v c \<Longrightarrow> i < length (pcs c) \<Longrightarrow> has_rel (pcs c ! i) \<Longrightarrow> regs c Rel = 0"
  using count_of_pos [of i "pcs c" has_rel] by (auto simp: rel_free_def)

lemma rel_value: "rel_free v c \<Longrightarrow> regs c Rel \<noteq> 0 \<Longrightarrow> regs c Rel = v"
  by (auto simp: rel_free_def split: if_splits)

lemma gathering_update:
  assumes "gathering g r0 c" and "i < length (pcs c)"
    and "gather_pc g r0 (of_nat (missing c)) p" and "arrived p = arrived (pcs c ! i)"
    and "rel_free r0 (upd c i p m)"
    and "count_of has_cnt ((pcs c)[i := p]) \<le> 1"
    and "m Cnt = (if count_of has_cnt ((pcs c)[i := p]) = 0 then of_nat (missing c) else 0)"
  shows "gathering g r0 (upd c i p m)"
proof -
  have "count_of arrived ((pcs c)[i := p]) = count_of arrived (pcs c)"
    using assms(2,4) by (simp add: count_simps)
  then have "missing (upd c i p m) = missing c" by (simp add: missing_def)
  with assms \<open>count_of arrived _ = _\<close> show ?thesis
    by (auto simp: gathering_def nth_list_update)
qed

lemma gathering_same:
  assumes "gathering g r0 c" and "i < length (pcs c)"
    and "gather_pc g r0 (of_nat (missing c)) p" and "arrived p = arrived (pcs c ! i)"
    and "rel_free r0 (upd c i p m)" and "has_cnt p = has_cnt (pcs c ! i)"
    and "m Cnt = regs c Cnt"
  shows "gathering g r0 (upd c i p m)"
  using assms by (intro gathering_update) (auto simp: gathering_def count_simps)

lemma missing_bounds:
  "gathering g r0 c \<Longrightarrow> 2 \<le> missing c \<and> missing c \<le> length (pcs c) + 1"
  by (auto simp: gathering_def missing_def)

lemma gathering_arrival:
  assumes inv: "gathering g r0 c" and i: "i < length (pcs c)"
    and pc: "pcs c ! i = Cnt_put g (of_nat (missing c))"
    and N: "length (pcs c) + 1 < 2 ^ 32"
    and b: "bstep wb ff n (pcs c ! i) (regs c) = (p, m)"
  shows "gathering g r0 (upd c i p m) \<or> closing ff g r0 (upd c i p m)"
proof -
  let ?k = "missing c"
  have k: "2 \<le> ?k" "?k \<le> length (pcs c) + 1" using missing_bounds [OF inv] by auto
  have dec: "(of_nat ?k - 1 :: u32) = of_nat (?k - 1)" using k by simp
  have gt: "(1 < (of_nat ?k - 1 :: u32)) = (1 < ?k - 1)"
    unfolding dec using k N by (intro of_nat_gt_1) simp
  have m: "m = (regs c)(Cnt := of_nat (?k - 1))"
    unfolding dec [symmetric] using b pc by auto
  have arr: "arrived p" and nh: "\<not> has_rel p" "\<not> has_cnt p" and
    p: "p = (if 1 < ?k - 1 then Wait_lock g else if ff then Fifo_lock g else Reset_lock g)"
    using b pc gt by (auto split: if_splits)
  have A: "count_of arrived ((pcs c)[i := p]) = Suc (count_of arrived (pcs c))"
    using i pc arr by (simp add: count_simps)
  have C0: "count_of has_cnt ((pcs c)[i := p]) = 0"
    using i pc nh inv by (simp add: count_simps gathering_def)
  have rel: "rel_free r0 (upd c i p m)"
    using inv i pc nh m by (intro rel_same) (auto simp: gathering_def)
  have others: "\<not> has_cnt (pcs c ! j)" if "j < length (pcs c)" "j \<noteq> i" for j
    using count_of_unique [of has_cnt "pcs c" i j] inv i pc that by (auto simp: gathering_def)
  have G: "gather_pc g r0 k' (pcs c ! j)" if "j < length (pcs c)" "j \<noteq> i" for j k'
    using inv others [OF that] that by (auto simp: gathering_def intro: gather_other_k)
  show ?thesis
  proof (cases "1 < ?k - 1")
    case True
    have "missing (upd c i p m) = ?k - 1" using A k by (simp add: missing_def)
    moreover have "count_of arrived ((pcs c)[i := p]) < length (pcs c)"
      using True A unfolding missing_def by simp
    ultimately have "gathering g r0 (upd c i p m)"
      using True A C0 rel m p G i by (auto simp: gathering_def nth_list_update)
    then show ?thesis ..
  next
    case False
    then have k2: "?k = 2" using k by simp
    then have "count_of arrived ((pcs c)[i := p]) = length ((pcs c)[i := p])"
      using A k unfolding missing_def by simp
    then have "\<forall>j < length (pcs c). arrived ((pcs c)[i := p] ! j)"
      unfolding count_of_all by simp
    then have "arrived (pcs c ! j)" if "j < length (pcs c)" "j \<noteq> i" for j
      using that by (auto simp: nth_list_update)
    then have "waiting g r0 (pcs c ! j)" if "j < length (pcs c)" "j \<noteq> i" for j
      using G [OF that] that by (blast intro: gather_waiting)
    moreover have "lead_pc ff g (length (pcs c)) (m Cnt) p" using p m k2 by simp
    ultimately have "closing ff g r0 (upd c i p m)"
      using rel i by (auto simp: closing_def nth_list_update intro!: exI [of _ i])
    then show ?thesis ..
  qed
qed

lemma gathering_step:
  assumes inv: "gathering g r0 c" and i: "i < length (pcs c)"
    and N: "length (pcs c) + 1 < 2 ^ 32" and r0: "r0 \<noteq> 0" "g = flip r0" "r0 \<noteq> g"
    and b: "bstep wb ff n (pcs c ! i) (regs c) = (p, m)"
  shows "gathering g r0 (upd c i p m) \<or> closing ff g r0 (upd c i p m)"
proof -
  have pc: "gather_pc g r0 (of_nat (missing c)) (pcs c ! i)"
    and rel: "rel_free r0 c" and c1: "count_of has_cnt (pcs c) \<le> 1"
    and cnt: "regs c Cnt = (if count_of has_cnt (pcs c) = 0 then of_nat (missing c) else 0)"
    using inv i by (auto simp: gathering_def)
  have stay: "upd c i p m = c" if "p = pcs c ! i" "m = regs c" using that by simp
  show ?thesis
  proof (cases "pcs c ! i")
    case Rel_lock
    with b rel_value [OF rel] have "p = pcs c ! i \<and> m = regs c \<or>
        p = Rel_put r0 \<and> m = (regs c)(Rel := 0) \<and> regs c Rel \<noteq> 0"
      by (auto simp: take_reg_def split: if_splits)
    then show ?thesis
    proof
      assume h: "p = Rel_put r0 \<and> m = (regs c)(Rel := 0) \<and> regs c Rel \<noteq> 0"
      with inv i rel Rel_lock have "gathering g r0 (upd c i p m)"
        by (intro gathering_same rel_take) auto
      then show ?thesis ..
    qed (use inv stay in metis)
  next
    case (Rel_put v)
    with b pc r0 have "p = Cnt_lock g" "m = (regs c)(Rel := r0)" by auto
    with inv i rel Rel_put have "gathering g r0 (upd c i p m)"
      by (intro gathering_same rel_give) auto
    then show ?thesis ..
  next
    case (Cnt_lock h)
    show ?thesis
    proof (cases "regs c Cnt = 0")
      case True
      with b Cnt_lock have "upd c i p m = c" by (intro stay) (auto simp: take_reg_def)
      with inv show ?thesis by simp
    next
      case False
      with cnt have z: "count_of has_cnt (pcs c) = 0" and v: "regs c Cnt = of_nat (missing c)"
        by (auto split: if_splits)
      with b False Cnt_lock pc have p: "p = Cnt_put g (of_nat (missing c))"
        and m: "m = (regs c)(Cnt := 0)"
        by (auto simp: take_reg_def)
      with i Cnt_lock z have "count_of has_cnt ((pcs c)[i := p]) = 1" by (simp add: count_simps)
      with inv i rel Cnt_lock p m have "gathering g r0 (upd c i p m)"
        by (intro gathering_update rel_same) auto
      then show ?thesis ..
    qed
  next
    case (Cnt_put h v)
    with pc have "pcs c ! i = Cnt_put g (of_nat (missing c))" by simp
    then show ?thesis using gathering_arrival [OF inv i _ N b] by blast
  next
    case (Wait_lock h)
    with b pc r0 rel_value [OF rel] have "p = pcs c ! i \<and> m = regs c \<or>
        p = Wait_put g r0 \<and> m = (regs c)(Rel := 0) \<and> regs c Rel \<noteq> 0"
      by (auto simp: take_reg_def split: if_splits)
    then show ?thesis
    proof
      assume h: "p = Wait_put g r0 \<and> m = (regs c)(Rel := 0) \<and> regs c Rel \<noteq> 0"
      with inv i rel Wait_lock have "gathering g r0 (upd c i p m)"
        by (intro gathering_same rel_take) auto
      then show ?thesis ..
    qed (use inv stay in metis)
  next
    case (Wait_put h v)
    with b pc r0 have "p = Wait_lock g" "m = (regs c)(Rel := r0)" by auto
    with inv i rel Wait_put have "gathering g r0 (upd c i p m)"
      by (intro gathering_same rel_give) auto
    then show ?thesis ..
  qed (use pc in auto)
qed


lemma closing_lead:
  assumes "l < length (pcs c)" and "\<forall>j < length (pcs c). j \<noteq> l \<longrightarrow> waiting g r0 (pcs c ! j)"
    and "lead_pc ff g (length (pcs c)) (m Cnt) p" and "rel_free r0 (upd c l p m)"
  shows "closing ff g r0 (upd c l p m)"
  using assms by (auto simp: closing_def intro!: exI [of _ l])

lemma closing_other:
  assumes "l < length (pcs c)" and "\<forall>j < length (pcs c). j \<noteq> l \<longrightarrow> waiting g r0 (pcs c ! j)"
    and "lead_pc ff g (length (pcs c)) (regs c Cnt) (pcs c ! l)" and "i < length (pcs c)" "i \<noteq> l"
    and "waiting g r0 p" "m Cnt = regs c Cnt" and "rel_free r0 (upd c i p m)"
  shows "closing ff g r0 (upd c i p m)"
  using assms by (auto simp: closing_def nth_list_update intro!: exI [of _ l])

lemma lead_has_rel: "lead_pc ff g N k p \<Longrightarrow> has_rel p \<longleftrightarrow> p = Go_put g"
  by (cases p) auto

lemma released_by_lead:
  assumes l: "l < length (pcs c)" and w: "\<forall>j < length (pcs c). j \<noteq> l \<longrightarrow> waiting g r0 (pcs c ! j)"
    and pc: "pcs c ! l = Go_put g" and k: "regs c Cnt = of_nat (length (pcs c)) + 1"
    and rel: "rel_free r0 c"
  shows "released wb g (upd c l Passed ((regs c)(Rel := g)))"
proof -
  have "pcs c ! j = Wait_lock g" if "j < length (pcs c)" "j \<noteq> l" for j
    using w that rel_holder_unique [OF rel l _ that] pc by (fastforce simp: waiting_def)
  moreover have "passed c = 0"
    using calculation pc by (subst count_of_zero) (metis bpc.distinct)
  moreover have "passed (upd c l Passed ((regs c)(Rel := g))) = 1"
    using l pc calculation(2) by (simp add: count_simps)
  moreover have "rel_free g (upd c l Passed ((regs c)(Rel := g)))"
    using rel l pc by (intro rel_give) auto
  ultimately show ?thesis
    using l k by (auto simp: released_def leaving_def nth_list_update)
qed

lemma closing_step_lead:
  assumes l: "l < length (pcs c)" and w: "\<forall>j < length (pcs c). j \<noteq> l \<longrightarrow> waiting g r0 (pcs c ! j)"
    and lead: "lead_pc ff g (length (pcs c)) (regs c Cnt) (pcs c ! l)" and rel: "rel_free r0 c"
    and n: "n = of_nat (length (pcs c))"
    and b: "bstep wb ff n (pcs c ! l) (regs c) = (p, m)" and move: "\<not> (p = pcs c ! l \<and> m = regs c)"
  shows "closing ff g r0 (upd c l p m) \<or> released wb g (upd c l p m)"
proof (cases "pcs c ! l")
  case (Go_lock h)
  have nz: "regs c Rel \<noteq> 0" using b Go_lock move by (auto simp: take_reg_def)
  with b Go_lock lead have p: "p = Go_put g" and m: "m = (regs c)(Rel := 0)"
    by (auto simp: take_reg_def)
  have "closing ff g r0 (upd c l p m)"
    using l w lead Go_lock rel nz p m by (intro closing_lead rel_take) auto
  then show ?thesis ..
next
  case (Go_put h)
  with lead b have "p = Passed" "m = (regs c)(Rel := g)" by auto
  with released_by_lead [OF l w _ _ rel] Go_put lead show ?thesis by auto
next
  case (Reset_put h)
  with lead b n have "lead_pc ff g (length (pcs c)) (m Cnt) p" "\<not> has_rel p"
    "m Rel = regs c Rel" by auto
  with l w rel Reset_put have "closing ff g r0 (upd c l p m)"
    by (intro closing_lead rel_same) auto
  then show ?thesis ..
qed (use lead b move in \<open>auto simp: take_reg_def split: if_splits
        intro!: disjI1 closing_lead [OF l w] rel_same [OF rel l]\<close>)

lemma closing_step_other:
  assumes other: "\<And>p m. waiting g r0 p \<Longrightarrow> m Cnt = regs c Cnt \<Longrightarrow> rel_free r0 (upd c i p m) \<Longrightarrow> Q p m"
    and i: "i < length (pcs c)" and wi: "waiting g r0 (pcs c ! i)" and rel: "rel_free r0 c"
    and r0: "r0 \<noteq> 0" "r0 \<noteq> g"
    and b: "bstep wb ff n (pcs c ! i) (regs c) = (p, m)" and move: "\<not> (p = pcs c ! i \<and> m = regs c)"
  shows "Q p m"
proof -
  from wi consider (lock) "pcs c ! i = Wait_lock g" | (put) "pcs c ! i = Wait_put g r0"
    by (auto simp: waiting_def)
  then show ?thesis
  proof cases
    case lock
    with b move have nz: "regs c Rel \<noteq> 0" by (auto simp: take_reg_def)
    with b lock rel_value [OF rel] r0 have p: "p = Wait_put g r0" and m: "m = (regs c)(Rel := 0)"
      by (auto simp: take_reg_def)
    show ?thesis
      using lock nz p m i rel by (intro other rel_take) (auto simp: waiting_def)
  next
    case put
    with b r0 have p: "p = Wait_lock g" and m: "m = (regs c)(Rel := r0)" by auto
    show ?thesis
      using put p m i rel by (intro other rel_give) (auto simp: waiting_def)
  qed
qed

lemma closing_step:
  assumes inv: "closing ff g r0 c" and i: "i < length (pcs c)"
    and r0: "r0 \<noteq> 0" "r0 \<noteq> g" and n: "n = of_nat (length (pcs c))"
    and b: "bstep wb ff n (pcs c ! i) (regs c) = (p, m)"
  shows "closing ff g r0 (upd c i p m) \<or> released wb g (upd c i p m)"
proof (cases "p = pcs c ! i \<and> m = regs c")
  case True
  then have "upd c i p m = c" by simp
  with inv show ?thesis by simp
next
  case move: False
  obtain l where l: "l < length (pcs c)"
    and lead: "lead_pc ff g (length (pcs c)) (regs c Cnt) (pcs c ! l)"
    and w: "\<forall>j < length (pcs c). j \<noteq> l \<longrightarrow> waiting g r0 (pcs c ! j)"
    and rel: "rel_free r0 c"
    using inv by (auto simp: closing_def)
  show ?thesis
  proof (cases "i = l")
    case True
    with closing_step_lead [OF l w lead rel n] b move show ?thesis by blast
  next
    case False
    with w i have "waiting g r0 (pcs c ! i)" by blast
    from closing_step_other [OF closing_other [OF l w lead i False] i this rel r0 b move]
    show ?thesis ..
  qed
qed

lemma released_step:
  assumes inv: "released wb g c" and i: "i < length (pcs c)" and g: "g \<noteq> 0"
    and b: "bstep wb ff n (pcs c ! i) (regs c) = (p, m)"
  shows "released wb g (upd c i p m)"
proof -
  have stay: "upd c i p m = c" if "p = pcs c ! i" "m = regs c" using that by simp
  from inv i consider (lock) "pcs c ! i = Wait_lock g" | (gone) "pcs c ! i = Passed"
    | (put) "wb" "pcs c ! i = Wait_put g g"
    by (auto simp: released_def leaving_def)
  then show ?thesis
  proof cases
    case lock
    show ?thesis
    proof (cases "regs c Rel = 0")
      case True
      with b lock have "upd c i p m = c" by (intro stay) (auto simp: take_reg_def)
      with inv show ?thesis by simp
    next
      case False
      show ?thesis
      proof (cases wb)
        case True
        with inv False have rel: "rel_free g c" and "regs c Rel = g"
          using rel_value by (auto simp: released_def)
        with b lock True False have p: "p = Wait_put g g" and m: "m = (regs c)(Rel := 0)"
          by (auto simp: take_reg_def)
        have "rel_free g (upd c i p m)"
          using rel False i lock p m by (intro rel_take) auto
        with True inv i p m lock show ?thesis
          by (auto simp: released_def leaving_def nth_list_update count_simps)
      next
        case nwb: False
        with inv False have one: "passed c = 1" and "regs c Rel = g"
          by (auto simp: released_def split: if_splits)
        with b lock nwb g have p: "p = Passed" and m: "m = (regs c)(Rel := 0)"
          by (auto simp: take_reg_def)
        with one i lock have "passed (upd c i p m) = 2" by (simp add: count_simps)
        with nwb inv i p m show ?thesis
          by (auto simp: released_def leaving_def nth_list_update)
      qed
    qed
  next
    case gone
    with b have "upd c i p m = c" by (intro stay) auto
    with inv show ?thesis by simp
  next
    case put
    with b have p: "p = Passed" and m: "m = (regs c)(Rel := g)" by auto
    have "rel_free g (upd c i p m)"
      using inv put p m i by (intro rel_give [of g]) (auto simp: released_def)
    moreover have "passed (upd c i p m) = Suc (passed c)"
      using i put p by (simp add: count_simps)
    ultimately show ?thesis
      using put inv i p m by (auto simp: released_def leaving_def nth_list_update)
  qed
qed

lemma length_step: "bar_next wb ff n c c' \<Longrightarrow> length (pcs c') = length (pcs c)"
  by (induction rule: bar_next.induct) auto

lemma length_runs: "bar_runs wb ff n c c' \<Longrightarrow> length (pcs c') = length (pcs c)"
  by (induction rule: rtranclp_induct) (auto dest: length_step)

text \<open>A phase: the value the release register starts with and the one the group moves to.\<close>

definition phase :: "u32 \<Rightarrow> u32 \<Rightarrow> bool" where
  "phase r0 g \<longleftrightarrow> r0 \<in> {1, 2} \<and> g = flip r0"

lemma phaseD: "phase r0 g \<Longrightarrow> r0 \<noteq> 0 \<and> g \<noteq> 0 \<and> r0 \<noteq> g \<and> g = flip r0 \<and> phase g r0"
  by (auto simp: phase_def flip_def)

lemma bar_inv_fifo: "bar_inv wb ff g r0 (c\<lparr>regs := (regs c)(Fifo := v)\<rparr>) = bar_inv wb ff g r0 c"
  by (simp add: bar_inv_def gathering_def closing_def released_def rel_free_def missing_def)

lemma bar_inv_step:
  assumes "bar_next wb ff n c c'" and "bar_inv wb ff g r0 c" and "phase r0 g"
    and "n = of_nat (length (pcs c))" and "length (pcs c) + 1 < 2 ^ 32"
  shows "bar_inv wb ff g r0 c'"
  using assms(1)
proof (cases rule: bar_next.cases)
  case (thread i p m)
  then show ?thesis
    using assms(2-) gathering_step [of g r0 c i wb ff n p m] closing_step [of ff g r0 c i n wb p m]
      released_step [of wb g c i ff n p m] phaseD [OF assms(3)]
    unfolding bar_inv_def by blast
next
  case (other_end v)
  then show ?thesis using assms(2) by (simp add: bar_inv_fifo)
qed

lemma bar_inv_runs:
  assumes "bar_runs wb ff (of_nat N) (bar_start N r0 f) c" and "phase r0 g"
    and "0 < N" and "N + 1 < 2 ^ 32"
  shows "bar_inv wb ff g r0 c \<and> length (pcs c) = N"
  using assms(1)
proof (induction rule: rtranclp_induct)
  case base
  show ?case using start_gathering [OF assms(3)] by (simp add: bar_inv_def bar_start_def)
next
  case (step c c')
  then show ?case
    using bar_inv_step [OF step.hyps(2) _ assms(2)] length_step [OF step.hyps(2)] assms(4) by auto
qed

section \<open>Safety, reuse and progress\<close>

lemma bar_inv_passed:
  assumes "bar_inv wb ff g r0 c" and "i < length (pcs c)" and "pcs c ! i = Passed"
  shows "released wb g c"
proof -
  have "\<not> gathering g r0 c" using assms(2,3) by (force simp: gathering_def)
  moreover have "\<not> closing ff g r0 c"
    using assms(2,3) by (force simp: closing_def waiting_def)
  ultimately show ?thesis using assms(1) by (simp add: bar_inv_def)
qed

definition all_passed :: "bcfg \<Rightarrow> bool" where
  "all_passed c \<longleftrightarrow> (\<forall>p \<in> set (pcs c). p = Passed)"

lemma released_all_passed:
  assumes inv: "bar_inv wb ff g r0 c" and all: "all_passed c" and "0 < length (pcs c)"
  shows "released wb g c" and "passed c = length (pcs c)"
    and "\<forall>j < length (pcs c). pcs c ! j = Passed"
proof -
  show p: "\<forall>j < length (pcs c). pcs c ! j = Passed" using all by (simp add: all_passed_def)
  then show "passed c = length (pcs c)" by (simp add: count_of_all)
  from bar_inv_passed [OF inv assms(3)] p assms(3) show "released wb g c" by simp
qed













section \<open>The properties\<close>

text \<open>
  C11. Barrier safety: whatever the interleaving, with either wait and with or without a
  FIFO event, once some thread has left the barrier every thread of the group has stored
  its arrival.
\<close>

theorem barrier_safe:
  assumes "phase r0 g" and "N + 1 < 2 ^ 32"
    and "bar_runs wb ff (of_nat N) (bar_start N r0 f) c"
    and "i < N" and "pcs c ! i = Passed"
  shows "\<forall>j < N. arrived (pcs c ! j)"
proof -
  have inv: "bar_inv wb ff g r0 c" and len: "length (pcs c) = N"
    using bar_inv_runs [OF assms(3,1) _ assms(2)] assms(4) by auto
  with bar_inv_passed [OF inv] assms(4,5) have "released wb g c" by simp
  then show ?thesis using len by (auto simp: released_def leaving_def)
qed

text \<open>
  C13. The barrier can be entered again: with the wait that writes back, once all threads
  have left, the registers are the start of a barrier in the opposite phase.
\<close>

theorem barrier_reusable:
  assumes "phase r0 g" and "0 < N" and "N + 1 < 2 ^ 32"
    and "bar_runs True ff (of_nat N) (bar_start N r0 f) c"
    and "all_passed c"
  shows "c\<lparr>pcs := replicate N Rel_lock\<rparr> = bar_start N g (regs c Fifo) \<and> phase g r0"
proof
  have inv: "bar_inv True ff g r0 c" and len: "length (pcs c) = N"
    using bar_inv_runs [OF assms(4,1,2,3)] by auto
  note rel = released_all_passed [OF inv assms(5)]
  have "released True g c" and "\<forall>j < N. pcs c ! j = Passed" using rel len assms(2) by auto
  moreover from this have "count_of has_rel (pcs c) = 0" using len by (simp add: count_of_zero)
  ultimately have "regs c Rel = g" "regs c Cnt = of_nat N + 1"
    using len by (auto simp: released_def rel_free_def)
  then have "regs c = regs (bar_start N g (regs c Fifo))"
    by (intro ext) (simp add: bar_start_def split: breg.split)
  then show "c\<lparr>pcs := replicate N Rel_lock\<rparr> = bar_start N g (regs c Fifo)"
    by (simp add: bar_start_def)
  show "phase g r0" using assms(1) phaseD by blast
qed


text \<open>
  C15. The wait of the GN, PEAK and NU+ runtimes consumes the release value: at most two
  threads ever leave one barrier, so a group of three or more never does.
\<close>

theorem barrier_consuming_deadlock:
  assumes "phase r0 g" and "3 \<le> N" and "N + 1 < 2 ^ 32"
    and "bar_runs False ff (of_nat N) (bar_start N r0 f) c"
  shows "passed c \<le> 2 \<and> \<not> all_passed c"
proof
  have inv: "bar_inv False ff g r0 c" and len: "length (pcs c) = N"
    using bar_inv_runs [OF assms(4,1) _ assms(3)] assms(2) by auto
  show two: "passed c \<le> 2"
  proof (cases "passed c = 0")
    case False
    then obtain i where "i < length (pcs c)" "pcs c ! i = Passed"
      using count_of_ex [of "\<lambda>p. p = Passed" "pcs c"] by auto
    from bar_inv_passed [OF inv this] show ?thesis by (simp add: released_def)
  qed simp
  show "\<not> all_passed c"
    using released_all_passed(2) [OF inv] two len assms(2) by auto
qed

text \<open>
  A pair does leave a consuming barrier, but leaves the release register empty, so
  the next barrier's first lock finds 0.
\<close>

lemma barrier_consuming_pair:
  assumes "phase r0 g"
    and "bar_runs False ff 2 (bar_start 2 r0 f) c" and "all_passed c"
  shows "regs c Rel = 0"
proof -
  have inv: "bar_inv False ff g r0 c" and len: "length (pcs c) = 2"
    using bar_inv_runs [of False ff 2 r0 f c g] assms by auto
  with released_all_passed [OF inv assms(3)] show ?thesis by (simp add: released_def)
qed

section \<open>Concrete runs\<close>

definition solo_pair :: "nat list" where
  "solo_pair = replicate 4 0 @ replicate 8 1"

lemma solo_pair_run:
  "pcs (bar_sched True False (of_nat 2) solo_pair (bar_start 2 1 0)) = [Wait_lock 2, Passed]"
  by code_simp

lemma phase_1_2: "phase 1 2"
  by (simp add: phase_def flip_def)

lemma barrier_safe_witness:
  "arrived (pcs (bar_sched True False (of_nat 2) solo_pair (bar_start 2 1 0)) ! 0)"
  using barrier_safe [OF phase_1_2 _ bar_sched_runs, of 2 1 True False solo_pair 0]
  by (simp only: solo_pair_run) simp

definition full_pair :: "bool \<Rightarrow> bcfg" where
  "full_pair wb = bar_sched wb False (of_nat 2) (solo_pair @ [0, 0]) (bar_start 2 1 0)"

lemma full_pair_runs: "bar_runs wb False (of_nat 2) (bar_start 2 1 0) (full_pair wb)"
  unfolding full_pair_def by (rule bar_sched_runs)

lemma full_pair_pcs: "pcs (full_pair wb) = [Passed, Passed]"
  by (cases wb; simp only:) code_simp+

lemma full_pair_all: "all_passed (full_pair wb)"
  by (simp add: all_passed_def full_pair_pcs)

lemma barrier_reusable_witness:
  "(full_pair True)\<lparr>pcs := replicate 2 Rel_lock\<rparr> = bar_start 2 2 (regs (full_pair True) Fifo)
     \<and> phase 2 1"
  by (rule barrier_reusable [OF phase_1_2 _ _ full_pair_runs full_pair_all]) simp_all


definition trio :: bcfg where
  "trio = bar_sched False False (of_nat 3) (replicate 4 0 @ replicate 4 1 @ replicate 8 2 @ [0])
            (bar_start 3 1 0)"

lemma barrier_consuming_deadlock_witness: "passed trio \<le> 2 \<and> \<not> all_passed trio"
  unfolding trio_def
  by (rule barrier_consuming_deadlock [OF phase_1_2 _ _ bar_sched_runs]) simp_all

end
