(* ===== verification/Dev_Props.thy ===== *)
theory Dev_Props
  imports Dev_Threads Dev_Barrier
begin

text \<open>
  Properties of the device runtime: what its waits, its spawn and its initialisation do
  on each unit, and how a spawned group meets the two interleaving machines.
\<close>

section \<open>Waits\<close>

text \<open>
  The GN wait returns exactly when the register holds the awaited, non-zero state,
  and then leaves the register empty and everything else as it was; in every other
  state of the memory it spins for ever.
\<close>

lemma gn_wait_consumes:
  "gn_mango_wait e v w =
     (if gn_reg w e = v \<and> v \<noteq> 0 then Some (w\<lparr>gw_mem := (gw_mem w)(vaddr e := 0)\<rparr>) else None)"
  by (rule gn_wait_exact)

lemma gn_write_back: "mango_gn_write_synchronization e (gn_reg w e) (w\<lparr>gw_mem := (gw_mem w)(vaddr e := 0)\<rparr>) = w"
  by (simp add: mango_gn_write_synchronization_def gn_reg_def)

lemma gn_arch_write: "mango_write_synchronization gn_arch = mango_gn_write_synchronization"
  by (simp add: fun_eq_iff mango_write_synchronization_def gn_arch_def)

text \<open>
  The wait of the common runtime, on the same GN registers, returns under the same
  condition but leaves the memory unchanged, so a wait can be repeated.
\<close>

lemma common_wait_keeps:
  "mango_wait gn_arch e v w = (if gn_reg w e = v \<and> v \<noteq> 0 then Some w else None)"
proof (cases "gn_reg w e = v \<and> v \<noteq> 0")
  case True
  with gn_lock_exact [of e w] show ?thesis
    using gn_write_back [of e w] gn_arch_write
    by (simp add: mango_wait.simps [of gn_arch e v w] gn_mango_lock_def)
next
  case False
  then show ?thesis
    using gn.wait_needs_value [of e v w] by (cases "mango_wait gn_arch e v w") auto
qed

text \<open>
  On GN a group can be joined once: when \<^verbatim>\<open>mango_join\<close> has returned, a second join of
  the same event never returns.
\<close>

lemma gn_second_join_blocks:
  assumes "gn_mango_join e w = Some w'"
  shows "gn_mango_join e w' = None"
  using assms by (auto simp: gn_mango_join_def gn_wait_exact gn_reg_def split: if_splits)

lemma barrier_wait_cong:
  assumes "wait A = wait' A"
  shows "barrier_with wait A a f w = barrier_with wait' A a f w"
  unfolding barrier_with_def barrier_fifo_def assms ..

text \<open>The NU+ runtime waits and joins exactly as the PEAK runtime does, on any bus.\<close>

lemma nuplus_waits_as_peak:
  "nuplus_mango_wait B e v w = peak_mango_wait B e v w
     \<and> nuplus_mango_join B e w = peak_mango_join B e w
     \<and> nuplus_mango_barrier B a f w = peak_mango_barrier B a f w"
proof -
  have "wait_consume_busy (peak_arch B) = wait_consume (peak_arch B)"
    by (intro ext busy_wait_eq) (simp add: peak_arch_def mango_peak_suspend_def)
  then show ?thesis
    by (simp add: nuplus_mango_wait_def peak_mango_wait_def nuplus_mango_join_def
        peak_mango_join_def nuplus_mango_barrier_def peak_mango_barrier_def nuplus_arch_eq
        barrier_wait_cong [of wait_consume_busy])
qed

section \<open>Spawning a group on GN\<close>








definition some_ctx :: mango_context where
  "some_ctx = \<lparr>event_a = \<lparr>vaddr = 0\<rparr>, event_b = \<lparr>vaddr = 4\<rparr>, event_r = \<lparr>vaddr = 8\<rparr>,
     event_exit = \<lparr>vaddr = 12\<rparr>, memory_size = 64, memory = 0\<rparr>"






section \<open>A thread running alone\<close>





section \<open>Start-up arguments\<close>

text \<open>
  C27. Start-up on GN: when the semaphore, the file and the mapping are available, the
  five hexadecimal arguments become the size of the mapping and the addresses of the
  four events, each at its offset from the mapped base.
\<close>

theorem gn_init_reads_arguments:
  assumes "sem_open_ok os" and "open_ok os" and "mmap_at os (of_nat msize) = Some base"
    and "msize < 2 ^ 63" and "x < 2 ^ 61" "a < 2 ^ 61" "b < 2 ^ 61" "r < 2 ^ 61"
  shows "\<exists>ctx'. mango_gn_init os [prog, show_hex msize, show_hex (4 * x), show_hex (4 * a),
              show_hex (4 * b), show_hex (4 * r)] ctx = Inr (SUCCESS, ctx')
     \<and> memory_size ctx' = of_nat msize \<and> memory ctx' = base
     \<and> vaddr (event_exit ctx') = base + of_nat (4 * x)
     \<and> vaddr (event_a ctx') = base + of_nat (4 * a)
     \<and> vaddr (event_b ctx') = base + of_nat (4 * b)
     \<and> vaddr (event_r ctx') = base + of_nat (4 * r)"
proof -
  have q: "vaddr (event_at base (int (4 * n))) = base + of_nat (4 * n)" for n
    by (simp add: event_at_def quot4_def sgn_if)
  have l: "strtol16 (show_hex (4 * n)) = int (4 * n)" if "n < 2 ^ 61" for n
    using that by (intro strtol16_show) simp
  have s: "strtol16 (show_hex msize) = int msize" using assms(4) by (rule strtol16_show)
  show ?thesis
    using assms(1-3) q
    by (simp add: mango_gn_init_def arg_long_def l [OF assms(5)] l [OF assms(6)] l [OF assms(7)]
        l [OF assms(8)] s del: of_nat_mult)
qed

lemma gn_init_reads_arguments_witness:
  "\<exists>ctx'. mango_gn_init \<lparr>sem_open_ok = True, open_ok = True, mmap_at = (\<lambda>_. Some 0x1000)\<rparr>
      [''kernel'', show_hex 64, show_hex (4 * 1), show_hex (4 * 2), show_hex (4 * 3), show_hex (4 * 4)]
      some_ctx = Inr (SUCCESS, ctx') \<and> vaddr (event_r ctx') = 0x1010"
  using gn_init_reads_arguments [of "\<lparr>sem_open_ok = True, open_ok = True, mmap_at = (\<lambda>_. Some 0x1000)\<rparr>"
      64 "0x1000" 1 2 3 4 "''kernel''" some_ctx]
  by simp blast



end
