(* ===== verification/Host_Event.thy ===== *)
theory Host_Event
  imports Dev_Runtime
begin

text \<open>
  Host-side events (\<^verbatim>\<open>host/include/event.h\<close>, \<^verbatim>\<open>host/src/event.cpp\<close>) over the platform:
  the HN library, the BarbequeRTRM client and the file system, whose functions are the
  fields of \<open>platform\<close> and act on a world \<open>'w\<close>. The return codes of register and memory
  accesses are only logged by the code, so those fields return none. The loops of
  \<^verbatim>\<open>lock\<close> and \<^verbatim>\<open>wait_state\<close> may spin for ever: \<open>None\<close>.
\<close>

unbundle bit_operations_syntax

section \<open>The platform\<close>

text \<open>
  What the resource manager is asked for, and what it answers, per task graph: the
  architecture kinds of \<^verbatim>\<open>bbque::ArchType_t\<close> the code names (and the others), tasks
  with their buffers and the image size per architecture, buffers with size and event,
  the output buffers; then processors, memory banks and addresses.
\<close>

datatype bbq_arch = BBQ_NONE | BBQ_STOP | BBQ_GN | BBQ_DCT | BBQ_GPU | BBQ_ARM | BBQ_PEAK | BBQ_NUPLUS | BBQ_OTHER

record bbq_task =
  bt_in :: "u32 list"
  bt_out :: "u32 list"
  bt_threads :: int
  bt_targets :: "(bbq_arch \<times> u32) list"

record bbq_request =
  rq_tasks :: "(u32, bbq_task) smap"
  rq_buffers :: "(u32, u32 \<times> u32) smap"
  rq_events :: "u32 list"
  rq_outputs :: "u32 list"

record bbq_mapping =
  bm_processor :: u32
  bm_arch :: bbq_arch
  bm_cores :: int
  bm_targets :: "(bbq_arch \<times> u32 \<times> u32) list"

record bbq_reply =
  rp_cluster :: u32
  rp_tasks :: "(u32, bbq_mapping) smap"
  rp_buffers :: "(u32, u32 \<times> u32) smap"
  rp_events :: "(u32, u32) smap"

record tlb_entry =
  te_unit :: u32
  te_entry :: int
  te_start :: u32
  te_end :: u32
  te_phy :: u32
  te_mem :: bool
  te_reg :: bool
  te_bank :: u32
  te_cluster :: u32

text \<open>A thread of a FIFO transfer: what it runs, on which buffer, for how many bytes.\<close>

datatype fifo_task = Synch_write nat "u8 list" u32 | Synch_read nat nat u32

record 'w platform =
  hn_read_synch_register :: "u32 \<Rightarrow> u32 \<Rightarrow> 'w \<Rightarrow> u32 \<times> 'w"
  hn_write_synch_register :: "u32 \<Rightarrow> u32 \<Rightarrow> u32 \<Rightarrow> 'w \<Rightarrow> 'w"
  hn_write_memory :: "u32 \<Rightarrow> u32 \<Rightarrow> u8 list \<Rightarrow> u32 \<Rightarrow> 'w \<Rightarrow> 'w"
  hn_read_memory :: "u32 \<Rightarrow> u32 \<Rightarrow> nat \<Rightarrow> u32 \<Rightarrow> 'w \<Rightarrow> u8 list \<times> 'w"
  hn_set_tlb :: "tlb_entry \<Rightarrow> 'w \<Rightarrow> 'w"
  hn_write_image :: "string \<Rightarrow> u32 \<Rightarrow> u32 \<Rightarrow> u32 \<Rightarrow> 'w \<Rightarrow> bool \<times> 'w"
  hn_run_kernel :: "u32 \<Rightarrow> u32 \<Rightarrow> string \<Rightarrow> u32 \<Rightarrow> 'w \<Rightarrow> bool \<times> 'w"
  hn_num_clusters :: "'w \<Rightarrow> nat"
  hn_num_tiles :: "nat \<Rightarrow> 'w \<Rightarrow> nat"
  hn_memory_size :: "nat \<Rightarrow> nat \<Rightarrow> 'w \<Rightarrow> u32"
  hn_initialize :: "'w \<Rightarrow> bool \<times> 'w"
  hn_end :: "'w \<Rightarrow> 'w"
  file_good :: "string \<Rightarrow> 'w \<Rightarrow> bool"
  bbq_notify_event :: "u32 \<Rightarrow> 'w \<Rightarrow> 'w"
  bbq_task_start :: "u32 \<Rightarrow> 'w \<Rightarrow> 'w"
  bbq_task_stop :: "u32 \<Rightarrow> 'w \<Rightarrow> 'w"
  bbq_shutdown :: "'w \<Rightarrow> 'w"
  bbq_allocate :: "bbq_request \<Rightarrow> 'w \<Rightarrow> bbq_reply \<times> 'w"
  thread_start :: "fifo_task \<Rightarrow> 'w \<Rightarrow> 'w"
  thread_join :: "fifo_task \<Rightarrow> 'w \<Rightarrow> 'w option"
  gnemu :: bool
  uninit :: u32

section \<open>Events\<close>

text \<open>
  The callback bound by \<^verbatim>\<open>set_callback\<close>: the resource manager's event notification of a
  buffer, or the context's end-of-kernel handler. A FIFO thread comes with the flag that it
  is still joinable.
\<close>

datatype callback = Notify_event u32 | Kernel_termination u32

record event =
  ev_id :: u32
  ev_phy :: u32
  ev_cluster :: u32
  ev_in :: "u32 list"
  ev_out :: "u32 list"
  ev_fifo :: "(fifo_task \<times> bool) option"
  ev_callback :: "callback option"
  ev_completion :: bool

definition new_event :: "u32 \<Rightarrow> u32 \<Rightarrow> u32 list \<Rightarrow> u32 list \<Rightarrow> bool \<Rightarrow> event" where
  "new_event junk i ins outs completion =
     \<lparr>ev_id = i, ev_phy = junk, ev_cluster = junk, ev_in = ins, ev_out = outs,
      ev_fifo = None, ev_callback = None, ev_completion = completion\<rparr>"

definition event_read :: "'w platform \<Rightarrow> event \<Rightarrow> 'w \<Rightarrow> u32 \<times> 'w" where
  "event_read P e w = hn_read_synch_register P (ev_phy e) (ev_cluster e) w"

definition event_store :: "'w platform \<Rightarrow> event \<Rightarrow> u32 \<Rightarrow> 'w \<Rightarrow> 'w" where
  "event_store P e value w = hn_write_synch_register P (ev_phy e) value (ev_cluster e) w"

partial_function (option) event_lock :: "'w platform \<Rightarrow> event \<Rightarrow> 'w \<Rightarrow> (u32 \<times> 'w) option" where
  "event_lock H e w =
     (case event_read H e w of (value, w') \<Rightarrow>
        if value = 0 then event_lock H e w' else Some (value, w'))"

partial_function (option) wait_state :: "'w platform \<Rightarrow> event \<Rightarrow> u32 \<Rightarrow> 'w \<Rightarrow> 'w option" where
  "wait_state H e state w =
     do {
       (value, w1) \<leftarrow> event_lock H e w;
       if value \<noteq> state then wait_state H e state (event_store H e value w1) else Some w1
     }"

text \<open>Running a bound callback.\<close>

definition run_callback :: "'w platform \<Rightarrow> callback option \<Rightarrow> 'w \<Rightarrow> 'w" where
  "run_callback P cb w =
     (case cb of None \<Rightarrow> w
      | Some (Notify_event b) \<Rightarrow> bbq_notify_event P b w
      | Some (Kernel_termination k) \<Rightarrow> bbq_task_stop P k w)"

text \<open>
  \<^verbatim>\<open>Event::write\<close> and its override in \<^verbatim>\<open>KernelCompletionEvent\<close>, which notifies the
  callback when the value is READ.
\<close>

definition event_write :: "'w platform \<Rightarrow> event \<Rightarrow> u32 \<Rightarrow> 'w \<Rightarrow> 'w" where
  "event_write P e value w =
     (let w1 = event_store P e value w in
      if ev_completion e \<and> value = status_code READ \<and> ev_callback e \<noteq> None
      then run_callback P (ev_callback e) w1 else w1)"

text \<open>
  \<^verbatim>\<open>Event::wait\<close>: with a FIFO thread it waits for the end of the transfer and joins the
  thread; joining a thread a second time throws in a \<^verbatim>\<open>noexcept\<close> function. The event
  keeps its thread object. The override of \<^verbatim>\<open>KernelCompletionEvent\<close> then runs the
  callback.
\<close>

definition base_wait :: "'w platform \<Rightarrow> event \<Rightarrow> 'w \<Rightarrow> ((fault + event) \<times> 'w) option" where
  "base_wait P e w =
     (case ev_fifo e of
        Some (task, joinable) \<Rightarrow>
          do {
            w1 \<leftarrow> wait_state P e (status_code END_FIFO_OPERATION) w;
            if joinable
            then do { w2 \<leftarrow> thread_join P task w1; Some (Inr (e\<lparr>ev_fifo := Some (task, False)\<rparr>), w2) }
            else Some (Inl Terminated, w1)
          }
      | None \<Rightarrow> do { w1 \<leftarrow> wait_state P e 1 w; Some (Inr e, w1) })"

definition event_wait :: "'w platform \<Rightarrow> event \<Rightarrow> 'w \<Rightarrow> ((fault + event) \<times> 'w) option" where
  "event_wait P e w =
     do {
       (res, w1) \<leftarrow> base_wait P e w;
       Some (case res of
          Inl f \<Rightarrow> (Inl f, w1)
        | Inr e' \<Rightarrow> (Inr e', if ev_completion e \<and> ev_callback e \<noteq> None
                            then run_callback P (ev_callback e) w1 else w1))
     }"

section \<open>Host events are registers of the same contract\<close>

text \<open>
  A host event is addressed by its offset in the tile register and its cluster; packing
  both in one address makes the host's accesses an instance of the device's operations.
\<close>

definition ev_addr :: "event \<Rightarrow> mango_event" where
  "ev_addr e = \<lparr>vaddr = push_bit 32 (ucast (ev_cluster e)) OR ucast (ev_phy e)\<rparr>"

definition addr_phy :: "mango_event \<Rightarrow> u32" where
  "addr_phy a = ucast (vaddr a)"

definition addr_cluster :: "mango_event \<Rightarrow> u32" where
  "addr_cluster a = ucast (drop_bit 32 (vaddr a))"

lemma addr_phy_ev [simp]: "addr_phy (ev_addr e) = ev_phy e"
  unfolding addr_phy_def ev_addr_def
  by (simp add: bit_eq_iff) (auto simp: bit_simps)

lemma addr_cluster_ev [simp]: "addr_cluster (ev_addr e) = ev_cluster e"
  unfolding addr_cluster_def ev_addr_def
  by (simp add: bit_eq_iff) (auto simp: bit_simps dest: bit_imp_le_length)

definition host_arch :: "'w platform \<Rightarrow> 'w arch_ops" where
  "host_arch P =
     \<lparr>read_synchronization = (\<lambda>a w. hn_read_synch_register P (addr_phy a) (addr_cluster a) w),
      write_synchronization = (\<lambda>a v w. hn_write_synch_register P (addr_phy a) v (addr_cluster a) w),
      arch_suspend = (\<lambda>w. w),
      arch_task_arg_free = (\<lambda>_ w. w)\<rparr>"

lemma host_read: "mango_read_synchronization (host_arch P) (ev_addr e) w = event_read P e w"
  by (simp add: mango_read_synchronization_def host_arch_def event_read_def)

lemma host_write: "mango_write_synchronization (host_arch P) (ev_addr e) v w = event_store P e v w"
  by (simp add: mango_write_synchronization_def host_arch_def event_store_def)

lemma host_suspend: "arch_suspend (host_arch P) w = w"
  by (simp add: host_arch_def)

lemma lock_to_arch:
  assumes "event_lock P e w = Some r"
  shows "mango_lock (host_arch P) (ev_addr e) w = Some r"
proof (rule event_lock.raw_induct [where P = "\<lambda>P e w r. mango_lock (host_arch P) (ev_addr e) w = Some r", OF _ assms])
  fix f :: "'a platform \<Rightarrow> event \<Rightarrow> 'a \<Rightarrow> (u32 \<times> 'a) option" and P e w r
  assume "\<And>P e w r. f P e w = Some r \<Longrightarrow> mango_lock (host_arch P) (ev_addr e) w = Some r"
    and "(case event_read P e w of (value, w') \<Rightarrow>
            if value = 0 then f P e w' else Some (value, w')) = Some r"
  then show "mango_lock (host_arch P) (ev_addr e) w = Some r"
    by (subst mango_lock.simps) (auto simp: host_read split: prod.splits if_splits)
qed

lemma lock_from_arch:
  assumes "mango_lock (host_arch P) (ev_addr e) w = Some r"
  shows "event_lock P e w = Some r"
proof -
  have "A = host_arch P \<and> a = ev_addr e \<longrightarrow> event_lock P e w = Some r"
    if "mango_lock A a w = Some r" for A a
  proof (rule mango_lock.raw_induct
      [where P = "\<lambda>A a w r. A = host_arch P \<and> a = ev_addr e \<longrightarrow> event_lock P e w = Some r", OF _ that])
    fix f :: "'a arch_ops \<Rightarrow> mango_event \<Rightarrow> 'a \<Rightarrow> (u32 \<times> 'a) option" and A a w r
    assume "\<And>A a w r. f A a w = Some r \<Longrightarrow>
        A = host_arch P \<and> a = ev_addr e \<longrightarrow> event_lock P e w = Some r"
      and "(case mango_read_synchronization A a w of (value, w') \<Rightarrow>
              if value = 0 then f A a w' else Some (value, w')) = Some r"
    then show "A = host_arch P \<and> a = ev_addr e \<longrightarrow> event_lock P e w = Some r"
      by (subst event_lock.simps) (cases r; fastforce simp: host_read split: prod.splits if_splits)
  qed
  with assms show ?thesis by blast
qed

lemma option_eqI: "(\<And>r. x = Some r \<Longrightarrow> y = Some r) \<Longrightarrow> (\<And>r. y = Some r \<Longrightarrow> x = Some r) \<Longrightarrow> x = y"
  by (cases x; cases y) auto

lemma lock_eq_arch: "event_lock P e w = mango_lock (host_arch P) (ev_addr e) w"
  by (rule option_eqI) (erule lock_to_arch, erule lock_from_arch)

lemma wait_to_arch:
  assumes "wait_state P e v w = Some r"
  shows "wait_consume (host_arch P) (ev_addr e) v w = Some r"
proof (rule wait_state.raw_induct
    [where P = "\<lambda>P e v w r. wait_consume (host_arch P) (ev_addr e) v w = Some r", OF _ assms])
  fix f :: "'a platform \<Rightarrow> event \<Rightarrow> u32 \<Rightarrow> 'a \<Rightarrow> 'a option" and P e v w r
  assume "\<And>P e v w r. f P e v w = Some r \<Longrightarrow> wait_consume (host_arch P) (ev_addr e) v w = Some r"
    and "do {
       (value, w1) \<leftarrow> event_lock P e w;
       if value \<noteq> v then f P e v (event_store P e value w1) else Some w1
     } = Some r"
  then show "wait_consume (host_arch P) (ev_addr e) v w = Some r"
    by (subst wait_consume.simps)
      (auto simp: lock_eq_arch host_write host_suspend split: Option.bind_splits if_splits)
qed

lemma wait_from_arch:
  assumes "wait_consume (host_arch P) (ev_addr e) v w = Some r"
  shows "wait_state P e v w = Some r"
proof -
  have "A = host_arch P \<and> a = ev_addr e \<longrightarrow> wait_state P e v w = Some r"
    if "wait_consume A a v w = Some r" for A a
  proof (rule wait_consume.raw_induct
      [where P = "\<lambda>A a v w r. A = host_arch P \<and> a = ev_addr e \<longrightarrow> wait_state P e v w = Some r",
        OF _ that])
    fix f :: "'a arch_ops \<Rightarrow> mango_event \<Rightarrow> u32 \<Rightarrow> 'a \<Rightarrow> 'a option" and A a v w r
    assume "\<And>A a v w r. f A a v w = Some r \<Longrightarrow>
        A = host_arch P \<and> a = ev_addr e \<longrightarrow> wait_state P e v w = Some r"
      and "do {
         (value, w1) \<leftarrow> mango_lock A a w;
         if value \<noteq> v
         then f A a v (arch_suspend A (mango_write_synchronization A a value w1)) else Some w1
       } = Some r"
    then show "A = host_arch P \<and> a = ev_addr e \<longrightarrow> wait_state P e v w = Some r"
      by (subst wait_state.simps)
        (auto simp: lock_eq_arch host_write host_suspend split: Option.bind_splits if_splits)
  qed
  with assms show ?thesis by blast
qed

lemma wait_eq_arch: "wait_state P e v w = wait_consume (host_arch P) (ev_addr e) v w"
  by (rule option_eqI) (erule wait_to_arch, erule wait_from_arch)

section \<open>A tile register bank\<close>

text \<open>
  The accumulating register bank of the hardware, as the world, for concrete runs: the
  fields a run does not use do nothing.
\<close>

type_synonym bank = "mango_event \<Rightarrow> u32"

definition bank_addr :: "u32 \<Rightarrow> u32 \<Rightarrow> mango_event" where
  "bank_addr phy cluster = \<lparr>vaddr = push_bit 32 (ucast cluster) OR ucast phy\<rparr>"

lemma bank_addr_split: "bank_addr (addr_phy a) (addr_cluster a) = a"
proof (cases a)
  case (fields v)
  have "push_bit 32 (ucast (ucast (drop_bit 32 v) :: u32)) OR ucast (ucast v :: u32) = v"
    by (simp add: bit_eq_iff) (auto simp: bit_simps dest: bit_imp_le_length)
  with fields show ?thesis by (simp add: bank_addr_def addr_phy_def addr_cluster_def)
qed

definition bank_platform :: "bool \<Rightarrow> bank platform" where
  "bank_platform acc =
     \<lparr>hn_read_synch_register = (\<lambda>p c w. (w (bank_addr p c), w(bank_addr p c := 0))),
      hn_write_synch_register = (\<lambda>p v c w.
        w(bank_addr p c := (if acc then w (bank_addr p c) + v else v))),
      hn_write_memory = (\<lambda>_ _ _ _ w. w), hn_read_memory = (\<lambda>_ _ n _ w. (replicate n 0, w)),
      hn_set_tlb = (\<lambda>_ w. w), hn_write_image = (\<lambda>_ _ _ _ w. (True, w)),
      hn_run_kernel = (\<lambda>_ _ _ _ w. (True, w)), hn_num_clusters = (\<lambda>_. 1),
      hn_num_tiles = (\<lambda>_ _. 1), hn_memory_size = (\<lambda>_ _ _. 2 ^ 30),
      hn_initialize = (\<lambda>w. (True, w)), hn_end = (\<lambda>w. w), file_good = (\<lambda>_ _. True),
      bbq_notify_event = (\<lambda>_ w. w), bbq_task_start = (\<lambda>_ w. w), bbq_task_stop = (\<lambda>_ w. w), bbq_shutdown = (\<lambda>w. w),
      bbq_allocate = (\<lambda>rq w. (\<lparr>rp_cluster = 0, rp_tasks = [], rp_buffers = [], rp_events = []\<rparr>, w)),
      thread_start = (\<lambda>_ w. w), thread_join = (\<lambda>_ w. Some w), gnemu = True, uninit = 0\<rparr>"

interpretation tilereg: accumulating_arch "host_arch (bank_platform True)" "\<lambda>w. w"
  by unfold_locales (auto simp: host_arch_def bank_platform_def bank_addr_split)

interpretation gnreg: overwriting_arch "host_arch (bank_platform False)" "\<lambda>w. w"
  by unfold_locales (auto simp: host_arch_def bank_platform_def bank_addr_split)

text \<open>Host waits under the register contract.\<close>

context sync_arch
begin

lemma host_wait_iff:
  assumes "A = host_arch P"
  shows "(\<exists>w'. wait_state P e v w = Some w') \<longleftrightarrow> reg w (ev_addr e) = v \<and> v \<noteq> 0"
  unfolding wait_eq_arch using wait_consume_iff assms by simp

lemma host_wait_some:
  assumes "A = host_arch P" and "reg w (ev_addr e) = v" and "v \<noteq> 0"
  shows "\<exists>w'. wait_state P e v w = Some w' \<and> reg w' = (reg w)(ev_addr e := 0)"
  unfolding wait_eq_arch using wait_consume_some [OF assms(2,3)] assms(1) by simp

end

end
