(* ===== verification/Host_State.thy ===== *)
theory Host_State
  imports Host_Event
begin

text \<open>
  The objects of the host library and the state of a process that uses it. Objects that
  the code reaches through shared pointers live in lists, and a reference is an index;
  the context's three \<^verbatim>\<open>std::map\<close>s are ordered maps from ids to references
  (\<^verbatim>\<open>host/include/buffer.h\<close>, \<^verbatim>\<open>kernel.h\<close>, \<^verbatim>\<open>tlb.h\<close>, \<^verbatim>\<open>task_graph.h\<close>,
  \<^verbatim>\<open>kernel_arguments.h\<close>, \<^verbatim>\<open>context.h\<close>).
\<close>

section \<open>Objects\<close>

record buffer =
  b_id :: u32
  b_event :: nat
  b_cluster :: u32
  b_phy :: u32
  b_tile :: u32
  b_size :: u32
  b_in :: "u32 list"
  b_out :: "u32 list"
  b_fifo :: bool

record tlb =
  tlb_buffers :: "(u32, u32) smap"
  tlb_events :: "(u32, u32) smap"

record kernel_function =
  kf_loaded :: bool
  kf_version :: "(unit_type, string) smap"
  kf_size :: "(unit_type, u32) smap"

record kernel =
  k_id :: u32
  k_function :: nat
  k_in :: "u32 list"
  k_out :: "u32 list"
  k_tlb :: tlb
  k_threads :: int
  k_unit :: "unit_desc option"
  k_term :: nat
  k_tasks :: "nat list"
  k_vaddr :: u32
  k_phy :: u32
  k_tile :: u32
  k_cluster :: u32

record task_graph =
  tg_kernels :: "nat list"
  tg_buffers :: "nat list"
  tg_events :: "nat list"

text \<open>Kernel arguments: the class of the object, its value, size and id.\<close>

datatype arg_class = Scalar_class | Buffer_class | Event_class

record arg =
  a_class :: arg_class
  a_value :: u32
  a_size :: nat
  a_id :: u32

record kernel_args =
  ka_args :: "arg list"
  ka_kernel :: nat

text \<open>
  The state: the platform's world, the event id generator, the objects, the maps of the
  context, and the static pointer \<^verbatim>\<open>cxt\<close> to the context: null, live or dangling. A
  deleted task graph is \<open>None\<close>.
\<close>

datatype cxt_state = Cxt_null | Cxt_live | Cxt_deleted

record 'w host =
  world :: 'w
  id_gen :: u32
  hevents :: "event list"
  hbuffers :: "buffer list"
  hkernels :: "kernel list"
  hfunctions :: "kernel_function list"
  hgraphs :: "task_graph option list"
  hargs :: "arg list"
  hkargs :: "kernel_args list"
  cxt :: cxt_state
  cxt_kernels :: "(u32, nat) smap"
  cxt_buffers :: "(u32, nat) smap"
  cxt_events :: "(u32, nat) smap"

definition host_init :: "'w \<Rightarrow> 'w host" where
  "host_init w = \<lparr>world = w, id_gen = 0, hevents = [], hbuffers = [], hkernels = [], hfunctions = [],
     hgraphs = [], hargs = [], hkargs = [], cxt = Cxt_null,
     cxt_kernels = [], cxt_buffers = [], cxt_events = []\<rparr>"

section \<open>Access to objects\<close>

definition fetch :: "('s \<Rightarrow> 'a list) \<Rightarrow> nat \<Rightarrow> ('s, 'a) act" where
  "fetch sel r = andThen (reads sel) (\<lambda>xs. if r < length xs then ret (xs ! r) else fail Bad_pointer)"

lemma fetch_run [act_simps]:
  "fetch sel r s = Some (if r < length (sel s) then Inr (sel s ! r) else Inl Bad_pointer, s)"
  by (simp add: fetch_def act_simps)

lemma keeps_fetch [intro!]: "keeps P (fetch sel r)"
  by (auto simp: keeps_def act_simps split: if_splits)

definition the_event :: "nat \<Rightarrow> ('w host, event) act" where
  "the_event = fetch hevents"

definition the_buffer :: "nat \<Rightarrow> ('w host, buffer) act" where
  "the_buffer = fetch hbuffers"

definition the_kernel :: "nat \<Rightarrow> ('w host, kernel) act" where
  "the_kernel = fetch hkernels"

definition the_function :: "nat \<Rightarrow> ('w host, kernel_function) act" where
  "the_function = fetch hfunctions"

definition put_event :: "nat \<Rightarrow> event \<Rightarrow> ('w host, unit) act" where
  "put_event r e = modify (\<lambda>s. s\<lparr>hevents := (hevents s)[r := e]\<rparr>)"

definition put_buffer :: "nat \<Rightarrow> buffer \<Rightarrow> ('w host, unit) act" where
  "put_buffer r b = modify (\<lambda>s. s\<lparr>hbuffers := (hbuffers s)[r := b]\<rparr>)"

definition put_kernel :: "nat \<Rightarrow> kernel \<Rightarrow> ('w host, unit) act" where
  "put_kernel r k = modify (\<lambda>s. s\<lparr>hkernels := (hkernels s)[r := k]\<rparr>)"

definition put_function :: "nat \<Rightarrow> kernel_function \<Rightarrow> ('w host, unit) act" where
  "put_function r f = modify (\<lambda>s. s\<lparr>hfunctions := (hfunctions s)[r := f]\<rparr>)"

lemmas access_simps =
  the_event_def the_buffer_def the_kernel_def the_function_def
  put_event_def put_buffer_def put_kernel_def put_function_def

text \<open>A step of the platform's world.\<close>

definition on_world :: "('w \<Rightarrow> 'a \<times> 'w) \<Rightarrow> ('w host, 'a) act" where
  "on_world f = (\<lambda>s. case f (world s) of (a, w) \<Rightarrow> Some (Inr a, s\<lparr>world := w\<rparr>))"

definition do_world :: "('w \<Rightarrow> 'w) \<Rightarrow> ('w host, unit) act" where
  "do_world f = modify (\<lambda>s. s\<lparr>world := f (world s)\<rparr>)"

definition try_world :: "('w \<Rightarrow> 'w option) \<Rightarrow> ('w host, unit) act" where
  "try_world f = (\<lambda>s. case f (world s) of None \<Rightarrow> None | Some w \<Rightarrow> Some (Inr (), s\<lparr>world := w\<rparr>))"

lemma on_world_run [act_simps]:
  "on_world f s = Some (Inr (fst (f (world s))), s\<lparr>world := snd (f (world s))\<rparr>)"
  by (simp add: on_world_def split: prod.split)

lemma do_world_run [act_simps]: "do_world f s = Some (Inr (), s\<lparr>world := f (world s)\<rparr>)"
  by (simp add: do_world_def act_simps)

lemma try_world_run [act_simps]:
  "try_world f s = (case f (world s) of None \<Rightarrow> None | Some w \<Rightarrow> Some (Inr (), s\<lparr>world := w\<rparr>))"
  by (simp add: try_world_def)

section \<open>Construction of events\<close>

text \<open>\<^verbatim>\<open>Event::Event()\<close> takes the next id; the generator is a 32-bit counter.\<close>

definition make_event :: "'w platform \<Rightarrow> u32 list \<Rightarrow> u32 list \<Rightarrow> bool \<Rightarrow> ('w host, nat) act" where
  "make_event P ins outs completion = (\<lambda>s.
     Some (Inr (length (hevents s)),
       s\<lparr>id_gen := id_gen s + 1,
         hevents := hevents s @ [new_event (uninit P) (id_gen s) ins outs completion]\<rparr>))"

lemma make_event_run [act_simps]:
  "make_event P ins outs completion s = Some (Inr (length (hevents s)),
     s\<lparr>id_gen := id_gen s + 1,
       hevents := hevents s @ [new_event (uninit P) (id_gen s) ins outs completion]\<rparr>)"
  by (simp add: make_event_def)

text \<open>
  Ids are given out in order, so the event at index \<open>i\<close> has id \<open>i\<close> while fewer than
  \<open>2^32\<close> events exist.
\<close>

definition events_numbered :: "'w host \<Rightarrow> bool" where
  "events_numbered s \<longleftrightarrow> id_gen s = of_nat (length (hevents s))
     \<and> (\<forall>i < length (hevents s). ev_id (hevents s ! i) = of_nat i)"

lemma numbered_make:
  "events_numbered s \<Longrightarrow> make_event P ins outs c s = Some (r, s') \<Longrightarrow> events_numbered s'"
  by (auto simp: events_numbered_def act_simps nth_append new_event_def less_Suc_eq)

end
