(* ===== verification/Host_Buffer.thy ===== *)
theory Host_Buffer
  imports Host_State
begin

text \<open>
  Buffers and FIFO buffers (\<^verbatim>\<open>host/include/buffer.h\<close>, \<^verbatim>\<open>host/src/buffer.cpp\<close>). The host
  memory behind a pointer is the list of the bytes from the pointer to the end of the
  object it points into; touching a byte past the end is the fault \<open>Out_of_bounds\<close>.
\<close>

section \<open>Construction\<close>

definition make_buffer ::
  "'w platform \<Rightarrow> u32 \<Rightarrow> u32 \<Rightarrow> u32 list \<Rightarrow> u32 list \<Rightarrow> bool \<Rightarrow> ('w host, nat) act" where
  "make_buffer P bid sz ins outs fifo =
     andThen (make_event P ins outs False) (\<lambda>e.
     andThen (reads (\<lambda>s. length (hbuffers s))) (\<lambda>r.
     andThen (modify (\<lambda>s. s\<lparr>hbuffers := hbuffers s @
       [\<lparr>b_id = bid, b_event = e, b_cluster = uninit P, b_phy = uninit P, b_tile = uninit P,
         b_size = sz, b_in = ins, b_out = outs, b_fifo = fifo\<rparr>]\<rparr>)) (\<lambda>_.
     ret r)))"

definition isReadBy :: "buffer \<Rightarrow> u32 \<Rightarrow> bool" where
  "isReadBy b kid \<longleftrightarrow> kid \<in> set (b_out b)"

definition isReadByHost :: "buffer \<Rightarrow> bool" where
  "isReadByHost b = isReadBy b 0"

definition buffer_resize :: "nat \<Rightarrow> u32 \<Rightarrow> ('w host, exit_code) act" where
  "buffer_resize r sz =
     andThen (the_buffer r) (\<lambda>b.
     andThen (put_buffer r (b\<lparr>b_size := sz\<rparr>)) (\<lambda>_.
     ret SUCCESS))"

section \<open>Direct transfers\<close>

definition transfer_size :: "buffer \<Rightarrow> u32 \<Rightarrow> nat" where
  "transfer_size b global_size = unat (if global_size = 0 then b_size b else global_size)"

definition buffer_write :: "'w platform \<Rightarrow> nat \<Rightarrow> u8 list \<Rightarrow> u32 \<Rightarrow> ('w host, nat) act" where
  "buffer_write P r mem global_size =
     andThen (the_buffer r) (\<lambda>b.
       if length mem < transfer_size b global_size then fail Out_of_bounds
       else
         andThen (do_world (hn_write_memory P (b_tile b) (b_phy b)
                    (take (transfer_size b global_size) mem) (b_cluster b))) (\<lambda>_.
         ret (b_event b)))"

text \<open>Reading gives the host memory as it is after the transfer.\<close>

definition overwrite :: "u8 list \<Rightarrow> nat \<Rightarrow> u8 list \<Rightarrow> u8 list" where
  "overwrite mem off xs = take off mem @ xs @ drop (off + length xs) mem"

definition buffer_read :: "'w platform \<Rightarrow> nat \<Rightarrow> u8 list \<Rightarrow> u32 \<Rightarrow> ('w host, u8 list \<times> nat) act" where
  "buffer_read P r mem global_size =
     andThen (the_buffer r) (\<lambda>b.
       if length mem < transfer_size b global_size then fail Out_of_bounds
       else
         andThen (on_world (hn_read_memory P (b_tile b) (b_phy b)
                    (transfer_size b global_size) (b_cluster b))) (\<lambda>xs.
         ret (overwrite mem 0 xs, b_event b)))"

section \<open>FIFO transfers\<close>

text \<open>
  The functions the FIFO threads run. The offset is a 32-bit counter; every burst moves
  \<^verbatim>\<open>get_size()\<close> bytes, whatever is left of the transfer.
\<close>

partial_function (option) synch_write ::
  "'w platform \<Rightarrow> event \<Rightarrow> buffer \<Rightarrow> u8 list \<Rightarrow> u32 \<Rightarrow> u32 \<Rightarrow> 'w \<Rightarrow> ((fault + u32) \<times> 'w) option" where
  "synch_write H e b mem global_size off w =
     (if off < global_size
      then do {
        w1 \<leftarrow> wait_state H e (status_code WRITE) w;
        if length mem < unat off + unat (b_size b) then Some (Inl Out_of_bounds, w1)
        else synch_write H e b mem global_size (off + b_size b)
               (event_write H e (status_code READ)
                 (hn_write_memory H (b_tile b) (b_phy b)
                   (take (unat (b_size b)) (drop (unat off) mem)) (b_cluster b) w1))
      }
      else Some (Inr off, w))"

partial_function (option) synch_read ::
  "'w platform \<Rightarrow> event \<Rightarrow> buffer \<Rightarrow> u8 list \<Rightarrow> u32 \<Rightarrow> u32 \<Rightarrow> 'w
     \<Rightarrow> ((fault + u32) \<times> u8 list \<times> 'w) option" where
  "synch_read H e b mem global_size off w =
     (if off < global_size
      then do {
        w1 \<leftarrow> wait_state H e (status_code READ) w;
        if length mem < unat off + unat (b_size b) then Some (Inl Out_of_bounds, mem, w1)
        else (case hn_read_memory H (b_tile b) (b_phy b) (unat (b_size b)) (b_cluster b) w1 of
          (xs, w2) \<Rightarrow> synch_read H e b (overwrite mem (unat off) xs) global_size (off + b_size b)
                        (event_write H e (status_code WRITE) w2))
      }
      else Some (Inr off, mem, w))"

text \<open>
  \<^verbatim>\<open>FIFOBuffer::write\<close> and \<^verbatim>\<open>read\<close> start a thread and move it into the event: the
  thread object the event held is destroyed, which terminates the process when that
  thread was not joined.
\<close>

definition set_fifo_task :: "'w platform \<Rightarrow> nat \<Rightarrow> fifo_task \<Rightarrow> ('w host, unit) act" where
  "set_fifo_task P er task =
     andThen (do_world (thread_start P task)) (\<lambda>_.
     andThen (the_event er) (\<lambda>e.
       case ev_fifo e of
         Some (_, True) \<Rightarrow> fail Terminated
       | _ \<Rightarrow> put_event er (e\<lparr>ev_fifo := Some (task, True)\<rparr>)))"

definition fifo_write :: "'w platform \<Rightarrow> nat \<Rightarrow> u8 list \<Rightarrow> u32 \<Rightarrow> ('w host, nat) act" where
  "fifo_write P r mem global_size =
     andThen (the_buffer r) (\<lambda>b.
     andThen (set_fifo_task P (b_event b) (Synch_write r mem global_size)) (\<lambda>_.
     ret (b_event b)))"

definition fifo_read :: "'w platform \<Rightarrow> nat \<Rightarrow> nat \<Rightarrow> u32 \<Rightarrow> ('w host, nat) act" where
  "fifo_read P r room global_size =
     andThen (the_buffer r) (\<lambda>b.
     andThen (set_fifo_task P (b_event b) (Synch_read r room global_size)) (\<lambda>_.
     ret (b_event b)))"

section \<open>Waiting on an event object\<close>

definition host_wait :: "'w platform \<Rightarrow> nat \<Rightarrow> ('w host, unit) act" where
  "host_wait P r =
     andThen (the_event r) (\<lambda>e s.
       case event_wait P e (world s) of
         None \<Rightarrow> None
       | Some (Inl f, w) \<Rightarrow> Some (Inl f, s\<lparr>world := w\<rparr>)
       | Some (Inr e', w) \<Rightarrow> Some (Inr (), s\<lparr>world := w, hevents := (hevents s)[r := e']\<rparr>))"

definition host_wait_state :: "'w platform \<Rightarrow> nat \<Rightarrow> u32 \<Rightarrow> ('w host, unit) act" where
  "host_wait_state P r state =
     andThen (the_event r) (\<lambda>e. try_world (wait_state P e state))"

definition host_event_write :: "'w platform \<Rightarrow> nat \<Rightarrow> u32 \<Rightarrow> ('w host, unit) act" where
  "host_event_write P r value = andThen (the_event r) (\<lambda>e. do_world (event_write P e value))"

definition host_event_read :: "'w platform \<Rightarrow> nat \<Rightarrow> ('w host, u32) act" where
  "host_event_read P r = andThen (the_event r) (\<lambda>e. on_world (event_read P e))"

section \<open>Bursts\<close>

text \<open>A finished \<^verbatim>\<open>synch_write\<close> stayed inside the memory in every burst.\<close>

lemma synch_write_fits:
  assumes "synch_write H e b mem g off w = Some (Inr n, w')"
  shows "off < g \<Longrightarrow> unat off + unat (b_size b) \<le> length mem"
  using assms by (subst (asm) synch_write.simps) (auto split: Option.bind_splits if_splits)

text \<open>
  A finished transfer ends at the first multiple of the buffer size that is not below
  the transfer size: the offset counts whole bursts.
\<close>

definition whole_bursts :: "buffer \<Rightarrow> u8 list \<Rightarrow> u32 \<Rightarrow> u32 \<Rightarrow> u32 \<Rightarrow> bool" where
  "whole_bursts b mem g off n \<longleftrightarrow>
     (\<exists>k. unat n = unat off + k * unat (b_size b) \<and> \<not> n < g
        \<and> (\<forall>i < k. unat off + (i + 1) * unat (b_size b) \<le> length mem))"

lemma whole_bursts_step:
  assumes "whole_bursts b mem g (off + b_size b) n" and "off < g"
    and "unat g + unat (b_size b) < 2 ^ 32" and "unat off + unat (b_size b) \<le> length mem"
  shows "whole_bursts b mem g off n"
proof -
  have "unat off < unat g" using assms(2) by (simp add: word_less_nat_alt)
  then have off: "unat (off + b_size b) = unat off + unat (b_size b)"
    using assms(3) by (intro unat_add_lem [THEN iffD1]) simp
  obtain k where k: "unat n = unat (off + b_size b) + k * unat (b_size b)" "\<not> n < g"
    "\<forall>i < k. unat (off + b_size b) + (i + 1) * unat (b_size b) \<le> length mem"
    using assms(1) by (auto simp: whole_bursts_def)
  have "\<forall>i < Suc k. unat off + (i + 1) * unat (b_size b) \<le> length mem"
  proof (intro allI impI)
    fix i assume "i < Suc k"
    then show "unat off + (i + 1) * unat (b_size b) \<le> length mem"
      using k(3) assms(4) off by (cases i) (auto simp: algebra_simps)
  qed
  with k(1,2) off show ?thesis
    unfolding whole_bursts_def by (intro exI [of _ "Suc k"]) simp
qed

lemma whole_bursts_end: "\<not> off < g \<Longrightarrow> whole_bursts b mem g off off"
  by (auto simp: whole_bursts_def intro!: exI [of _ 0])

lemma synch_write_whole:
  assumes "synch_write H e b mem g off w = Some (Inr n, w')"
    and "unat g + unat (b_size b) < 2 ^ 32"
  shows "whole_bursts b mem g off n"
proof -
  have "\<forall>n. fst r = Inr n \<longrightarrow> unat g + unat (b_size b) < 2 ^ 32 \<longrightarrow> whole_bursts b mem g off n"
    if "synch_write H e b mem g off w = Some r" for r
  proof (rule synch_write.raw_induct [where P = "\<lambda>H e b mem g off w r. \<forall>n. fst r = Inr n \<longrightarrow>
      unat g + unat (b_size b) < 2 ^ 32 \<longrightarrow> whole_bursts b mem g off n", OF _ that])
    fix f :: "'a platform \<Rightarrow> event \<Rightarrow> buffer \<Rightarrow> u8 list \<Rightarrow> u32 \<Rightarrow> u32 \<Rightarrow> 'a \<Rightarrow> ((fault + u32) \<times> 'a) option"
      and H e b mem g off w r
    assume IH: "\<And>H e b mem g off w r. f H e b mem g off w = Some r \<Longrightarrow> \<forall>n. fst r = Inr n \<longrightarrow>
        unat g + unat (b_size b) < 2 ^ 32 \<longrightarrow> whole_bursts b mem g off n"
      and eq: "(if off < g
      then do {
        w1 \<leftarrow> wait_state H e (status_code WRITE) w;
        if length mem < unat off + unat (b_size b) then Some (Inl Out_of_bounds, w1)
        else f H e b mem g (off + b_size b)
               (event_write H e (status_code READ)
                 (hn_write_memory H (b_tile b) (b_phy b)
                   (take (unat (b_size b)) (drop (unat off) mem)) (b_cluster b) w1))
      }
      else Some (Inr off, w)) = Some r"
    show "\<forall>n. fst r = Inr n \<longrightarrow> unat g + unat (b_size b) < 2 ^ 32 \<longrightarrow> whole_bursts b mem g off n"
    proof (intro allI impI)
      fix n assume n: "fst r = Inr n" and lim: "unat g + unat (b_size b) < 2 ^ 32"
      show "whole_bursts b mem g off n"
      proof (cases "off < g")
        case False
        with eq n whole_bursts_end show ?thesis by auto
      next
        case True
        have fits: "unat off + unat (b_size b) \<le> length mem"
          using eq n True by (cases "wait_state H e (status_code WRITE) w") (auto split: if_splits)
        have "\<exists>w2. f H e b mem g (off + b_size b) w2 = Some r"
          using eq True fits by (cases "wait_state H e (status_code WRITE) w") auto
        then obtain w2 where w2: "f H e b mem g (off + b_size b) w2 = Some r" ..
        have "whole_bursts b mem g (off + b_size b) n" using IH [OF w2] n lim by simp
        then show ?thesis by (rule whole_bursts_step [OF _ True lim fits])
      qed
    qed
  qed
  from this [OF assms(1)] assms(2) show ?thesis by simp
qed

text \<open>With a buffer of size 0 the offset never grows: a transfer of any bytes never ends.\<close>

lemma synch_write_empty_buffer:
  assumes "b_size b = 0" and "off < g"
  shows "synch_write H e b mem g off w = None \<or> (\<exists>w'. synch_write H e b mem g off w = Some (Inl Out_of_bounds, w'))"
proof -
  have "b_size b = 0 \<longrightarrow> off < g \<longrightarrow> fst r = Inl Out_of_bounds"
    if "synch_write H e b mem g off w = Some r" for r
  proof (rule synch_write.raw_induct [where P = "\<lambda>H e b mem g off w r. b_size b = 0 \<longrightarrow> off < g \<longrightarrow>
      fst r = Inl Out_of_bounds", OF _ that])
    fix f :: "'a platform \<Rightarrow> event \<Rightarrow> buffer \<Rightarrow> u8 list \<Rightarrow> u32 \<Rightarrow> u32 \<Rightarrow> 'a \<Rightarrow> ((fault + u32) \<times> 'a) option"
      and H e b mem g off w r
    assume "\<And>H e b mem g off w r. f H e b mem g off w = Some r \<Longrightarrow>
        b_size b = 0 \<longrightarrow> off < g \<longrightarrow> fst r = Inl Out_of_bounds"
      and "(if off < g
      then do {
        w1 \<leftarrow> wait_state H e (status_code WRITE) w;
        if length mem < unat off + unat (b_size b) then Some (Inl Out_of_bounds, w1)
        else f H e b mem g (off + b_size b)
               (event_write H e (status_code READ)
                 (hn_write_memory H (b_tile b) (b_phy b)
                   (take (unat (b_size b)) (drop (unat off) mem)) (b_cluster b) w1))
      }
      else Some (Inr off, w)) = Some r"
    then show "b_size b = 0 \<longrightarrow> off < g \<longrightarrow> fst r = Inl Out_of_bounds"
      by (auto split: Option.bind_splits if_splits)
  qed
  with assms show ?thesis
    by (cases "synch_write H e b mem g off w") (auto simp: prod_eq_iff)
qed

end
