(* ===== verification/Host_Fifo.thy ===== *)
theory Host_Fifo
  imports Host_Buffer
begin

text \<open>
  A FIFO buffer used from both ends: one thread runs \<^verbatim>\<open>FIFOBuffer::synch_write\<close>, the
  other \<^verbatim>\<open>FIFOBuffer::synch_read\<close>, interleaved at the accesses to the event register and
  to the buffer's memory. The register starts at WRITE, as the resource allocation
  leaves it. \<open>acc\<close> says whether a write to the register accumulates or overwrites.
\<close>

section \<open>The machine\<close>

datatype fpc = F_wait | F_held u32 | F_copy | F_post | F_done | F_fault

record fcfg =
  freg :: u32
  fmem :: "u8 list"
  w_pc :: fpc
  w_off :: u32
  r_pc :: fpc
  r_off :: u32
  r_buf :: "u8 list"

definition set_reg :: "bool \<Rightarrow> u32 \<Rightarrow> u32 \<Rightarrow> u32" where
  "set_reg acc old v = (if acc then old + v else v)"

text \<open>The loop test and one read-and-reset of the lock.\<close>

definition loop_head :: "event_status \<Rightarrow> u32 \<Rightarrow> u32 \<Rightarrow> u32 \<Rightarrow> fpc \<times> u32" where
  "loop_head st g off v =
     (if \<not> off < g then (F_done, v)
      else if v = 0 then (F_wait, v)
      else if v = status_code st then (F_copy, 0)
      else (F_held v, 0))"

fun fstep_w :: "bool \<Rightarrow> u32 \<Rightarrow> u32 \<Rightarrow> u8 list \<Rightarrow> fcfg \<Rightarrow> fcfg" where
  "fstep_w acc sz g src c =
     (case w_pc c of
        F_wait \<Rightarrow> (case loop_head WRITE g (w_off c) (freg c) of (p, v) \<Rightarrow> c\<lparr>w_pc := p, freg := v\<rparr>)
      | F_held v \<Rightarrow> c\<lparr>w_pc := F_wait, freg := set_reg acc (freg c) v\<rparr>
      | F_copy \<Rightarrow>
          if length src < unat (w_off c) + unat sz then c\<lparr>w_pc := F_fault\<rparr>
          else c\<lparr>w_pc := F_post, fmem := take (unat sz) (drop (unat (w_off c)) src)\<rparr>
      | F_post \<Rightarrow> c\<lparr>w_pc := F_wait, freg := set_reg acc (freg c) (status_code READ), w_off := w_off c + sz\<rparr>
      | p \<Rightarrow> c)"

fun fstep_r :: "bool \<Rightarrow> u32 \<Rightarrow> u32 \<Rightarrow> fcfg \<Rightarrow> fcfg" where
  "fstep_r acc sz g c =
     (case r_pc c of
        F_wait \<Rightarrow> (case loop_head READ g (r_off c) (freg c) of (p, v) \<Rightarrow> c\<lparr>r_pc := p, freg := v\<rparr>)
      | F_held v \<Rightarrow> c\<lparr>r_pc := F_wait, freg := set_reg acc (freg c) v\<rparr>
      | F_copy \<Rightarrow>
          if length (r_buf c) < unat (r_off c) + unat sz then c\<lparr>r_pc := F_fault\<rparr>
          else c\<lparr>r_pc := F_post, r_buf := overwrite (r_buf c) (unat (r_off c)) (fmem c)\<rparr>
      | F_post \<Rightarrow> c\<lparr>r_pc := F_wait, freg := set_reg acc (freg c) (status_code WRITE), r_off := r_off c + sz\<rparr>
      | p \<Rightarrow> c)"

inductive fifo_next :: "bool \<Rightarrow> u32 \<Rightarrow> u32 \<Rightarrow> u8 list \<Rightarrow> fcfg \<Rightarrow> fcfg \<Rightarrow> bool" for acc sz g src where
  writer: "fifo_next acc sz g src c (fstep_w acc sz g src c)"
| reader: "fifo_next acc sz g src c (fstep_r acc sz g c)"

abbreviation fifo_runs :: "bool \<Rightarrow> u32 \<Rightarrow> u32 \<Rightarrow> u8 list \<Rightarrow> fcfg \<Rightarrow> fcfg \<Rightarrow> bool" where
  "fifo_runs acc sz g src \<equiv> (fifo_next acc sz g src)\<^sup>*\<^sup>*"

definition fifo_start :: "u8 list \<Rightarrow> u8 list \<Rightarrow> fcfg" where
  "fifo_start m buf = \<lparr>freg = status_code WRITE, fmem = m, w_pc = F_wait, w_off = 0,
     r_pc = F_wait, r_off = 0, r_buf = buf\<rparr>"

section \<open>The invariant\<close>

definition blk :: "nat \<Rightarrow> u8 list \<Rightarrow> nat \<Rightarrow> u8 list" where
  "blk k src i = take k (drop (i * k) src)"

text \<open>
  The parameters of a well-formed transfer: \<open>n\<close> whole bursts of \<open>k\<close> bytes, and offsets
  that fit in 32 bits.
\<close>

definition fits :: "u32 \<Rightarrow> u32 \<Rightarrow> u8 list \<Rightarrow> nat \<Rightarrow> bool" where
  "fits sz g src n \<longleftrightarrow> 0 < sz \<and> unat g = n * unat sz \<and> length src = unat g
     \<and> unat g + unat sz < 2 ^ 32"

definition idle :: "fpc \<Rightarrow> bool" where
  "idle p \<longleftrightarrow> p = F_wait \<or> p = F_done"

definition fifo_inv :: "u32 \<Rightarrow> u32 \<Rightarrow> u8 list \<Rightarrow> nat \<Rightarrow> nat \<Rightarrow> nat \<Rightarrow> fcfg \<Rightarrow> bool" where
  "fifo_inv sz g src n i j c \<longleftrightarrow>
     i \<le> n \<and> j \<le> n
   \<and> w_off c = of_nat (i * unat sz) \<and> r_off c = of_nat (j * unat sz)
   \<and> (w_pc c = F_done \<longrightarrow> i = n) \<and> (r_pc c = F_done \<longrightarrow> j = n)
   \<and> length (r_buf c) = length src
   \<and> take ((if r_pc c = F_post then j + 1 else j) * unat sz) (r_buf c)
       = take ((if r_pc c = F_post then j + 1 else j) * unat sz) src
   \<and> (i = j \<and> idle (r_pc c) \<and>
        (freg c = 2 \<and> idle (w_pc c)
       \<or> freg c = 0 \<and> i < n \<and> (w_pc c = F_copy \<or> w_pc c = F_post \<and> fmem c = blk (unat sz) src i))
     \<or> i = j \<and> freg c = 0 \<and> j < n \<and> idle (w_pc c) \<and> r_pc c = F_held 2
     \<or> i = j + 1 \<and> fmem c = blk (unat sz) src j \<and> idle (w_pc c) \<and>
        (freg c = 1 \<and> idle (r_pc c) \<or> freg c = 0 \<and> (r_pc c = F_copy \<or> r_pc c = F_post))
     \<or> i = j + 1 \<and> fmem c = blk (unat sz) src j \<and> freg c = 0 \<and> i < n \<and> w_pc c = F_held 1 \<and> idle (r_pc c))"

lemma fits_off:
  assumes "fits sz g src n" and "i \<le> n"
  shows "unat (of_nat (i * unat sz) :: u32) = i * unat sz"
    and "((of_nat (i * unat sz) :: u32) < g) = (i < n)"
    and "i < n \<Longrightarrow> i * unat sz + unat sz \<le> length src"
    and "(of_nat (i * unat sz) :: u32) + sz = of_nat ((i + 1) * unat sz)"
proof -
  have le: "i * unat sz \<le> n * unat sz" using assms(2) by simp
  then have "i * unat sz < 2 ^ 32" using assms(1) unfolding fits_def by linarith
  then show u: "unat (of_nat (i * unat sz) :: u32) = i * unat sz"
    by (simp add: unat_of_nat del: of_nat_mult)
  have sz: "0 < unat sz" using assms(1) by (simp add: fits_def word_less_nat_alt)
  have "((of_nat (i * unat sz) :: u32) < g) = (i * unat sz < n * unat sz)"
    using u assms(1) by (simp add: word_less_nat_alt fits_def del: of_nat_mult)
  then show "((of_nat (i * unat sz) :: u32) < g) = (i < n)" using sz by simp
  show "i * unat sz + unat sz \<le> length src" if "i < n"
  proof -
    have "(i + 1) * unat sz \<le> n * unat sz" using that by (intro mult_le_mono1) simp
    then show ?thesis using assms(1) by (simp add: fits_def algebra_simps)
  qed
  show "(of_nat (i * unat sz) :: u32) + sz = of_nat ((i + 1) * unat sz)"
    by (simp add: algebra_simps)
qed

lemma blk_length: "fits sz g src n \<Longrightarrow> i < n \<Longrightarrow> length (blk (unat sz) src i) = unat sz"
  using fits_off(3) [of sz g src n i] by (simp add: blk_def)

lemma overwrite_take:
  assumes "fits sz g src n" and "j < n" and "length buf = length src"
    and "take (j * unat sz) buf = take (j * unat sz) src"
  shows "take ((j + 1) * unat sz) (overwrite buf (j * unat sz) (blk (unat sz) src j))
      = take ((j + 1) * unat sz) src"
    and "length (overwrite buf (j * unat sz) (blk (unat sz) src j)) = length src"
proof -
  note l = fits_off(3) [OF assms(1) less_imp_le [OF assms(2)] assms(2)] blk_length [OF assms(1,2)]
  have t: "take (j * unat sz) src @ blk (unat sz) src j = take ((j + 1) * unat sz) src"
    unfolding blk_def by (metis Suc_eq_plus1 add.commute mult_Suc take_add)
  show "take ((j + 1) * unat sz) (overwrite buf (j * unat sz) (blk (unat sz) src j))
      = take ((j + 1) * unat sz) src"
    unfolding overwrite_def t [symmetric] using l assms(3,4) by (simp add: algebra_simps min_def)
  show "length (overwrite buf (j * unat sz) (blk (unat sz) src j)) = length src"
    using l assms(3) by (simp add: overwrite_def)
qed

lemma fifo_inv_start:
  "fits sz g src n \<Longrightarrow> length buf = length src \<Longrightarrow> fifo_inv sz g src n 0 0 (fifo_start m buf)"
  by (simp add: fifo_inv_def fifo_start_def idle_def)

lemma set_reg_0 [simp]: "set_reg acc 0 v = v"
  by (simp add: set_reg_def)

text \<open>A side's index counts the bursts it has posted.\<close>

definition bump :: "fpc \<Rightarrow> nat \<Rightarrow> nat" where
  "bump p i = (if p = F_post then i + 1 else i)"

lemma bump_simps [simp]:
  "bump F_wait i = i" "bump (F_held v) i = i" "bump F_copy i = i" "bump F_post i = i + 1"
  "bump F_done i = i" "bump F_fault i = i"
  by (simp_all add: bump_def)

lemma writer_inv:
  assumes inv: "fifo_inv sz g src n i j c" and fit: "fits sz g src n"
  shows "fifo_inv sz g src n (bump (w_pc c) i) j (fstep_w acc sz g src c)"
proof -
  have ij: "i \<le> n" "j \<le> n" and wo: "w_off c = of_nat (i * unat sz)"
    using inv by (auto simp: fifo_inv_def)
  note off = fits_off [OF fit ij(1)] and inv' = inv [unfolded fifo_inv_def]
  have u: "unat (w_off c) = i * unat sz" using off(1) wo by simp
  show ?thesis
  proof (cases "w_pc c")
    case F_wait
    with inv' show ?thesis
      by (auto simp: fifo_inv_def loop_head_def wo off idle_def simp del: of_nat_mult)
  next
    case (F_held v)
    with inv' show ?thesis
      by (auto simp: fifo_inv_def idle_def simp del: of_nat_mult)
  next
    case F_copy
    then have "i < n" using inv' by (auto simp: idle_def)
    with off(3) have "\<not> length src < unat (w_off c) + unat sz" using u by simp
    with F_copy have s: "fstep_w acc sz g src c = c\<lparr>w_pc := F_post, fmem := blk (unat sz) src i\<rparr>"
      by (simp add: blk_def u)
    show ?thesis
      unfolding s using inv' F_copy
      by (auto simp: fifo_inv_def idle_def simp del: of_nat_mult)
  next
    case F_post
    with inv' show ?thesis
      by (auto simp: fifo_inv_def idle_def wo off(4) simp del: of_nat_mult)
  next
    case F_done
    then show ?thesis using inv by simp
  next
    case F_fault
    then show ?thesis using inv by simp
  qed
qed

lemma reader_inv:
  assumes inv: "fifo_inv sz g src n i j c" and fit: "fits sz g src n"
  shows "fifo_inv sz g src n i (bump (r_pc c) j) (fstep_r acc sz g c)"
proof -
  have ij: "i \<le> n" "j \<le> n" and ro: "r_off c = of_nat (j * unat sz)"
    using inv by (auto simp: fifo_inv_def)
  note off = fits_off [OF fit ij(2)] and inv' = inv [unfolded fifo_inv_def]
  have u: "unat (r_off c) = j * unat sz" using off(1) ro by simp
  show ?thesis
  proof (cases "r_pc c")
    case F_wait
    with inv' show ?thesis
      by (auto simp: fifo_inv_def loop_head_def ro off idle_def simp del: of_nat_mult)
  next
    case (F_held v)
    with inv' show ?thesis
      by (auto simp: fifo_inv_def idle_def simp del: of_nat_mult)
  next
    case F_copy
    then have "j < n" "fmem c = blk (unat sz) src j" using inv' by (auto simp: idle_def)
    moreover have len: "length (r_buf c) = length src"
      and pre: "take (j * unat sz) (r_buf c) = take (j * unat sz) src"
      using inv' F_copy by auto
    moreover have "\<not> length (r_buf c) < unat (r_off c) + unat sz"
      using off(3) calculation u by simp
    ultimately have s: "fstep_r acc sz g c = c\<lparr>r_pc := F_post,
        r_buf := overwrite (r_buf c) (j * unat sz) (blk (unat sz) src j)\<rparr>"
      using F_copy by (simp add: u)
    show ?thesis
      unfolding s using inv' F_copy overwrite_take [OF fit \<open>j < n\<close> len pre]
      by (auto simp: fifo_inv_def idle_def simp del: of_nat_mult)
  next
    case F_post
    with inv' show ?thesis
      by (auto simp: fifo_inv_def idle_def ro off(4) simp del: of_nat_mult)
  next
    case F_done
    then show ?thesis using inv by simp
  next
    case F_fault
    then show ?thesis using inv by simp
  qed
qed

lemma fifo_inv_runs:
  assumes "fifo_runs acc sz g src (fifo_start m buf) c" and "fits sz g src n"
    and "length buf = length src"
  shows "\<exists>i j. fifo_inv sz g src n i j c"
  using assms(1)
proof (induction rule: rtranclp_induct)
  case base
  show ?case using fifo_inv_start [OF assms(2,3)] by blast
next
  case (step c c')
  then show ?case
    by (elim exE fifo_next.cases) (metis writer_inv [OF _ assms(2)] reader_inv [OF _ assms(2)])+
qed

section \<open>Progress\<close>

fun frank :: "fpc \<Rightarrow> nat" where
  "frank (F_held _) = 4"
| "frank F_wait = 3"
| "frank F_copy = 2"
| "frank F_post = 1"
| "frank _ = 0"

definition todo :: "nat \<Rightarrow> nat \<Rightarrow> nat \<Rightarrow> fcfg \<Rightarrow> nat" where
  "todo n i j c = 4 * (n - i) + frank (w_pc c) + (4 * (n - j) + frank (r_pc c))"

definition both_done :: "fcfg \<Rightarrow> bool" where
  "both_done c \<longleftrightarrow> w_pc c = F_done \<and> r_pc c = F_done"

lemma writer_rank:
  assumes "fifo_inv sz g src n i j c" and "fits sz g src n"
    and "w_pc c = F_copy \<or> w_pc c = F_post \<or> w_pc c = F_held 1 \<or> w_pc c = F_wait \<and> freg c = 2
       \<or> w_pc c = F_wait \<and> i = n"
  shows "todo n (bump (w_pc c) i) j (fstep_w acc sz g src c) < todo n i j c"
proof -
  have i: "i \<le> n" and wo: "w_off c = of_nat (i * unat sz)" using assms(1) by (auto simp: fifo_inv_def)
  have lt: "w_pc c = F_post \<Longrightarrow> i < n" using assms(1) by (auto simp: fifo_inv_def idle_def)
  note off = fits_off(2) [OF assms(2) i]
  from assms(3) show ?thesis
  proof (elim disjE conjE)
    assume "w_pc c = F_post"
    with lt show ?thesis by (simp add: todo_def)
  next
    assume "w_pc c = F_wait" "i = n"
    moreover from this have "\<not> w_off c < g" using off wo by simp
    ultimately show ?thesis by (simp add: todo_def loop_head_def)
  qed (auto simp: todo_def loop_head_def)
qed

lemma reader_rank:
  assumes "fifo_inv sz g src n i j c" and "fits sz g src n"
    and "r_pc c = F_copy \<or> r_pc c = F_post \<or> r_pc c = F_held 2 \<or> r_pc c = F_wait \<and> freg c = 1
       \<or> r_pc c = F_wait \<and> j = n"
  shows "todo n i (bump (r_pc c) j) (fstep_r acc sz g c) < todo n i j c"
proof -
  have j: "j \<le> n" and ro: "r_off c = of_nat (j * unat sz)" using assms(1) by (auto simp: fifo_inv_def)
  have lt: "r_pc c = F_post \<Longrightarrow> j < n" using assms(1) by (auto simp: fifo_inv_def idle_def)
  note off = fits_off(2) [OF assms(2) j]
  from assms(3) show ?thesis
  proof (elim disjE conjE)
    assume "r_pc c = F_post"
    with lt show ?thesis by (simp add: todo_def)
  next
    assume "r_pc c = F_wait" "j = n"
    moreover from this have "\<not> r_off c < g" using off ro by simp
    ultimately show ?thesis by (simp add: todo_def loop_head_def)
  qed (auto simp: todo_def loop_head_def)
qed

lemma someone_moves:
  assumes "fifo_inv sz g src n i j c" and "\<not> both_done c"
  shows "(w_pc c = F_copy \<or> w_pc c = F_post \<or> w_pc c = F_held 1 \<or> w_pc c = F_wait \<and> freg c = 2
        \<or> w_pc c = F_wait \<and> i = n)
    \<or> (r_pc c = F_copy \<or> r_pc c = F_post \<or> r_pc c = F_held 2 \<or> r_pc c = F_wait \<and> freg c = 1
        \<or> r_pc c = F_wait \<and> j = n)"
  using assms by (auto simp: fifo_inv_def idle_def both_done_def)

lemma fifo_finishes:
  assumes "fifo_inv sz g src n i j c" and fit: "fits sz g src n"
  shows "\<exists>c'. fifo_runs acc sz g src c c' \<and> both_done c' \<and> fifo_inv sz g src n n n c'"
  using assms(1)
proof (induction "todo n i j c" arbitrary: i j c rule: less_induct)
  case less
  show ?case
  proof (cases "both_done c")
    case True
    with less.prems have "i = n" "j = n" by (auto simp: both_done_def fifo_inv_def)
    with True less.prems show ?thesis by blast
  next
    case False
    from someone_moves [OF less.prems False] show ?thesis
    proof
      assume w: "w_pc c = F_copy \<or> w_pc c = F_post \<or> w_pc c = F_held 1 \<or> w_pc c = F_wait \<and> freg c = 2
        \<or> w_pc c = F_wait \<and> i = n"
      from less.hyps [OF writer_rank [OF less.prems fit w] writer_inv [OF less.prems fit]]
      show ?thesis by (meson converse_rtranclp_into_rtranclp fifo_next.writer)
    next
      assume r: "r_pc c = F_copy \<or> r_pc c = F_post \<or> r_pc c = F_held 2 \<or> r_pc c = F_wait \<and> freg c = 1
        \<or> r_pc c = F_wait \<and> j = n"
      from less.hyps [OF reader_rank [OF less.prems fit r] reader_inv [OF less.prems fit]]
      show ?thesis by (meson converse_rtranclp_into_rtranclp fifo_next.reader)
    qed
  qed
qed

section \<open>The properties\<close>


text \<open>
  C3. A FIFO transfer cannot get stuck: from every reachable configuration both threads
  can be run to their end, where the whole data has arrived and the register is again
  WRITE, ready for the next transfer.
\<close>

theorem fifo_transfer_completes:
  assumes "fits sz g src n" and "length buf = length src"
    and "fifo_runs acc sz g src (fifo_start m buf) c"
  shows "\<exists>c'. fifo_runs acc sz g src c c' \<and> w_pc c' = F_done \<and> r_pc c' = F_done
     \<and> r_buf c' = src \<and> freg c' = status_code WRITE"
proof -
  obtain i j where "fifo_inv sz g src n i j c" using fifo_inv_runs [OF assms(3,1,2)] by blast
  from fifo_finishes [OF this assms(1)] obtain d where d: "fifo_runs acc sz g src c d"
    "both_done d" "fifo_inv sz g src n n n d" by blast
  then have "r_buf d = src" "freg d = 2"
    using assms(1) by (auto simp: fifo_inv_def both_done_def fits_def idle_def)
  with d(1,2) show ?thesis by (auto simp: both_done_def)
qed

section \<open>A concrete transfer\<close>

definition four_bytes :: "u8 list" where
  "four_bytes = [1, 2, 3, 4]"

lemma four_bytes_fit: "fits 2 4 four_bytes 2"
  by (simp add: fits_def four_bytes_def)







lemma fifo_transfer_completes_witness:
  "\<exists>c'. fifo_runs True 2 4 four_bytes (fifo_start [] [0, 0, 0, 0]) c' \<and> r_buf c' = four_bytes"
  using fifo_transfer_completes [OF four_bytes_fit, of "[0, 0, 0, 0]" True "[]" "fifo_start [] [0, 0, 0, 0]"]
  by (auto simp: four_bytes_def)

end
