(* ===== verification/Host_Kernel.thy ===== *)
theory Host_Kernel
  imports Host_Buffer
begin

text \<open>
  Kernel functions and kernels (\<^verbatim>\<open>host/include/kernel.h\<close>, \<^verbatim>\<open>host/src/kernel.cpp\<close>) and
  the TLB of a kernel (\<^verbatim>\<open>host/include/tlb.h\<close>). Counting the lines of a kernel file has no
  effect on the result and is left out.
\<close>

section \<open>Kernel functions\<close>

definition new_function :: kernel_function where
  "new_function = \<lparr>kf_loaded = False, kf_version = [], kf_size = []\<rparr>"

definition get_kernel_version :: "kernel_function \<Rightarrow> unit_type \<Rightarrow> fault + string" where
  "get_kernel_version f t = (case sm_at (kf_version f) t of None \<Rightarrow> Inl Out_of_range | Some v \<Rightarrow> Inr v)"

definition set_kernel_size :: "kernel_function \<Rightarrow> unit_type \<Rightarrow> u32 \<Rightarrow> kernel_function" where
  "set_kernel_size f t sz = f\<lparr>kf_size := sm_assign t sz (kf_size f)\<rparr>"

definition get_kernel_size :: "kernel_function \<Rightarrow> unit_type \<Rightarrow> fault + u32" where
  "get_kernel_size f t = (case sm_at (kf_size f) t of None \<Rightarrow> Inl Out_of_range | Some v \<Rightarrow> Inr v)"

definition kf_length :: "kernel_function \<Rightarrow> fault + nat" where
  "kf_length f =
     (if length (kf_version f) = length (kf_size f) then Inr (length (kf_version f))
      else Inl Assert_failed)"

text \<open>Every loader stores the file name before it looks at the file.\<close>

definition load_gn :: "(string \<Rightarrow> bool) \<Rightarrow> string \<Rightarrow> file_type \<Rightarrow> kernel_function \<Rightarrow> exit_code \<times> kernel_function" where
  "load_gn good file type f =
     (case type of
        BINARY \<Rightarrow>
          let f1 = f\<lparr>kf_version := sm_assign GN file (kf_version f)\<rparr> in
          if \<not> good file then (ERR_INVALID_KERNEL_FILE, f1)
          else (SUCCESS, f1\<lparr>kf_size := sm_assign GN 0 (kf_size f1)\<rparr>)
      | STRING \<Rightarrow> (ERR_FEATURE_NOT_IMPLEMENTED, f)
      | SOURCE \<Rightarrow> (ERR_FEATURE_NOT_IMPLEMENTED, f)
      | _ \<Rightarrow> (ERR_INVALID_KERNEL_FILE, f))"

definition load_peak :: "(string \<Rightarrow> bool) \<Rightarrow> string \<Rightarrow> file_type \<Rightarrow> kernel_function \<Rightarrow> exit_code \<times> kernel_function" where
  "load_peak good file type f =
     (case type of
        BINARY \<Rightarrow>
          let f1 = f\<lparr>kf_version := sm_assign PEAK file (kf_version f)\<rparr> in
          if \<not> good file then (ERR_INVALID_KERNEL_FILE, f1)
          else (SUCCESS, f1\<lparr>kf_size := sm_assign PEAK (2 ^ 28) (kf_size f1)\<rparr>)
      | _ \<Rightarrow> (ERR_INVALID_KERNEL_FILE, f))"

definition load_nuplus :: "(string \<Rightarrow> bool) \<Rightarrow> string \<Rightarrow> file_type \<Rightarrow> kernel_function \<Rightarrow> exit_code \<times> kernel_function" where
  "load_nuplus good file type f =
     (case type of
        BINARY \<Rightarrow>
          let f1 = f\<lparr>kf_version := sm_assign NUP file (kf_version f)\<rparr> in
          if \<not> good file then (ERR_INVALID_KERNEL_FILE, f1)
          else (SUCCESS, f1\<lparr>kf_size := sm_assign NUP (2 ^ 28) (kf_size f1)\<rparr>)
      | _ \<Rightarrow> (ERR_INVALID_KERNEL_FILE, f))"

definition load_dct :: "string \<Rightarrow> file_type \<Rightarrow> kernel_function \<Rightarrow> exit_code \<times> kernel_function" where
  "load_dct file type f =
     (let f1 = f\<lparr>kf_version := sm_assign DCT file (kf_version f),
                kf_size := sm_assign DCT 1 (kf_size f)\<rparr> in
      case type of HARDWARE \<Rightarrow> (SUCCESS, f1) | _ \<Rightarrow> (ERR_INVALID_KERNEL_FILE, f1))"

definition kf_load ::
  "(string \<Rightarrow> bool) \<Rightarrow> string \<Rightarrow> unit_type \<Rightarrow> file_type \<Rightarrow> kernel_function \<Rightarrow> exit_code \<times> kernel_function" where
  "kf_load good file unit type f =
     (let (res, f1) =
        (case unit of
           GN \<Rightarrow> load_gn good file type f
         | PEAK \<Rightarrow> load_peak good file type f
         | DCT \<Rightarrow> load_dct file type f
         | NUP \<Rightarrow> load_nuplus good file type f
         | _ \<Rightarrow> (ERR_UNSUPPORTED_UNIT, f))
      in (res, if res = SUCCESS then f1\<lparr>kf_loaded := True\<rparr> else f1))"

text \<open>The two maps of a function agree on their keys: what \<^verbatim>\<open>length\<close> asserts by size.\<close>

definition kf_consistent :: "kernel_function \<Rightarrow> bool" where
  "kf_consistent f \<longleftrightarrow> sm_ok (kf_version f) \<and> sm_ok (kf_size f)
     \<and> sm_keys (kf_version f) = sm_keys (kf_size f) \<and> (kf_loaded f \<longrightarrow> kf_version f \<noteq> [])"

lemma length_keys: "sm_ok m \<Longrightarrow> length m = card (sm_keys m)"
proof (induction m)
  case (Cons p m)
  obtain a b where p: "p = (a, b)" by (cases p)
  with Cons.prems have "a \<notin> sm_keys m" by auto
  with Cons p show ?case by (simp add: sm_keys_def)
qed simp

lemma consistent_length:
  assumes "kf_consistent f"
  shows "kf_length f = Inr (card (sm_keys (kf_version f)))"
  using assms length_keys [of "kf_version f"] length_keys [of "kf_size f"]
  by (simp add: kf_consistent_def kf_length_def)

lemma assign_not_Nil: "sm_assign k v m \<noteq> []"
  by (cases "(k, v, m)" rule: sm_assign.cases) auto

lemma finite_keys [simp]: "finite (sm_keys m)"
  by (simp add: sm_keys_def)

lemma new_function_consistent: "kf_consistent new_function"
  by (simp add: kf_consistent_def new_function_def)

lemma load_success_cases:
  "kf_load good file unit type f = (SUCCESS, f') \<Longrightarrow> \<exists>t n. t \<in> {GN, PEAK, NUP, DCT} \<and> t = unit
     \<and> kf_version f' = sm_assign t file (kf_version f) \<and> kf_size f' = sm_assign t n (kf_size f)
     \<and> kf_loaded f'"
  by (cases unit; cases type)
    (auto simp: kf_load_def load_gn_def load_peak_def load_nuplus_def load_dct_def Let_def
      split: if_splits)

section \<open>The TLB of a kernel\<close>

definition get_virt_addr_buffer :: "tlb \<Rightarrow> u32 \<Rightarrow> fault + u32" where
  "get_virt_addr_buffer t i = (case sm_at (tlb_buffers t) i of None \<Rightarrow> Inl Out_of_range | Some a \<Rightarrow> Inr a)"

definition get_virt_addr_event :: "tlb \<Rightarrow> u32 \<Rightarrow> fault + u32" where
  "get_virt_addr_event t i = (case sm_at (tlb_events t) i of None \<Rightarrow> Inl Out_of_range | Some a \<Rightarrow> Inr a)"

definition set_virt_addr_buffer :: "u32 \<Rightarrow> u32 \<Rightarrow> tlb \<Rightarrow> tlb" where
  "set_virt_addr_buffer i a t = t\<lparr>tlb_buffers := sm_assign i a (tlb_buffers t)\<rparr>"

definition set_virt_addr_event :: "u32 \<Rightarrow> u32 \<Rightarrow> tlb \<Rightarrow> tlb" where
  "set_virt_addr_event i a t = t\<lparr>tlb_events := sm_assign i a (tlb_events t)\<rparr>"

section \<open>Kernels\<close>

definition is_a_reader :: "kernel \<Rightarrow> u32 \<Rightarrow> bool" where
  "is_a_reader k b \<longleftrightarrow> b \<in> set (k_in k)"

definition is_a_writer :: "kernel \<Rightarrow> u32 \<Rightarrow> bool" where
  "is_a_writer k b \<longleftrightarrow> b \<in> set (k_out k)"

text \<open>
  \<^verbatim>\<open>Kernel::Kernel\<close>: the termination event and three task events, which name the kernel
  as reader and writer.
\<close>

definition make_kernel ::
  "'w platform \<Rightarrow> u32 \<Rightarrow> nat \<Rightarrow> u32 list \<Rightarrow> u32 list \<Rightarrow> ('w host, nat) act" where
  "make_kernel P kid fr ins outs =
     andThen (the_function fr) (\<lambda>f.
     case kf_length f of
       Inl e \<Rightarrow> fail e
     | Inr n \<Rightarrow>
       andThen (assert_that (0 < n)) (\<lambda>_.
       andThen (make_event P [kid] [kid] True) (\<lambda>te.
       andThen (mapEach [0..<3] (\<lambda>i. make_event P [kid] [kid] False)) (\<lambda>tasks.
       andThen (reads (\<lambda>s. length (hkernels s))) (\<lambda>r.
       andThen (modify (\<lambda>s. s\<lparr>hkernels := hkernels s @
         [\<lparr>k_id = kid, k_function = fr, k_in = ins, k_out = outs,
           k_tlb = \<lparr>tlb_buffers = [], tlb_events = []\<rparr>, k_threads = 0, k_unit = None,
           k_term = te, k_tasks = tasks, k_vaddr = uninit P, k_phy = uninit P,
           k_tile = uninit P, k_cluster = uninit P\<rparr>]\<rparr>)) (\<lambda>_.
       ret r))))))"

section \<open>The properties\<close>

text \<open>
  C28. A successful load keeps the version and size maps of a kernel function on the same
  unit types, binds the given file to the given unit, and leaves the other units as they
  were; after it \<^verbatim>\<open>length\<close> is positive, so the kernel can be registered.
\<close>

theorem load_success_consistent:
  assumes "kf_consistent f" and "kf_load good file unit type f = (SUCCESS, f')"
  shows "kf_consistent f' \<and> kf_loaded f' \<and> get_kernel_version f' unit = Inr file
     \<and> (\<forall>t. t \<noteq> unit \<longrightarrow> get_kernel_version f' t = get_kernel_version f t
           \<and> get_kernel_size f' t = get_kernel_size f t)
     \<and> (\<exists>n > 0. kf_length f' = Inr n)"
proof -
  obtain n where v: "kf_version f' = sm_assign unit file (kf_version f)"
    and z: "kf_size f' = sm_assign unit n (kf_size f)" and "kf_loaded f'"
    using load_success_cases [OF assms(2)] by blast
  moreover from this have c: "kf_consistent f'"
    using assms(1) by (simp add: kf_consistent_def keys_assign sm_ok_assign assign_not_Nil)
  moreover have "0 < card (sm_keys (kf_version f'))"
    using v by (simp add: keys_assign card_gt_0_iff)
  ultimately show ?thesis
    using consistent_length [OF c]
    by (auto simp: get_kernel_version_def get_kernel_size_def sm_at_assign)
qed


lemma load_success_consistent_witness:
  "kf_consistent (snd (kf_load (\<lambda>_. True) ''k'' PEAK BINARY new_function))"
  using load_success_consistent [OF new_function_consistent, of "\<lambda>_. True" "''k''" PEAK BINARY]
  by (simp add: kf_load_def load_peak_def Let_def)


end
