(* ===== verification/Host_Profiling.thy ===== *)
theory Host_Profiling
  imports Host_Kernel
begin

text \<open>
  The hardware counters of a kernel in the profiling build (\<^verbatim>\<open>host/include/profiling.h\<close>,
  \<^verbatim>\<open>host/src/profiling.cpp\<close>, \<^verbatim>\<open>Kernel::update_profiling_data\<close>). The structure
  \<^verbatim>\<open>hn_stats_monitor_st\<close> is the HN library's: a record of functions reads its integer
  fields, and gives its all-zero value. A difference of two fields ends in a 32-bit
  \<^verbatim>\<open>int\<close>; it is kept as the word with these bits. The log is left out, and so are the
  timings, statistics of the Boost accumulators over the clock.
\<close>

section \<open>Data\<close>

datatype profiling_counter = IRET | CPI | CORE_CYCLES | MEM_ACCESS | L2_MISSES | POWER

record 'h stats_monitor =
  timestamp :: "'h \<Rightarrow> int"
  core_instr :: "'h \<Rightarrow> int"
  core_cpi :: "'h \<Rightarrow> int"
  core_cycles :: "'h \<Rightarrow> int"
  mc_accesses :: "'h \<Rightarrow> int"
  l2_misses :: "'h \<Rightarrow> int"
  power_est :: "'h \<Rightarrow> u32"
  zeroed :: 'h

record 'h profiler =
  pf_kernel :: u32
  pf_processor :: u32
  per_core_prev_vals :: "'h list"
  per_core_stats :: "(profiling_counter \<Rightarrow> u32) list"


section \<open>Operations\<close>

text \<open>The statistics of one interval: what the counters have gained since the last values.\<close>

definition gained :: "'h stats_monitor \<Rightarrow> 'h \<Rightarrow> 'h \<Rightarrow> profiling_counter \<Rightarrow> u32" where
  "gained H new old c = (case c of
     IRET \<Rightarrow> word_of_int (core_instr H new - core_instr H old)
   | CPI \<Rightarrow> word_of_int (core_cpi H new - core_cpi H old)
   | CORE_CYCLES \<Rightarrow> word_of_int (core_cycles H new - core_cycles H old)
   | MEM_ACCESS \<Rightarrow> word_of_int (mc_accesses H new - mc_accesses H old)
   | L2_MISSES \<Rightarrow> word_of_int (l2_misses H new - l2_misses H old)
   | POWER \<Rightarrow> power_est H new)"

definition set_mapped_processor :: "u32 \<Rightarrow> ('h profiler, unit) act" where
  "set_mapped_processor p_id = modify (\<lambda>p. p\<lparr>pf_processor := p_id\<rparr>)"

definition update_core :: "'h stats_monitor \<Rightarrow> nat \<Rightarrow> 'h \<Rightarrow> ('h profiler, unit) act" where
  "update_core H i new =
     andThen (reads (\<lambda>p. i < length (per_core_stats p) \<and> i < length (per_core_prev_vals p))) (\<lambda>inside.
     if \<not> inside then fail Out_of_bounds
     else
       modify (\<lambda>p. let old = per_core_prev_vals p ! i in
         if timestamp H new \<noteq> timestamp H old
         then p\<lparr>per_core_stats := (per_core_stats p)[i := gained H new old],
                per_core_prev_vals := (per_core_prev_vals p)[i := new]\<rparr>
         else p))"

definition update_counters_peak :: "'h stats_monitor \<Rightarrow> u32 \<Rightarrow> 'h list \<Rightarrow> ('h profiler, unit) act" where
  "update_counters_peak H nr_cores new_values =
     forEach [0..<unat nr_cores] (\<lambda>i.
       if i < length new_values then update_core H i (new_values ! i) else fail Out_of_bounds)"


text \<open>
  \<^verbatim>\<open>monitor\<close> is the answer of the HN library for the unit: its error code, the number of
  cores and the values, of which the first \<^verbatim>\<open>NR_CORES_PER_PROC\<close> have room.
\<close>

definition update_profiling_data ::
  "'h stats_monitor \<Rightarrow> (u32 \<Rightarrow> u32 \<Rightarrow> u32 \<times> u32 \<times> 'h list) \<Rightarrow> kernel \<Rightarrow> ('h profiler, unit) act" where
  "update_profiling_data H monitor k =
     (case k_unit k of None \<Rightarrow> ret ()
      | Some u \<Rightarrow>
          andThen (set_mapped_processor (u_id u)) (\<lambda>_.
          if u_arch u = PEAK
          then (case monitor (u_id u) (k_cluster k) of (err, nr_cores, values) \<Rightarrow>
                  if err = 0 then update_counters_peak H nr_cores values else ret ())
          else ret ()))"

section \<open>What an update does\<close>













end
