(* ===== verification/Host_MM.thy ===== *)
theory Host_MM
  imports Host_Kernel
begin

text \<open>
  The local memory manager (\<^verbatim>\<open>host/include/mm.h\<close>, \<^verbatim>\<open>host/src/mm.cpp\<close>) and the lookups
  of a task graph it uses. \<^verbatim>\<open>mango_addr_t\<close> has 32 bits, as in every build but the
  emulation on x86-64. The flags of a TLB entry are those the code passes: memory or
  tile register; the third is always 0.
\<close>

section \<open>Task graphs\<close>

definition the_graph :: "nat \<Rightarrow> ('w host, task_graph) act" where
  "the_graph g = andThen (fetch hgraphs g) (from_option Bad_pointer)"

text \<open>\<^verbatim>\<open>get_kernel_by_id\<close> dereferences the end iterator when no kernel has the id.\<close>

definition get_kernel_by_id :: "task_graph \<Rightarrow> u32 \<Rightarrow> ('w host, nat) act" where
  "get_kernel_by_id tg i = andThen (reads hkernels) (\<lambda>ks.
     from_option Bad_pointer (find (\<lambda>r. r < length ks \<and> k_id (ks ! r) = i) (tg_kernels tg)))"

definition assigned_unit :: "kernel \<Rightarrow> ('w host, unit_desc) act" where
  "assigned_unit k = from_option Bad_pointer (k_unit k)"

section \<open>The manager's state\<close>

record mm =
  mm_entries :: "(u32, int) smap"
  mm_pool :: "(u32, u32) smap"

definition new_mm :: mm where
  "new_mm = \<lparr>mm_entries = [], mm_pool = []\<rparr>"

definition TLB_BASE_SHRD :: u32 where "TLB_BASE_SHRD = 0x50000000"
definition TLB_BASE_SYNCH :: u32 where "TLB_BASE_SYNCH = 0x5e000000"
definition TLB_BASE_KERN :: u32 where "TLB_BASE_KERN = 0x30000000"
definition TLB_ENTRY_KERNEL :: int where "TLB_ENTRY_KERNEL = 1"
definition TLB_ENTRY_EVENTS :: int where "TLB_ENTRY_EVENTS = 2"
definition TLB_ENTRY_START :: int where "TLB_ENTRY_START = 3"
definition NUP_TLB_BASE_SYNCH :: u32 where "NUP_TLB_BASE_SYNCH = 0xFF000000"
definition NUP_TLB_BASE_KERN :: u32 where "NUP_TLB_BASE_KERN = 0"
definition TLB_BASE_SHRD_NUPLUS :: u32 where "TLB_BASE_SHRD_NUPLUS = 0x80000000"
definition TLB_BASE_SHRD_DCT :: u32 where "TLB_BASE_SHRD_DCT = 0x50000000"
definition TLB_BASE_SYNCH_DCT :: u32 where "TLB_BASE_SYNCH_DCT = 0x10000000"

lemmas tlb_bases =
  TLB_BASE_SHRD_def TLB_BASE_SYNCH_def TLB_BASE_KERN_def NUP_TLB_BASE_SYNCH_def
  NUP_TLB_BASE_KERN_def TLB_BASE_SHRD_NUPLUS_def TLB_BASE_SHRD_DCT_def TLB_BASE_SYNCH_DCT_def

section \<open>Operations\<close>

definition set_tlb_kb ::
  "'w platform \<Rightarrow> u32 \<Rightarrow> u32 \<Rightarrow> u32 \<Rightarrow> u32 \<Rightarrow> u32 \<Rightarrow> int \<Rightarrow> u32 \<Rightarrow> 'w \<Rightarrow> 'w" where
  "set_tlb_kb P unit bank start sz phy entry cluster =
     hn_set_tlb P \<lparr>te_unit = unit, te_entry = entry, te_start = start, te_end = start + sz - 1,
       te_phy = phy, te_mem = True, te_reg = False, te_bank = bank, te_cluster = cluster\<rparr>"

text \<open>Per architecture: the kernel's virtual base, its area and the base of the buffers.\<close>

definition kernel_window :: "unit_type \<Rightarrow> u32 \<Rightarrow> u32 \<times> u32 \<times> u32 option" where
  "kernel_window arch kern_size =
     (case arch of
        PEAK \<Rightarrow> (TLB_BASE_KERN, 256 * 1024 * 1024, Some TLB_BASE_SHRD)
      | NUP \<Rightarrow> (NUP_TLB_BASE_KERN, kern_size, Some TLB_BASE_SHRD_NUPLUS)
      | DCT \<Rightarrow> (TLB_BASE_KERN, kern_size, Some TLB_BASE_SHRD_DCT)
      | _ \<Rightarrow> (TLB_BASE_KERN, kern_size, None))"

definition set_vaddr_kernel :: "'w platform \<Rightarrow> nat \<Rightarrow> mm \<Rightarrow> ('w host, mm) act" where
  "set_vaddr_kernel P kr m =
     andThen (the_kernel kr) (\<lambda>k.
     andThen (assigned_unit k) (\<lambda>u.
     andThen (the_function (k_function k)) (\<lambda>f.
     andThen (lift_sum (get_kernel_size f (u_arch u))) (\<lambda>kern_size.
     case kernel_window (u_arch u) kern_size of
       (virt_addr, area, base) \<Rightarrow>
         andThen (do_world (set_tlb_kb P (u_id u) (k_tile k) virt_addr area (k_phy k)
                    TLB_ENTRY_KERNEL (k_cluster k))) (\<lambda>_.
         andThen (put_kernel kr (k\<lparr>k_vaddr := virt_addr\<rparr>)) (\<lambda>_.
         ret (m\<lparr>mm_pool := (case base of None \<Rightarrow> mm_pool m
                              | Some a \<Rightarrow> sm_assign (k_id k) a (mm_pool m)),
                mm_entries := sm_assign (u_id u) TLB_ENTRY_START (mm_entries m)\<rparr>)))))))"

definition set_vaddr_kernels :: "'w platform \<Rightarrow> task_graph \<Rightarrow> mm \<Rightarrow> ('w host, mm) act" where
  "set_vaddr_kernels P tg m =
     foldEach (tg_kernels tg) (m\<lparr>mm_entries := []\<rparr>) (set_vaddr_kernel P)"

definition next_vaddr :: "u32 \<Rightarrow> u32 \<Rightarrow> u32" where
  "next_vaddr a sz =
     (let n = a + sz in if n mod 64 \<noteq> 0 then n + (64 - n mod 64) else n)"

definition set_buff_tlb :: "'w platform \<Rightarrow> nat \<Rightarrow> nat \<Rightarrow> mm \<Rightarrow> ('w host, mm) act" where
  "set_buff_tlb P kr br m =
     andThen (the_kernel kr) (\<lambda>k.
     andThen (the_buffer br) (\<lambda>b.
     andThen (from_option Assert_failed (sm_at (mm_pool m) (k_id k))) (\<lambda>next_virtual_address.
     andThen (put_kernel kr (k\<lparr>k_tlb := set_virt_addr_buffer (b_id b) next_virtual_address (k_tlb k)\<rparr>)) (\<lambda>_.
     andThen (assigned_unit k) (\<lambda>u.
     andThen (from_option Out_of_range (sm_at (mm_entries m) (u_id u))) (\<lambda>entry.
     andThen (do_world (set_tlb_kb P (u_id u) (b_tile b) next_virtual_address (b_size b) (b_phy b)
                entry (b_cluster b))) (\<lambda>_.
     ret (m\<lparr>mm_entries := sm_assign (u_id u) (entry + 1) (mm_entries m),
            mm_pool := sm_assign (k_id k) (next_vaddr next_virtual_address (b_size b)) (mm_pool m)\<rparr>))))))))"

definition event_base :: "unit_type \<Rightarrow> u32" where
  "event_base arch = (case arch of NUP \<Rightarrow> NUP_TLB_BASE_SYNCH | DCT \<Rightarrow> TLB_BASE_SYNCH_DCT | _ \<Rightarrow> TLB_BASE_SYNCH)"

definition set_event_tlb :: "nat \<Rightarrow> nat \<Rightarrow> ('w host, unit) act" where
  "set_event_tlb kr er =
     andThen (the_kernel kr) (\<lambda>k.
     andThen (the_event er) (\<lambda>e.
     andThen (assigned_unit k) (\<lambda>u.
     put_kernel kr (k\<lparr>k_tlb := set_virt_addr_event (ev_id e) (event_base (u_arch u) + ev_phy e) (k_tlb k)\<rparr>))))"

text \<open>The overrides of the emulated platform: virtual addresses are the physical ones.\<close>

definition set_buff_tlb_gn :: "nat \<Rightarrow> nat \<Rightarrow> mm \<Rightarrow> ('w host, mm) act" where
  "set_buff_tlb_gn kr br m =
     andThen (the_kernel kr) (\<lambda>k.
     andThen (the_buffer br) (\<lambda>b.
     andThen (put_kernel kr (k\<lparr>k_tlb := set_virt_addr_buffer (b_id b) (b_phy b) (k_tlb k)\<rparr>)) (\<lambda>_.
     ret m)))"

definition set_event_tlb_gn :: "nat \<Rightarrow> nat \<Rightarrow> ('w host, unit) act" where
  "set_event_tlb_gn kr er =
     andThen (the_kernel kr) (\<lambda>k.
     andThen (the_event er) (\<lambda>e.
     put_kernel kr (k\<lparr>k_tlb := set_virt_addr_event (ev_id e) (ev_phy e) (k_tlb k)\<rparr>)))"

text \<open>The loops; \<open>gn\<close> says whether the manager is an \<^verbatim>\<open>MM_GN\<close>. Kernel id 0 is the host.\<close>

definition map_buffer :: "bool \<Rightarrow> 'w platform \<Rightarrow> task_graph \<Rightarrow> nat \<Rightarrow> u32 \<Rightarrow> mm \<Rightarrow> ('w host, mm) act" where
  "map_buffer gn P tg br kid m =
     (if kid = 0 then ret m
      else andThen (get_kernel_by_id tg kid) (\<lambda>kr.
             if gn then set_buff_tlb_gn kr br m else set_buff_tlb P kr br m))"

definition set_vaddr_buffers :: "bool \<Rightarrow> 'w platform \<Rightarrow> task_graph \<Rightarrow> mm \<Rightarrow> ('w host, mm) act" where
  "set_vaddr_buffers gn P tg m =
     foldEach (tg_buffers tg) m (\<lambda>br m.
       andThen (the_buffer br) (\<lambda>b.
       andThen (foldEach (b_in b) m (map_buffer gn P tg br)) (\<lambda>m1.
       foldEach (b_out b) m1 (map_buffer gn P tg br))))"

definition map_event :: "bool \<Rightarrow> task_graph \<Rightarrow> nat \<Rightarrow> u32 \<Rightarrow> ('w host, unit) act" where
  "map_event gn tg er kid =
     (if kid = 0 then ret ()
      else andThen (get_kernel_by_id tg kid) (\<lambda>kr.
             if gn then set_event_tlb_gn kr er else set_event_tlb kr er))"

definition event_window :: "'w platform \<Rightarrow> u32 \<Rightarrow> u32 \<Rightarrow> u32 \<Rightarrow> ('w host, unit) act" where
  "event_window P unit base cluster =
     do_world (hn_set_tlb P \<lparr>te_unit = unit, te_entry = TLB_ENTRY_EVENTS, te_start = base,
       te_end = base + 0xffffff, te_phy = 0, te_mem = False, te_reg = True, te_bank = 0,
       te_cluster = cluster\<rparr>)"

definition set_vaddr_events :: "bool \<Rightarrow> 'w platform \<Rightarrow> task_graph \<Rightarrow> ('w host, unit) act" where
  "set_vaddr_events gn P tg =
     andThen (forEach (tg_events tg) (\<lambda>er.
       andThen (the_event er) (\<lambda>e.
       andThen (forEach (ev_in e) (map_event gn tg er)) (\<lambda>_.
       forEach (ev_out e) (map_event gn tg er))))) (\<lambda>_.
     forEach (tg_kernels tg) (\<lambda>kr.
       andThen (the_kernel kr) (\<lambda>k.
       andThen (assigned_unit k) (\<lambda>u.
       andThen (case u_arch u of
           PEAK \<Rightarrow> event_window P (u_id u) TLB_BASE_SYNCH (k_cluster k)
         | NUP \<Rightarrow> event_window P (u_id u) NUP_TLB_BASE_SYNCH (k_cluster k)
         | DCT \<Rightarrow> event_window P (u_id u) TLB_BASE_SYNCH_DCT (k_cluster k)
         | _ \<Rightarrow> ret ()) (\<lambda>_.
       forEach (k_tasks k) (\<lambda>er. if gn then set_event_tlb_gn kr er else set_event_tlb kr er))))))"

section \<open>The layout of a kernel's buffers\<close>

lemma align_nat:
  "(if (n::nat) mod 64 \<noteq> 0 then n + (64 - n mod 64) else n) = 64 * ((n + 63) div 64)"
proof -
  define q r where "q = n div 64" and "r = n mod 64"
  have n: "n = 64 * q + r" and r: "r < 64" by (simp_all add: q_def r_def)
  have d: "(64 * q + r + 63) div 64 = q + (r + 63) div 64" by simp
  show ?thesis
  proof (cases "r = 0")
    case True
    then show ?thesis by (simp add: n)
  next
    case False
    then have "(r + 63) div 64 = 1" using r by (intro div_nat_eqI) auto
    with False r d show ?thesis by (simp add: n)
  qed
qed

lemma align_bounds: "(n::nat) \<le> 64 * ((n + 63) div 64)"
  by (metis align_nat le_add1 order_refl)

lemma next_vaddr_unat:
  assumes "unat a + unat sz + 63 < 2 ^ 32"
  shows "unat (next_vaddr a sz) = 64 * ((unat a + unat sz + 63) div 64)"
proof -
  let ?n = "unat a + unat sz"
  have n: "unat (a + sz) = ?n" using assms by (intro unat_add_lem [THEN iffD1]) simp
  have m: "unat ((a + sz) mod 64) = ?n mod 64" by (simp add: unat_mod n)
  have "(a + sz) mod 64 \<le> 64" using m by (simp add: word_le_nat_alt less_imp_le)
  then have d: "unat (64 - (a + sz) mod 64) = 64 - ?n mod 64"
    using m by (subst unat_sub) auto
  have "unat (a + sz + (64 - (a + sz) mod 64)) = ?n + (64 - ?n mod 64)"
    if "?n mod 64 \<noteq> 0"
  proof -
    have "unat (a + sz) + unat (64 - (a + sz) mod 64) < 2 ^ 32"
      unfolding n d using assms that by simp
    then have "unat (a + sz + (64 - (a + sz) mod 64)) = unat (a + sz) + unat (64 - (a + sz) mod 64)"
      by (intro unat_add_lem [THEN iffD1]) simp
    then show ?thesis by (simp only: n d)
  qed
  moreover have "((a + sz) mod 64 \<noteq> 0) = (?n mod 64 \<noteq> 0)"
    using m by (metis unat_eq_zero)
  ultimately have "unat (next_vaddr a sz) = (if ?n mod 64 \<noteq> 0 then ?n + (64 - ?n mod 64) else ?n)"
    using n by (simp add: next_vaddr_def Let_def)
  then show ?thesis by (simp only: align_nat)
qed

text \<open>
  The regions of the buffers mapped so far: 64-byte aligned, between the base and the
  next free address, and disjoint; \<open>sz\<close> gives the size of the buffer with an id.
\<close>

definition regions_ok :: "u32 \<Rightarrow> (u32 \<Rightarrow> nat) \<Rightarrow> (u32, u32) smap \<Rightarrow> u32 \<Rightarrow> bool" where
  "regions_ok base sz t pool \<longleftrightarrow>
     64 dvd unat pool \<and> base \<le> pool
   \<and> (\<forall>i a. sm_at t i = Some a \<longrightarrow> 64 dvd unat a \<and> base \<le> a \<and> unat a + sz i \<le> unat pool)
   \<and> (\<forall>i j a b. sm_at t i = Some a \<longrightarrow> sm_at t j = Some b \<longrightarrow> i \<noteq> j \<longrightarrow>
        unat a + sz i \<le> unat b \<or> unat b + sz j \<le> unat a)"

lemma regions_ok_empty: "64 dvd unat base \<Longrightarrow> regions_ok base sz [] base"
  by (simp add: regions_ok_def)

lemma regions_ok_map:
  assumes ok: "regions_ok base sz t pool" and sz: "sz i = unat bsz"
    and lim: "unat pool + unat bsz + 63 < 2 ^ 32"
  shows "regions_ok base sz (sm_assign i pool t) (next_vaddr pool bsz)"
proof -
  let ?q = "next_vaddr pool bsz"
  have q: "unat ?q = 64 * ((unat pool + unat bsz + 63) div 64)" using lim by (rule next_vaddr_unat)
  then have le: "unat pool + unat bsz \<le> unat ?q" using align_bounds [of "unat pool + unat bsz"] by simp
  have dvd: "64 dvd unat ?q" using q by simp
  have base: "base \<le> ?q" using ok le by (simp add: regions_ok_def word_le_nat_alt)
  have old: "64 dvd unat a \<and> base \<le> a \<and> unat a + sz j \<le> unat pool" if "sm_at t j = Some a" for j a
    using ok that by (simp add: regions_ok_def)
  have new: "64 dvd unat pool \<and> base \<le> pool" using ok by (simp add: regions_ok_def)
  have dis: "unat a + sz j \<le> unat b \<or> unat b + sz k \<le> unat a"
    if "sm_at t j = Some a" "sm_at t k = Some b" "j \<noteq> k" for j k a b
    using ok that unfolding regions_ok_def by blast
  have one: "64 dvd unat a \<and> base \<le> a \<and> unat a + sz j \<le> unat ?q"
    if "((sm_at t)(i \<mapsto> pool)) j = Some a" for j a
    using that old [of j a] new sz le by (auto split: if_splits)
  have two: "unat a + sz j \<le> unat b \<or> unat b + sz k \<le> unat a"
    if "((sm_at t)(i \<mapsto> pool)) j = Some a" "((sm_at t)(i \<mapsto> pool)) k = Some b" "j \<noteq> k" for j k a b
    using that old [of j a] old [of k b] dis [of j a k b] by (auto split: if_splits)
  show ?thesis
    unfolding regions_ok_def sm_at_assign using dvd base one two by blast
qed

section \<open>The properties\<close>

text \<open>
  Mapping a buffer into a kernel's virtual space keeps the layout: the buffer gets
  the next free address, all mapped buffers of the kernel stay 64-byte aligned, disjoint
  and below the new free address, the entry used is the unit's next one, and exactly
  that region is given to the hardware.
\<close>

lemma set_buff_tlb_layout:
  assumes "kr < length (hkernels s)" and "br < length (hbuffers s)"
    and "k = hkernels s ! kr" and "b = hbuffers s ! br"
    and "sm_at (mm_pool m) (k_id k) = Some pool" and "k_unit k = Some u"
    and "sm_at (mm_entries m) (u_id u) = Some entry"
    and "regions_ok base sz (tlb_buffers (k_tlb k)) pool"
    and "sz (b_id b) = unat (b_size b)" and "unat pool + unat (b_size b) + 63 < 2 ^ 32"
  shows "\<exists>m' s' pool'. set_buff_tlb P kr br m s = Some (Inr m', s')
     \<and> sm_at (mm_pool m') (k_id k) = Some pool'
     \<and> sm_at (mm_entries m') (u_id u) = Some (entry + 1)
     \<and> regions_ok base sz (tlb_buffers (k_tlb (hkernels s' ! kr))) pool'
     \<and> get_virt_addr_buffer (k_tlb (hkernels s' ! kr)) (b_id b) = Inr pool
     \<and> world s' = set_tlb_kb P (u_id u) (b_tile b) pool (b_size b) (b_phy b) entry (b_cluster b) (world s)"
  using assms regions_ok_map [OF assms(8-10)]
  by (simp add: set_buff_tlb_def access_simps assigned_unit_def act_simps sm_at_assign
      set_virt_addr_buffer_def get_virt_addr_buffer_def)

text \<open>
  Starting point of the layout: for a kernel on a PEAK, NU+ or DCT unit,
  \<^verbatim>\<open>set_vaddr_kernels\<close> sets an aligned base for its buffers and the first free TLB
  entry, and PEAK kernels get the fixed 256 MB area that ends below the base of the
  shared buffers.
\<close>

lemma set_vaddr_kernel_start:
  assumes "kr < length (hkernels s)" and "k = hkernels s ! kr" and "k_unit k = Some u"
    and "k_function k < length (hfunctions s)"
    and "get_kernel_size (hfunctions s ! k_function k) (u_arch u) = Inr n"
    and "u_arch u \<in> {PEAK, NUP, DCT}"
  shows "\<exists>m' s' base. set_vaddr_kernel P kr m s = Some (Inr m', s')
     \<and> sm_at (mm_pool m') (k_id k) = Some base \<and> regions_ok base sz [] base
     \<and> sm_at (mm_entries m') (u_id u) = Some 3
     \<and> (u_arch u = PEAK \<longrightarrow> k_vaddr (hkernels s' ! kr) + 256 * 1024 * 1024 \<le> base)"
  using assms
  by (auto simp: set_vaddr_kernel_def access_simps assigned_unit_def act_simps kernel_window_def
      sm_at_assign regions_ok_empty tlb_bases TLB_ENTRY_START_def word_le_nat_alt
      split: unit_type.splits)


section \<open>A concrete layout\<close>

definition demo_function :: kernel_function where
  "demo_function = \<lparr>kf_loaded = True, kf_version = [(PEAK, ''k'')], kf_size = [(PEAK, 2 ^ 28)]\<rparr>"

definition demo_kernel :: kernel where
  "demo_kernel = \<lparr>k_id = 7, k_function = 0, k_in = [1], k_out = [2],
     k_tlb = \<lparr>tlb_buffers = [], tlb_events = []\<rparr>, k_threads = 0,
     k_unit = Some \<lparr>u_id = 5, u_arch = PEAK, u_nr_cores = 1\<rparr>, k_term = 0, k_tasks = [1, 2, 3],
     k_vaddr = 0, k_phy = 0x1000, k_tile = 0, k_cluster = 0\<rparr>"

definition demo_buffer :: "u32 \<Rightarrow> nat \<Rightarrow> u32 \<Rightarrow> buffer" where
  "demo_buffer i e n = \<lparr>b_id = i, b_event = e, b_cluster = 0, b_phy = 0x2000, b_tile = 0,
     b_size = n, b_in = [0], b_out = [7], b_fifo = False\<rparr>"

definition demo_host :: "bank host" where
  "demo_host = (host_init (\<lambda>_. 0))\<lparr>
     hevents := map (\<lambda>i. new_event 0 (of_nat i) [7] [7] (i = 0)) [0..<6],
     id_gen := 6, hbuffers := [demo_buffer 1 4 100, demo_buffer 2 5 64],
     hkernels := [demo_kernel], hfunctions := [demo_function], cxt := Cxt_live,
     cxt_kernels := [(7, 0)], cxt_buffers := [(1, 0), (2, 1)],
     cxt_events := map (\<lambda>i. (of_nat i, i)) [0..<6]\<rparr>"


end
