(* ===== verification/Host_Layout.thy ===== *)
theory Host_Layout
  imports Host_MM
begin

text \<open>
  The memory manager on a whole task graph (\<^verbatim>\<open>MM::set_vaddr_kernels\<close>,
  \<^verbatim>\<open>MM::set_vaddr_buffers\<close>): the two loops, for any number of kernels and buffers, leave
  every kernel with disjoint, aligned regions for all the buffers it reads or writes.
\<close>

section \<open>Folds that spend a budget\<close>

text \<open>
  Each step of a loop spends its cost and adds its element to what is done: the loop
  returns, has spent the sum and has done all elements.
\<close>

lemma foldEach_spends:
  fixes c :: "'a \<Rightarrow> nat"
  assumes step: "\<And>x n D b s. x \<in> set xs \<Longrightarrow> I (n + c x) D b s \<Longrightarrow>
      \<exists>b' s'. f x b s = Some (Inr b', s') \<and> I n (insert x D) b' s'"
    and "I (n + sum_list (map c xs)) D b s"
  shows "\<exists>b' s'. foldEach xs b f s = Some (Inr b', s') \<and> I n (D \<union> set xs) b' s'"
  using assms
proof (induction xs arbitrary: D b s)
  case Nil
  then show ?case by (simp add: act_simps)
next
  case (Cons x xs)
  have "I ((n + sum_list (map c xs)) + c x) D b s" using Cons.prems(2) by (simp add: add.assoc add.commute [of "c x"])
  from Cons.prems(1) [OF _ this] obtain b1 s1 where
    one: "f x b s = Some (Inr b1, s1)" "I (n + sum_list (map c xs)) (insert x D) b1 s1" by auto
  from Cons.IH [OF Cons.prems(1) one(2)] obtain b2 s2 where
    "foldEach xs b1 f s1 = Some (Inr b2, s2)" "I n (insert x D \<union> set xs) b2 s2" by auto
  with one(1) show ?case by (auto simp: act_simps)
qed

section \<open>Well-placed task graphs\<close>

text \<open>
  What the resource manager and the registration leave: every kernel of the graph has a unit
  with a memory manager of its own kind, an image for it and an empty TLB; kernel ids are
  not shared; the buffers name kernels of the graph, or the host (id 0).
\<close>

definition users :: "buffer \<Rightarrow> u32 list" where
  "users b = b_in b @ b_out b"

definition placed_kernel :: "'w host \<Rightarrow> nat \<Rightarrow> bool" where
  "placed_kernel s kr \<longleftrightarrow> kr < length (hkernels s) \<and>
     (let k = hkernels s ! kr in
       k_function k < length (hfunctions s) \<and> tlb_buffers (k_tlb k) = [] \<and>
       (case k_unit k of None \<Rightarrow> False
        | Some u \<Rightarrow> u_arch u \<in> {PEAK, NUP, DCT} \<and>
            \<not> isl (get_kernel_size (hfunctions s ! k_function k) (u_arch u))))"

definition placed_graph :: "task_graph \<Rightarrow> 'w host \<Rightarrow> bool" where
  "placed_graph tg s \<longleftrightarrow>
     (\<forall>kr \<in> set (tg_kernels tg). placed_kernel s kr)
   \<and> (\<forall>kr \<in> set (tg_kernels tg). \<forall>kr' \<in> set (tg_kernels tg).
        k_id (hkernels s ! kr) = k_id (hkernels s ! kr') \<longrightarrow> kr = kr')
   \<and> (\<forall>br \<in> set (tg_buffers tg). br < length (hbuffers s) \<and>
        (\<forall>i \<in> set (users (hbuffers s ! br)). i = 0 \<or> (\<exists>kr \<in> set (tg_kernels tg). k_id (hkernels s ! kr) = i)))"

definition buffers_base :: "unit_type \<Rightarrow> u32" where
  "buffers_base arch = (if arch = NUP then TLB_BASE_SHRD_NUPLUS else TLB_BASE_SHRD)"

text \<open>The space the mappings of a buffer take at most, the gaps of the alignment included.\<close>

definition room_for :: "buffer \<Rightarrow> u32 \<Rightarrow> nat" where
  "room_for b i = (if i = 0 then 0 else unat (b_size b) + 63)"

definition demand :: "task_graph \<Rightarrow> 'w host \<Rightarrow> nat" where
  "demand tg s = sum_list (map (\<lambda>br. sum_list (map (room_for (hbuffers s ! br)) (users (hbuffers s ! br))))
     (tg_buffers tg))"

section \<open>What the loops keep\<close>

definition same_objects :: "'w host \<Rightarrow> 'w host \<Rightarrow> bool" where
  "same_objects s t \<longleftrightarrow> hbuffers t = hbuffers s \<and> hfunctions t = hfunctions s
     \<and> map (\<lambda>k. (k_id k, k_unit k, k_function k)) (hkernels t)
       = map (\<lambda>k. (k_id k, k_unit k, k_function k)) (hkernels s)"

lemma same_objects_nth:
  assumes "same_objects s t"
  shows "length (hkernels t) = length (hkernels s)"
    and "kr < length (hkernels s) \<Longrightarrow> k_id (hkernels t ! kr) = k_id (hkernels s ! kr)
      \<and> k_unit (hkernels t ! kr) = k_unit (hkernels s ! kr)
      \<and> k_function (hkernels t ! kr) = k_function (hkernels s ! kr)"
proof -
  from assms show len: "length (hkernels t) = length (hkernels s)"
    unfolding same_objects_def by (blast dest: map_eq_imp_length_eq)
  assume "kr < length (hkernels s)"
  moreover from assms have "map (\<lambda>k. (k_id k, k_unit k, k_function k)) (hkernels t) ! kr
      = map (\<lambda>k. (k_id k, k_unit k, k_function k)) (hkernels s) ! kr"
    by (simp only: same_objects_def)
  ultimately show "k_id (hkernels t ! kr) = k_id (hkernels s ! kr)
      \<and> k_unit (hkernels t ! kr) = k_unit (hkernels s ! kr)
      \<and> k_function (hkernels t ! kr) = k_function (hkernels s ! kr)"
    using len by simp
qed

lemma same_objects_put:
  assumes "same_objects s t" and "kr < length (hkernels s)"
    and "k_id k = k_id (hkernels s ! kr)" and "k_unit k = k_unit (hkernels s ! kr)"
    and "k_function k = k_function (hkernels s ! kr)"
  shows "same_objects s (t\<lparr>hkernels := (hkernels t)[kr := k], world := w\<rparr>)"
proof -
  let ?f = "\<lambda>k. (k_id k, k_unit k, k_function k)"
  have "?f k = map ?f (hkernels t) ! kr"
    using assms by (simp add: same_objects_def)
  with assms(1) map_update_same [of "?f k" ?f "hkernels t" kr k] show ?thesis
    by (simp add: same_objects_def)
qed

text \<open>After the first loop has done the kernels \<open>D\<close>.\<close>

definition started :: "task_graph \<Rightarrow> 'w host \<Rightarrow> nat set \<Rightarrow> mm \<Rightarrow> 'w host \<Rightarrow> bool" where
  "started tg s D m t \<longleftrightarrow> same_objects s t \<and> (\<forall>kr \<in> set (tg_kernels tg). tlb_buffers (k_tlb (hkernels t ! kr)) = [])
   \<and> (\<forall>kr \<in> set (tg_kernels tg) \<inter> D. \<forall>u. k_unit (hkernels s ! kr) = Some u \<longrightarrow>
        sm_at (mm_pool m) (k_id (hkernels s ! kr)) = Some (buffers_base (u_arch u))
      \<and> sm_at (mm_entries m) (u_id u) = Some TLB_ENTRY_START)"

lemma started_step:
  assumes "placed_graph tg s" and "kr \<in> set (tg_kernels tg)" and "started tg s D m t"
  shows "\<exists>m' t'. set_vaddr_kernel P kr m t = Some (Inr m', t') \<and> started tg s (insert kr D) m' t'"
proof -
  let ?k = "hkernels t ! kr"
  from assms(1,2) obtain u n where kr: "kr < length (hkernels s)" "k_unit (hkernels s ! kr) = Some u"
    "u_arch u \<in> {PEAK, NUP, DCT}" "k_function (hkernels s ! kr) < length (hfunctions s)"
    "get_kernel_size (hfunctions s ! k_function (hkernels s ! kr)) (u_arch u) = Inr n"
    by (auto simp: placed_graph_def placed_kernel_def Let_def isl_def split: option.splits) (metis sum.exhaust)
  have same: "same_objects s t" using assms(3) by (simp add: started_def)
  note nth = same_objects_nth [OF same]
  obtain v area where win: "kernel_window (u_arch u) n = (v, area, Some (buffers_base (u_arch u)))"
    using kr(3) by (auto simp: kernel_window_def buffers_base_def tlb_bases)
  let ?t = "t\<lparr>hkernels := (hkernels t)[kr := ?k\<lparr>k_vaddr := v\<rparr>],
     world := set_tlb_kb P (u_id u) (k_tile ?k) v area (k_phy ?k) TLB_ENTRY_KERNEL (k_cluster ?k) (world t)\<rparr>"
  let ?m = "m\<lparr>mm_pool := sm_assign (k_id ?k) (buffers_base (u_arch u)) (mm_pool m),
     mm_entries := sm_assign (u_id u) TLB_ENTRY_START (mm_entries m)\<rparr>"
  have fn: "hfunctions t = hfunctions s" using same by (simp add: same_objects_def)
  have "set_vaddr_kernel P kr m t = Some (Inr ?m, ?t)"
    using kr nth fn win by (simp add: set_vaddr_kernel_def access_simps assigned_unit_def act_simps)
  moreover have "started tg s (insert kr D) ?m ?t"
    unfolding started_def
  proof (intro conjI ballI allI impI)
    show "same_objects s ?t" using same_objects_put [OF same kr(1)] nth(2) [OF kr(1)] by simp
    fix kr' assume kr': "kr' \<in> set (tg_kernels tg)"
    show "tlb_buffers (k_tlb (hkernels ?t ! kr')) = []"
      using assms(2,3) kr' kr(1) nth(1) by (cases "kr' = kr") (auto simp: started_def)
  next
    fix kr' u' assume kr': "kr' \<in> set (tg_kernels tg) \<inter> insert kr D" "k_unit (hkernels s ! kr') = Some u'"
    show "sm_at (mm_pool ?m) (k_id (hkernels s ! kr')) = Some (buffers_base (u_arch u'))"
      using assms kr' kr(1,2) nth(2) [OF kr(1)]
      by (auto simp: sm_at_assign started_def placed_graph_def)
    show "sm_at (mm_entries ?m) (u_id u') = Some TLB_ENTRY_START"
      using assms(3) kr' kr(2) by (auto simp: sm_at_assign started_def)
  qed
  ultimately show ?thesis by blast
qed

text \<open>
  While the second loop runs: room for \<open>n\<close> more bytes, regions in order, and the pairs
  \<open>D\<close> of buffers and kernel ids mapped.
\<close>

definition laid :: "task_graph \<Rightarrow> 'w host \<Rightarrow> (u32 \<Rightarrow> nat) \<Rightarrow> nat \<Rightarrow> (nat \<times> u32) set \<Rightarrow> mm \<Rightarrow> 'w host \<Rightarrow> bool" where
  "laid tg s sz n D m t \<longleftrightarrow> same_objects s t \<and>
     (\<forall>kr \<in> set (tg_kernels tg). \<forall>u. k_unit (hkernels s ! kr) = Some u \<longrightarrow>
       (\<exists>pool entry. sm_at (mm_pool m) (k_id (hkernels s ! kr)) = Some pool \<and> sm_at (mm_entries m) (u_id u) = Some entry
          \<and> regions_ok (buffers_base (u_arch u)) sz (tlb_buffers (k_tlb (hkernels t ! kr))) pool
          \<and> unat pool + n < 2 ^ 32))
   \<and> (\<forall>kr \<in> set (tg_kernels tg). \<forall>br. (br, k_id (hkernels s ! kr)) \<in> D \<longrightarrow> k_id (hkernels s ! kr) \<noteq> 0 \<longrightarrow>
       sm_at (tlb_buffers (k_tlb (hkernels t ! kr))) (b_id (hbuffers s ! br)) \<noteq> None)"

lemma laid_pool:
  assumes "laid tg s sz n D m t" and "kr \<in> set (tg_kernels tg)" and "k_unit (hkernels s ! kr) = Some u"
  obtains pool entry where "sm_at (mm_pool m) (k_id (hkernels s ! kr)) = Some pool"
    "sm_at (mm_entries m) (u_id u) = Some entry"
    "regions_ok (buffers_base (u_arch u)) sz (tlb_buffers (k_tlb (hkernels t ! kr))) pool"
    "unat pool + n < 2 ^ 32"
  using assms unfolding laid_def by blast

lemma next_vaddr_le:
  assumes "unat a + unat sz + 63 < 2 ^ 32"
  shows "unat (next_vaddr a sz) \<le> unat a + unat sz + 63"
  unfolding next_vaddr_unat [OF assms] by simp

lemma found_kernel:
  assumes "placed_graph tg s" and "same_objects s t" and "kr \<in> set (tg_kernels tg)"
  shows "get_kernel_by_id tg (k_id (hkernels s ! kr)) t = Some (Inr kr, t)"
proof -
  let ?Q = "\<lambda>r. r < length (hkernels t) \<and> k_id (hkernels t ! r) = k_id (hkernels s ! kr)"
  note nth = same_objects_nth [OF assms(2)]
  have lt: "r < length (hkernels s)" if "r \<in> set (tg_kernels tg)" for r
    using assms(1) that by (simp add: placed_graph_def placed_kernel_def)
  have "?Q kr" using lt [OF assms(3)] nth by simp
  then obtain r where r: "find ?Q (tg_kernels tg) = Some r"
    using assms(3) by (cases "find ?Q (tg_kernels tg)") (auto simp: find_None_iff)
  then have "r \<in> set (tg_kernels tg)" "?Q r" by (auto simp: find_Some_iff)
  then have "r = kr" using assms(1,3) nth lt by (auto simp: placed_graph_def)
  with r show ?thesis by (simp add: get_kernel_by_id_def act_simps)
qed

lemma laid_step:
  assumes placed: "placed_graph tg s" and br: "br \<in> set (tg_buffers tg)"
    and i: "i \<in> set (users (hbuffers s ! br))" and sz: "sz (b_id (hbuffers s ! br)) = unat (b_size (hbuffers s ! br))"
    and laid: "laid tg s sz (n + room_for (hbuffers s ! br) i) D m t"
  shows "\<exists>m' t'. map_buffer False P tg br i m t = Some (Inr m', t') \<and> laid tg s sz n (insert (br, i) D) m' t'"
proof (cases "i = 0")
  case True
  with laid show ?thesis by (simp add: map_buffer_def laid_def room_for_def act_simps)
next
  case False
  let ?b = "hbuffers s ! br"
  have same: "same_objects s t" using laid by (simp add: laid_def)
  note nth = same_objects_nth [OF same]
  from placed br i False obtain kr where kr: "kr \<in> set (tg_kernels tg)" "k_id (hkernels s ! kr) = i"
    unfolding placed_graph_def by blast
  with placed obtain u where u: "kr < length (hkernels s)" "k_unit (hkernels s ! kr) = Some u"
    by (auto simp: placed_graph_def placed_kernel_def Let_def split: option.splits)
  have bt: "br < length (hbuffers t)" "hbuffers t ! br = ?b"
    using placed br same by (auto simp: placed_graph_def same_objects_def)
  obtain pool entry where pool: "sm_at (mm_pool m) i = Some pool" "sm_at (mm_entries m) (u_id u) = Some entry"
    "regions_ok (buffers_base (u_arch u)) sz (tlb_buffers (k_tlb (hkernels t ! kr))) pool"
    "unat pool + (n + unat (b_size ?b) + 63) < 2 ^ 32"
    using laid_pool [OF laid kr(1) u(2)] kr(2) False by (auto simp: room_for_def add.assoc)
  let ?k = "(hkernels t ! kr)\<lparr>k_tlb := set_virt_addr_buffer (b_id ?b) pool (k_tlb (hkernels t ! kr))\<rparr>"
  let ?t = "t\<lparr>hkernels := (hkernels t)[kr := ?k],
     world := set_tlb_kb P (u_id u) (b_tile ?b) pool (b_size ?b) (b_phy ?b) entry (b_cluster ?b) (world t)\<rparr>"
  let ?m = "m\<lparr>mm_entries := sm_assign (u_id u) (entry + 1) (mm_entries m),
     mm_pool := sm_assign i (next_vaddr pool (b_size ?b)) (mm_pool m)\<rparr>"
  have run: "map_buffer False P tg br i m t = Some (Inr ?m, ?t)"
    using found_kernel [OF placed same kr(1)] kr u nth bt pool False
    by (simp add: map_buffer_def set_buff_tlb_def access_simps assigned_unit_def act_simps)
  have lim: "unat pool + unat (b_size ?b) + 63 < 2 ^ 32" using pool(4) by simp
  note grown = regions_ok_map [OF pool(3), of "b_id ?b" "b_size ?b", OF sz lim]
  have other: "k_id (hkernels s ! kr') \<noteq> i" if "kr' \<in> set (tg_kernels tg)" "kr' \<noteq> kr" for kr'
    using placed that kr by (auto simp: placed_graph_def)
  have "laid tg s sz n (insert (br, i) D) ?m ?t"
    unfolding laid_def
  proof (intro conjI ballI allI impI)
    show "same_objects s ?t" using same_objects_put [OF same u(1)] nth(2) [OF u(1)] by simp
    fix kr' v assume kr': "kr' \<in> set (tg_kernels tg)" "k_unit (hkernels s ! kr') = Some v"
    obtain p e where old: "sm_at (mm_pool m) (k_id (hkernels s ! kr')) = Some p" "sm_at (mm_entries m) (u_id v) = Some e"
      "regions_ok (buffers_base (u_arch v)) sz (tlb_buffers (k_tlb (hkernels t ! kr'))) p" "unat p + n < 2 ^ 32"
      by (rule laid_pool [OF laid kr']) auto
    show "\<exists>pool entry. sm_at (mm_pool ?m) (k_id (hkernels s ! kr')) = Some pool
       \<and> sm_at (mm_entries ?m) (u_id v) = Some entry
       \<and> regions_ok (buffers_base (u_arch v)) sz (tlb_buffers (k_tlb (hkernels ?t ! kr'))) pool
       \<and> unat pool + n < 2 ^ 32"
    proof (cases "kr' = kr")
      case True
      have "unat (next_vaddr pool (b_size ?b)) + n < 2 ^ 32"
        using next_vaddr_le [OF lim] pool(4) by simp
      with True kr kr'(2) u nth(1) grown show ?thesis
        by (auto simp: sm_at_assign set_virt_addr_buffer_def)
    next
      case diff: False
      with old other [OF kr'(1)] show ?thesis by (auto simp: sm_at_assign)
    qed
  next
    fix kr' br' assume kr': "kr' \<in> set (tg_kernels tg)" "(br', k_id (hkernels s ! kr')) \<in> insert (br, i) D"
      "k_id (hkernels s ! kr') \<noteq> 0"
    show "sm_at (tlb_buffers (k_tlb (hkernels ?t ! kr'))) (b_id (hbuffers s ! br')) \<noteq> None"
    proof (cases "kr' = kr")
      case True
      with kr' kr laid u(1) nth(1) show ?thesis
        by (auto simp: laid_def set_virt_addr_buffer_def sm_at_assign)
    next
      case diff: False
      with kr' other [OF kr'(1)] laid show ?thesis by (auto simp: laid_def)
    qed
  qed
  with run show ?thesis by blast
qed

section \<open>The two loops\<close>

lemma kernels_started:
  assumes "placed_graph tg s"
  shows "\<exists>m t. set_vaddr_kernels P tg new_mm s = Some (Inr m, t) \<and> started tg s (set (tg_kernels tg)) m t"
proof -
  have "started tg s {} (new_mm\<lparr>mm_entries := []\<rparr>) s"
    using assms by (auto simp: started_def same_objects_def placed_graph_def placed_kernel_def Let_def)
  from foldEach_spends [where I = "\<lambda>_. started tg s" and c = "\<lambda>_. 0" and n = 0 and f = "set_vaddr_kernel P",
      OF started_step [OF assms] this]
  show ?thesis by (simp add: set_vaddr_kernels_def)
qed

lemma foldEach_append: "foldEach (xs @ ys) b f = andThen (foldEach xs b f) (\<lambda>c. foldEach ys c f)"
  by (induction xs arbitrary: b) (simp_all add: andThen_assoc)

lemma buffer_laid:
  assumes "placed_graph tg s" and "br \<in> set (tg_buffers tg)" and "b = hbuffers s ! br"
    and "sz (b_id b) = unat (b_size b)"
    and "laid tg s sz (n + sum_list (map (room_for b) (users b))) D m t"
  shows "\<exists>m' t'. andThen (the_buffer br) (\<lambda>b.
       andThen (foldEach (b_in b) m (map_buffer False P tg br)) (\<lambda>m1.
       foldEach (b_out b) m1 (map_buffer False P tg br))) t = Some (Inr m', t')
     \<and> laid tg s sz n (D \<union> Pair br ` set (users b)) m' t'"
proof -
  have bt: "br < length (hbuffers t)" "hbuffers t ! br = b"
    using assms by (auto simp: laid_def placed_graph_def same_objects_def)
  have "\<exists>m' t'. foldEach (users b) m (map_buffer False P tg br) t = Some (Inr m', t')
      \<and> laid tg s sz n (D \<union> Pair br ` ({} \<union> set (users b))) m' t'"
  proof (rule foldEach_spends [where I = "\<lambda>n E. laid tg s sz n (D \<union> Pair br ` E)" and c = "room_for b"])
    show "laid tg s sz (n + sum_list (map (room_for b) (users b))) (D \<union> Pair br ` {}) m t"
      using assms(5) by simp
    fix i n E m t
    assume "i \<in> set (users b)" "laid tg s sz (n + room_for b i) (D \<union> Pair br ` E) m t"
    note this [unfolded assms(3)]
    from laid_step [OF assms(1,2) this(1) assms(4) [unfolded assms(3)] this(2)]
    show "\<exists>m' t'. map_buffer False P tg br i m t = Some (Inr m', t')
        \<and> laid tg s sz n (D \<union> Pair br ` insert i E) m' t'" by simp
  qed
  with bt show ?thesis
    by (simp add: users_def foldEach_append the_buffer_def andThen_run [of "fetch hbuffers br"] fetch_run)
qed

lemma buffers_laid:
  assumes "placed_graph tg s"
    and "\<And>br. br \<in> set (tg_buffers tg) \<Longrightarrow> sz (b_id (hbuffers s ! br)) = unat (b_size (hbuffers s ! br))"
    and "laid tg s sz (n + demand tg s) {} m t"
  shows "\<exists>m' t'. set_vaddr_buffers False P tg m t = Some (Inr m', t')
     \<and> laid tg s sz n {(br, i). br \<in> set (tg_buffers tg) \<and> i \<in> set (users (hbuffers s ! br))} m' t'"
proof -
  let ?pairs = "\<lambda>B. {(br, i). br \<in> B \<and> i \<in> set (users (hbuffers s ! br))}"
  let ?c = "\<lambda>br. sum_list (map (room_for (hbuffers s ! br)) (users (hbuffers s ! br)))"
  have grow: "?pairs B \<union> Pair br ` set (users (hbuffers s ! br)) = ?pairs (insert br B)" for br B
    by auto
  have "\<exists>m' t'. set_vaddr_buffers False P tg m t = Some (Inr m', t')
      \<and> laid tg s sz n (?pairs ({} \<union> set (tg_buffers tg))) m' t'"
    unfolding set_vaddr_buffers_def
  proof (rule foldEach_spends [where I = "\<lambda>n B. laid tg s sz n (?pairs B)" and c = ?c])
    show "laid tg s sz (n + sum_list (map ?c (tg_buffers tg))) (?pairs {}) m t"
      using assms(3) by (simp add: demand_def)
    fix br n B m t
    assume "br \<in> set (tg_buffers tg)" "laid tg s sz (n + ?c br) (?pairs B) m t"
    from buffer_laid [OF assms(1) this(1) refl assms(2) [OF this(1)] this(2)]
    show "\<exists>m' t'. andThen (the_buffer br) (\<lambda>b.
        andThen (foldEach (b_in b) m (map_buffer False P tg br)) (\<lambda>m1.
        foldEach (b_out b) m1 (map_buffer False P tg br))) t = Some (Inr m', t')
        \<and> laid tg s sz n (?pairs (insert br B)) m' t'"
      unfolding grow .
  qed
  then show ?thesis by simp
qed

lemma started_laid:
  assumes "placed_graph tg s" and "started tg s (set (tg_kernels tg)) m t" and "n < 2 ^ 31"
  shows "laid tg s sz n {} m t"
  unfolding laid_def
proof (intro conjI ballI allI impI)
  show "same_objects s t" using assms(2) by (simp add: started_def)
  fix kr u assume kr: "kr \<in> set (tg_kernels tg)" "k_unit (hkernels s ! kr) = Some u"
  have "unat (buffers_base (u_arch u)) \<le> 2 ^ 31" "64 dvd unat (buffers_base (u_arch u))"
    by (simp_all add: buffers_base_def tlb_bases)
  with kr assms show "\<exists>pool entry. sm_at (mm_pool m) (k_id (hkernels s ! kr)) = Some pool
      \<and> sm_at (mm_entries m) (u_id u) = Some entry
      \<and> regions_ok (buffers_base (u_arch u)) sz (tlb_buffers (k_tlb (hkernels t ! kr))) pool
      \<and> unat pool + n < 2 ^ 32"
    by (auto simp: started_def regions_ok_empty)
qed simp

section \<open>The property\<close>

text \<open>
  C4. For every well-placed task graph whose buffers together need less than 2 GB, the two
  loops of the memory manager return and leave each kernel, whatever the number of kernels and
  buffers and however often a buffer names a kernel, with a virtual address for every buffer
  it uses; its regions start at 64-byte boundaries above the base of its unit's kind, do not
  overlap and do not wrap around.
\<close>

theorem task_graph_laid_out:
  assumes "placed_graph tg s" and "demand tg s < 2 ^ 31"
    and "\<And>br. br \<in> set (tg_buffers tg) \<Longrightarrow> sz (b_id (hbuffers s ! br)) = unat (b_size (hbuffers s ! br))"
  shows "\<exists>m t. andThen (set_vaddr_kernels P tg new_mm) (set_vaddr_buffers False P tg) s = Some (Inr m, t)
     \<and> (\<forall>kr \<in> set (tg_kernels tg). let k = hkernels t ! kr in
          k_id k = k_id (hkernels s ! kr) \<and> k_unit k = k_unit (hkernels s ! kr)
        \<and> (\<forall>u. k_unit k = Some u \<longrightarrow> (\<exists>pool. regions_ok (buffers_base (u_arch u)) sz (tlb_buffers (k_tlb k)) pool))
        \<and> (\<forall>br \<in> set (tg_buffers tg). k_id k \<noteq> 0 \<longrightarrow> k_id k \<in> set (users (hbuffers s ! br)) \<longrightarrow>
             (\<exists>a. get_virt_addr_buffer (k_tlb k) (b_id (hbuffers s ! br)) = Inr a)))"
proof -
  obtain m1 t1 where one: "set_vaddr_kernels P tg new_mm s = Some (Inr m1, t1)"
    "started tg s (set (tg_kernels tg)) m1 t1"
    using kernels_started [OF assms(1)] by blast
  have "laid tg s sz (0 + demand tg s) {} m1 t1"
    using started_laid [OF assms(1) one(2)] assms(2) by simp
  from buffers_laid [OF assms(1,3) this] obtain m t where
    two: "set_vaddr_buffers False P tg m1 t1 = Some (Inr m, t)" and laid: "laid tg s sz 0
      {(br, i). br \<in> set (tg_buffers tg) \<and> i \<in> set (users (hbuffers s ! br))} m t"
    by blast
  have same: "same_objects s t" using laid by (simp add: laid_def)
  show ?thesis
  proof (intro exI conjI ballI)
    show "andThen (set_vaddr_kernels P tg new_mm) (set_vaddr_buffers False P tg) s = Some (Inr m, t)"
      using one(1) two by (simp add: andThen_run)
    fix kr assume kr: "kr \<in> set (tg_kernels tg)"
    then have "kr < length (hkernels s)" using assms(1) by (simp add: placed_graph_def placed_kernel_def)
    note nth = same_objects_nth(2) [OF same this]
    have "\<exists>pool. regions_ok (buffers_base (u_arch u)) sz (tlb_buffers (k_tlb (hkernels t ! kr))) pool"
      if "k_unit (hkernels s ! kr) = Some u" for u
      by (rule laid_pool [OF laid kr that]) blast
    moreover have "\<exists>a. get_virt_addr_buffer (k_tlb (hkernels t ! kr)) (b_id (hbuffers s ! br)) = Inr a"
      if "br \<in> set (tg_buffers tg)" "k_id (hkernels s ! kr) \<noteq> 0"
        "k_id (hkernels s ! kr) \<in> set (users (hbuffers s ! br))" for br
    proof -
      have "sm_at (tlb_buffers (k_tlb (hkernels t ! kr))) (b_id (hbuffers s ! br)) \<noteq> None"
        using laid kr that unfolding laid_def by blast
      then show ?thesis by (auto simp: get_virt_addr_buffer_def)
    qed
    ultimately show "let k = hkernels t ! kr in
          k_id k = k_id (hkernels s ! kr) \<and> k_unit k = k_unit (hkernels s ! kr)
        \<and> (\<forall>u. k_unit k = Some u \<longrightarrow> (\<exists>pool. regions_ok (buffers_base (u_arch u)) sz (tlb_buffers (k_tlb k)) pool))
        \<and> (\<forall>br \<in> set (tg_buffers tg). k_id k \<noteq> 0 \<longrightarrow> k_id k \<in> set (users (hbuffers s ! br)) \<longrightarrow>
             (\<exists>a. get_virt_addr_buffer (k_tlb k) (b_id (hbuffers s ! br)) = Inr a))"
      using nth by (simp add: Let_def)
  qed
qed

definition demo_graph :: task_graph where
  "demo_graph = \<lparr>tg_kernels = [0], tg_buffers = [0, 1], tg_events = []\<rparr>"

theorem task_graph_laid_out_witness:
  "\<exists>m t. andThen (set_vaddr_kernels (bank_platform True) demo_graph new_mm)
         (set_vaddr_buffers False (bank_platform True) demo_graph) demo_host = Some (Inr m, t)
     \<and> (\<exists>pool. regions_ok TLB_BASE_SHRD (\<lambda>i. if i = 1 then 100 else 64)
          (tlb_buffers (k_tlb (hkernels t ! 0))) pool)
     \<and> (\<exists>a b. get_virt_addr_buffer (k_tlb (hkernels t ! 0)) 1 = Inr a
          \<and> get_virt_addr_buffer (k_tlb (hkernels t ! 0)) 2 = Inr b)"
proof -
  note demo = demo_graph_def demo_host_def host_init_def demo_kernel_def demo_function_def demo_buffer_def
  have "placed_graph demo_graph demo_host"
    by (simp add: placed_graph_def placed_kernel_def users_def get_kernel_size_def demo)
  moreover have "demand demo_graph demo_host < 2 ^ 31"
    by (simp add: demand_def users_def room_for_def demo)
  moreover have "(if b_id (hbuffers demo_host ! br) = 1 then 100 else 64) = unat (b_size (hbuffers demo_host ! br))"
    if "br \<in> set (tg_buffers demo_graph)" for br
    using that by (auto simp: demo)
  ultimately obtain m t where run: "andThen (set_vaddr_kernels (bank_platform True) demo_graph new_mm)
         (set_vaddr_buffers False (bank_platform True) demo_graph) demo_host = Some (Inr m, t)"
    and "\<forall>kr \<in> set (tg_kernels demo_graph). let k = hkernels t ! kr in
          k_id k = k_id (hkernels demo_host ! kr) \<and> k_unit k = k_unit (hkernels demo_host ! kr)
        \<and> (\<forall>u. k_unit k = Some u \<longrightarrow> (\<exists>pool. regions_ok (buffers_base (u_arch u))
              (\<lambda>i. if i = 1 then 100 else 64) (tlb_buffers (k_tlb k)) pool))
        \<and> (\<forall>br \<in> set (tg_buffers demo_graph). k_id k \<noteq> 0 \<longrightarrow> k_id k \<in> set (users (hbuffers demo_host ! br)) \<longrightarrow>
             (\<exists>a. get_virt_addr_buffer (k_tlb k) (b_id (hbuffers demo_host ! br)) = Inr a))"
    using task_graph_laid_out [of demo_graph demo_host "\<lambda>i. if i = 1 then 100 else 64" "bank_platform True"]
    by blast
  then show ?thesis
    by (intro exI [of _ m] exI [of _ t] conjI run)
      (auto simp: demo users_def buffers_base_def Let_def)
qed

end
