(* ===== verification/Host_Args.thy ===== *)
theory Host_Args
  imports Host_MM Dev_Arch
begin

text \<open>
  Kernel arguments (\<^verbatim>\<open>host/include/kernel_arguments.h\<close>,
  \<^verbatim>\<open>host/src/kernel_arguments.cpp\<close>): how they are set up from a kernel's TLB and
  printed into the string a kernel is started with. The stream's \<^verbatim>\<open>std::hex\<close> stays in
  force once set, which the printer's first parameter carries.
\<close>

section \<open>Arguments\<close>

text \<open>
  A scalar of \<open>size\<close> bytes: the value converted to \<^verbatim>\<open>mango_size_t\<close>. Buffer and event
  arguments take their value from the TLB when the arguments are set up.
\<close>

definition scalar_arg :: "nat \<Rightarrow> u32 \<Rightarrow> u32 \<Rightarrow> arg" where
  "scalar_arg sz v junk = \<lparr>a_class = Scalar_class, a_value = v, a_size = sz, a_id = junk\<rparr>"

definition buffer_arg :: "buffer \<Rightarrow> u32 \<Rightarrow> arg" where
  "buffer_arg b junk = \<lparr>a_class = Buffer_class, a_value = junk, a_size = 8, a_id = b_id b\<rparr>"

definition event_arg :: "event \<Rightarrow> u32 \<Rightarrow> arg" where
  "event_arg e junk = \<lparr>a_class = Event_class, a_value = junk, a_size = 4, a_id = ev_id e\<rparr>"

definition arg_set_value :: "tlb \<Rightarrow> arg \<Rightarrow> fault + arg" where
  "arg_set_value t a =
     (case a_class a of
        Scalar_class \<Rightarrow> Inr a
      | Buffer_class \<Rightarrow> bindE (get_virt_addr_buffer t (a_id a)) (\<lambda>v. Inr (a\<lparr>a_value := v\<rparr>))
      | Event_class \<Rightarrow> bindE (get_virt_addr_event t (a_id a)) (\<lambda>v. Inr (a\<lparr>a_value := v\<rparr>)))"

fun set_values :: "tlb \<Rightarrow> arg list \<Rightarrow> fault + arg list" where
  "set_values t [] = Inr []"
| "set_values t (a # as) =
     bindE (arg_set_value t a) (\<lambda>b. bindE (set_values t as) (\<lambda>bs. Inr (b # bs)))"

text \<open>
  \<^verbatim>\<open>KernelArguments::setup\<close>: the termination event, the task events, then the given
  arguments, which the object takes over.
\<close>

definition setup_args :: "'w platform \<Rightarrow> arg list \<Rightarrow> nat \<Rightarrow> ('w host, kernel_args) act" where
  "setup_args P arguments kr =
     andThen (the_kernel kr) (\<lambda>k.
     andThen (the_event (k_term k)) (\<lambda>te.
     andThen (lift_sum (arg_set_value (k_tlb k) (event_arg te (uninit P)))) (\<lambda>ta.
     andThen (mapEach (k_tasks k) (\<lambda>er.
       andThen (the_event er) (\<lambda>e. lift_sum (arg_set_value (k_tlb k) (event_arg e (uninit P)))))) (\<lambda>tas.
     andThen (lift_sum (set_values (k_tlb k) arguments)) (\<lambda>as.
     ret \<lparr>ka_args = ta # tas @ as, ka_kernel = kr\<rparr>)))))"

definition get_nr_args :: "kernel_args \<Rightarrow> nat" where
  "get_nr_args ka = length (ka_args ka)"

section \<open>Printing\<close>

definition dec_char :: "nat \<Rightarrow> char" where
  "dec_char d = char_of (48 + d)"

fun show_dec :: "nat \<Rightarrow> string" where
  "show_dec n = (if n < 10 then [dec_char n] else show_dec (n div 10) @ [dec_char (n mod 10)])"

declare show_dec.simps [simp del]

definition show_value :: "bool \<Rightarrow> nat \<Rightarrow> string" where
  "show_value hex n = (if hex then show_hex n else show_dec n)"

fun print_args :: "bool \<Rightarrow> arg list \<Rightarrow> string" where
  "print_args hex [] = []"
| "print_args hex (a # as) =
     (if a_class a = Scalar_class
      then '' '' @ show_value hex (unat (a_value a)) @ print_args hex as
      else '' 0x'' @ show_hex (unat (a_value a)) @ print_args True as)"

definition memory_total :: "'w platform \<Rightarrow> 'w \<Rightarrow> u64" where
  "memory_total P w =
     sum_list (concat (map (\<lambda>c. map (\<lambda>i. ucast (hn_memory_size P i c w)) [0..<hn_num_tiles P c w])
       [0..<hn_num_clusters P w]))"

definition get_arguments :: "'w platform \<Rightarrow> kernel_args \<Rightarrow> unit_type \<Rightarrow> ('w host, string) act" where
  "get_arguments P ka arch =
     (if gnemu P \<and> arch = GN
      then andThen (the_kernel (ka_kernel ka)) (\<lambda>k.
           andThen (the_function (k_function k)) (\<lambda>f.
           andThen (reads (\<lambda>s. memory_total P (world s))) (\<lambda>mem_size.
           andThen (lift_sum (get_kernel_version f arch)) (\<lambda>name.
           ret (name @ '' 0x'' @ show_hex (unat mem_size) @ print_args True (ka_args ka))))))
      else ret (''x'' @ print_args False (ka_args ka)))"

section \<open>Reading back what is printed\<close>

text \<open>The tokens of a printed argument list, and how a printed list falls into them.\<close>

fun arg_tokens :: "bool \<Rightarrow> arg list \<Rightarrow> string list" where
  "arg_tokens hex [] = []"
| "arg_tokens hex (a # as) =
     (if a_class a = Scalar_class
      then show_value hex (unat (a_value a)) # arg_tokens hex as
      else (''0x'' @ show_hex (unat (a_value a))) # arg_tokens True as)"

definition spaced :: "string list \<Rightarrow> string" where
  "spaced ts = concat (map (\<lambda>t. '' '' @ t) ts)"

lemma print_args_spaced: "print_args hex as = spaced (arg_tokens hex as)"
  by (induction hex "as" rule: print_args.induct) (auto simp: spaced_def)

lemma u32_lt_63: "unat (v :: u32) < 2 ^ 63"
  using unsigned_less [of v] by (rule less_trans) simp






lemma set_value_event:
  "arg_set_value t (event_arg e j) = Inr b \<longleftrightarrow>
     (\<exists>v. get_virt_addr_event t (ev_id e) = Inr v \<and> b = (event_arg e j)\<lparr>a_value := v\<rparr>)"
  by (auto simp: arg_set_value_def event_arg_def bindE_def split: sum.splits)

lemma mapEach_length: "mapEach xs f s = Some (Inr ys, s') \<Longrightarrow> length ys = length xs"
  by (induction xs arbitrary: s ys) (auto simp: act_simps split: option.splits sum.splits)

lemma mapEach_pure:
  assumes "\<And>x. x \<in> set xs \<Longrightarrow> \<exists>r. f x s = Some (r, s)"
  shows "\<exists>r. mapEach xs f s = Some (r, s)"
  using assms
proof (induction xs)
  case (Cons x xs)
  then obtain r where r: "f x s = Some (r, s)" by fastforce
  obtain q where "mapEach xs f s = Some (q, s)" using Cons by fastforce
  with r show ?case by (cases r; cases q) (simp_all add: act_simps)
qed (simp add: act_simps)

lemma mapEach_nth:
  assumes "mapEach xs f s = Some (Inr ys, s)" and "\<And>x t. f x t = Some (g x t, t)" and "i < length xs"
  shows "g (xs ! i) s = Inr (ys ! i)"
  using assms(1,3)
proof (induction xs arbitrary: ys i)
  case (Cons x xs)
  obtain y zs where ys: "ys = y # zs" "g x s = Inr y" "mapEach xs f s = Some (Inr zs, s)"
  proof -
    have "mapEach (x # xs) f s = Some (Inr ys, s)" by (rule Cons.prems(1))
    then show ?thesis
      using assms(2) that by (auto simp: act_simps split: option.splits sum.splits)
  qed
  show ?case
    using ys Cons.IH [of zs "i - 1"] Cons.prems(2) by (cases i) auto
qed simp

definition event_value :: "'w host \<Rightarrow> nat \<Rightarrow> nat \<Rightarrow> fault + u32" where
  "event_value s kr er =
     (if er < length (hevents s)
      then get_virt_addr_event (k_tlb (hkernels s ! kr)) (ev_id (hevents s ! er)) else Inl Bad_pointer)"


lemma setup_events:
  assumes "setup_args P arguments kr s = Some (Inr ka, s')"
    and "k = hkernels s ! kr" and "k_tasks k = [e1, e2, e3]"
  shows "\<exists>t0 t1 t2 t3 as. ka_args ka = t0 # t1 # t2 # t3 # as \<and> s' = s \<and> ka_kernel ka = kr
     \<and> kr < length (hkernels s)
     \<and> a_class t0 = Event_class \<and> event_value s kr (k_term k) = Inr (a_value t0)
     \<and> a_class t1 = Event_class \<and> event_value s kr e1 = Inr (a_value t1)
     \<and> a_class t2 = Event_class \<and> event_value s kr e2 = Inr (a_value t2)
     \<and> a_class t3 = Event_class \<and> event_value s kr e3 = Inr (a_value t3)"
  using assms
  by (auto simp: setup_args_def act_simps access_simps event_value_def event_arg_def
      arg_set_value_def bindE_def split: option.splits sum.splits if_splits)

lemma word_of_value: "(word_of_int (int (unat (v :: u32))) :: u64) = ucast v"
  by simp


text \<open>
  C18. From the platform to the GN runtime: in the emulation the printed string starts
  with the kernel's file name and the size of all memories, and \<^verbatim>\<open>mango_init\<close> maps that
  many bytes and finds the four events at their offsets from the mapping.
\<close>

theorem gn_finds_events:
  assumes "setup_args P arguments kr s = Some (Inr ka, s')"
    and "k = hkernels s ! kr" and "k_tasks k = [e1, e2, e3]"
    and "gnemu P" and "k_function k < length (hfunctions s)"
    and "get_kernel_version (hfunctions s ! k_function k) GN = Inr name"
    and "memory_total P (world s) < 2 ^ 63"
    and "sem_open_ok os" "open_ok os" "mmap_at os (memory_total P (world s)) = Some base"
  shows "\<exists>ts ctx' v0 v1 v2 v3. get_arguments P ka GN s' = Some (Inr (name @ spaced ts), s')
     \<and> mango_gn_init os (name # ts) ctx = Inr (SUCCESS, ctx')
     \<and> event_value s kr (k_term k) = Inr v0 \<and> event_exit ctx' = event_at base (int (unat v0))
     \<and> event_value s kr e1 = Inr v1 \<and> event_a ctx' = event_at base (int (unat v1))
     \<and> event_value s kr e2 = Inr v2 \<and> event_b ctx' = event_at base (int (unat v2))
     \<and> event_value s kr e3 = Inr v3 \<and> event_r ctx' = event_at base (int (unat v3))"
proof -
  obtain t0 t1 t2 t3 "as" where ka: "ka_args ka = t0 # t1 # t2 # t3 # as" "s' = s" "ka_kernel ka = kr"
      "kr < length (hkernels s)"
    and c: "a_class t0 = Event_class" "a_class t1 = Event_class" "a_class t2 = Event_class"
      "a_class t3 = Event_class"
    and v: "event_value s kr (k_term k) = Inr (a_value t0)" "event_value s kr e1 = Inr (a_value t1)"
      "event_value s kr e2 = Inr (a_value t2)" "event_value s kr e3 = Inr (a_value t3)"
    using setup_events [OF assms(1-3)] by blast
  let ?n = "memory_total P (world s)"
  have r: "strtol16 (CHR ''0'' # CHR ''x'' # show_hex (unat x)) = int (unat (x :: u32))" for x
    using strtol16_show_0x [OF u32_lt_63, of x] by simp
  have "unat ?n < 2 ^ 63" using assms(7) by (simp add: word_less_nat_alt)
  from strtol16_show_0x [OF this]
  have m: "strtol16 (CHR ''0'' # CHR ''x'' # show_hex (unat ?n)) = int (unat ?n)" by simp
  have g: "get_arguments P ka GN s' = Some (Inr (name @ spaced
      ((''0x'' @ show_hex (unat ?n)) # arg_tokens True (ka_args ka))), s')"
    using assms(2,4,5,6) ka(2,3,4)
    by (simp add: get_arguments_def act_simps access_simps print_args_spaced spaced_def)
  have "\<exists>ctx'. mango_gn_init os (name # (''0x'' @ show_hex (unat ?n)) # arg_tokens True (ka_args ka)) ctx
        = Inr (SUCCESS, ctx')
     \<and> event_exit ctx' = event_at base (int (unat (a_value t0)))
     \<and> event_a ctx' = event_at base (int (unat (a_value t1)))
     \<and> event_b ctx' = event_at base (int (unat (a_value t2)))
     \<and> event_r ctx' = event_at base (int (unat (a_value t3)))"
    using assms(8-10)
    by (simp add: mango_gn_init_def arg_long_def ka c r m numeral_nat)
  with g v show ?thesis by blast
qed

section \<open>A concrete argument list\<close>

definition demo_mapped :: "bank host" where
  "demo_mapped = demo_host\<lparr>
     hkernels := [demo_kernel\<lparr>k_tlb := \<lparr>tlb_buffers = [],
       tlb_events = [(0, 0x5e000000), (1, 0x5e000004), (2, 0x5e000008), (3, 0x5e00000c)]\<rparr>\<rparr>],
     hfunctions := [\<lparr>kf_loaded = True, kf_version = [(GN, ''k'')], kf_size = [(GN, 0)]\<rparr>]\<rparr>"

definition demo_ka :: kernel_args where
  "demo_ka = \<lparr>ka_args =
     [\<lparr>a_class = Event_class, a_value = 0x5e000000, a_size = 4, a_id = 0\<rparr>,
      \<lparr>a_class = Event_class, a_value = 0x5e000004, a_size = 4, a_id = 1\<rparr>,
      \<lparr>a_class = Event_class, a_value = 0x5e000008, a_size = 4, a_id = 2\<rparr>,
      \<lparr>a_class = Event_class, a_value = 0x5e00000c, a_size = 4, a_id = 3\<rparr>,
      scalar_arg 4 42 0], ka_kernel = 0\<rparr>"

lemma demo_setup:
  "setup_args (bank_platform True) [scalar_arg 4 42 0] 0 demo_mapped = Some (Inr demo_ka, demo_mapped)"
  by (simp add: setup_args_def act_simps access_simps demo_mapped_def demo_host_def host_init_def
      demo_kernel_def demo_ka_def arg_set_value_def event_arg_def scalar_arg_def new_event_def
      get_virt_addr_event_def bank_platform_def)

lemma demo_kernel_tasks: "k_tasks (hkernels demo_mapped ! 0) = [1, 2, 3]"
  by (simp add: demo_mapped_def demo_host_def demo_kernel_def)


lemma demo_mapped_parts:
  "k_function (hkernels demo_mapped ! 0) = 0"
  "hfunctions demo_mapped = [\<lparr>kf_loaded = True, kf_version = [(GN, ''k'')], kf_size = [(GN, 0)]\<rparr>]"
  by (simp_all add: demo_mapped_def demo_host_def demo_kernel_def)

definition blank_ctx :: mango_context where
  "blank_ctx = \<lparr>event_a = \<lparr>vaddr = 0\<rparr>, event_b = \<lparr>vaddr = 0\<rparr>, event_r = \<lparr>vaddr = 0\<rparr>,
     event_exit = \<lparr>vaddr = 0\<rparr>, memory_size = 0, memory = 0\<rparr>"


lemma gn_finds_events_witness:
  "\<exists>ts. get_arguments (bank_platform True) demo_ka GN demo_mapped = Some (Inr (''k'' @ spaced ts), demo_mapped)"
proof -
  have "memory_total (bank_platform True) (world demo_mapped) = 2 ^ 30" "gnemu (bank_platform True)"
    by (simp_all add: memory_total_def bank_platform_def)
  then show ?thesis
    using gn_finds_events [OF demo_setup refl demo_kernel_tasks, where name = "''k''"
        and os = "\<lparr>sem_open_ok = True, open_ok = True, mmap_at = (\<lambda>_. Some 0x1000)\<rparr>"
        and base = "0x1000" and ctx = blank_ctx]
    by (simp add: demo_mapped_parts get_kernel_version_def) blast
qed

end
