(* ===== verification/Host_Context.thy ===== *)
theory Host_Context
  imports Host_Args
begin

text \<open>
  The host context (\<^verbatim>\<open>host/include/context.h\<close>, \<^verbatim>\<open>host/src/context.cpp\<close>): registration
  of kernels, buffers and events, the exchange with the resource manager, resource
  allocation and kernel start. Profiling and the debug prints are left out. A failed
  assertion and an exception in a \<^verbatim>\<open>noexcept\<close> member both end the call with a fault.
\<close>

section \<open>Registration\<close>

definition add_kernel :: "nat \<Rightarrow> ('w host, unit) act" where
  "add_kernel r = andThen (the_kernel r) (\<lambda>k.
     modify (\<lambda>s. s\<lparr>cxt_kernels := sm_emplace (k_id k) r (cxt_kernels s)\<rparr>))"

definition add_buffer :: "nat \<Rightarrow> ('w host, unit) act" where
  "add_buffer r = andThen (the_buffer r) (\<lambda>b.
     modify (\<lambda>s. s\<lparr>cxt_buffers := sm_emplace (b_id b) r (cxt_buffers s)\<rparr>))"

definition add_event :: "nat \<Rightarrow> ('w host, unit) act" where
  "add_event r = andThen (the_event r) (\<lambda>e.
     modify (\<lambda>s. s\<lparr>cxt_events := sm_emplace (ev_id e) r (cxt_events s)\<rparr>))"

definition register_kernel ::
  "'w platform \<Rightarrow> u32 \<Rightarrow> nat \<Rightarrow> u32 list \<Rightarrow> u32 list \<Rightarrow> ('w host, nat option) act" where
  "register_kernel P kid fr ins outs =
     andThen (the_function fr) (\<lambda>f.
     andThen (lift_sum (kf_length f)) (\<lambda>n.
       if n = 0 then ret None
       else
         andThen (make_kernel P kid fr ins outs) (\<lambda>r.
         andThen (modify (\<lambda>s. s\<lparr>cxt_kernels := sm_emplace kid r (cxt_kernels s)\<rparr>)) (\<lambda>_.
         andThen (the_kernel r) (\<lambda>k.
         andThen (add_event (k_term k)) (\<lambda>_.
         andThen (forEach (k_tasks k) add_event) (\<lambda>_.
         ret (Some r))))))))"

definition register_buffer :: "nat \<Rightarrow> u32 \<Rightarrow> ('w host, nat) act" where
  "register_buffer r bid =
     andThen (modify (\<lambda>s. s\<lparr>cxt_buffers := sm_emplace bid r (cxt_buffers s)\<rparr>)) (\<lambda>_.
     andThen (the_buffer r) (\<lambda>b.
     andThen (add_event (b_event b)) (\<lambda>_.
     ret r)))"

definition register_sized_buffer ::
  "'w platform \<Rightarrow> u32 \<Rightarrow> u32 \<Rightarrow> u32 list \<Rightarrow> u32 list \<Rightarrow> buffer_type \<Rightarrow> ('w host, nat) act" where
  "register_sized_buffer P bid sz ins outs bt =
     andThen (assert_that (0 < sz)) (\<lambda>_.
     andThen (make_buffer P bid sz ins outs (bt = FIFO)) (\<lambda>r.
     register_buffer r bid))"

text \<open>\<^verbatim>\<open>buffers[bid]\<close> of an unknown id inserts a null pointer, which is dereferenced.\<close>

definition deregister_buffer :: "u32 \<Rightarrow> ('w host, unit) act" where
  "deregister_buffer bid =
     andThen (reads (\<lambda>s. sm_at (cxt_buffers s) bid)) (\<lambda>r.
     andThen (from_option Bad_pointer r) (\<lambda>br.
     andThen (the_buffer br) (\<lambda>b.
     andThen (the_event (b_event b)) (\<lambda>e.
     modify (\<lambda>s. s\<lparr>cxt_events := sm_erase (ev_id e) (cxt_events s),
                    cxt_buffers := sm_erase bid (cxt_buffers s)\<rparr>)))))"

definition register_new_event :: "'w platform \<Rightarrow> u32 list \<Rightarrow> u32 list \<Rightarrow> ('w host, nat) act" where
  "register_new_event P ins outs =
     andThen (make_event P ins outs False) (\<lambda>r. andThen (add_event r) (\<lambda>_. ret r))"

definition register_event :: "nat \<Rightarrow> ('w host, nat) act" where
  "register_event r = andThen (add_event r) (\<lambda>_. ret r)"

text \<open>\<^verbatim>\<open>get_kernel\<close>, \<^verbatim>\<open>get_buffer\<close>, \<^verbatim>\<open>get_event\<close>: \<^verbatim>\<open>std::map::at\<close>.\<close>

definition get_kernel :: "u32 \<Rightarrow> ('w host, nat) act" where
  "get_kernel i = andThen (reads (\<lambda>s. sm_at (cxt_kernels s) i)) (from_option Out_of_range)"

definition get_buffer :: "u32 \<Rightarrow> ('w host, nat) act" where
  "get_buffer i = andThen (reads (\<lambda>s. sm_at (cxt_buffers s) i)) (from_option Out_of_range)"

definition get_event :: "u32 \<Rightarrow> ('w host, nat) act" where
  "get_event i = andThen (reads (\<lambda>s. sm_at (cxt_events s) i)) (from_option Out_of_range)"

section \<open>The resource manager\<close>

definition unit_to_arch_type :: "unit_type \<Rightarrow> bbq_arch" where
  "unit_to_arch_type t =
     (case t of STOP \<Rightarrow> BBQ_STOP | GN \<Rightarrow> BBQ_GN | DCT \<Rightarrow> BBQ_DCT | GPU \<Rightarrow> BBQ_GPU
      | ARM \<Rightarrow> BBQ_ARM | PEAK \<Rightarrow> BBQ_PEAK | NUP \<Rightarrow> BBQ_NUPLUS)"

definition arch_to_unit_type :: "bbq_arch \<Rightarrow> unit_type" where
  "arch_to_unit_type t =
     (case t of BBQ_NONE \<Rightarrow> STOP | BBQ_STOP \<Rightarrow> STOP | BBQ_DCT \<Rightarrow> DCT | BBQ_GN \<Rightarrow> GN
      | BBQ_GPU \<Rightarrow> GPU | BBQ_ARM \<Rightarrow> ARM | BBQ_PEAK \<Rightarrow> PEAK | BBQ_NUPLUS \<Rightarrow> NUP | BBQ_OTHER \<Rightarrow> STOP)"

definition kernel_task :: "nat \<Rightarrow> ('w host, u32 \<times> bbq_task) act" where
  "kernel_task kr =
     andThen (the_kernel kr) (\<lambda>k.
     andThen (assert_that (0 < length (k_in k) + length (k_out k))) (\<lambda>_.
     andThen (assert_that (0 < k_id k)) (\<lambda>_.
     andThen (the_function (k_function k)) (\<lambda>f.
     andThen (forEach (kf_size f) (\<lambda>(t, sz).
       andThen (assert_that (t < STOP)) (\<lambda>_.
       andThen (assert_that (unit_to_arch_type t \<noteq> BBQ_STOP)) (\<lambda>_.
       assert_that (unit_to_arch_type t \<noteq> BBQ_NONE))))) (\<lambda>_.
     ret (k_id k, \<lparr>bt_in = k_in k, bt_out = k_out k, bt_threads = k_threads k,
       bt_targets = map (\<lambda>(t, sz). (unit_to_arch_type t, sz)) (kf_size f)\<rparr>))))))"

definition buffer_entry :: "nat \<Rightarrow> ('w host, u32 \<times> (u32 \<times> u32)) act" where
  "buffer_entry br =
     andThen (the_buffer br) (\<lambda>b.
     andThen (the_event (b_event b)) (\<lambda>e.
     ret (b_id b, (b_size b, ev_id e))))"

definition is_output :: "buffer \<Rightarrow> bool" where
  "is_output b \<longleftrightarrow> length (b_out b) = 0 \<or> isReadByHost b"

definition set_callback :: "nat \<Rightarrow> callback \<Rightarrow> ('w host, unit) act" where
  "set_callback er cb = andThen (the_event er) (\<lambda>e. put_event er (e\<lparr>ev_callback := Some cb\<rparr>))"

definition to_bbque :: "task_graph \<Rightarrow> ('w host, bbq_request) act" where
  "to_bbque tg =
     andThen (assert_that (0 < length (tg_kernels tg))) (\<lambda>_.
     andThen (foldEach (tg_kernels tg) [] (\<lambda>kr kl.
       andThen (kernel_task kr) (\<lambda>(i, t). ret (sm_assign i t kl)))) (\<lambda>kl.
     andThen (foldEach (tg_buffers tg) [] (\<lambda>br bl.
       andThen (buffer_entry br) (\<lambda>(i, b). ret (sm_assign i b bl)))) (\<lambda>bl.
     andThen (foldEach (tg_events tg) [] (\<lambda>er el.
       andThen (the_event er) (\<lambda>e. ret (sm_assign (ev_id e) () el)))) (\<lambda>el.
     andThen (foldEach (tg_buffers tg) [] (\<lambda>br outs.
       andThen (the_buffer br) (\<lambda>b.
         if is_output b
         then andThen (set_callback (b_event b) (Notify_event (b_id b))) (\<lambda>_. ret (outs @ [b_id b]))
         else ret outs))) (\<lambda>outs.
     ret \<lparr>rq_tasks = kl, rq_buffers = bl, rq_events = map fst el, rq_outputs = outs\<rparr>)))))"

definition assign_kernel :: "u32 \<Rightarrow> u32 \<Rightarrow> bbq_mapping \<Rightarrow> nat \<Rightarrow> ('w host, unit) act" where
  "assign_kernel cluster i t kr =
     andThen (the_kernel kr) (\<lambda>k.
       if k_id k \<noteq> i then ret ()
       else
         andThen (assert_that (arch_to_unit_type (bm_arch t) \<noteq> STOP)) (\<lambda>_.
         andThen (put_kernel kr (k\<lparr>k_unit := Some \<lparr>u_id = bm_processor t,
             u_arch = arch_to_unit_type (bm_arch t), u_nr_cores = bm_cores t\<rparr>\<rparr>)) (\<lambda>_.
         andThen (from_option Out_of_range (map_of (bm_targets t) (bm_arch t))) (\<lambda>(bank, addr).
         put_kernel kr (k\<lparr>k_unit := Some \<lparr>u_id = bm_processor t,
             u_arch = arch_to_unit_type (bm_arch t), u_nr_cores = bm_cores t\<rparr>,
           k_tile := bank, k_cluster := cluster, k_phy := addr\<rparr>)))))"

text \<open>Reading an event twice: the first read resets it, the second has to give 0.\<close>

definition reset_event :: "'w platform \<Rightarrow> event \<Rightarrow> ('w host, unit) act" where
  "reset_event P e =
     andThen (on_world (event_read P e)) (\<lambda>_.
     andThen (on_world (event_read P e)) (\<lambda>value.
     assert_that (value = 0)))"

definition assign_event :: "'w platform \<Rightarrow> u32 \<Rightarrow> u32 \<Rightarrow> u32 \<Rightarrow> nat \<Rightarrow> ('w host, unit) act" where
  "assign_event P cluster i phy er =
     andThen (the_event er) (\<lambda>e.
       if ev_id e \<noteq> i then ret ()
       else
         andThen (put_event er (e\<lparr>ev_phy := phy, ev_cluster := cluster\<rparr>)) (\<lambda>_.
         reset_event P (e\<lparr>ev_phy := phy, ev_cluster := cluster\<rparr>)))"

definition assign_buffer :: "'w platform \<Rightarrow> u32 \<Rightarrow> u32 \<Rightarrow> u32 \<times> u32 \<Rightarrow> nat \<Rightarrow> ('w host, unit) act" where
  "assign_buffer P cluster i place br =
     andThen (the_buffer br) (\<lambda>b.
       if b_id b \<noteq> i then ret ()
       else
         andThen (put_buffer br (b\<lparr>b_tile := fst place, b_cluster := cluster, b_phy := snd place\<rparr>)) (\<lambda>_.
         andThen (the_event (b_event b)) (\<lambda>e.
         andThen (assert_that (ev_phy e \<noteq> 0)) (\<lambda>_.
         andThen (reset_event P e) (\<lambda>_.
         do_world (event_write P e (status_code WRITE)))))))"

definition from_bbque :: "'w platform \<Rightarrow> task_graph \<Rightarrow> bbq_reply \<Rightarrow> ('w host, unit) act" where
  "from_bbque P tg rp =
     andThen (assert_that (length (rp_tasks rp) = length (tg_kernels tg))) (\<lambda>_.
     andThen (assert_that (length (rp_buffers rp) = length (tg_buffers tg))) (\<lambda>_.
     andThen (forEach (rp_tasks rp) (\<lambda>(i, t). forEach (tg_kernels tg) (assign_kernel (rp_cluster rp) i t))) (\<lambda>_.
     andThen (forEach (rp_events rp) (\<lambda>(i, phy). forEach (tg_events tg) (assign_event P (rp_cluster rp) i phy))) (\<lambda>_.
     forEach (rp_buffers rp) (\<lambda>(i, place).
       forEach (tg_buffers tg) (assign_buffer P (rp_cluster rp) i place))))))"

definition resource_allocation :: "'w platform \<Rightarrow> nat \<Rightarrow> ('w host, exit_code) act" where
  "resource_allocation P g =
     andThen (the_graph g) (\<lambda>tg.
     andThen (to_bbque tg) (\<lambda>rq.
     andThen (on_world (bbq_allocate P rq)) (\<lambda>rp.
     andThen (from_bbque P tg rp) (\<lambda>_.
     andThen (the_kernel (hd (tg_kernels tg))) (\<lambda>k.
     andThen (assigned_unit k) (\<lambda>u.
     andThen (set_vaddr_kernels P tg new_mm) (\<lambda>m.
     andThen (set_vaddr_buffers (u_arch u = GN) P tg m) (\<lambda>_.
     andThen (set_vaddr_events (u_arch u = GN) P tg) (\<lambda>_.
     ret SUCCESS)))))))))"

definition resource_deallocation :: "nat \<Rightarrow> ('w host, exit_code) act" where
  "resource_deallocation g = ret SUCCESS"

section \<open>Starting a kernel\<close>

text \<open>\<^verbatim>\<open>Context::start_kernel\<close>: \<open>None\<close> is the null pointer it returns on a failure.\<close>

definition start_kernel :: "'w platform \<Rightarrow> nat \<Rightarrow> kernel_args \<Rightarrow> ('w host, nat option) act" where
  "start_kernel P kr ka =
     andThen (the_kernel kr) (\<lambda>k.
     andThen (assigned_unit k) (\<lambda>u.
     andThen (if u_arch u = DCT then ret True
              else andThen (the_function (k_function k)) (\<lambda>f.
                   andThen (lift_sum (get_kernel_version f (u_arch u))) (\<lambda>image.
                   on_world (hn_write_image P image (k_tile k) (k_phy k) (k_cluster k))))) (\<lambda>written.
       if \<not> written then ret None
       else
         andThen (get_arguments P ka (u_arch u)) (\<lambda>arguments.
         andThen (assert_that (0 < length arguments)) (\<lambda>_.
         andThen (host_event_write P (k_term k) 0) (\<lambda>_.
         andThen (on_world (hn_run_kernel P (u_id u)
                    (if u_arch u = NUP then k_phy k else k_vaddr k) arguments (k_cluster k))) (\<lambda>running.
         ret (if running then Some (k_term k) else None))))))))"

text \<open>\<^verbatim>\<open>BBQContext::start_kernel\<close> binds the callback without testing the pointer.\<close>

definition bbq_start_kernel :: "'w platform \<Rightarrow> nat \<Rightarrow> kernel_args \<Rightarrow> ('w host, nat) act" where
  "bbq_start_kernel P kr ka =
     andThen (the_kernel kr) (\<lambda>k.
     andThen (do_world (bbq_task_start P (k_id k))) (\<lambda>_.
     andThen (start_kernel P kr ka) (\<lambda>res.
     andThen (from_option Bad_pointer res) (\<lambda>er.
     andThen (set_callback er (Kernel_termination (k_id k))) (\<lambda>_.
     ret er)))))"

section \<open>Construction and destruction\<close>

definition make_context :: "'w platform \<Rightarrow> ('w host, unit) act" where
  "make_context P =
     andThen (on_world (hn_initialize P)) (\<lambda>ok.
     andThen (if ok then ret () else fail Runtime_error) (\<lambda>_.
     modify (\<lambda>s. s\<lparr>cxt := Cxt_live, cxt_kernels := [], cxt_buffers := [], cxt_events := []\<rparr>)))"

definition delete_context :: "'w platform \<Rightarrow> ('w host, unit) act" where
  "delete_context P =
     andThen (reads cxt) (\<lambda>c.
       case c of
         Cxt_null \<Rightarrow> ret ()
       | Cxt_deleted \<Rightarrow> fail Double_free
       | Cxt_live \<Rightarrow>
           andThen (do_world (bbq_shutdown P)) (\<lambda>_.
           andThen (do_world (hn_end P)) (\<lambda>_.
           modify (\<lambda>s. s\<lparr>cxt := Cxt_deleted\<rparr>))))"

end
