(* ===== verification/Host_Api.thy ===== *)
theory Host_Api
  imports Host_Context
begin

text \<open>
  The C interface of the host library (\<^verbatim>\<open>host/src/mango.cpp\<close>). A pointer argument is an
  option, a variable argument list the list of its values, and an object handed out as a
  pointer its index. \<^verbatim>\<open>size_t\<close> has 64 bits and is converted to the 32-bit
  \<^verbatim>\<open>mango_size_t\<close> where the code converts it. Members of buffers are called through
  their virtual functions, so a transfer runs the FIFO code exactly on FIFO buffers. The
  objects a \<^verbatim>\<open>KernelArguments\<close> takes over are copied into it. Console output is left out.
\<close>

section \<open>Pieces\<close>

text \<open>Every call goes through the static context pointer.\<close>

definition with_cxt :: "('w host, 'a) act \<Rightarrow> ('w host, 'a) act" where
  "with_cxt m = andThen (reads cxt) (\<lambda>c. if c = Cxt_live then m else fail Bad_pointer)"

definition event_id :: "nat \<Rightarrow> ('w host, u32) act" where
  "event_id er = andThen (the_event er) (\<lambda>e. ret (ev_id e))"

definition positive_event_id :: "nat \<Rightarrow> ('w host, u32) act" where
  "positive_event_id er =
     andThen (event_id er) (\<lambda>i. andThen (assert_that (0 < i)) (\<lambda>_. ret i))"

section \<open>Start and end\<close>

definition mango_init :: "'w platform \<Rightarrow> string option \<Rightarrow> string option \<Rightarrow> ('w host, exit_code) act" where
  "mango_init P application_name recipe =
     andThen (assert_that (application_name \<noteq> None)) (\<lambda>_.
     andThen (assert_that (recipe \<noteq> None)) (\<lambda>_.
     andThen (assert_that (0 < length (the application_name))) (\<lambda>_.
     andThen (assert_that (0 < length (the recipe))) (\<lambda>_.
     andThen (make_context P) (\<lambda>_.
     ret SUCCESS)))))"

definition mango_release :: "'w platform \<Rightarrow> ('w host, exit_code) act" where
  "mango_release P = andThen (delete_context P) (\<lambda>_. ret SUCCESS)"

section \<open>Kernels\<close>

definition mango_kernelfunction_init :: "('w host, nat) act" where
  "mango_kernelfunction_init =
     andThen (reads (\<lambda>s. length (hfunctions s))) (\<lambda>r.
     andThen (modify (\<lambda>s. s\<lparr>hfunctions := hfunctions s @ [new_function]\<rparr>)) (\<lambda>_.
     ret r))"

definition mango_load_kernel ::
  "'w platform \<Rightarrow> string option \<Rightarrow> nat option \<Rightarrow> c_unit_type \<Rightarrow> file_type \<Rightarrow> ('w host, exit_code) act" where
  "mango_load_kernel P kname kern unit t =
     andThen (assert_that (kname \<noteq> None)) (\<lambda>_.
     andThen (assert_that (kern \<noteq> None)) (\<lambda>_.
     andThen (assert_that (c_unit_code unit < c_unit_code C_STOP)) (\<lambda>_.
     andThen (from_option Assert_failed (cast_unit unit)) (\<lambda>u.
     andThen (the_function (the kern)) (\<lambda>f.
     andThen (reads (\<lambda>s. kf_load (\<lambda>n. file_good P n (world s)) (the kname) u t f)) (\<lambda>(err, f').
     andThen (put_function (the kern) f') (\<lambda>_.
     ret (if err = SUCCESS then SUCCESS else ERR_INVALID_KERNEL_FILE))))))))"

definition mango_register_kernel ::
  "'w platform \<Rightarrow> u32 \<Rightarrow> nat option \<Rightarrow> u32 list \<Rightarrow> u32 list \<Rightarrow> ('w host, u32) act" where
  "mango_register_kernel P kernel_id kern ins outs =
     andThen (assert_that (kern \<noteq> None)) (\<lambda>_.
     andThen (assert_that (0 < kernel_id)) (\<lambda>_.
     andThen (the_function (the kern)) (\<lambda>f.
     andThen (assert_that (kf_loaded f)) (\<lambda>_.
     andThen (with_cxt (register_kernel P kernel_id (the kern) ins outs)) (\<lambda>_.
     ret kernel_id)))))"

definition mango_register_kernel_with_buffers ::
  "'w platform \<Rightarrow> u32 \<Rightarrow> nat option \<Rightarrow> u32 list option \<Rightarrow> u32 list option \<Rightarrow> ('w host, u32) act" where
  "mango_register_kernel_with_buffers P kernel_id kern ins outs =
     andThen (assert_that (kern \<noteq> None)) (\<lambda>_.
     andThen (assert_that (0 < kernel_id)) (\<lambda>_.
     andThen (the_function (the kern)) (\<lambda>f.
     andThen (assert_that (kf_loaded f)) (\<lambda>_.
     andThen (from_option Bad_pointer ins) (\<lambda>i.
     andThen (from_option Bad_pointer outs) (\<lambda>j.
     andThen (with_cxt (register_kernel P kernel_id (the kern) i j)) (\<lambda>_.
     ret kernel_id)))))))"

section \<open>Buffers and events\<close>

definition mango_register_memory ::
  "'w platform \<Rightarrow> u32 \<Rightarrow> u64 \<Rightarrow> c_buffer_type \<Rightarrow> u32 list \<Rightarrow> u32 list \<Rightarrow> ('w host, u32) act" where
  "mango_register_memory P buffer_id sz mode ins outs =
     andThen (assert_that (0 < buffer_id)) (\<lambda>_.
     andThen (assert_that (0 < sz)) (\<lambda>_.
     andThen (make_buffer P buffer_id (ucast sz) ins outs (mode = C_FIFO)) (\<lambda>r.
     andThen (with_cxt (register_buffer r buffer_id)) (\<lambda>_.
     ret buffer_id))))"

text \<open>The given vectors are swapped out: the caller is left with empty ones.\<close>

definition mango_register_memory_with_kernels ::
  "'w platform \<Rightarrow> u32 \<Rightarrow> u64 \<Rightarrow> c_buffer_type \<Rightarrow> u32 list option \<Rightarrow> u32 list option
     \<Rightarrow> ('w host, u32 \<times> u32 list option \<times> u32 list option) act" where
  "mango_register_memory_with_kernels P buffer_id sz mode ins outs =
     andThen (assert_that (0 < buffer_id)) (\<lambda>_.
     andThen (assert_that (0 < sz)) (\<lambda>_.
     andThen (make_buffer P buffer_id (ucast sz) (case ins of None \<Rightarrow> [] | Some i \<Rightarrow> i)
                (case outs of None \<Rightarrow> [] | Some i \<Rightarrow> i) (mode = C_FIFO)) (\<lambda>r.
     andThen (with_cxt (register_buffer r buffer_id)) (\<lambda>_.
     ret (buffer_id, map_option (\<lambda>_. []) ins, map_option (\<lambda>_. []) outs)))))"

definition mango_register_event :: "'w platform \<Rightarrow> u32 list \<Rightarrow> u32 list \<Rightarrow> ('w host, u32) act" where
  "mango_register_event P ins outs =
     andThen (assert_that (0 < length ins + length outs)) (\<lambda>_.
     andThen (make_event P ins outs False) (\<lambda>r.
     andThen (with_cxt (register_event r)) (\<lambda>_.
     positive_event_id r)))"

definition mango_deregister_memory :: "u32 \<Rightarrow> ('w host, unit) act" where
  "mango_deregister_memory mem = with_cxt (deregister_buffer mem)"

definition mango_resize_memory :: "u32 \<Rightarrow> u64 \<Rightarrow> ('w host, unit) act" where
  "mango_resize_memory mem sz = assert_that False"

definition mango_get_buffer_event :: "u32 \<Rightarrow> ('w host, u32) act" where
  "mango_get_buffer_event buffer =
     andThen (with_cxt (get_buffer buffer)) (\<lambda>br.
     andThen (the_buffer br) (\<lambda>b.
     positive_event_id (b_event b)))"

section \<open>Task graphs\<close>

definition new_graph :: "('w host, nat) act" where
  "new_graph =
     andThen (reads (\<lambda>s. length (hgraphs s))) (\<lambda>g.
     andThen (modify (\<lambda>s. s\<lparr>hgraphs := hgraphs s @
       [Some \<lparr>tg_kernels = [], tg_buffers = [], tg_events = []\<rparr>]\<rparr>)) (\<lambda>_.
     ret g))"

definition update_graph :: "nat \<Rightarrow> (task_graph \<Rightarrow> task_graph) \<Rightarrow> ('w host, unit) act" where
  "update_graph g f = andThen (the_graph g) (\<lambda>tg.
     modify (\<lambda>s. s\<lparr>hgraphs := (hgraphs s)[g := Some (f tg)]\<rparr>))"

definition graph_add_kernel :: "nat \<Rightarrow> task_graph \<Rightarrow> task_graph" where
  "graph_add_kernel r tg = tg\<lparr>tg_kernels := tg_kernels tg @ [r]\<rparr>"

definition graph_add_buffer :: "nat \<Rightarrow> task_graph \<Rightarrow> task_graph" where
  "graph_add_buffer r tg = tg\<lparr>tg_buffers := tg_buffers tg @ [r]\<rparr>"

definition graph_add_event :: "nat \<Rightarrow> task_graph \<Rightarrow> task_graph" where
  "graph_add_event r tg = tg\<lparr>tg_events := tg_events tg @ [r]\<rparr>"

text \<open>
  \<^verbatim>\<open>operator-=\<close> erases the one position \<^verbatim>\<open>std::remove\<close> returns: the elements that are
  kept move to the front, the rest keeps what it held, and erasing the end is undefined.
\<close>

definition erase_remove :: "nat \<Rightarrow> nat list \<Rightarrow> fault + nat list" where
  "erase_remove r xs =
     (let kept = filter (\<lambda>x. x \<noteq> r) xs; n = length kept in
      if n = length xs then Inl Out_of_bounds
      else Inr (kept @ drop (n + 1) xs))"

definition graph_sub_kernel :: "nat \<Rightarrow> task_graph \<Rightarrow> fault + task_graph" where
  "graph_sub_kernel r tg = bindE (erase_remove r (tg_kernels tg)) (\<lambda>xs. Inr (tg\<lparr>tg_kernels := xs\<rparr>))"

definition graph_sub_buffer :: "nat \<Rightarrow> task_graph \<Rightarrow> fault + task_graph" where
  "graph_sub_buffer r tg = bindE (erase_remove r (tg_buffers tg)) (\<lambda>xs. Inr (tg\<lparr>tg_buffers := xs\<rparr>))"

definition graph_sub_event :: "nat \<Rightarrow> task_graph \<Rightarrow> fault + task_graph" where
  "graph_sub_event r tg = bindE (erase_remove r (tg_events tg)) (\<lambda>xs. Inr (tg\<lparr>tg_events := xs\<rparr>))"

text \<open>
  \<^verbatim>\<open>TaskGraph(lkernels, lbuffers, levents)\<close>: the given events, then each kernel's own
  events, then each buffer's.
\<close>

definition make_task_graph :: "nat list \<Rightarrow> nat list \<Rightarrow> nat list \<Rightarrow> ('w host, task_graph) act" where
  "make_task_graph lkernels lbuffers levents =
     andThen (mapEach lkernels (\<lambda>r. andThen (the_kernel r) (\<lambda>k. ret (k_term k # k_tasks k)))) (\<lambda>kes.
     andThen (mapEach lbuffers (\<lambda>r. andThen (the_buffer r) (\<lambda>b. ret (b_event b)))) (\<lambda>bes.
     ret \<lparr>tg_kernels = lkernels, tg_buffers = lbuffers, tg_events = levents @ concat kes @ bes\<rparr>))"

definition add_all_events :: "nat \<Rightarrow> ('w host, unit) act" where
  "add_all_events g =
     andThen (reads (\<lambda>s. map snd (cxt_events s))) (\<lambda>es.
     forEach es (\<lambda>r. update_graph g (graph_add_event r)))"

definition mango_task_graph_create ::
  "u32 list \<Rightarrow> u32 list \<Rightarrow> u32 list \<Rightarrow> ('w host, nat) act" where
  "mango_task_graph_create ks bs es =
     andThen (assert_that (0 < length ks)) (\<lambda>_.
     andThen (assert_that (0 < length bs)) (\<lambda>_.
     andThen new_graph (\<lambda>g.
     andThen (forEach ks (\<lambda>i. andThen (with_cxt (get_kernel i)) (\<lambda>r. update_graph g (graph_add_kernel r)))) (\<lambda>_.
     andThen (forEach bs (\<lambda>i. andThen (with_cxt (get_buffer i)) (\<lambda>r. update_graph g (graph_add_buffer r)))) (\<lambda>_.
     andThen (forEach es (\<lambda>i. andThen (with_cxt (get_event i)) (\<lambda>r. update_graph g (graph_add_event r)))) (\<lambda>_.
     andThen (with_cxt (add_all_events g)) (\<lambda>_.
     ret g)))))))"

definition mango_task_graph_destroy_all :: "nat option \<Rightarrow> ('w host, unit) act" where
  "mango_task_graph_destroy_all task_graph =
     andThen (assert_that (task_graph \<noteq> None)) (\<lambda>_.
     andThen (fetch hgraphs (the task_graph)) (\<lambda>tg.
     andThen (from_option Double_free tg) (\<lambda>_.
     modify (\<lambda>s. s\<lparr>hgraphs := (hgraphs s)[the task_graph := None]\<rparr>))))"

definition mango_resource_allocation :: "'w platform \<Rightarrow> nat option \<Rightarrow> ('w host, exit_code) act" where
  "mango_resource_allocation P tg =
     andThen (assert_that (tg \<noteq> None)) (\<lambda>_. with_cxt (resource_allocation P (the tg)))"

definition mango_resource_deallocation :: "nat option \<Rightarrow> ('w host, unit) act" where
  "mango_resource_deallocation tg =
     andThen (assert_that (tg \<noteq> None)) (\<lambda>_.
     andThen (with_cxt (resource_deallocation (the tg))) (\<lambda>_. ret ()))"

definition or_new_graph :: "nat option \<Rightarrow> ('w host, nat) act" where
  "or_new_graph tg = (case tg of None \<Rightarrow> new_graph | Some g \<Rightarrow> ret g)"

text \<open>The three additions read their second argument before they test it.\<close>

definition mango_task_graph_add_buffer :: "nat option \<Rightarrow> u32 option \<Rightarrow> ('w host, nat) act" where
  "mango_task_graph_add_buffer tg buffer =
     andThen (from_option Bad_pointer buffer) (\<lambda>i.
     andThen (or_new_graph tg) (\<lambda>g.
     andThen (with_cxt (get_buffer i)) (\<lambda>r.
     andThen (update_graph g (graph_add_buffer r)) (\<lambda>_.
     ret g))))"

definition mango_task_graph_add_kernel :: "nat option \<Rightarrow> u32 option \<Rightarrow> ('w host, nat) act" where
  "mango_task_graph_add_kernel tg kern =
     andThen (from_option Bad_pointer kern) (\<lambda>i.
     andThen (or_new_graph tg) (\<lambda>g.
     andThen (with_cxt (get_kernel i)) (\<lambda>r.
     andThen (update_graph g (graph_add_kernel r)) (\<lambda>_.
     ret g))))"

definition mango_task_graph_add_event :: "nat option \<Rightarrow> u32 option \<Rightarrow> ('w host, nat) act" where
  "mango_task_graph_add_event tg event =
     andThen (or_new_graph tg) (\<lambda>g.
     andThen (case event of
         None \<Rightarrow> ret ()
       | Some i \<Rightarrow> andThen (with_cxt (get_event i)) (\<lambda>r. update_graph g (graph_add_event r))) (\<lambda>_.
     andThen (with_cxt (add_all_events g)) (\<lambda>_.
     ret g)))"

section \<open>Transfers\<close>

definition mango_write ::
  "'w platform \<Rightarrow> u8 list option \<Rightarrow> u32 \<Rightarrow> communication_mode \<Rightarrow> u64 \<Rightarrow> ('w host, u32) act" where
  "mango_write P GN_buffer HN_buffer mode global_size =
     andThen (assert_that (GN_buffer \<noteq> None)) (\<lambda>_.
     andThen (assert_that (mode \<noteq> BURST \<or> 0 < global_size)) (\<lambda>_.
     andThen (with_cxt (get_buffer HN_buffer)) (\<lambda>br.
     andThen (the_buffer br) (\<lambda>b.
     andThen (if b_fifo b then fifo_write P br (the GN_buffer) (ucast global_size)
              else buffer_write P br (the GN_buffer) (ucast global_size)) (\<lambda>er.
     positive_event_id er)))))"

text \<open>Reading gives the event and, for a direct transfer, the host memory after it.\<close>

definition mango_read ::
  "'w platform \<Rightarrow> u8 list option \<Rightarrow> u32 \<Rightarrow> communication_mode \<Rightarrow> u64 \<Rightarrow> ('w host, u32 \<times> u8 list) act" where
  "mango_read P GN_buffer HN_buffer mode global_size =
     andThen (assert_that (GN_buffer \<noteq> None)) (\<lambda>_.
     andThen (assert_that (mode \<noteq> BURST \<or> 0 < global_size)) (\<lambda>_.
     andThen (with_cxt (get_buffer HN_buffer)) (\<lambda>br.
     andThen (the_buffer br) (\<lambda>b.
     andThen (if b_fifo b
              then andThen (fifo_read P br (length (the GN_buffer)) (ucast global_size)) (\<lambda>er.
                   ret (the GN_buffer, er))
              else buffer_read P br (the GN_buffer) (ucast global_size)) (\<lambda>(mem, er).
     andThen (positive_event_id er) (\<lambda>i.
     ret (i, mem)))))))"

section \<open>Arguments\<close>

text \<open>A little-endian value of \<open>n\<close> bytes behind a pointer.\<close>

definition load_le :: "nat \<Rightarrow> u8 list \<Rightarrow> fault + nat" where
  "load_le n mem =
     (if length mem < n then Inl Out_of_bounds
      else Inr (foldr (\<lambda>b acc. unat b + 256 * acc) (take n mem) 0))"

definition mango_arg_object ::
  "'w platform \<Rightarrow> u8 list \<Rightarrow> u64 \<Rightarrow> c_buffer_type \<Rightarrow> ('w host, arg) act" where
  "mango_arg_object P value sz t =
     (case t of
        C_SCALAR \<Rightarrow>
          if sz = 8 then andThen (lift_sum (load_le 8 value)) (\<lambda>v. ret (scalar_arg 4 (of_nat v) (uninit P)))
          else if sz = 4 then andThen (lift_sum (load_le 4 value)) (\<lambda>v. ret (scalar_arg 4 (of_nat v) (uninit P)))
          else if sz = 2 then andThen (lift_sum (load_le 2 value)) (\<lambda>v. ret (scalar_arg 2 (of_nat v) (uninit P)))
          else if sz = 1 then andThen (lift_sum (load_le 1 value)) (\<lambda>v. ret (scalar_arg 1 (of_nat v) (uninit P)))
          else fail Assert_failed
      | C_EVENT \<Rightarrow>
          andThen (lift_sum (load_le 4 value)) (\<lambda>v.
          andThen (with_cxt (get_event (of_nat v))) (\<lambda>er.
          andThen (the_event er) (\<lambda>e. ret (event_arg e (uninit P)))))
      | C_NONE \<Rightarrow> fail Assert_failed
      | _ \<Rightarrow>
          andThen (lift_sum (load_le 4 value)) (\<lambda>v.
          andThen (with_cxt (get_buffer (of_nat v))) (\<lambda>br.
          andThen (the_buffer br) (\<lambda>b. ret (buffer_arg b (uninit P))))))"

definition mango_arg ::
  "'w platform \<Rightarrow> u32 \<Rightarrow> u8 list option \<Rightarrow> u64 \<Rightarrow> c_buffer_type \<Rightarrow> ('w host, nat) act" where
  "mango_arg P kern value sz t =
     andThen (with_cxt (get_kernel kern)) (\<lambda>_.
     andThen (assert_that (value \<noteq> None)) (\<lambda>_.
     andThen (mango_arg_object P (the value) sz t) (\<lambda>a.
     andThen (reads (\<lambda>s. length (hargs s))) (\<lambda>r.
     andThen (modify (\<lambda>s. s\<lparr>hargs := hargs s @ [a]\<rparr>)) (\<lambda>_.
     ret r)))))"

definition mango_set_args :: "'w platform \<Rightarrow> u32 \<Rightarrow> nat list \<Rightarrow> ('w host, nat) act" where
  "mango_set_args P kern arguments =
     andThen (with_cxt (get_kernel kern)) (\<lambda>kr.
     andThen (mapEach arguments (fetch hargs)) (\<lambda>as.
     andThen (setup_args P as kr) (\<lambda>ka.
     andThen (reads (\<lambda>s. length (hkargs s))) (\<lambda>r.
     andThen (modify (\<lambda>s. s\<lparr>hkargs := hkargs s @ [ka]\<rparr>)) (\<lambda>_.
     ret r)))))"

definition mango_set_args_from_vector :: "'w platform \<Rightarrow> u32 \<Rightarrow> nat list option \<Rightarrow> ('w host, nat) act" where
  "mango_set_args_from_vector P kern arguments =
     andThen (assert_that (arguments \<noteq> None)) (\<lambda>_. mango_set_args P kern (the arguments))"

section \<open>Running\<close>

definition mango_start_kernel ::
  "'w platform \<Rightarrow> u32 \<Rightarrow> nat option \<Rightarrow> u32 \<Rightarrow> ('w host, u32) act" where
  "mango_start_kernel P kern args event =
     andThen (with_cxt (get_kernel kern)) (\<lambda>kr.
     andThen (with_cxt (get_event event)) (\<lambda>_.
     andThen (assert_that (args \<noteq> None)) (\<lambda>_.
     andThen (fetch hkargs (the args)) (\<lambda>ka.
     andThen (bbq_start_kernel P kr ka) (\<lambda>er.
     event_id er)))))"

definition mango_wait_h :: "'w platform \<Rightarrow> u32 \<Rightarrow> ('w host, unit) act" where
  "mango_wait_h P e = andThen (with_cxt (get_event e)) (host_wait P)"

definition mango_wait_state :: "'w platform \<Rightarrow> u32 \<Rightarrow> u32 \<Rightarrow> ('w host, unit) act" where
  "mango_wait_state P e state = andThen (with_cxt (get_event e)) (\<lambda>er. host_wait_state P er state)"

definition mango_get_unit_id :: "u32 \<Rightarrow> ('w host, u32) act" where
  "mango_get_unit_id kern =
     andThen (with_cxt (get_kernel kern)) (\<lambda>kr.
     andThen (the_kernel kr) (\<lambda>k.
     andThen (assigned_unit k) (\<lambda>u. ret (u_id u))))"

definition mango_get_unit_arch :: "u32 \<Rightarrow> ('w host, unit_type) act" where
  "mango_get_unit_arch kern =
     andThen (with_cxt (get_kernel kern)) (\<lambda>kr.
     andThen (the_kernel kr) (\<lambda>k.
     andThen (assigned_unit k) (\<lambda>u. ret (u_arch u))))"

definition mango_write_synchronization_h :: "'w platform \<Rightarrow> u32 \<Rightarrow> u32 \<Rightarrow> ('w host, unit) act" where
  "mango_write_synchronization_h P event value =
     andThen (with_cxt (get_event event)) (\<lambda>er. host_event_write P er value)"

definition mango_read_synchronization_h :: "'w platform \<Rightarrow> u32 \<Rightarrow> ('w host, u32) act" where
  "mango_read_synchronization_h P event =
     andThen (with_cxt (get_event event)) (\<lambda>er. host_event_read P er)"

end
