(* ===== verification/Host_Invariant.thy ===== *)
theory Host_Invariant
  imports Host_Api
begin

text \<open>
  What every call of the C interface preserves: the identities of the objects (their
  ids and the events they own) and the consistency of the context's maps with them. A
  call either changes only what the skeleton of the state leaves out, or registers or
  deregisters objects; the invariant covers both.
\<close>

section \<open>The skeleton of a state\<close>

record skeleton =
  sk_cxt :: cxt_state
  sk_gen :: u32
  sk_events :: "u32 list"
  sk_buffers :: "(u32 \<times> nat) list"
  sk_kernels :: "(u32 \<times> nat list) list"
  sk_cxt_kernels :: "(u32, nat) smap"
  sk_cxt_buffers :: "(u32, nat) smap"
  sk_cxt_events :: "(u32, nat) smap"

definition kernel_events :: "kernel \<Rightarrow> nat list" where
  "kernel_events k = k_term k # k_tasks k"

definition skel :: "'w host \<Rightarrow> skeleton" where
  "skel s = \<lparr>sk_cxt = cxt s, sk_gen = id_gen s, sk_events = map ev_id (hevents s),
     sk_buffers = map (\<lambda>b. (b_id b, b_event b)) (hbuffers s),
     sk_kernels = map (\<lambda>k. (k_id k, kernel_events k)) (hkernels s),
     sk_cxt_kernels = cxt_kernels s, sk_cxt_buffers = cxt_buffers s, sk_cxt_events = cxt_events s\<rparr>"

abbreviation same :: "skeleton \<Rightarrow> 'w host \<Rightarrow> bool" where
  "same \<sigma> s \<equiv> skel s = \<sigma>"

named_theorems frame \<open>actions that leave the skeleton as it is\<close>

lemma frame_andThen [frame]: "keeps P m \<Longrightarrow> (\<And>a. keeps P (f a)) \<Longrightarrow> keeps P (andThen m f)"
  by (rule keeps_andThen)

lemmas [frame] = keeps_ret keeps_fail keeps_reads keeps_assert keeps_throw keeps_from_option
  keeps_lift_sum keeps_fetch

lemma frame_forEach [frame]: "(\<And>x. keeps P (f x)) \<Longrightarrow> keeps P (forEach xs f)"
  by (rule keeps_forEach)

lemma frame_foldEach [frame]: "(\<And>x b. keeps P (f x b)) \<Longrightarrow> keeps P (foldEach xs b f)"
  by (rule keeps_foldEach)

lemma frame_mapEach [frame]: "(\<And>x. keeps P (f x)) \<Longrightarrow> keeps P (mapEach xs f)"
  by (rule keeps_mapEach)

lemma frame_if [frame]: "(b \<Longrightarrow> keeps P m) \<Longrightarrow> (\<not> b \<Longrightarrow> keeps P n) \<Longrightarrow> keeps P (if b then m else n)"
  by simp

lemma frame_prod [frame]: "(\<And>a b. keeps P (f a b)) \<Longrightarrow> keeps P (case x of (a, b) \<Rightarrow> f a b)"
  by (cases x) simp

lemma frame_option [frame]:
  "keeps P m \<Longrightarrow> (\<And>a. keeps P (f a)) \<Longrightarrow> keeps P (case x of None \<Rightarrow> m | Some a \<Rightarrow> f a)"
  by (cases x) simp_all

lemma frame_on_world [frame]: "keeps (same \<sigma>) (on_world f)"
  and frame_do_world [frame]: "keeps (same \<sigma>) (do_world g)"
  and frame_try_world [frame]: "keeps (same \<sigma>) (try_world h)"
  by (auto simp: keeps_def act_simps skel_def split: option.splits)

text \<open>
  Reading an object gives its identity; storing one with the identity of the skeleton
  keeps the skeleton.
\<close>

lemma keeps_fetch_andThen:
  assumes "\<And>s. P s \<Longrightarrow> r < length (sel s) \<Longrightarrow> keeps P (f (sel s ! r))"
  shows "keeps P (andThen (fetch sel r) f)"
proof (rule keepsI)
  fix s q t
  assume P: "P s" and run: "andThen (fetch sel r) f s = Some (q, t)"
  show "P t"
  proof (cases "r < length (sel s)")
    case True
    with run have "f (sel s ! r) s = Some (q, t)" by (simp add: act_simps)
    with keepsD [OF assms [OF P True] P] show ?thesis .
  next
    case False
    with run P show ?thesis by (simp add: act_simps)
  qed
qed

lemma frame_the_event [frame]:
  assumes "\<And>e. ev_id e = sk_events \<sigma> ! r \<Longrightarrow> keeps (same \<sigma>) (f e)"
  shows "keeps (same \<sigma>) (andThen (the_event r) f)"
  unfolding the_event_def
  by (rule keeps_fetch_andThen, rule assms) (auto simp: skel_def)

lemma frame_the_buffer [frame]:
  assumes "\<And>b. (b_id b, b_event b) = sk_buffers \<sigma> ! r \<Longrightarrow> keeps (same \<sigma>) (f b)"
  shows "keeps (same \<sigma>) (andThen (the_buffer r) f)"
  unfolding the_buffer_def
  by (rule keeps_fetch_andThen, rule assms) (auto simp: skel_def)

lemma frame_the_kernel [frame]:
  assumes "\<And>k. (k_id k, kernel_events k) = sk_kernels \<sigma> ! r \<Longrightarrow> keeps (same \<sigma>) (f k)"
  shows "keeps (same \<sigma>) (andThen (the_kernel r) f)"
  unfolding the_kernel_def
  by (rule keeps_fetch_andThen, rule assms) (auto simp: skel_def)

lemma frame_put_event [frame]: "ev_id e = sk_events \<sigma> ! r \<Longrightarrow> keeps (same \<sigma>) (put_event r e)"
  by (auto simp: keeps_def access_simps act_simps skel_def map_update_same)

lemma frame_put_buffer [frame]:
  "(b_id b, b_event b) = sk_buffers \<sigma> ! r \<Longrightarrow> keeps (same \<sigma>) (put_buffer r b)"
  by (auto simp: keeps_def access_simps act_simps skel_def map_update_same)

lemma frame_put_kernel [frame]:
  "(k_id k, kernel_events k) = sk_kernels \<sigma> ! r \<Longrightarrow> keeps (same \<sigma>) (put_kernel r k)"
  by (auto simp: keeps_def access_simps act_simps skel_def map_update_same)

lemma frame_put_function [frame]: "keeps (same \<sigma>) (put_function r f)"
  by (auto simp: keeps_def access_simps act_simps skel_def)

lemma frame_the_function [frame]: "keeps (same \<sigma>) (the_function r)"
  by (auto simp: access_simps intro!: frame)

section \<open>Calls that keep the skeleton\<close>

lemma frame_graph [frame]:
  "keeps (same \<sigma>) (the_graph g)" "keeps (same \<sigma>) new_graph" "keeps (same \<sigma>) (update_graph g f)"
  by (auto simp: the_graph_def new_graph_def update_graph_def keeps_def act_simps skel_def
      split: option.splits if_splits)

lemma kernel_events_update [simp]:
  "kernel_events (k\<lparr>k_tlb := t\<rparr>) = kernel_events k" "kernel_events (k\<lparr>k_unit := u\<rparr>) = kernel_events k"
  "kernel_events (k\<lparr>k_tile := i\<rparr>) = kernel_events k" "kernel_events (k\<lparr>k_cluster := c\<rparr>) = kernel_events k"
  "kernel_events (k\<lparr>k_phy := p\<rparr>) = kernel_events k" "kernel_events (k\<lparr>k_vaddr := p\<rparr>) = kernel_events k"
  by (simp_all add: kernel_events_def)

lemma frame_transfers [frame]:
  "keeps (same \<sigma>) (buffer_write P r mem n)" "keeps (same \<sigma>) (buffer_read P r mem n)"
  "keeps (same \<sigma>) (set_fifo_task P er task)"
  "keeps (same \<sigma>) (host_event_write P r v)" "keeps (same \<sigma>) (host_event_read P r)"
  "keeps (same \<sigma>) (host_wait_state P r v)"
  unfolding buffer_write_def buffer_read_def set_fifo_task_def host_event_write_def
    host_event_read_def host_wait_state_def
  by (auto intro!: frame split: option.split bool.split)

lemma base_wait_id: "base_wait P e w = Some (Inr e', w') \<Longrightarrow> ev_id e' = ev_id e"
  by (auto simp: base_wait_def split: option.splits if_splits Option.bind_splits)

lemma event_wait_id: "event_wait P e w = Some (Inr e', w') \<Longrightarrow> ev_id e' = ev_id e"
  by (auto simp: event_wait_def base_wait_id split: option.splits sum.splits Option.bind_splits)

lemma frame_host_wait [frame]: "keeps (same \<sigma>) (host_wait P r)"
  unfolding host_wait_def
proof (rule frame_the_event)
  fix e :: event assume e: "ev_id e = sk_events \<sigma> ! r"
  show "keeps (same \<sigma>) (\<lambda>s. case event_wait P e (world s) of
         None \<Rightarrow> None
       | Some (Inl f, w) \<Rightarrow> Some (Inl f, s\<lparr>world := w\<rparr>)
       | Some (Inr e', w) \<Rightarrow> Some (Inr (), s\<lparr>world := w, hevents := (hevents s)[r := e']\<rparr>))"
    using e event_wait_id [of P e]
    by (auto simp: keeps_def skel_def map_update_same split: option.splits sum.splits)
qed

lemma frame_fifo [frame]:
  "keeps (same \<sigma>) (fifo_write P r mem n)" "keeps (same \<sigma>) (fifo_read P r room n)"
  unfolding fifo_write_def fifo_read_def by (auto intro!: frame)

lemma frame_tlb [frame]:
  "keeps (same \<sigma>) (assigned_unit k)" "keeps (same \<sigma>) (get_kernel_by_id tg i)"
  "keeps (same \<sigma>) (set_vaddr_kernel P kr m)" "keeps (same \<sigma>) (set_buff_tlb P kr br m)"
  "keeps (same \<sigma>) (set_event_tlb kr er)" "keeps (same \<sigma>) (set_buff_tlb_gn kr br m)"
  "keeps (same \<sigma>) (set_event_tlb_gn kr er)" "keeps (same \<sigma>) (event_window P u a c)"
  unfolding assigned_unit_def get_kernel_by_id_def set_vaddr_kernel_def set_buff_tlb_def
    set_event_tlb_def set_buff_tlb_gn_def set_event_tlb_gn_def event_window_def
  by (auto intro!: frame frame_the_function)

lemma frame_mm [frame]:
  "keeps (same \<sigma>) (set_vaddr_kernels P tg m)" "keeps (same \<sigma>) (set_vaddr_buffers gn P tg m)"
  "keeps (same \<sigma>) (set_vaddr_events gn P tg)"
  unfolding set_vaddr_kernels_def set_vaddr_buffers_def map_buffer_def set_vaddr_events_def map_event_def
  by (auto intro!: frame split: unit_type.split)

lemma frame_args [frame]:
  "keeps (same \<sigma>) (setup_args P as kr)" "keeps (same \<sigma>) (get_arguments P ka arch)"
  unfolding setup_args_def get_arguments_def by (auto intro!: frame frame_the_function)

lemma frame_bbq [frame]:
  "keeps (same \<sigma>) (kernel_task kr)" "keeps (same \<sigma>) (buffer_entry br)"
  "keeps (same \<sigma>) (set_callback er cb)" "keeps (same \<sigma>) (assign_kernel c i t kr)"
  "keeps (same \<sigma>) (reset_event P e)" "keeps (same \<sigma>) (assign_event P c i phy er)"
  "keeps (same \<sigma>) (assign_buffer P c i place br)"
  unfolding kernel_task_def buffer_entry_def set_callback_def assign_kernel_def reset_event_def
    assign_event_def assign_buffer_def
  by (auto intro!: frame frame_the_function)

lemma frame_allocation [frame]:
  "keeps (same \<sigma>) (to_bbque tg)" "keeps (same \<sigma>) (from_bbque P tg rp)"
  unfolding to_bbque_def from_bbque_def by (auto intro!: frame)

lemma frame_resource_allocation [frame]: "keeps (same \<sigma>) (resource_allocation P g)"
  unfolding resource_allocation_def by (auto intro!: frame)

lemma frame_start [frame]: "keeps (same \<sigma>) (start_kernel P kr ka)"
  unfolding start_kernel_def by (auto intro!: frame frame_the_function)

lemma frame_bbq_start [frame]: "keeps (same \<sigma>) (bbq_start_kernel P kr ka)"
  unfolding bbq_start_kernel_def by (auto intro!: frame)

lemma frame_lookup [frame]:
  "keeps (same \<sigma>) (get_kernel i)" "keeps (same \<sigma>) (get_buffer i)" "keeps (same \<sigma>) (get_event i)"
  "keeps (same \<sigma>) (event_id r)" "keeps (same \<sigma>) (positive_event_id r)"
  unfolding get_kernel_def get_buffer_def get_event_def positive_event_id_def event_id_def
  by (auto intro!: frame)

lemma frame_with_cxt [frame]: "keeps (same \<sigma>) m \<Longrightarrow> keeps (same \<sigma>) (with_cxt m)"
  unfolding with_cxt_def by (auto intro!: frame)

lemma frame_add_all_events [frame]: "keeps (same \<sigma>) (add_all_events g)" "keeps (same \<sigma>) (or_new_graph tg)"
  unfolding add_all_events_def or_new_graph_def by (auto intro!: frame)

lemma frame_append [frame]:
  "keeps (same \<sigma>) (modify (\<lambda>s. s\<lparr>hargs := f s\<rparr>))" "keeps (same \<sigma>) (modify (\<lambda>s. s\<lparr>hkargs := g s\<rparr>))"
  "keeps (same \<sigma>) (modify (\<lambda>s. s\<lparr>hgraphs := h s\<rparr>))" "keeps (same \<sigma>) (modify (\<lambda>s. s\<lparr>hfunctions := j s\<rparr>))"
  by (auto simp: keeps_def act_simps skel_def)

lemma frame_arg_object [frame]: "keeps (same \<sigma>) (mango_arg_object P v sz t)"
  unfolding mango_arg_object_def by (auto intro!: frame split: c_buffer_type.split)

lemma frame_api [frame]:
  "keeps (same \<sigma>) mango_kernelfunction_init" "keeps (same \<sigma>) (mango_load_kernel P n f u t)"
  "keeps (same \<sigma>) (mango_get_buffer_event b)" "keeps (same \<sigma>) (mango_resize_memory b len)"
  "keeps (same \<sigma>) (mango_task_graph_create ks bs es)" "keeps (same \<sigma>) (mango_task_graph_destroy_all tg)"
  "keeps (same \<sigma>) (mango_resource_allocation P tg)" "keeps (same \<sigma>) (mango_resource_deallocation tg)"
  "keeps (same \<sigma>) (mango_task_graph_add_buffer tg b')" "keeps (same \<sigma>) (mango_task_graph_add_kernel tg k')"
  "keeps (same \<sigma>) (mango_task_graph_add_event tg e')" "keeps (same \<sigma>) (mango_write P mem b mode len)"
  "keeps (same \<sigma>) (mango_read P mem b mode len)" "keeps (same \<sigma>) (mango_arg P k v len ty)"
  "keeps (same \<sigma>) (mango_set_args P k as)" "keeps (same \<sigma>) (mango_set_args_from_vector P k as')"
  "keeps (same \<sigma>) (mango_start_kernel P k ka e)" "keeps (same \<sigma>) (mango_wait_h P e)"
  "keeps (same \<sigma>) (mango_wait_state P e v32)" "keeps (same \<sigma>) (mango_get_unit_id k)"
  "keeps (same \<sigma>) (mango_get_unit_arch k)" "keeps (same \<sigma>) (mango_write_synchronization_h P e v32)"
  "keeps (same \<sigma>) (mango_read_synchronization_h P e)"
  unfolding mango_kernelfunction_init_def mango_load_kernel_def mango_get_buffer_event_def
    mango_resize_memory_def mango_task_graph_create_def mango_task_graph_destroy_all_def
    mango_resource_allocation_def mango_resource_deallocation_def resource_deallocation_def
    mango_task_graph_add_buffer_def mango_task_graph_add_kernel_def mango_task_graph_add_event_def
    mango_write_def mango_read_def mango_arg_def mango_set_args_def mango_set_args_from_vector_def
    mango_start_kernel_def mango_wait_h_def mango_wait_state_def mango_get_unit_id_def
    mango_get_unit_arch_def mango_write_synchronization_h_def mango_read_synchronization_h_def
  by (auto intro!: frame frame_the_function split: prod.split)

section \<open>Consistency\<close>

text \<open>
  Events are numbered by their index, no event has two owners, and the context's maps
  bind ids to the objects that carry them, the events of a registered object included.
\<close>

definition owned :: "skeleton \<Rightarrow> nat list" where
  "owned \<sigma> = map snd (sk_buffers \<sigma>) @ concat (map snd (sk_kernels \<sigma>))"

definition registered :: "skeleton \<Rightarrow> nat \<Rightarrow> bool" where
  "registered \<sigma> e \<longleftrightarrow> sm_at (sk_cxt_events \<sigma>) (of_nat e) = Some e"

definition numbered :: "skeleton \<Rightarrow> bool" where
  "numbered \<sigma> \<longleftrightarrow> sk_gen \<sigma> = of_nat (length (sk_events \<sigma>))
     \<and> (\<forall>i < length (sk_events \<sigma>). sk_events \<sigma> ! i = of_nat i)
     \<and> length (sk_events \<sigma>) \<le> 2 ^ 32"

definition sk_ok :: "skeleton \<Rightarrow> bool" where
  "sk_ok \<sigma> \<longleftrightarrow>
     sm_ok (sk_cxt_kernels \<sigma>) \<and> sm_ok (sk_cxt_buffers \<sigma>) \<and> sm_ok (sk_cxt_events \<sigma>)
   \<and> numbered \<sigma> \<and> distinct (owned \<sigma>) \<and> (\<forall>e \<in> set (owned \<sigma>). e < length (sk_events \<sigma>))
   \<and> (\<forall>i e. sm_at (sk_cxt_events \<sigma>) i = Some e \<longrightarrow> e < length (sk_events \<sigma>) \<and> of_nat e = i)
   \<and> (\<forall>i r. sm_at (sk_cxt_buffers \<sigma>) i = Some r \<longrightarrow> r < length (sk_buffers \<sigma>)
        \<and> fst (sk_buffers \<sigma> ! r) = i \<and> registered \<sigma> (snd (sk_buffers \<sigma> ! r)))
   \<and> (\<forall>i r. sm_at (sk_cxt_kernels \<sigma>) i = Some r \<longrightarrow> r < length (sk_kernels \<sigma>)
        \<and> fst (sk_kernels \<sigma> ! r) = i \<and> (\<forall>e \<in> set (snd (sk_kernels \<sigma> ! r)). registered \<sigma> e))"

lemma unat_of_nat_u32: "k < 2 ^ 32 \<Longrightarrow> unat (of_nat k :: u32) = k"
  by (simp add: unat_of_nat)

lemma of_nat_u32_inj: "a < 2 ^ 32 \<Longrightarrow> b < 2 ^ 32 \<Longrightarrow> (of_nat a :: u32) = of_nat b \<Longrightarrow> a = b"
  by (metis unat_of_nat_u32)

definition sk_add_event :: "skeleton \<Rightarrow> skeleton" where
  "sk_add_event \<sigma> = \<sigma>\<lparr>sk_gen := sk_gen \<sigma> + 1, sk_events := sk_events \<sigma> @ [sk_gen \<sigma>]\<rparr>"

lemma sk_ok_add_event:
  assumes "sk_ok \<sigma>" and "length (sk_events \<sigma>) < 2 ^ 32"
  shows "sk_ok (sk_add_event \<sigma>)"
proof -
  have "numbered (sk_add_event \<sigma>)"
    using assms by (auto simp: sk_ok_def numbered_def sk_add_event_def nth_append less_Suc_eq)
  moreover have "owned (sk_add_event \<sigma>) = owned \<sigma>" "registered (sk_add_event \<sigma>) = registered \<sigma>"
    by (auto simp: owned_def registered_def sk_add_event_def fun_eq_iff)
  ultimately show ?thesis
    using assms(1) unfolding sk_ok_def by (simp add: sk_add_event_def less_SucI)
qed

lemma sk_ok_own_buffer:
  assumes "sk_ok \<sigma>" and "e < length (sk_events \<sigma>)" and "e \<notin> set (owned \<sigma>)"
  shows "sk_ok (\<sigma>\<lparr>sk_buffers := sk_buffers \<sigma> @ [(bid, e)]\<rparr>)" (is "sk_ok ?t")
proof -
  have "distinct (owned ?t)" "set (owned ?t) = insert e (set (owned \<sigma>))"
    using assms by (auto simp: sk_ok_def owned_def)
  moreover have "registered ?t = registered \<sigma>" "numbered ?t = numbered \<sigma>"
    by (auto simp: registered_def numbered_def fun_eq_iff)
  ultimately show ?thesis
    using assms unfolding sk_ok_def by (simp add: nth_append) (metis less_SucI)
qed

lemma sk_ok_own_kernel:
  assumes "sk_ok \<sigma>" and "\<forall>e \<in> set es. e < length (sk_events \<sigma>)" and "distinct es"
    and "set es \<inter> set (owned \<sigma>) = {}"
  shows "sk_ok (\<sigma>\<lparr>sk_kernels := sk_kernels \<sigma> @ [(kid, es)]\<rparr>)" (is "sk_ok ?t")
proof -
  have "distinct (owned ?t)" "set (owned ?t) = set es \<union> set (owned \<sigma>)"
    using assms by (auto simp: sk_ok_def owned_def)
  moreover have "registered ?t = registered \<sigma>" "numbered ?t = numbered \<sigma>"
    by (auto simp: registered_def numbered_def fun_eq_iff)
  ultimately show ?thesis
    using assms unfolding sk_ok_def by (simp add: nth_append ball_Un) (metis less_SucI)
qed

definition sk_register :: "nat \<Rightarrow> skeleton \<Rightarrow> skeleton" where
  "sk_register e \<sigma> = \<sigma>\<lparr>sk_cxt_events := sm_emplace (of_nat e) e (sk_cxt_events \<sigma>)\<rparr>"

lemma sk_register_registered:
  assumes "sk_ok \<sigma>" and "e < length (sk_events \<sigma>)"
  shows "registered (sk_register e \<sigma>) e" and "registered \<sigma> d \<Longrightarrow> registered (sk_register e \<sigma>) d"
proof -
  have ok: "sm_ok (sk_cxt_events \<sigma>)" and lim: "length (sk_events \<sigma>) \<le> 2 ^ 32"
    using assms(1) by (auto simp: sk_ok_def numbered_def)
  show "registered (sk_register e \<sigma>) e"
  proof (cases "sm_at (sk_cxt_events \<sigma>) (of_nat e)")
    case None
    then show ?thesis using ok by (simp add: registered_def sk_register_def sm.at_emplace)
  next
    case (Some u)
    then have "u < length (sk_events \<sigma>)" "(of_nat u :: u32) = of_nat e"
      using assms(1) by (auto simp: sk_ok_def)
    then have "u = e" using assms(2) lim by (intro of_nat_u32_inj) auto
    with Some show ?thesis using ok by (simp add: registered_def sk_register_def sm.at_emplace)
  qed
  show "registered \<sigma> d \<Longrightarrow> registered (sk_register e \<sigma>) d"
    using ok by (auto simp: registered_def sk_register_def sm.at_emplace)
qed

lemma sk_ok_register:
  assumes "sk_ok \<sigma>" and "e < length (sk_events \<sigma>)"
  shows "sk_ok (sk_register e \<sigma>)"
proof -
  have ok: "sm_ok (sk_cxt_events \<sigma>)" using assms(1) by (simp add: sk_ok_def)
  have "owned (sk_register e \<sigma>) = owned \<sigma>" "numbered (sk_register e \<sigma>) = numbered \<sigma>"
    by (auto simp: owned_def numbered_def sk_register_def)
  moreover have "\<And>i d. sm_at (sk_cxt_events (sk_register e \<sigma>)) i = Some d \<Longrightarrow>
      d < length (sk_events \<sigma>) \<and> of_nat d = i"
    using assms ok by (auto simp: sk_register_def sm.at_emplace sk_ok_def split: if_splits)
  moreover have "sm_ok (sk_cxt_events (sk_register e \<sigma>))"
    using ok by (simp add: sk_register_def sm.ok_emplace)
  ultimately show ?thesis
    using assms(1) sk_register_registered(2) [OF assms] unfolding sk_ok_def
    by (simp add: sk_register_def)
qed

lemma sk_ok_bind_buffer:
  assumes "sk_ok \<sigma>" and "r < length (sk_buffers \<sigma>)" and "fst (sk_buffers \<sigma> ! r) = bid"
    and "registered \<sigma> (snd (sk_buffers \<sigma> ! r))"
  shows "sk_ok (\<sigma>\<lparr>sk_cxt_buffers := sm_emplace bid r (sk_cxt_buffers \<sigma>)\<rparr>)" (is "sk_ok ?t")
proof -
  have ok: "sm_ok (sk_cxt_buffers \<sigma>)" using assms(1) by (simp add: sk_ok_def)
  have "owned ?t = owned \<sigma>" "numbered ?t = numbered \<sigma>" "registered ?t = registered \<sigma>"
    by (auto simp: owned_def numbered_def registered_def fun_eq_iff)
  then show ?thesis
    using assms ok unfolding sk_ok_def by (simp add: sm.at_emplace sm.ok_emplace)
qed

lemma sk_ok_bind_kernel:
  assumes "sk_ok \<sigma>" and "r < length (sk_kernels \<sigma>)" and "fst (sk_kernels \<sigma> ! r) = kid"
    and "\<forall>e \<in> set (snd (sk_kernels \<sigma> ! r)). registered \<sigma> e"
  shows "sk_ok (\<sigma>\<lparr>sk_cxt_kernels := sm_emplace kid r (sk_cxt_kernels \<sigma>)\<rparr>)" (is "sk_ok ?t")
proof -
  have ok: "sm_ok (sk_cxt_kernels \<sigma>)" using assms(1) by (simp add: sk_ok_def)
  have "owned ?t = owned \<sigma>" "numbered ?t = numbered \<sigma>" "registered ?t = registered \<sigma>"
    by (auto simp: owned_def numbered_def registered_def fun_eq_iff)
  then show ?thesis
    using assms ok unfolding sk_ok_def by (simp add: sm.at_emplace sm.ok_emplace)
qed

text \<open>
  Erasing a bound buffer and its event: no other bound object owns that event.
\<close>

lemma sk_ok_unbind_buffer:
  assumes "sk_ok \<sigma>" and "sm_at (sk_cxt_buffers \<sigma>) bid = Some r"
  shows "sk_ok (\<sigma>\<lparr>sk_cxt_events := sm_erase (sk_events \<sigma> ! snd (sk_buffers \<sigma> ! r)) (sk_cxt_events \<sigma>),
                    sk_cxt_buffers := sm_erase bid (sk_cxt_buffers \<sigma>)\<rparr>)" (is "sk_ok ?t")
proof -
  define e where "e = snd (sk_buffers \<sigma> ! r)"
  have ok: "sm_ok (sk_cxt_events \<sigma>)" "sm_ok (sk_cxt_buffers \<sigma>)" "numbered \<sigma>" "distinct (owned \<sigma>)"
    and lim: "length (sk_events \<sigma>) \<le> 2 ^ 32"
    using assms(1) by (auto simp: sk_ok_def numbered_def)
  have r: "r < length (sk_buffers \<sigma>)" "fst (sk_buffers \<sigma> ! r) = bid" "registered \<sigma> e"
    using assms by (auto simp: sk_ok_def e_def)
  then have e: "e < length (sk_events \<sigma>)" using assms(1) by (auto simp: sk_ok_def registered_def)
  then have id: "sk_events \<sigma> ! e = of_nat e" using ok(3) by (simp add: numbered_def)
  have other: "registered ?t d" if "registered \<sigma> d" "d \<noteq> e" for d
  proof -
    have "d < length (sk_events \<sigma>)" using that(1) assms(1) by (auto simp: sk_ok_def registered_def)
    with that(2) e lim have "(of_nat d :: u32) \<noteq> of_nat e" using of_nat_u32_inj [of d e] by auto
    with that(1) ok(1) id show ?thesis
      by (simp add: registered_def sm_at_erase flip: e_def)
  qed
  have buffer: "registered ?t (snd (sk_buffers \<sigma> ! q))"
    if "sm_at (sk_cxt_buffers \<sigma>) j = Some q" "j \<noteq> bid" for j q
  proof (rule other)
    show "registered \<sigma> (snd (sk_buffers \<sigma> ! q))" using that(1) assms(1) by (auto simp: sk_ok_def)
    have "q < length (sk_buffers \<sigma>)" "fst (sk_buffers \<sigma> ! q) = j" using that(1) assms(1) by (auto simp: sk_ok_def)
    with r that(2) have "q < length (sk_buffers \<sigma>)" "q \<noteq> r" by auto
    moreover have "distinct (map snd (sk_buffers \<sigma>))" using ok(4) by (simp add: owned_def)
    ultimately show "snd (sk_buffers \<sigma> ! q) \<noteq> e" using r(1)
      by (simp add: e_def distinct_conv_nth)
  qed
  have kern: "registered ?t d"
    if "sm_at (sk_cxt_kernels \<sigma>) j = Some q" "d \<in> set (snd (sk_kernels \<sigma> ! q))" for j q d
  proof (rule other)
    have "q < length (sk_kernels \<sigma>)" and reg: "registered \<sigma> d" using that assms(1) by (auto simp: sk_ok_def)
    then have "d \<in> set (concat (map snd (sk_kernels \<sigma>)))" using that(2) by (auto intro: nth_mem)
    moreover have "e \<in> set (map snd (sk_buffers \<sigma>))" using r(1) by (auto simp: e_def)
    ultimately show "d \<noteq> e" using ok(4) by (auto simp: owned_def)
    show "registered \<sigma> d" by (rule reg)
  qed
  have "owned ?t = owned \<sigma>" "numbered ?t = numbered \<sigma>" by (auto simp: owned_def numbered_def)
  moreover have "sm_ok (sk_cxt_events ?t)" "sm_ok (sk_cxt_buffers ?t)"
    using ok by (simp_all add: sm_ok_erase)
  moreover have "\<And>i d. sm_at (sk_cxt_events ?t) i = Some d \<Longrightarrow> sm_at (sk_cxt_events \<sigma>) i = Some d"
    using ok(1) by (auto simp: sm_at_erase split: if_splits)
  ultimately show ?thesis
    using assms(1) ok(2) buffer kern unfolding sk_ok_def
    by (simp add: sm_at_erase)
qed

end
