(* ===== verification/Host_Reach.thy ===== *)
theory Host_Reach
  imports Host_Invariant
begin

text \<open>
  The states a client of the C interface can reach, and that all of them are consistent:
  the maps of the context agree with the objects, as long as the 32-bit id generator of
  events has not wrapped around.
\<close>

section \<open>Consistent states\<close>

definition consistent :: "'w host \<Rightarrow> bool" where
  "consistent s \<longleftrightarrow> (length (sk_events (skel s)) \<le> 2 ^ 32 \<longrightarrow> sk_ok (skel s))"

lemma consistent_init: "consistent (host_init w)"
  by (simp add: consistent_def sk_ok_def skel_def host_init_def owned_def numbered_def)

lemma keeps_of_frame: "(\<And>\<sigma>. keeps (same \<sigma>) m) \<Longrightarrow> keeps consistent m"
  unfolding keeps_def consistent_def by metis

lemma consistentI: "skel t = \<sigma> \<Longrightarrow> (length (sk_events \<sigma>) \<le> 2 ^ 32 \<Longrightarrow> sk_ok \<sigma>) \<Longrightarrow> consistent t"
  by (simp add: consistent_def)

section \<open>Registering buffers\<close>

text \<open>The skeleton once a buffer with a fresh event has been made, and once it is registered.\<close>

definition sk_new_buffer :: "u32 \<Rightarrow> skeleton \<Rightarrow> skeleton" where
  "sk_new_buffer bid \<sigma> = (sk_add_event \<sigma>)\<lparr>sk_buffers := sk_buffers \<sigma> @ [(bid, length (sk_events \<sigma>))]\<rparr>"

definition sk_bind_buffer :: "u32 \<Rightarrow> nat \<Rightarrow> skeleton \<Rightarrow> skeleton" where
  "sk_bind_buffer bid r \<sigma> = \<sigma>\<lparr>sk_cxt_buffers := sm_emplace bid r (sk_cxt_buffers \<sigma>)\<rparr>"

lemma skel_make_buffer:
  assumes "make_buffer P bid sz ins outs fifo s = Some (q, t)"
  shows "q = Inr (length (hbuffers s))" and "skel t = sk_new_buffer bid (skel s)"
    and "b_event (hbuffers t ! length (hbuffers s)) = length (hevents s)"
    and "cxt t = cxt s"
  using assms
  by (auto simp: make_buffer_def act_simps skel_def sk_new_buffer_def sk_add_event_def new_event_def)

lemma owned_below: "sk_ok \<sigma> \<Longrightarrow> length (sk_events \<sigma>) \<notin> set (owned \<sigma>)"
  by (auto simp: sk_ok_def)

lemma sk_add_event_simps [simp]:
  "length (sk_events (sk_add_event \<sigma>)) = Suc (length (sk_events \<sigma>))"
  "sk_buffers (sk_add_event \<sigma>) = sk_buffers \<sigma>" "sk_kernels (sk_add_event \<sigma>) = sk_kernels \<sigma>"
  "owned (sk_add_event \<sigma>) = owned \<sigma>" "registered (sk_add_event \<sigma>) = registered \<sigma>"
  by (auto simp: sk_add_event_def owned_def registered_def fun_eq_iff)

lemma sk_register_simps [simp]:
  "sk_events (sk_register e \<sigma>) = sk_events \<sigma>" "sk_buffers (sk_register e \<sigma>) = sk_buffers \<sigma>"
  "sk_kernels (sk_register e \<sigma>) = sk_kernels \<sigma>"
  by (simp_all add: sk_register_def)

lemma sk_ok_new_buffer:
  assumes "sk_ok \<sigma>" and "length (sk_events \<sigma>) < 2 ^ 32"
  shows "sk_ok (sk_new_buffer bid \<sigma>)"
proof -
  have "sk_ok ((sk_add_event \<sigma>)\<lparr>sk_buffers := sk_buffers (sk_add_event \<sigma>) @ [(bid, length (sk_events \<sigma>))]\<rparr>)"
    using assms owned_below [OF assms(1)] by (intro sk_ok_own_buffer sk_ok_add_event) auto
  then show ?thesis by (simp add: sk_new_buffer_def)
qed

lemma sk_ok_registered_buffer:
  assumes "sk_ok \<sigma>" and "length (sk_events \<sigma>) < 2 ^ 32"
  shows "sk_ok (sk_bind_buffer bid (length (sk_buffers \<sigma>))
                  (sk_register (length (sk_events \<sigma>)) (sk_new_buffer bid \<sigma>)))"
proof -
  have e: "length (sk_events \<sigma>) < length (sk_events (sk_new_buffer bid \<sigma>))"
    by (simp add: sk_new_buffer_def)
  note new = sk_ok_new_buffer [OF assms]
  show ?thesis
    unfolding sk_bind_buffer_def
    using sk_ok_register [OF new e] sk_register_registered(1) [OF new e]
    by (intro sk_ok_bind_buffer) (auto simp: sk_new_buffer_def)
qed

lemma skel_register_buffer:
  assumes "register_buffer r bid s = Some (q, t)"
    and "r < length (hbuffers s)" and "b_event (hbuffers s ! r) = e"
    and "e < length (hevents s)" and "ev_id (hevents s ! e) = of_nat e"
  shows "skel t = sk_bind_buffer bid r (sk_register e (skel s))"
  using assms
  by (auto simp: register_buffer_def add_event_def access_simps act_simps skel_def
      sk_bind_buffer_def sk_register_def)

lemma keeps_register_buffer:
  "keeps consistent (andThen (make_buffer P bid sz ins outs fifo) (\<lambda>r. with_cxt (register_buffer r bid)))"
proof (rule keepsI)
  fix s q t
  assume ok: "consistent s"
    and run: "andThen (make_buffer P bid sz ins outs fifo) (\<lambda>r. with_cxt (register_buffer r bid)) s = Some (q, t)"
  obtain q1 u where mb: "make_buffer P bid sz ins outs fifo s = Some (q1, u)"
    by (simp add: make_buffer_def act_simps)
  note mk = skel_make_buffer [OF mb]
  have len: "length (hbuffers s) = length (sk_buffers (skel s))" "length (hevents s) = length (sk_events (skel s))"
    by (simp_all add: skel_def)
  show "consistent t"
  proof (cases "cxt s = Cxt_live")
    case False
    with run mb mk have "t = u" by (auto simp: act_simps with_cxt_def)
    with mk(2) ok show ?thesis
      by (intro consistentI) (auto simp: consistent_def sk_new_buffer_def intro!: sk_ok_new_buffer [unfolded sk_new_buffer_def])
  next
    case True
    with run mb mk have reg: "register_buffer (length (hbuffers s)) bid u = Some (q, t)"
      by (auto simp: act_simps with_cxt_def)
    show ?thesis
      unfolding consistent_def
    proof
      assume lim: "length (sk_events (skel t)) \<le> 2 ^ 32"
      have evs: "sk_events (skel t) = sk_events (skel u)"
        using reg by (auto simp: register_buffer_def add_event_def access_simps act_simps skel_def split: if_splits)
      then have small: "length (sk_events (skel s)) < 2 ^ 32" using lim mk(2) by (simp add: sk_new_buffer_def)
      then have sok: "sk_ok (skel s)" using ok by (simp add: consistent_def)
      have uok: "sk_ok (skel u)" using mk(2) sk_ok_new_buffer [OF sok small] by simp
      have hl: "length (hevents u) = Suc (length (hevents s))" "length (hbuffers u) = Suc (length (hbuffers s))"
        using mk(2) by (auto simp: skel_def sk_new_buffer_def sk_add_event_def dest: arg_cong [where f = length])
      have "sk_events (skel u) ! length (hevents s) = of_nat (length (hevents s))"
        using uok hl by (auto simp: sk_ok_def numbered_def skel_def)
      then have id: "ev_id (hevents u ! length (hevents s)) = of_nat (length (hevents s))"
        using hl by (simp add: skel_def)
      have "skel t = sk_bind_buffer bid (length (hbuffers s)) (sk_register (length (hevents s)) (skel u))"
        by (rule skel_register_buffer [OF reg]) (use hl mk(3) id in auto)
      with mk(2) len sk_ok_registered_buffer [OF sok small, of bid] show "sk_ok (skel t)" by simp
    qed
  qed
qed

lemma keeps_block:
  assumes "keeps Q (andThen m f)" and "\<And>r a. keeps Q (g r a)"
  shows "keeps Q (andThen m (\<lambda>r. andThen (f r) (g r)))"
proof (rule keepsI)
  fix s q t
  assume "Q s" and run: "andThen m (\<lambda>r. andThen (f r) (g r)) s = Some (q, t)"
  show "Q t"
  proof (cases "\<exists>r u a v. m s = Some (Inr r, u) \<and> f r u = Some (Inr a, v)")
    case True
    then obtain r u a v where m: "m s = Some (Inr r, u)" "f r u = Some (Inr a, v)" by blast
    then have "Q v" using keepsD [OF assms(1) \<open>Q s\<close>] by (auto simp: act_simps)
    moreover have "g r a v = Some (q, t)" using run m by (simp add: act_simps)
    ultimately show ?thesis by (rule keepsD [OF assms(2)])
  next
    case False
    with run have "\<exists>q'. andThen m f s = Some (q', t)"
      by (auto simp: act_simps split: option.splits sum.splits)
    then show ?thesis using keepsD [OF assms(1) \<open>Q s\<close>] by auto
  qed
qed

lemma keeps_register_memory:
  "keeps consistent (mango_register_memory P bid sz mode ins outs)"
  "keeps consistent (mango_register_memory_with_kernels P bid sz mode ins' outs')"
  unfolding mango_register_memory_def mango_register_memory_with_kernels_def
  by (intro keeps_andThen keeps_assert keeps_block keeps_register_buffer keeps_ret)+

section \<open>Registering events\<close>

lemma keeps_register_event: "keeps consistent (mango_register_event P ins outs)"
proof -
  have "keeps consistent (andThen (make_event P ins outs False) (\<lambda>r. with_cxt (register_event r)))"
  proof (rule keepsI)
    fix s q t
    assume ok: "consistent s"
      and run: "andThen (make_event P ins outs False) (\<lambda>r. with_cxt (register_event r)) s = Some (q, t)"
    let ?n = "length (sk_events (skel s))"
    have id: "sk_gen (skel s) = of_nat ?n" if "sk_ok (skel s)"
      using that by (simp add: sk_ok_def numbered_def)
    have cases: "skel t = sk_add_event (skel s) \<or>
        (skel t = (sk_add_event (skel s))\<lparr>sk_cxt_events :=
            sm_emplace (sk_gen (skel s)) ?n (sk_cxt_events (skel s))\<rparr>)"
      using run by (auto simp: with_cxt_def register_event_def add_event_def access_simps act_simps
          skel_def sk_add_event_def new_event_def split: if_splits)
    have len: "length (sk_events (skel t)) = Suc ?n" using cases by auto
    show "consistent t"
      unfolding consistent_def
    proof
      assume "length (sk_events (skel t)) \<le> 2 ^ 32"
      then have small: "?n < 2 ^ 32" using len by simp
      then have sok: "sk_ok (skel s)" using ok by (simp add: consistent_def)
      have "skel t = sk_add_event (skel s) \<or> skel t = sk_register ?n (sk_add_event (skel s))"
        using cases id [OF sok] by (auto simp: sk_register_def sk_add_event_def)
      with sk_ok_add_event [OF sok small] show "sk_ok (skel t)"
        by (auto intro!: sk_ok_register)
    qed
  qed
  then show ?thesis
    unfolding mango_register_event_def
    by - (rule keeps_andThen [OF keeps_assert], erule keeps_block, rule keeps_of_frame, rule frame_lookup)
qed

section \<open>Registering kernels\<close>

definition sk_new_kernel :: "u32 \<Rightarrow> skeleton \<Rightarrow> skeleton" where
  "sk_new_kernel kid \<sigma> = (let n = length (sk_events \<sigma>) in
     (sk_add_event (sk_add_event (sk_add_event (sk_add_event \<sigma>))))
       \<lparr>sk_kernels := sk_kernels \<sigma> @ [(kid, [n, n + 1, n + 2, n + 3])]\<rparr>)"

definition sk_bind_kernel :: "u32 \<Rightarrow> skeleton \<Rightarrow> skeleton" where
  "sk_bind_kernel kid \<sigma> = (let n = length (sk_events \<sigma>); u = sk_new_kernel kid \<sigma>;
       v = sk_register (n + 3) (sk_register (n + 2) (sk_register (n + 1) (sk_register n u))) in
     v\<lparr>sk_cxt_kernels := sm_emplace kid (length (sk_kernels \<sigma>)) (sk_cxt_kernels v)\<rparr>)"

lemma sk_ok_new_kernel:
  assumes "sk_ok \<sigma>" and "length (sk_events \<sigma>) + 4 \<le> 2 ^ 32"
  shows "sk_ok (sk_new_kernel kid \<sigma>)"
proof -
  let ?n = "length (sk_events \<sigma>)"
  let ?u = "sk_add_event (sk_add_event (sk_add_event (sk_add_event \<sigma>)))"
  have "sk_ok ?u" using assms by (intro sk_ok_add_event) auto
  then have "sk_ok (?u\<lparr>sk_kernels := sk_kernels ?u @ [(kid, [?n, ?n + 1, ?n + 2, ?n + 3])]\<rparr>)"
    using assms(1) by (intro sk_ok_own_kernel) (auto simp: sk_ok_def)
  then show ?thesis by (simp add: sk_new_kernel_def Let_def)
qed

lemma sk_ok_bound_kernel:
  assumes "sk_ok \<sigma>" and "length (sk_events \<sigma>) + 4 \<le> 2 ^ 32"
  shows "sk_ok (sk_bind_kernel kid \<sigma>)"
proof -
  let ?n = "length (sk_events \<sigma>)"
  define u0 where "u0 = sk_new_kernel kid \<sigma>"
  define u1 where "u1 = sk_register ?n u0"
  define u2 where "u2 = sk_register (?n + 1) u1"
  define u3 where "u3 = sk_register (?n + 2) u2"
  define u4 where "u4 = sk_register (?n + 3) u3"
  have ok0: "sk_ok u0" unfolding u0_def by (rule sk_ok_new_kernel [OF assms])
  have len: "length (sk_events u0) = ?n + 4" "sk_kernels u0 = sk_kernels \<sigma> @ [(kid, [?n, ?n + 1, ?n + 2, ?n + 3])]"
    by (simp_all add: u0_def sk_new_kernel_def Let_def)
  have lens: "sk_events u1 = sk_events u0" "sk_events u2 = sk_events u0" "sk_events u3 = sk_events u0"
    "sk_events u4 = sk_events u0" "sk_kernels u4 = sk_kernels u0"
    by (simp_all add: u1_def u2_def u3_def u4_def)
  have ok1: "sk_ok u1" unfolding u1_def by (rule sk_ok_register [OF ok0]) (simp add: len)
  have ok2: "sk_ok u2" unfolding u2_def by (rule sk_ok_register [OF ok1]) (simp add: len lens)
  have ok3: "sk_ok u3" unfolding u3_def by (rule sk_ok_register [OF ok2]) (simp add: len lens)
  have ok4: "sk_ok u4" unfolding u4_def by (rule sk_ok_register [OF ok3]) (simp add: len lens)
  note reg1 = sk_register_registered [OF ok0, of ?n, folded u1_def]
  note reg2 = sk_register_registered [OF ok1, of "?n + 1", folded u2_def]
  note reg3 = sk_register_registered [OF ok2, of "?n + 2", folded u3_def]
  note reg4 = sk_register_registered [OF ok3, of "?n + 3", folded u4_def]
  have "registered u4 ?n" "registered u4 (?n + 1)" "registered u4 (?n + 2)" "registered u4 (?n + 3)"
    using reg1 reg2 reg3 reg4 by (simp_all add: len lens)
  then have "sk_ok (u4\<lparr>sk_cxt_kernels := sm_emplace kid (length (sk_kernels \<sigma>)) (sk_cxt_kernels u4)\<rparr>)"
    using ok4 by (intro sk_ok_bind_kernel) (auto simp: lens len)
  then show ?thesis
    by (simp add: sk_bind_kernel_def Let_def u0_def u1_def u2_def u3_def u4_def)
qed

lemma skel_register_kernel:
  assumes "register_kernel P kid fr ins outs s = Some (q, t)"
    and "sk_ok (skel s)" and "length (sk_events (skel s)) + 4 \<le> 2 ^ 32"
  shows "skel t = skel s \<or> skel t = sk_bind_kernel kid (skel s)"
proof -
  have gen: "id_gen s = of_nat (length (hevents s))"
    using assms(2) by (simp add: sk_ok_def numbered_def skel_def)
  have three: "length (hevents s) + 3 = Suc (Suc (Suc (length (hevents s))))" by simp
  show ?thesis
    using assms(1) gen
    by (auto simp: three register_kernel_def make_kernel_def add_event_def access_simps act_simps upt_rec
        new_event_def nth_append skel_def sk_bind_kernel_def sk_new_kernel_def sk_add_event_def
        sk_register_def Let_def kernel_events_def add.commute split: if_splits sum.splits)
qed

lemma register_kernel_grows:
  assumes "register_kernel P kid fr ins outs s = Some (q, t)"
  shows "skel t = skel s \<or> length (sk_events (skel t)) = length (sk_events (skel s)) + 4"
  using assms
  by (auto simp: register_kernel_def make_kernel_def add_event_def access_simps act_simps upt_rec
      nth_append skel_def split: if_splits sum.splits)

lemma keeps_register_kernel: "keeps consistent (register_kernel P kid fr ins outs)"
proof (rule keepsI)
  fix s q t
  assume ok: "consistent s" and run: "register_kernel P kid fr ins outs s = Some (q, t)"
  show "consistent t"
  proof (cases "skel t = skel s")
    case True
    with ok show ?thesis by (simp add: consistent_def)
  next
    case False
    then have len: "length (sk_events (skel t)) = length (sk_events (skel s)) + 4"
      using register_kernel_grows [OF run] by simp
    show ?thesis
      unfolding consistent_def
    proof
      assume lim: "length (sk_events (skel t)) \<le> 2 ^ 32"
      then have sok: "sk_ok (skel s)" using ok len by (simp add: consistent_def)
      from False lim len have "skel t = sk_bind_kernel kid (skel s)"
        using skel_register_kernel [OF run sok] by simp
      with sk_ok_bound_kernel [OF sok] lim len show "sk_ok (skel t)" by simp
    qed
  qed
qed

lemma keeps_with_cxt: "keeps consistent m \<Longrightarrow> keeps consistent (with_cxt m)"
  unfolding with_cxt_def by auto

lemma keeps_mango_register_kernel:
  "keeps consistent (mango_register_kernel P kid kern ins outs)"
  "keeps consistent (mango_register_kernel_with_buffers P kid kern ins' outs')"
  unfolding mango_register_kernel_def mango_register_kernel_with_buffers_def
  by (intro keeps_andThen keeps_assert keeps_with_cxt keeps_register_kernel keeps_ret keeps_from_option
      keeps_of_frame [OF frame_the_function])+

section \<open>Deregistering, starting and ending\<close>

lemma keeps_deregister: "keeps consistent (mango_deregister_memory mem)"
  unfolding mango_deregister_memory_def
proof (rule keeps_with_cxt, rule keepsI)
  fix s q t
  assume ok: "consistent s" and run: "deregister_buffer mem s = Some (q, t)"
  have "skel t = skel s \<or> (\<exists>r. sm_at (sk_cxt_buffers (skel s)) mem = Some r
      \<and> skel t = (skel s)\<lparr>sk_cxt_events := sm_erase (sk_events (skel s) ! snd (sk_buffers (skel s) ! r)) (sk_cxt_events (skel s)),
                    sk_cxt_buffers := sm_erase mem (sk_cxt_buffers (skel s))\<rparr>)"
    using run
    by (auto simp: deregister_buffer_def access_simps act_simps skel_def split: option.splits if_splits)
  then show "consistent t"
    using ok sk_ok_unbind_buffer by (auto simp: consistent_def)
qed

lemma consistent_cxt [simp]: "consistent (s\<lparr>cxt := c\<rparr>) = consistent s"
  by (simp add: consistent_def sk_ok_def skel_def numbered_def owned_def registered_def)

lemma keeps_release: "keeps consistent (mango_release P)"
proof -
  have world: "keeps consistent (do_world f)" for f :: "'a \<Rightarrow> 'a"
    by (intro keeps_of_frame frame_do_world)
  show ?thesis
    unfolding mango_release_def delete_context_def
    by (intro keeps_andThen keeps_ret) (auto intro!: keeps_andThen keeps_modify world split: cxt_state.split)
qed

lemma keeps_init: "keeps consistent (mango_init P name recipe)"
proof -
  have "keeps consistent (make_context P)"
    unfolding make_context_def
  proof (intro keeps_andThen frame_if keeps_ret keeps_fail keeps_modify)
    show "keeps consistent (on_world (hn_initialize P))" by (intro keeps_of_frame frame_on_world)
    fix s :: "'a host" assume "consistent s"
    then show "consistent (s\<lparr>cxt := Cxt_live, cxt_kernels := [], cxt_buffers := [], cxt_events := []\<rparr>)"
      by (auto simp: consistent_def sk_ok_def skel_def numbered_def owned_def)
  qed
  then show ?thesis
    unfolding mango_init_def by (intro keeps_andThen keeps_assert keeps_ret)
qed

section \<open>Client programs\<close>

text \<open>The calls a client makes, and the states it reaches by making calls.\<close>

datatype api_call =
    Init "string option" "string option"
  | Release
  | Kernelfunction_init
  | Load_kernel "string option" "nat option" c_unit_type file_type
  | Register_kernel u32 "nat option" "u32 list" "u32 list"
  | Register_kernel_with_buffers u32 "nat option" "u32 list option" "u32 list option"
  | Register_memory u32 u64 c_buffer_type "u32 list" "u32 list"
  | Register_memory_with_kernels u32 u64 c_buffer_type "u32 list option" "u32 list option"
  | Register_event "u32 list" "u32 list"
  | Deregister_memory u32
  | Resize_memory u32 u64
  | Get_buffer_event u32
  | Task_graph_create "u32 list" "u32 list" "u32 list"
  | Task_graph_destroy_all "nat option"
  | Resource_allocation "nat option"
  | Resource_deallocation "nat option"
  | Task_graph_add_buffer "nat option" "u32 option"
  | Task_graph_add_kernel "nat option" "u32 option"
  | Task_graph_add_event "nat option" "u32 option"
  | Write_memory "u8 list option" u32 communication_mode u64
  | Read_memory "u8 list option" u32 communication_mode u64
  | Arg u32 "u8 list option" u64 c_buffer_type
  | Set_args u32 "nat list"
  | Set_args_from_vector u32 "nat list option"
  | Start_kernel u32 "nat option" u32
  | Wait u32
  | Wait_state u32 u32
  | Get_unit_id u32
  | Get_unit_arch u32
  | Write_synchronization u32 u32
  | Read_synchronization u32

primrec run_call :: "'w platform \<Rightarrow> api_call \<Rightarrow> ('w host, unit) act" where
  "run_call P (Init a b) = andThen (mango_init P a b) (\<lambda>_. ret ())"
| "run_call P Release = andThen (mango_release P) (\<lambda>_. ret ())"
| "run_call P Kernelfunction_init = andThen (mango_kernelfunction_init) (\<lambda>_. ret ())"
| "run_call P (Load_kernel a b c d) = andThen (mango_load_kernel P a b c d) (\<lambda>_. ret ())"
| "run_call P (Register_kernel a b c d) = andThen (mango_register_kernel P a b c d) (\<lambda>_. ret ())"
| "run_call P (Register_kernel_with_buffers a b c d) = andThen (mango_register_kernel_with_buffers P a b c d) (\<lambda>_. ret ())"
| "run_call P (Register_memory a b c d e) = andThen (mango_register_memory P a b c d e) (\<lambda>_. ret ())"
| "run_call P (Register_memory_with_kernels a b c d e) = andThen (mango_register_memory_with_kernels P a b c d e) (\<lambda>_. ret ())"
| "run_call P (Register_event a b) = andThen (mango_register_event P a b) (\<lambda>_. ret ())"
| "run_call P (Deregister_memory a) = andThen (mango_deregister_memory a) (\<lambda>_. ret ())"
| "run_call P (Resize_memory a b) = andThen (mango_resize_memory a b) (\<lambda>_. ret ())"
| "run_call P (Get_buffer_event a) = andThen (mango_get_buffer_event a) (\<lambda>_. ret ())"
| "run_call P (Task_graph_create a b c) = andThen (mango_task_graph_create a b c) (\<lambda>_. ret ())"
| "run_call P (Task_graph_destroy_all a) = andThen (mango_task_graph_destroy_all a) (\<lambda>_. ret ())"
| "run_call P (Resource_allocation a) = andThen (mango_resource_allocation P a) (\<lambda>_. ret ())"
| "run_call P (Resource_deallocation a) = andThen (mango_resource_deallocation a) (\<lambda>_. ret ())"
| "run_call P (Task_graph_add_buffer a b) = andThen (mango_task_graph_add_buffer a b) (\<lambda>_. ret ())"
| "run_call P (Task_graph_add_kernel a b) = andThen (mango_task_graph_add_kernel a b) (\<lambda>_. ret ())"
| "run_call P (Task_graph_add_event a b) = andThen (mango_task_graph_add_event a b) (\<lambda>_. ret ())"
| "run_call P (Write_memory a b c d) = andThen (mango_write P a b c d) (\<lambda>_. ret ())"
| "run_call P (Read_memory a b c d) = andThen (mango_read P a b c d) (\<lambda>_. ret ())"
| "run_call P (Arg a b c d) = andThen (mango_arg P a b c d) (\<lambda>_. ret ())"
| "run_call P (Set_args a b) = andThen (mango_set_args P a b) (\<lambda>_. ret ())"
| "run_call P (Set_args_from_vector a b) = andThen (mango_set_args_from_vector P a b) (\<lambda>_. ret ())"
| "run_call P (Start_kernel a b c) = andThen (mango_start_kernel P a b c) (\<lambda>_. ret ())"
| "run_call P (Wait a) = andThen (mango_wait_h P a) (\<lambda>_. ret ())"
| "run_call P (Wait_state a b) = andThen (mango_wait_state P a b) (\<lambda>_. ret ())"
| "run_call P (Get_unit_id a) = andThen (mango_get_unit_id a) (\<lambda>_. ret ())"
| "run_call P (Get_unit_arch a) = andThen (mango_get_unit_arch a) (\<lambda>_. ret ())"
| "run_call P (Write_synchronization a b) = andThen (mango_write_synchronization_h P a b) (\<lambda>_. ret ())"
| "run_call P (Read_synchronization a) = andThen (mango_read_synchronization_h P a) (\<lambda>_. ret ())"

inductive reaches :: "'w platform \<Rightarrow> 'w host \<Rightarrow> bool" for P where
  start: "reaches P (host_init w)"
| call: "reaches P s \<Longrightarrow> run_call P c s = Some (q, t) \<Longrightarrow> reaches P t"

lemmas keeps_growing = keeps_register_memory keeps_register_event keeps_mango_register_kernel
  keeps_deregister keeps_release keeps_init

lemma keeps_run_call: "keeps consistent (run_call P c)"
  by (cases c; simp only: run_call.simps)
    (rule keeps_andThen [OF _ keeps_ret], (rule keeps_growing | (rule keeps_of_frame, rule frame_api)))+

lemma reaches_consistent: "reaches P s \<Longrightarrow> consistent s"
  by (induction rule: reaches.induct) (auto intro: consistent_init keepsD [OF keeps_run_call])

section \<open>The property\<close>

text \<open>
  What the maps of the context promise: an id bound in a map leads to an object with that
  id, and the events of a bound buffer or kernel are bound to themselves.
\<close>

definition maps_agree :: "'w host \<Rightarrow> bool" where
  "maps_agree s \<longleftrightarrow>
     (\<forall>i e. sm_at (cxt_events s) i = Some e \<longrightarrow> e < length (hevents s) \<and> ev_id (hevents s ! e) = i)
   \<and> (\<forall>i r. sm_at (cxt_buffers s) i = Some r \<longrightarrow> r < length (hbuffers s) \<and> b_id (hbuffers s ! r) = i
        \<and> (let e = b_event (hbuffers s ! r) in sm_at (cxt_events s) (ev_id (hevents s ! e)) = Some e))
   \<and> (\<forall>i r. sm_at (cxt_kernels s) i = Some r \<longrightarrow> r < length (hkernels s) \<and> k_id (hkernels s ! r) = i
        \<and> (\<forall>e \<in> set (kernel_events (hkernels s ! r)). sm_at (cxt_events s) (ev_id (hevents s ! e)) = Some e))
   \<and> distinct (map ev_id (hevents s))"

lemma skel_simps [simp]:
  "sk_cxt_events (skel s) = cxt_events s" "sk_cxt_buffers (skel s) = cxt_buffers s"
  "sk_cxt_kernels (skel s) = cxt_kernels s" "length (sk_events (skel s)) = length (hevents s)"
  "length (sk_buffers (skel s)) = length (hbuffers s)" "length (sk_kernels (skel s)) = length (hkernels s)"
  by (simp_all add: skel_def)

lemma skel_nth [simp]:
  "e < length (hevents s) \<Longrightarrow> sk_events (skel s) ! e = ev_id (hevents s ! e)"
  "r < length (hbuffers s) \<Longrightarrow> sk_buffers (skel s) ! r = (b_id (hbuffers s ! r), b_event (hbuffers s ! r))"
  "r < length (hkernels s) \<Longrightarrow> sk_kernels (skel s) ! r = (k_id (hkernels s ! r), kernel_events (hkernels s ! r))"
  by (simp_all add: skel_def)

lemma skel_numbered:
  "sk_ok (skel s) \<Longrightarrow> e < length (hevents s) \<Longrightarrow> ev_id (hevents s ! e) = of_nat e"
  by (simp add: sk_ok_def numbered_def)

lemma skel_event:
  "sk_ok (skel s) \<Longrightarrow> sm_at (cxt_events s) i = Some e \<Longrightarrow> e < length (hevents s) \<and> of_nat e = i"
  by (simp add: sk_ok_def)

lemma skel_buffer:
  "sk_ok (skel s) \<Longrightarrow> sm_at (cxt_buffers s) i = Some r \<Longrightarrow>
     r < length (hbuffers s) \<and> b_id (hbuffers s ! r) = i \<and> registered (skel s) (b_event (hbuffers s ! r))"
  unfolding sk_ok_def skel_simps using skel_nth(2) by fastforce

lemma skel_kernel:
  "sk_ok (skel s) \<Longrightarrow> sm_at (cxt_kernels s) i = Some r \<Longrightarrow>
     r < length (hkernels s) \<and> k_id (hkernels s ! r) = i
       \<and> (\<forall>e \<in> set (kernel_events (hkernels s ! r)). registered (skel s) e)"
  unfolding sk_ok_def skel_simps using skel_nth(3) by fastforce

lemma sk_ok_maps_agree:
  assumes "sk_ok (skel s)"
  shows "maps_agree s"
proof -
  note num = skel_numbered [OF assms]
  have reg: "sm_at (cxt_events s) (ev_id (hevents s ! e)) = Some e" if "registered (skel s) e" for e
  proof -
    from that have bound: "sm_at (cxt_events s) (of_nat e) = Some e" by (simp add: registered_def)
    then have "e < length (hevents s)" using skel_event [OF assms] by blast
    with bound num show ?thesis by simp
  qed
  have "distinct (map ev_id (hevents s))"
  proof (unfold distinct_conv_nth, intro allI impI)
    fix i j assume ij: "i < length (map ev_id (hevents s))" "j < length (map ev_id (hevents s))" "i \<noteq> j"
    moreover have "length (hevents s) \<le> 2 ^ 32" using assms by (simp add: sk_ok_def numbered_def)
    ultimately have "(of_nat i :: u32) \<noteq> of_nat j" using of_nat_u32_inj [of i j] by auto
    with ij num show "map ev_id (hevents s) ! i \<noteq> map ev_id (hevents s) ! j" by simp
  qed
  then show ?thesis
    unfolding maps_agree_def Let_def
    by (auto dest: skel_event [OF assms] skel_buffer [OF assms] skel_kernel [OF assms]
        simp: num intro: reg)
qed

text \<open>
  C1. In every state a client reaches by calls of the C interface, whatever their order,
  arguments and outcome, the maps of the context agree with the objects: an id leads to an
  object with that id, the events of a bound buffer or kernel are bound, and no two events
  share an id, as long as at most \<open>2^32\<close> events have been made.
\<close>

theorem context_maps_agree:
  assumes "reaches P s" and "length (hevents s) \<le> 2 ^ 32"
  shows "maps_agree s"
  using reaches_consistent [OF assms(1)] assms(2)
  by (intro sk_ok_maps_agree) (simp add: consistent_def skel_def)

theorem context_maps_agree_witness:
  "\<exists>s. reaches (bank_platform True) s \<and> sm_at (cxt_buffers s) 5 = Some 0 \<and> maps_agree s"
proof -
  let ?P = "bank_platform True"
  obtain s1 where s1: "run_call ?P (Init (Some ''app'') (Some ''r'')) (host_init (\<lambda>_. 0)) = Some (Inr (), s1)"
    "s1 = (host_init (\<lambda>_. 0))\<lparr>cxt := Cxt_live\<rparr>"
    by (simp add: mango_init_def make_context_def act_simps bank_platform_def host_init_def)
  obtain s2 where s2: "run_call ?P (Register_memory 5 64 C_BUFFER [] []) s1 = Some (Inr (), s2)"
    "sm_at (cxt_buffers s2) 5 = Some 0" "length (hevents s2) = 1"
    using s1(2) by (simp add: mango_register_memory_def make_buffer_def with_cxt_def register_buffer_def
        add_event_def access_simps act_simps host_init_def sm_emplace_def)
  have "reaches ?P s2" using reaches.call [OF reaches.call [OF reaches.start s1(1)] s2(1)] .
  with context_maps_agree [of ?P s2] s2 show ?thesis by auto
qed

end
