(* ===== verification/Host_Props.thy ===== *)
theory Host_Props
  imports Host_Reach
begin

text \<open>
  Properties of the host library's calls: registration and deregistration on reachable
  states, waiting under the register contract, the initial state of allocated buffers,
  direct transfers, and removal from task graphs.
\<close>

section \<open>Facts about reachable states\<close>

lemma reaches_sk_ok: "reaches P s \<Longrightarrow> length (hevents s) \<le> 2 ^ 32 \<Longrightarrow> sk_ok (skel s)"
  using reaches_consistent [of P s] by (simp add: consistent_def)

lemma sk_ok_maps: "sk_ok (skel s) \<Longrightarrow> sm_ok (cxt_buffers s) \<and> sm_ok (cxt_events s) \<and> sm_ok (cxt_kernels s)"
  by (simp add: sk_ok_def)

lemma registered_below: "sk_ok (skel s) \<Longrightarrow> registered (skel s) e \<Longrightarrow> e < length (hevents s)"
  using skel_event [of s "of_nat e" e] by (simp add: registered_def)

lemma with_cxt_live [simp]: "cxt s = Cxt_live \<Longrightarrow> with_cxt m s = m s"
  by (simp add: with_cxt_def act_simps)

lemma get_event_run: "sm_at (cxt_events s) i = Some e \<Longrightarrow> get_event i s = Some (Inr e, s)"
  by (simp add: get_event_def act_simps)

lemma get_buffer_run: "sm_at (cxt_buffers s) i = Some r \<Longrightarrow> get_buffer i s = Some (Inr r, s)"
  by (simp add: get_buffer_def act_simps)

section \<open>Registration\<close>


lemma demo_start:
  obtains s where "reaches (bank_platform True) s" "cxt s = Cxt_live" "hevents s = []" "id_gen s = 0"
    "cxt_buffers s = []" "hbuffers s = []" "cxt_events s = []"
proof -
  let ?s = "(host_init (\<lambda>_. 0))\<lparr>cxt := Cxt_live\<rparr> :: bank host"
  have "run_call (bank_platform True) (Init (Some ''app'') (Some ''r'')) (host_init (\<lambda>_. 0)) = Some (Inr (), ?s)"
    by (simp add: mango_init_def make_context_def act_simps bank_platform_def host_init_def)
  then have "reaches (bank_platform True) ?s" by (rule reaches.call [OF reaches.start])
  then show thesis by (rule that) (simp_all add: host_init_def)
qed


text \<open>
  C10. In a reachable state, deregistering a registered buffer succeeds, frees exactly its
  id and the id of its event, and touches no other object; deregistering an id that is
  not registered dereferences a null pointer.
\<close>

theorem deregister_memory_spec:
  assumes "reaches P s" and "length (hevents s) \<le> 2 ^ 32" and "cxt s = Cxt_live"
  shows "case sm_at (cxt_buffers s) b of
      None \<Rightarrow> mango_deregister_memory b s = Some (Inl Bad_pointer, s)
    | Some r \<Rightarrow> (\<exists>t. mango_deregister_memory b s = Some (Inr (), t)
        \<and> sm_at (cxt_buffers t) = (sm_at (cxt_buffers s))(b := None)
        \<and> sm_at (cxt_events t) = (sm_at (cxt_events s))(ev_id (hevents s ! b_event (hbuffers s ! r)) := None)
        \<and> cxt_kernels t = cxt_kernels s \<and> hbuffers t = hbuffers s \<and> hevents t = hevents s)"
proof (cases "sm_at (cxt_buffers s) b")
  case None
  with assms(3) show ?thesis by (simp add: mango_deregister_memory_def deregister_buffer_def act_simps)
next
  case (Some r)
  note ok = reaches_sk_ok [OF assms(1,2)]
  have r: "r < length (hbuffers s)" "b_event (hbuffers s ! r) < length (hevents s)"
    using skel_buffer [OF ok Some] registered_below [OF ok] by auto
  with Some assms(3) sk_ok_maps [OF ok] show ?thesis
    by (simp add: mango_deregister_memory_def deregister_buffer_def access_simps act_simps sm_at_erase)
qed

theorem deregister_memory_spec_witness:
  "\<exists>s. reaches (bank_platform True) s \<and> mango_deregister_memory 5 s = Some (Inl Bad_pointer, s)"
proof -
  obtain s where s: "reaches (bank_platform True) s" "cxt s = Cxt_live" "hevents s = []" "cxt_buffers s = []"
    by (rule demo_start)
  with deregister_memory_spec [of "bank_platform True" s 5] show ?thesis by auto
qed



section \<open>Waiting\<close>

text \<open>Events of a platform whose registers keep the contract of synchronisation registers.\<close>

lemma event_read_reg:
  assumes "sync_arch (host_arch P) reg"
  shows "fst (event_read P e w) = reg w (ev_addr e)"
    and "reg (snd (event_read P e w)) = (reg w)(ev_addr e := 0)"
  using sync_arch.read_val [OF assms, of "ev_addr e" w] sync_arch.read_reg [OF assms, of "ev_addr e" w]
  by (simp_all add: host_read [symmetric] mango_read_synchronization_def)

lemma event_store_reg:
  assumes "sync_arch (host_arch P) reg" and "reg w (ev_addr e) = 0"
  shows "reg (event_store P e v w) = (reg w)(ev_addr e := v)"
  using sync_arch.write_empty [OF assms]
  by (simp add: host_write [symmetric] mango_write_synchronization_def)

lemma wait_state_run:
  assumes "cxt s = Cxt_live" and "sm_at (cxt_events s) i = Some e" and "e < length (hevents s)"
  shows "mango_wait_state P i v s = (case wait_state P (hevents s ! e) v (world s) of
      None \<Rightarrow> None | Some w \<Rightarrow> Some (Inr (), s\<lparr>world := w\<rparr>))"
  using assms
  by (simp add: mango_wait_state_def host_wait_state_def access_simps act_simps get_event_run
      split: option.split)

lemma wait_returns_iff:
  assumes "sync_arch (host_arch P) reg" and "cxt s = Cxt_live" and "sm_at (cxt_events s) i = Some e"
    and "e < length (hevents s)"
  shows "(\<exists>t. mango_wait_state P i v s = Some (Inr (), t)
            \<and> reg (world t) = (reg (world s))(ev_addr (hevents s ! e) := 0) \<and> t = s\<lparr>world := world t\<rparr>)
         \<longleftrightarrow> reg (world s) (ev_addr (hevents s ! e)) = v \<and> v \<noteq> 0" (is "?A \<longleftrightarrow> ?B")
    and "reg (world s) (ev_addr (hevents s ! e)) \<noteq> v \<or> v = 0 \<Longrightarrow> mango_wait_state P i v s = None"
proof -
  note run = wait_state_run [OF assms(2-4), of P v]
  note iff = sync_arch.host_wait_iff [OF assms(1) refl, where e = "hevents s ! e" and v = v and w = "world s"]
  show "?A \<longleftrightarrow> ?B"
  proof
    assume ?A
    then show ?B using run iff by (auto split: option.splits)
  next
    assume ?B
    then obtain w where "wait_state P (hevents s ! e) v (world s) = Some w"
      "reg w = (reg (world s))(ev_addr (hevents s ! e) := 0)"
      using sync_arch.host_wait_some [OF assms(1) refl] by blast
    then show ?A using run by auto
  qed
  show "mango_wait_state P i v s = None" if "reg (world s) (ev_addr (hevents s ! e)) \<noteq> v \<or> v = 0"
    using iff that run by (cases "wait_state P (hevents s ! e) v (world s)") auto
qed

text \<open>
  C8. On registers that a read resets, \<^verbatim>\<open>mango_wait_state\<close> (run with no other thread
  writing) returns exactly when the event's register holds the awaited, non-zero state,
  and consumes it: a wait that follows on the same event, for whatever state, never
  returns.
\<close>

theorem wait_state_consumes:
  assumes "sync_arch (host_arch P) reg" and "cxt s = Cxt_live" and "sm_at (cxt_events s) i = Some e"
    and "e < length (hevents s)"
  shows "(\<exists>t. mango_wait_state P i v s = Some (Inr (), t) \<and> mango_wait_state P i v' t = None)
         \<longleftrightarrow> reg (world s) (ev_addr (hevents s ! e)) = v \<and> v \<noteq> 0" (is "?A \<longleftrightarrow> ?B")
proof
  assume ?A
  then show ?B using wait_returns_iff(2) [OF assms, of v] by (cases ?B) auto
next
  assume ?B
  then obtain t where t: "mango_wait_state P i v s = Some (Inr (), t)"
    "reg (world t) = (reg (world s))(ev_addr (hevents s ! e) := 0)" "t = s\<lparr>world := world t\<rparr>"
    using wait_returns_iff(1) [OF assms, of v] by blast
  then have "hevents t = hevents s" "cxt t = Cxt_live" "cxt_events t = cxt_events s"
    using assms(2) by (metis host.select_convs host.surjective host.update_convs(1))+
  then have "mango_wait_state P i v' t = None"
    using wait_returns_iff(2) [OF assms(1), of t i e v'] assms(3,4) t(2) by auto
  with t(1) show ?A by blast
qed

text \<open>A state with one event, whose register holds \<open>v\<close>, and a buffer with an event at offset 8.\<close>

definition one_event :: "u32 \<Rightarrow> bank host" where
  "one_event v = (host_init ((\<lambda>_. 0)(\<lparr>vaddr = 0\<rparr> := v)))
     \<lparr>cxt := Cxt_live, id_gen := 1, hevents := [new_event 0 0 [1] [] False], cxt_events := [(0, 0)]\<rparr>"

definition one_buffer :: "u32 \<Rightarrow> bank host" where
  "one_buffer v = (one_event v)\<lparr>hbuffers := [\<lparr>b_id = 5, b_event = 0, b_cluster = 0, b_phy = 0, b_tile = 0,
      b_size = 64, b_in = [], b_out = [], b_fifo = False\<rparr>],
    hevents := [(new_event 0 0 [] [] False)\<lparr>ev_phy := 8\<rparr>]\<rparr>"

theorem wait_state_consumes_witness:
  "\<exists>t. mango_wait_state (bank_platform True) 0 2 (one_event 2) = Some (Inr (), t)
     \<and> mango_wait_state (bank_platform True) 0 2 t = None"
proof -
  have sync: "sync_arch (host_arch (bank_platform True)) (\<lambda>w. w)" by (rule tilereg.sync_arch_axioms)
  have "ev_addr (hevents (one_event 2) ! 0) = \<lparr>vaddr = 0\<rparr>"
    by (simp add: ev_addr_def one_event_def new_event_def)
  with wait_state_consumes [OF sync, of "one_event 2" 0 0 2 2] show ?thesis
    by (simp add: one_event_def host_init_def)
qed

section \<open>Allocation\<close>

lemma reset_event_run:
  assumes "sync_arch (host_arch P) reg"
  shows "\<exists>t. reset_event P e s = Some (Inr (), t) \<and> t = s\<lparr>world := world t\<rparr>
     \<and> reg (world t) = (reg (world s))(ev_addr e := 0)"
  by (simp add: reset_event_def act_simps event_read_reg [OF assms])

text \<open>
  C30. When the resource manager's answer places a buffer whose event has an address, the
  buffer gets its tile, cluster and address and its event's register ends as WRITE,
  whatever it held before: on registers that accumulate as on registers that are
  overwritten. The assertion that the second read gives 0 never fails.
\<close>

theorem allocated_buffer_is_writable:
  assumes "sync_arch (host_arch P) reg" and "br < length (hbuffers s)" and "hbuffers s ! br = b"
    and "b_event b < length (hevents s)" and "hevents s ! b_event b = e" and "ev_phy e \<noteq> 0"
  shows "\<exists>t. assign_buffer P cluster (b_id b) (tile, phy) br s = Some (Inr (), t)
     \<and> reg (world t) = (reg (world s))(ev_addr e := status_code WRITE)
     \<and> hbuffers t = (hbuffers s)[br := b\<lparr>b_tile := tile, b_cluster := cluster, b_phy := phy\<rparr>]
     \<and> hevents t = hevents s"
proof -
  let ?s = "s\<lparr>hbuffers := (hbuffers s)[br := b\<lparr>b_tile := tile, b_cluster := cluster, b_phy := phy\<rparr>]\<rparr>"
  obtain t where t: "reset_event P e ?s = Some (Inr (), t)" "t = ?s\<lparr>world := world t\<rparr>"
    "reg (world t) = (reg (world s))(ev_addr e := 0)"
    using reset_event_run [OF assms(1), of e ?s] by auto
  then have same: "hbuffers t = hbuffers ?s" "hevents t = hevents s"
    by (metis host.select_convs(3,4) host.surjective host.update_convs(1,4))+
  have w: "reg (event_write P e (status_code WRITE) (world t)) = (reg (world s))(ev_addr e := status_code WRITE)"
    using event_store_reg [OF assms(1), of "world t" e "status_code WRITE"] t(3)
    by (simp add: event_write_def)
  show ?thesis
    using assms(2-6) t(1) same w
    by (simp add: assign_buffer_def access_simps act_simps)
qed

theorem allocated_buffer_is_writable_witness:
  "\<exists>t. assign_buffer (bank_platform True) 1 5 (2, 4096) 0 (one_buffer 7) = Some (Inr (), t)
     \<and> world t \<lparr>vaddr = 8\<rparr> = 2"
proof -
  have sync: "sync_arch (host_arch (bank_platform True)) (\<lambda>w. w)" by (rule tilereg.sync_arch_axioms)
  have "ev_addr (hevents (one_buffer 7) ! 0) = \<lparr>vaddr = 8\<rparr>" "ev_phy (hevents (one_buffer 7) ! 0) = 8"
    by (simp_all add: ev_addr_def one_buffer_def new_event_def)
  with allocated_buffer_is_writable [OF sync, of 0 "one_buffer 7" "hbuffers (one_buffer 7) ! 0"
      "hevents (one_buffer 7) ! 0" 1 2 4096]
  show ?thesis by (auto simp: one_buffer_def)
qed

section \<open>Direct transfers\<close>

lemma direct_roundtrip:
  assumes "cxt s = Cxt_live" and "sm_at (cxt_buffers s) i = Some r" and "r < length (hbuffers s)"
    and "hbuffers s ! r = b" and "\<not> b_fifo b" and "b_event b < length (hevents s)"
    and "0 < ev_id (hevents s ! b_event b)"
    and "length mem = unat (b_size b)" and "length mem \<le> length room"
    and "\<And>w. fst (hn_read_memory P (b_tile b) (b_phy b) (length mem) (b_cluster b)
           (hn_write_memory P (b_tile b) (b_phy b) mem (b_cluster b) w)) = mem"
  shows "\<exists>t u. mango_write P (Some mem) i DIRECT 0 s = Some (Inr (ev_id (hevents s ! b_event b)), t)
     \<and> mango_read P (Some room) i DIRECT 0 t
         = Some (Inr (ev_id (hevents s ! b_event b), mem @ drop (length mem) room), u)"
  using assms
  by (simp add: mango_write_def mango_read_def buffer_write_def buffer_read_def transfer_size_def
      positive_event_id_def event_id_def access_simps act_simps get_buffer_run overwrite_def)

text \<open>
  C7. On a platform whose memory gives back what was written, a direct \<^verbatim>\<open>mango_write\<close> of a
  whole buffer followed by a direct \<^verbatim>\<open>mango_read\<close> puts the written bytes at the start of
  the caller's memory and leaves the rest of it alone; both calls hand out the buffer's
  event, and neither waits for it.
\<close>

theorem write_read_roundtrip:
  assumes "cxt s = Cxt_live" and "sm_at (cxt_buffers s) i = Some r" and "r < length (hbuffers s)"
    and "hbuffers s ! r = b" and "\<not> b_fifo b" and "b_event b < length (hevents s)"
    and "0 < ev_id (hevents s ! b_event b)"
    and "length mem = unat (b_size b)" and "length mem \<le> length room"
    and "\<And>w. fst (hn_read_memory P (b_tile b) (b_phy b) (length mem) (b_cluster b)
           (hn_write_memory P (b_tile b) (b_phy b) mem (b_cluster b) w)) = mem"
  shows "\<exists>t u. mango_write P (Some mem) i DIRECT 0 s = Some (Inr (ev_id (hevents s ! b_event b)), t)
     \<and> mango_read P (Some room) i DIRECT 0 t
         = Some (Inr (ev_id (hevents s ! b_event b), mem @ drop (length mem) room), u)"
  using assms by (rule direct_roundtrip)

text \<open>A memory that keeps the last block written at each address.\<close>

type_synonym store = "u32 \<times> u32 \<times> u32 \<Rightarrow> u8 list"

definition store_platform :: "store platform" where
  "store_platform =
     \<lparr>hn_read_synch_register = (\<lambda>_ _ w. (0, w)), hn_write_synch_register = (\<lambda>_ _ _ w. w),
      hn_write_memory = (\<lambda>t a xs c w. w((t, a, c) := xs)),
      hn_read_memory = (\<lambda>t a n c w. (take n (w (t, a, c)), w)),
      hn_set_tlb = (\<lambda>_ w. w), hn_write_image = (\<lambda>_ _ _ _ w. (True, w)),
      hn_run_kernel = (\<lambda>_ _ _ _ w. (True, w)), hn_num_clusters = (\<lambda>_. 1),
      hn_num_tiles = (\<lambda>_ _. 1), hn_memory_size = (\<lambda>_ _ _. 2 ^ 30),
      hn_initialize = (\<lambda>w. (True, w)), hn_end = (\<lambda>w. w), file_good = (\<lambda>_ _. True),
      bbq_notify_event = (\<lambda>_ w. w), bbq_task_start = (\<lambda>_ w. w), bbq_task_stop = (\<lambda>_ w. w),
      bbq_shutdown = (\<lambda>w. w),
      bbq_allocate = (\<lambda>rq w. (\<lparr>rp_cluster = 0, rp_tasks = [], rp_buffers = [], rp_events = []\<rparr>, w)),
      thread_start = (\<lambda>_ w. w), thread_join = (\<lambda>_ w. Some w), gnemu = True, uninit = 0\<rparr>"

definition store_host :: "store host" where
  "store_host = (host_init (\<lambda>_. []))\<lparr>cxt := Cxt_live, id_gen := 5,
     hevents := [new_event 0 4 [] [] False], cxt_events := [(4, 0)], cxt_buffers := [(7, 0)],
     hbuffers := [\<lparr>b_id = 7, b_event = 0, b_cluster = 0, b_phy = 256, b_tile = 1, b_size = 3,
       b_in = [], b_out = [], b_fifo = False\<rparr>]\<rparr>"

theorem write_read_roundtrip_witness:
  "\<exists>t u. mango_write store_platform (Some [1, 2, 3]) 7 DIRECT 0 store_host = Some (Inr 4, t)
     \<and> mango_read store_platform (Some [9, 9, 9, 9]) 7 DIRECT 0 t = Some (Inr (4, [1, 2, 3, 9]), u)"
  using write_read_roundtrip [of store_host 7 0 "hbuffers store_host ! 0" "[1, 2, 3]" "[9, 9, 9, 9]" store_platform]
  by (simp add: store_host_def store_platform_def host_init_def new_event_def)

section \<open>Removal from a task graph\<close>




end
