(* ===== verification/Host_Directory.thy ===== *)
theory Host_Directory
  imports Host_Props
begin

text \<open>
  What the C interface promises about names, as an abstract machine: a directory of the
  kernel and buffer ids in use with the ids of their events, the registered event ids, and
  the next id. The calls of the interface refine it: a state's directory is read off its
  maps and objects, and a call moves it as the abstract call does.
\<close>

section \<open>The abstract machine\<close>

record directory =
  is_open :: bool
  next_event :: u32
  kernels_of :: "u32 \<Rightarrow> u32 list option"
  buffers_of :: "u32 \<Rightarrow> u32 option"
  known_events :: "u32 set"

text \<open>A fresh event is known by the next id; an id that is taken keeps its object.\<close>

definition fresh_event :: "directory \<Rightarrow> directory" where
  "fresh_event d = d\<lparr>next_event := next_event d + 1\<rparr>"

definition name_event :: "directory \<Rightarrow> directory" where
  "name_event d = (fresh_event d)\<lparr>known_events := insert (next_event d) (known_events d)\<rparr>"

definition name_buffer :: "u32 \<Rightarrow> directory \<Rightarrow> directory" where
  "name_buffer b d = (name_event d)\<lparr>buffers_of :=
     (if buffers_of d b = None then (buffers_of d)(b \<mapsto> next_event d) else buffers_of d)\<rparr>"

definition name_kernel :: "u32 \<Rightarrow> directory \<Rightarrow> directory" where
  "name_kernel k d = (let n = next_event d; es = [n, n + 1, n + 2, n + 3] in
     (name_event (name_event (name_event (name_event d))))\<lparr>kernels_of :=
       (if kernels_of d k = None then (kernels_of d)(k \<mapsto> es) else kernels_of d)\<rparr>)"

definition drop_buffer :: "u32 \<Rightarrow> directory \<Rightarrow> directory" where
  "drop_buffer b d = (case buffers_of d b of None \<Rightarrow> d
     | Some e \<Rightarrow> d\<lparr>buffers_of := (buffers_of d)(b := None), known_events := known_events d - {e}\<rparr>)"

definition fresh_directory :: "directory \<Rightarrow> directory" where
  "fresh_directory d = \<lparr>is_open = True, next_event = next_event d, kernels_of = (\<lambda>_. None),
     buffers_of = (\<lambda>_. None), known_events = {}\<rparr>"

text \<open>
  The outcomes of a call: whether it returns, and the directory it leaves. A memory or event
  registration without a context has made its event already. A kernel whose function has no
  image is accepted and not named. The id 0 of an event is refused after it is named.
\<close>

definition memory_outcomes :: "u32 \<Rightarrow> u64 \<Rightarrow> directory \<Rightarrow> (bool \<times> directory) set" where
  "memory_outcomes b sz d =
     (if b = 0 \<or> sz = 0 then {(False, d)}
      else if is_open d then {(True, name_buffer b d)} else {(False, fresh_event d)})"

definition kernel_outcomes :: "u32 \<Rightarrow> directory \<Rightarrow> (bool \<times> directory) set" where
  "kernel_outcomes k d =
     (if k = 0 \<or> \<not> is_open d then {(False, d)} else {(True, name_kernel k d), (True, d), (False, d)})"

definition outcomes :: "api_call \<Rightarrow> directory \<Rightarrow> (bool \<times> directory) set" where
  "outcomes c d = (case c of
     Init _ _ \<Rightarrow> {(True, fresh_directory d), (False, d)}
   | Release \<Rightarrow> if is_open d then {(True, d\<lparr>is_open := False\<rparr>)} else {(True, d), (False, d)}
   | Register_kernel k _ _ _ \<Rightarrow> kernel_outcomes k d
   | Register_kernel_with_buffers k _ _ _ \<Rightarrow> kernel_outcomes k d
   | Register_memory b sz _ _ _ \<Rightarrow> memory_outcomes b sz d
   | Register_memory_with_kernels b sz _ _ _ \<Rightarrow> memory_outcomes b sz d
   | Register_event ins outs \<Rightarrow>
       if ins = [] \<and> outs = [] then {(False, d)}
       else if is_open d then {(0 < next_event d, name_event d)} else {(False, fresh_event d)}
   | Deregister_memory b \<Rightarrow>
       if is_open d \<and> buffers_of d b \<noteq> None then {(True, drop_buffer b d)} else {(False, d)}
   | _ \<Rightarrow> {(True, d), (False, d)})"

section \<open>The directory of a state\<close>

definition sk_directory :: "skeleton \<Rightarrow> directory" where
  "sk_directory \<sigma> = \<lparr>is_open = (sk_cxt \<sigma> = Cxt_live), next_event = sk_gen \<sigma>,
     kernels_of = (\<lambda>k. map_option (\<lambda>r. map (\<lambda>e. sk_events \<sigma> ! e) (snd (sk_kernels \<sigma> ! r)))
       (sm_at (sk_cxt_kernels \<sigma>) k)),
     buffers_of = (\<lambda>b. map_option (\<lambda>r. sk_events \<sigma> ! snd (sk_buffers \<sigma> ! r)) (sm_at (sk_cxt_buffers \<sigma>) b)),
     known_events = {i. sm_at (sk_cxt_events \<sigma>) i \<noteq> None}\<rparr>"

definition directory_of :: "'w host \<Rightarrow> directory" where
  "directory_of s = sk_directory (skel s)"

section \<open>Registering in the skeleton\<close>

text \<open>The ids of bound objects are read below the length of the event store, which only grows.\<close>

lemma registered_lt: "sk_ok \<sigma> \<Longrightarrow> registered \<sigma> e \<Longrightarrow> e < length (sk_events \<sigma>)"
  by (simp add: sk_ok_def registered_def)

lemma bound_events:
  assumes "sk_ok \<sigma>"
  shows "sm_at (sk_cxt_buffers \<sigma>) b = Some r \<Longrightarrow>
      r < length (sk_buffers \<sigma>) \<and> snd (sk_buffers \<sigma> ! r) < length (sk_events \<sigma>)"
    and "sm_at (sk_cxt_kernels \<sigma>) k = Some r \<Longrightarrow>
      r < length (sk_kernels \<sigma>) \<and> (\<forall>e \<in> set (snd (sk_kernels \<sigma> ! r)). e < length (sk_events \<sigma>))"
  using assms registered_lt [OF assms] by (auto simp: sk_ok_def)

lemma gen_of_nat: "sk_ok \<sigma> \<Longrightarrow> sk_gen \<sigma> = of_nat (length (sk_events \<sigma>))"
  by (simp add: sk_ok_def numbered_def)

lemma sk_maps: "sk_ok \<sigma> \<Longrightarrow> sm_ok (sk_cxt_kernels \<sigma>) \<and> sm_ok (sk_cxt_buffers \<sigma>) \<and> sm_ok (sk_cxt_events \<sigma>)"
  by (simp add: sk_ok_def)

lemma directory_add_event:
  assumes "sk_ok \<sigma>"
  shows "sk_directory (sk_add_event \<sigma>) = fresh_event (sk_directory \<sigma>)"
  using bound_events [OF assms]
  by (auto simp: sk_directory_def sk_add_event_def fresh_event_def fun_eq_iff nth_append
      intro!: option.map_cong0)

lemma directory_register:
  assumes "sk_ok \<sigma>"
  shows "sk_directory (sk_register e \<sigma>) =
    (sk_directory \<sigma>)\<lparr>known_events := insert (of_nat e) (known_events (sk_directory \<sigma>))\<rparr>"
  using sk_maps [OF assms] by (auto simp: sk_directory_def sk_register_def sm.at_emplace)

lemma directory_own_buffer:
  assumes "sk_ok \<sigma>"
  shows "sk_directory (\<sigma>\<lparr>sk_buffers := sk_buffers \<sigma> @ xs\<rparr>) = sk_directory \<sigma>"
  using bound_events(1) [OF assms] by (auto simp: sk_directory_def fun_eq_iff nth_append intro!: option.map_cong0)

lemma directory_own_kernel:
  assumes "sk_ok \<sigma>"
  shows "sk_directory (\<sigma>\<lparr>sk_kernels := sk_kernels \<sigma> @ xs\<rparr>) = sk_directory \<sigma>"
  using bound_events(2) [OF assms] by (auto simp: sk_directory_def fun_eq_iff nth_append intro!: option.map_cong0)

lemma directory_bind_buffer:
  assumes "sk_ok \<sigma>"
  shows "sk_directory (sk_bind_buffer b r \<sigma>) = (let d = sk_directory \<sigma> in d\<lparr>buffers_of :=
    (if buffers_of d b = None then (buffers_of d)(b \<mapsto> sk_events \<sigma> ! snd (sk_buffers \<sigma> ! r)) else buffers_of d)\<rparr>)"
  using sk_maps [OF assms]
  by (auto simp: sk_directory_def sk_bind_buffer_def Let_def sm.at_emplace fun_eq_iff)

lemma directory_bind_kernel:
  assumes "sk_ok \<sigma>"
  shows "sk_directory (\<sigma>\<lparr>sk_cxt_kernels := sm_emplace k r (sk_cxt_kernels \<sigma>)\<rparr>) = (let d = sk_directory \<sigma> in
    d\<lparr>kernels_of := (if kernels_of d k = None
       then (kernels_of d)(k \<mapsto> map (\<lambda>e. sk_events \<sigma> ! e) (snd (sk_kernels \<sigma> ! r))) else kernels_of d)\<rparr>)"
  using sk_maps [OF assms]
  by (auto simp: sk_directory_def Let_def sm.at_emplace fun_eq_iff)

lemma directory_named_event:
  assumes "sk_ok \<sigma>" and "length (sk_events \<sigma>) < 2 ^ 32"
  shows "sk_directory (sk_register (length (sk_events \<sigma>)) (sk_add_event \<sigma>)) = name_event (sk_directory \<sigma>)"
proof -
  have "next_event (sk_directory \<sigma>) = of_nat (length (sk_events \<sigma>))"
    using gen_of_nat [OF assms(1)] by (simp add: sk_directory_def)
  then show ?thesis
    using directory_register [OF sk_ok_add_event [OF assms]] directory_add_event [OF assms(1)]
    by (simp add: name_event_def fresh_event_def)
qed

lemma directory_named_buffer:
  assumes "sk_ok \<sigma>" and "length (sk_events \<sigma>) < 2 ^ 32"
  shows "sk_directory (sk_bind_buffer b (length (sk_buffers \<sigma>))
           (sk_register (length (sk_events \<sigma>)) (sk_new_buffer b \<sigma>))) = name_buffer b (sk_directory \<sigma>)"
proof -
  let ?n = "length (sk_events \<sigma>)"
  let ?u = "sk_new_buffer b \<sigma>"
  have u: "?u = (sk_add_event \<sigma>)\<lparr>sk_buffers := sk_buffers (sk_add_event \<sigma>) @ [(b, ?n)]\<rparr>"
    by (simp add: sk_new_buffer_def)
  have "sk_directory ?u = fresh_event (sk_directory \<sigma>)"
    unfolding u directory_own_buffer [OF sk_ok_add_event [OF assms]] by (rule directory_add_event [OF assms(1)])
  moreover have "?n < length (sk_events ?u)" "sk_ok ?u"
    using sk_ok_new_buffer [OF assms] by (simp_all add: sk_new_buffer_def)
  then have "sk_ok (sk_register ?n ?u)" by (intro sk_ok_register)
  moreover have "next_event (sk_directory \<sigma>) = of_nat ?n" "sk_events ?u ! ?n = of_nat ?n"
      "sk_buffers ?u ! length (sk_buffers \<sigma>) = (b, ?n)"
    using gen_of_nat [OF assms(1)] by (simp_all add: sk_directory_def sk_new_buffer_def sk_add_event_def)
  ultimately show ?thesis
    by (simp add: directory_bind_buffer directory_register \<open>sk_ok ?u\<close> name_buffer_def name_event_def
        fresh_event_def Let_def)
qed

lemma directory_named_kernel:
  assumes "sk_ok \<sigma>" and "length (sk_events \<sigma>) + 4 \<le> 2 ^ 32"
  shows "sk_directory (sk_bind_kernel k \<sigma>) = name_kernel k (sk_directory \<sigma>)"
proof -
  let ?n = "length (sk_events \<sigma>)" and ?d = "sk_directory \<sigma>"
  let ?a = "sk_add_event (sk_add_event (sk_add_event (sk_add_event \<sigma>)))"
  let ?es = "[?n, ?n + 1, ?n + 2, ?n + 3]"
  define u where "u = sk_new_kernel k \<sigma>"
  have u: "u = ?a\<lparr>sk_kernels := sk_kernels ?a @ [(k, ?es)]\<rparr>"
    by (simp add: u_def sk_new_kernel_def Let_def)
  note add = sk_ok_add_event [OF assms(1)]
  have oks: "sk_ok (sk_add_event \<sigma>)" "sk_ok (sk_add_event (sk_add_event \<sigma>))"
    "sk_ok (sk_add_event (sk_add_event (sk_add_event \<sigma>)))" "sk_ok ?a"
    using assms by (auto intro!: sk_ok_add_event)
  have du: "sk_directory u = fresh_event (fresh_event (fresh_event (fresh_event ?d)))"
    unfolding u directory_own_kernel [OF oks(4)] using assms(1) oks by (simp add: directory_add_event)
  have lu: "length (sk_events u) = ?n + 4" "sk_kernels u ! length (sk_kernels \<sigma>) = (k, ?es)"
    by (simp_all add: u)
  have uok: "sk_ok u" unfolding u_def by (rule sk_ok_new_kernel [OF assms])
  have gen: "next_event ?d = of_nat ?n" using gen_of_nat [OF assms(1)] by (simp add: sk_directory_def)
  have ids: "sk_events u ! i = of_nat i" if "i < ?n + 4" for i
    using uok lu that by (simp add: sk_ok_def numbered_def)
  define v where "v = sk_register (?n + 3) (sk_register (?n + 2) (sk_register (?n + 1) (sk_register ?n u)))"
  have vok: "sk_ok v" and ev: "sk_events v = sk_events u" "sk_kernels v = sk_kernels u"
    unfolding v_def using uok lu by (auto intro!: sk_ok_register)
  have dv: "sk_directory v = name_event (name_event (name_event (name_event ?d)))"
    unfolding v_def using uok lu du gen
    by (simp add: directory_register sk_ok_register name_event_def fresh_event_def algebra_simps insert_commute)
  have kv: "kernels_of (sk_directory v) = kernels_of ?d"
    unfolding dv by (simp add: name_event_def fresh_event_def)
  have "sk_bind_kernel k \<sigma> = v\<lparr>sk_cxt_kernels := sm_emplace k (length (sk_kernels \<sigma>)) (sk_cxt_kernels v)\<rparr>"
    by (simp add: sk_bind_kernel_def Let_def v_def u_def)
  then show ?thesis
    using directory_bind_kernel [OF vok, of k "length (sk_kernels \<sigma>)"] kv
    by (simp add: dv name_kernel_def Let_def ev lu ids gen add.commute)
qed

lemma directory_dropped_buffer:
  assumes "sk_ok \<sigma>" and "sm_at (sk_cxt_buffers \<sigma>) b = Some r"
  shows "sk_directory (\<sigma>\<lparr>sk_cxt_events := sm_erase (sk_events \<sigma> ! snd (sk_buffers \<sigma> ! r)) (sk_cxt_events \<sigma>),
            sk_cxt_buffers := sm_erase b (sk_cxt_buffers \<sigma>)\<rparr>) = drop_buffer b (sk_directory \<sigma>)"
  using assms sk_maps [OF assms(1)]
  by (auto simp: sk_directory_def drop_buffer_def sm_at_erase fun_eq_iff)

section \<open>The calls refine the machine\<close>

lemma directory_same: "keeps (same (skel s)) m \<Longrightarrow> m s = Some (q, t) \<Longrightarrow> directory_of t = directory_of s"
  using keepsD [of "same (skel s)" m s q t] by (simp add: directory_of_def)

lemma is_open_live [simp]: "is_open (directory_of s) \<longleftrightarrow> cxt s = Cxt_live"
  by (simp add: directory_of_def sk_directory_def skel_def)

lemma with_cxt_dead: "cxt s \<noteq> Cxt_live \<Longrightarrow> \<exists>f. with_cxt m s = Some (Inl f, s)"
  by (simp add: with_cxt_def act_simps)

lemma returns_refine:
  assumes "andThen m (\<lambda>_. ret ()) s = Some (q, t)"
    and "\<And>r u. m s = Some (r, u) \<Longrightarrow> (\<not> isl r, directory_of u) \<in> X"
  shows "(\<not> isl q, directory_of t) \<in> X"
proof -
  from assms(1) obtain r where "m s = Some (r, t)" "isl r = isl q"
    by (auto simp: act_simps split: option.splits sum.splits)
  with assms(2) [of r t] show ?thesis by simp
qed

text \<open>A new event, named or not.\<close>

lemma directory_made_event:
  assumes "sk_ok (skel s)" and "make_event P ins outs c s = Some (Inr r, t)"
  shows "directory_of t = fresh_event (directory_of s)" and "r = length (hevents s)"
    and "skel t = sk_add_event (skel s)"
proof -
  show "skel t = sk_add_event (skel s)" and "r = length (hevents s)"
    using assms(2) by (auto simp: act_simps skel_def sk_add_event_def new_event_def)
  with directory_add_event [OF assms(1)] show "directory_of t = fresh_event (directory_of s)"
    by (simp add: directory_of_def)
qed

lemma made_buffer_directory:
  assumes "sk_ok (skel s)" and "length (hevents s) < 2 ^ 32"
  obtains u where "make_buffer P b sz ins outs fifo s = Some (Inr (length (hbuffers s)), u)"
    "cxt u = cxt s" "directory_of u = fresh_event (directory_of s)"
    "cxt s = Cxt_live \<Longrightarrow> \<exists>t. register_buffer (length (hbuffers s)) b u = Some (Inr (length (hbuffers s)), t)
       \<and> directory_of t = name_buffer b (directory_of s)"
proof -
  obtain q u where mb: "make_buffer P b sz ins outs fifo s = Some (q, u)"
    by (simp add: make_buffer_def act_simps)
  note mk = skel_make_buffer [OF mb]
  have small: "length (sk_events (skel s)) < 2 ^ 32" using assms(2) by simp
  have uok: "sk_ok (skel u)" using mk(2) sk_ok_new_buffer [OF assms(1) small] by simp
  have hl: "length (hevents u) = Suc (length (hevents s))" "length (hbuffers u) = Suc (length (hbuffers s))"
    using mk(2) by (auto simp: skel_def sk_new_buffer_def sk_add_event_def dest: arg_cong [where f = length])
  have id: "ev_id (hevents u ! length (hevents s)) = of_nat (length (hevents s))"
    using skel_numbered [OF uok] hl by simp
  have du: "directory_of u = fresh_event (directory_of s)"
    using directory_own_buffer [OF sk_ok_add_event [OF assms(1) small], of "[(b, length (hevents s))]"]
      directory_add_event [OF assms(1)]
    by (simp add: directory_of_def mk(2) sk_new_buffer_def)
  obtain t where rb: "register_buffer (length (hbuffers s)) b u = Some (Inr (length (hbuffers s)), t)"
    using hl mk(3) by (simp add: register_buffer_def add_event_def access_simps act_simps)
  have "skel t = sk_bind_buffer b (length (hbuffers s)) (sk_register (length (hevents s)) (skel u))"
    by (rule skel_register_buffer [OF rb]) (use hl mk(3) id in auto)
  then have "directory_of t = name_buffer b (directory_of s)"
    using directory_named_buffer [OF assms(1) small] mk(2) by (simp add: directory_of_def)
  with rb mb mk(1,4) du show thesis by (intro that) auto
qed

lemma memory_run:
  assumes "sk_ok (skel s)" and "length (hevents s) < 2 ^ 32"
    and run: "andThen (assert_that (0 < b)) (\<lambda>_. andThen (assert_that (0 < sz)) (\<lambda>_.
      andThen (make_buffer P b (ucast sz) ins outs fifo) (\<lambda>r.
      andThen (with_cxt (register_buffer r b)) (\<lambda>_. ret a)))) s = Some (q, t)"
  shows "(\<not> isl q, directory_of t) \<in> memory_outcomes b sz (directory_of s)"
proof -
  have zero: "0 < b \<longleftrightarrow> b \<noteq> 0" "0 < sz \<longleftrightarrow> sz \<noteq> 0" by (simp_all add: word_neq_0_conv)
  obtain u where u: "make_buffer P b (ucast sz) ins outs fifo s = Some (Inr (length (hbuffers s)), u)"
    "cxt u = cxt s" "directory_of u = fresh_event (directory_of s)"
    "cxt s = Cxt_live \<Longrightarrow> \<exists>t. register_buffer (length (hbuffers s)) b u = Some (Inr (length (hbuffers s)), t)
       \<and> directory_of t = name_buffer b (directory_of s)"
    by (rule made_buffer_directory [OF assms(1,2), of P b "ucast sz" ins outs fifo]) auto
  show ?thesis
  proof (cases "b = 0 \<or> sz = 0")
    case True
    with run show ?thesis by (auto simp: memory_outcomes_def zero act_simps split: if_splits)
  next
    case False
    show ?thesis
    proof (cases "cxt s = Cxt_live")
      case True
      with u False run show ?thesis by (auto simp: memory_outcomes_def zero act_simps)
    next
      case dead: False
      then obtain f where "with_cxt (register_buffer (length (hbuffers s)) b) u = Some (Inl f, u)"
        using with_cxt_dead [of u] u(2) by auto
      with u False run dead show ?thesis by (auto simp: memory_outcomes_def zero act_simps)
    qed
  qed
qed

lemma memory_refines:
  assumes "sk_ok (skel s)" and "length (hevents s) < 2 ^ 32"
  shows "mango_register_memory P b sz mode ins outs s = Some (q, t) \<Longrightarrow>
      (\<not> isl q, directory_of t) \<in> memory_outcomes b sz (directory_of s)"
    and "mango_register_memory_with_kernels P b sz mode ins' outs' s = Some (r, t) \<Longrightarrow>
      (\<not> isl r, directory_of t) \<in> memory_outcomes b sz (directory_of s)"
  unfolding mango_register_memory_def mango_register_memory_with_kernels_def
  by (erule memory_run [OF assms])+

lemma event_refines:
  assumes "sk_ok (skel s)" and "length (hevents s) < 2 ^ 32"
    and run: "mango_register_event P ins outs s = Some (q, t)"
  shows "(\<not> isl q, directory_of t) \<in> outcomes (Register_event ins outs) (directory_of s)"
proof (cases "ins = [] \<and> outs = []")
  case True
  with run show ?thesis by (auto simp: mango_register_event_def outcomes_def act_simps)
next
  case False
  let ?n = "length (hevents s)"
  obtain u where u: "make_event P ins outs False s = Some (Inr ?n, u)"
    by (simp add: act_simps)
  note made = directory_made_event [OF assms(1) u]
  have cu: "cxt u = cxt s" "length (hevents u) = Suc ?n" using u by (auto simp: act_simps)
  have uok: "sk_ok (skel u)" using sk_ok_add_event [OF assms(1)] assms(2) made(3) by simp
  have id: "ev_id (hevents u ! ?n) = of_nat ?n" using skel_numbered [OF uok] cu by simp
  have next_id: "next_event (directory_of s) = of_nat ?n"
    using gen_of_nat [OF assms(1)] by (simp add: directory_of_def sk_directory_def)
  note rest = run [unfolded mango_register_event_def]
  show ?thesis
  proof (cases "cxt s = Cxt_live")
    case True
    obtain v where v: "register_event ?n u = Some (Inr ?n, v)" "v = u\<lparr>cxt_events := sm_emplace (of_nat ?n) ?n (cxt_events u)\<rparr>"
      using cu id by (simp add: register_event_def add_event_def access_simps act_simps)
    have "skel v = sk_register ?n (skel u)"
      using v(2) by (simp add: skel_def sk_register_def)
    then have "skel v = sk_register ?n (sk_add_event (skel s))"
      by (simp only: made(3))
    then have "directory_of v = name_event (directory_of s)"
      using directory_named_event [OF assms(1)] assms(2) by (simp add: directory_of_def)
    moreover have "mango_register_event P ins outs s = positive_event_id ?n v"
      using False True by (simp add: mango_register_event_def assert_that_def andThen_run [of "make_event P ins outs False"]
          andThen_run [of "with_cxt (register_event (length (hevents s)))"] u v(1) cu(1))
    moreover have "positive_event_id ?n v =
        Some (if 0 < (of_nat ?n :: u32) then Inr (of_nat ?n) else Inl Assert_failed, v)"
      using v(2) cu id by (simp add: positive_event_id_def event_id_def access_simps act_simps)
    ultimately show ?thesis
      using run True False next_id by (auto simp: outcomes_def)
  next
    case dead: False
    then obtain f where "with_cxt (register_event ?n) u = Some (Inl f, u)"
      using with_cxt_dead [of u] cu(1) by auto
    with rest dead False u made show ?thesis by (auto simp: outcomes_def act_simps)
  qed
qed

lemma register_kernel_directory:
  assumes "sk_ok (skel s)" and "length (hevents s) + 4 \<le> 2 ^ 32"
    and "register_kernel P k fr ins outs s = Some (q, t)"
  shows "directory_of t = directory_of s \<or> \<not> isl q \<and> directory_of t = name_kernel k (directory_of s)"
proof -
  have "skel t = skel s \<or> skel t = sk_bind_kernel k (skel s)"
    using skel_register_kernel [OF assms(3,1)] assms(2) by simp
  moreover have "skel t = skel s" if "isl q"
    using assms(3) that
    by (auto simp: register_kernel_def make_kernel_def add_event_def access_simps act_simps upt_rec
        nth_append split: if_splits sum.splits)
  ultimately show ?thesis
    using directory_named_kernel [OF assms(1)] assms(2) by (auto simp: directory_of_def)
qed

lemma kernel_refines:
  assumes "sk_ok (skel s)" and "length (hevents s) + 4 \<le> 2 ^ 32"
  shows "mango_register_kernel P k kern ins outs s = Some (q, t) \<Longrightarrow>
      (\<not> isl q, directory_of t) \<in> kernel_outcomes k (directory_of s)"
    and "mango_register_kernel_with_buffers P k kern ins' outs' s = Some (q, t) \<Longrightarrow>
      (\<not> isl q, directory_of t) \<in> kernel_outcomes k (directory_of s)"
  by (auto simp: mango_register_kernel_def mango_register_kernel_with_buffers_def kernel_outcomes_def
      the_function_def act_simps word_neq_0_conv with_cxt_def
      dest!: register_kernel_directory [OF assms] split: option.splits sum.splits if_splits)

lemma deregister_refines:
  assumes "sk_ok (skel s)" and "mango_deregister_memory b s = Some (q, t)"
  shows "(\<not> isl q, directory_of t) \<in> outcomes (Deregister_memory b) (directory_of s)"
proof (cases "cxt s = Cxt_live")
  case False
  with assms(2) show ?thesis by (auto simp: mango_deregister_memory_def outcomes_def with_cxt_def act_simps)
next
  case True
  have bound: "buffers_of (directory_of s) b = None \<longleftrightarrow> sm_at (cxt_buffers s) b = None"
    by (simp add: directory_of_def sk_directory_def)
  show ?thesis
  proof (cases "sm_at (cxt_buffers s) b")
    case None
    with True assms(2) bound show ?thesis
      by (auto simp: mango_deregister_memory_def deregister_buffer_def outcomes_def act_simps)
  next
    case (Some r)
    then have r: "r < length (hbuffers s)" "b_event (hbuffers s ! r) < length (hevents s)"
      using skel_buffer [OF assms(1) Some] registered_below [OF assms(1)] by auto
    have run: "q = Inr ()" "skel t = (skel s)\<lparr>sk_cxt_events :=
          sm_erase (sk_events (skel s) ! snd (sk_buffers (skel s) ! r)) (sk_cxt_events (skel s)),
        sk_cxt_buffers := sm_erase b (sk_cxt_buffers (skel s))\<rparr>"
      using assms(2) True Some r
      by (auto simp: mango_deregister_memory_def deregister_buffer_def access_simps act_simps skel_def)
    have "directory_of t = drop_buffer b (directory_of s)"
      unfolding directory_of_def run(2) using directory_dropped_buffer [OF assms(1)] Some by simp
    with run(1) True Some bound show ?thesis by (simp add: outcomes_def)
  qed
qed

lemma init_refines:
  assumes "mango_init P name recipe s = Some (q, t)"
  shows "(\<not> isl q, directory_of t) \<in> outcomes (Init name recipe) (directory_of s)"
  using assms
  by (auto simp: mango_init_def make_context_def act_simps outcomes_def directory_of_def sk_directory_def
      skel_def fresh_directory_def split: if_splits)

lemma release_refines:
  assumes "mango_release P s = Some (q, t)"
  shows "(\<not> isl q, directory_of t) \<in> outcomes Release (directory_of s)"
  using assms
  by (auto simp: mango_release_def delete_context_def act_simps outcomes_def directory_of_def sk_directory_def
      skel_def split: cxt_state.splits)

definition registering :: "api_call \<Rightarrow> bool" where
  "registering c = (case c of Init _ _ \<Rightarrow> True | Release \<Rightarrow> True | Register_kernel _ _ _ _ \<Rightarrow> True
     | Register_kernel_with_buffers _ _ _ _ \<Rightarrow> True | Register_memory _ _ _ _ _ \<Rightarrow> True
     | Register_memory_with_kernels _ _ _ _ _ \<Rightarrow> True | Register_event _ _ \<Rightarrow> True
     | Deregister_memory _ \<Rightarrow> True | _ \<Rightarrow> False)"

lemma other_call_same: "\<not> registering c \<Longrightarrow> keeps (same \<sigma>) (run_call P c)"
  by (cases c; simp only: run_call.simps registering_def api_call.case simp_thms;
      rule keeps_andThen [OF _ keeps_ret]; rule frame_api)

lemma other_call_outcomes: "\<not> registering c \<Longrightarrow> outcomes c d = {(True, d), (False, d)}"
  by (cases c) (simp_all add: registering_def outcomes_def)

lemma outcomes_simps:
  "outcomes (Register_memory b sz mode ins outs) = memory_outcomes b sz"
  "outcomes (Register_memory_with_kernels b sz mode ins' outs') = memory_outcomes b sz"
  "outcomes (Register_kernel k kern ins outs) = kernel_outcomes k"
  "outcomes (Register_kernel_with_buffers k kern ins' outs') = kernel_outcomes k"
  by (simp_all add: outcomes_def fun_eq_iff)

lemma run_call_refines:
  assumes ok: "sk_ok (skel s)" and lim: "length (hevents s) + 4 \<le> 2 ^ 32" and run: "run_call P c s = Some (q, t)"
  shows "(\<not> isl q, directory_of t) \<in> outcomes c (directory_of s)"
proof (cases "registering c")
  case False
  from directory_same [OF other_call_same [OF False] run] show ?thesis
    by (cases "isl q") (simp_all add: other_call_outcomes [OF False])
next
  case True
  have lt: "length (hevents s) < 2 ^ 32" using lim by simp
  show ?thesis
  proof (cases c)
    case (Init a b)
    show ?thesis
      using run unfolding Init run_call.simps outcomes_simps
      by (rule returns_refine) (rule init_refines)
  next
    case Release
    show ?thesis
      using run unfolding Release run_call.simps outcomes_simps
      by (rule returns_refine) (rule release_refines)
  next
    case (Register_kernel k f i j)
    show ?thesis
      using run unfolding Register_kernel run_call.simps outcomes_simps
      by (rule returns_refine) (rule kernel_refines(1) [OF ok lim])
  next
    case (Register_kernel_with_buffers k f i j)
    show ?thesis
      using run unfolding Register_kernel_with_buffers run_call.simps outcomes_simps
      by (rule returns_refine) (rule kernel_refines(2) [OF ok lim])
  next
    case (Register_memory n sz m i j)
    show ?thesis
      using run unfolding Register_memory run_call.simps outcomes_simps
      by (rule returns_refine) (rule memory_refines(1) [OF ok lt])
  next
    case (Register_memory_with_kernels n sz m i j)
    show ?thesis
      using run unfolding Register_memory_with_kernels run_call.simps outcomes_simps
      by (rule returns_refine) (rule memory_refines(2) [OF ok lt])
  next
    case (Register_event i j)
    show ?thesis
      using run unfolding Register_event run_call.simps outcomes_simps
      by (rule returns_refine) (rule event_refines [OF ok lt])
  next
    case (Deregister_memory n)
    show ?thesis
      using run unfolding Deregister_memory run_call.simps outcomes_simps
      by (rule returns_refine) (rule deregister_refines [OF ok])
  qed (use True in \<open>simp_all add: registering_def\<close>)
qed

lemma buffer_event_answer:
  assumes "sk_ok (skel s)" and "cxt s = Cxt_live"
  shows "mango_get_buffer_event b s = Some (case buffers_of (directory_of s) b of
      None \<Rightarrow> Inl Out_of_range | Some e \<Rightarrow> if 0 < e then Inr e else Inl Assert_failed, s)"
proof (cases "sm_at (cxt_buffers s) b")
  case None
  with assms(2) show ?thesis
    by (simp add: mango_get_buffer_event_def get_buffer_def directory_of_def sk_directory_def act_simps)
next
  case (Some r)
  then have r: "r < length (hbuffers s)" "b_event (hbuffers s ! r) < length (hevents s)"
    using skel_buffer [OF assms(1) Some] registered_below [OF assms(1)] by auto
  with Some assms(2) show ?thesis
    by (simp add: mango_get_buffer_event_def get_buffer_def positive_event_id_def event_id_def access_simps
        directory_of_def sk_directory_def act_simps)
qed

section \<open>The property\<close>

text \<open>
  C5. In a reachable state with room for four more event ids, every call of the C interface
  returns or fails as the abstract call may, and leaves the directory the abstract call
  leaves; with a live context the event of a buffer is what the directory says.
\<close>

theorem calls_refine_directory:
  assumes "reaches P s" and "length (hevents s) + 4 \<le> 2 ^ 32" and "run_call P c s = Some (q, t)"
  shows "(\<not> isl q, directory_of t) \<in> outcomes c (directory_of s)
     \<and> (cxt s = Cxt_live \<longrightarrow> mango_get_buffer_event b s =
          Some (case buffers_of (directory_of s) b of None \<Rightarrow> Inl Out_of_range
                | Some e \<Rightarrow> if 0 < e then Inr e else Inl Assert_failed, s))"
proof -
  have "sk_ok (skel s)" using reaches_sk_ok [OF assms(1)] assms(2) by simp
  then show ?thesis using run_call_refines assms(2,3) buffer_event_answer by blast
qed

theorem calls_refine_directory_witness:
  "\<exists>s t. reaches (bank_platform True) s
     \<and> run_call (bank_platform True) (Register_memory 5 64 C_BUFFER [] []) s = Some (Inr (), t)
     \<and> directory_of t = name_buffer 5 (directory_of s)"
proof -
  let ?c = "Register_memory 5 64 C_BUFFER [] []"
  obtain s where s: "reaches (bank_platform True) s" "cxt s = Cxt_live" "hevents s = []"
    "cxt_buffers s = []" "hbuffers s = []"
    by (rule demo_start)
  then obtain t where t: "run_call (bank_platform True) ?c s = Some (Inr (), t)"
    by (simp add: mango_register_memory_def make_buffer_def with_cxt_def register_buffer_def
        add_event_def access_simps act_simps)
  from calls_refine_directory [OF s(1) _ t] s t show ?thesis
    by (auto simp: outcomes_def memory_outcomes_def)
qed

end
