(* ===== verification/CL_State.thy ===== *)
theory CL_State
  imports Host_Reach
begin

text \<open>
  The OpenCL layer's constants (\<^verbatim>\<open>host/OpenCL/include/CL/cl.h\<close>), the objects behind its
  handles (\<^verbatim>\<open>host/OpenCL/include/*.h\<close>) and its state: that of the host library and the
  objects. A handle is an index; a deleted object is \<open>None\<close>, and a handle without an
  object stands for a null or dangling pointer inside an array or an object.
\<close>

section \<open>Constants\<close>

definition CL_SUCCESS :: int where "CL_SUCCESS = 0"
definition CL_DEVICE_NOT_FOUND :: int where "CL_DEVICE_NOT_FOUND = -1"
definition CL_OUT_OF_RESOURCES :: int where "CL_OUT_OF_RESOURCES = -5"
definition CL_INVALID_VALUE :: int where "CL_INVALID_VALUE = -30"
definition CL_INVALID_DEVICE_TYPE :: int where "CL_INVALID_DEVICE_TYPE = -31"
definition CL_INVALID_DEVICE :: int where "CL_INVALID_DEVICE = -33"
definition CL_INVALID_CONTEXT :: int where "CL_INVALID_CONTEXT = -34"
definition CL_INVALID_COMMAND_QUEUE :: int where "CL_INVALID_COMMAND_QUEUE = -36"
definition CL_INVALID_MEM_OBJECT :: int where "CL_INVALID_MEM_OBJECT = -38"
definition CL_INVALID_BINARY :: int where "CL_INVALID_BINARY = -42"
definition CL_INVALID_PROGRAM :: int where "CL_INVALID_PROGRAM = -44"
definition CL_INVALID_PROGRAM_EXECUTABLE :: int where "CL_INVALID_PROGRAM_EXECUTABLE = -45"
definition CL_INVALID_KERNEL_NAME :: int where "CL_INVALID_KERNEL_NAME = -46"
definition CL_INVALID_KERNEL :: int where "CL_INVALID_KERNEL = -48"
definition CL_INVALID_ARG_VALUE :: int where "CL_INVALID_ARG_VALUE = -50"
definition CL_INVALID_ARG_SIZE :: int where "CL_INVALID_ARG_SIZE = -51"
definition CL_INVALID_EVENT_WAIT_LIST :: int where "CL_INVALID_EVENT_WAIT_LIST = -57"
definition CL_INVALID_EVENT :: int where "CL_INVALID_EVENT = -58"
definition CL_INVALID_BUFFER_SIZE :: int where "CL_INVALID_BUFFER_SIZE = -61"

lemmas cl_codes = CL_SUCCESS_def CL_DEVICE_NOT_FOUND_def CL_OUT_OF_RESOURCES_def CL_INVALID_VALUE_def
  CL_INVALID_DEVICE_TYPE_def CL_INVALID_DEVICE_def CL_INVALID_CONTEXT_def CL_INVALID_COMMAND_QUEUE_def
  CL_INVALID_MEM_OBJECT_def CL_INVALID_BINARY_def CL_INVALID_PROGRAM_def
  CL_INVALID_PROGRAM_EXECUTABLE_def CL_INVALID_KERNEL_NAME_def CL_INVALID_KERNEL_def
  CL_INVALID_ARG_VALUE_def CL_INVALID_ARG_SIZE_def CL_INVALID_EVENT_WAIT_LIST_def
  CL_INVALID_EVENT_def CL_INVALID_BUFFER_SIZE_def

definition CL_SCALAR_ARG :: u32 where "CL_SCALAR_ARG = 0x1284"
definition CL_BUFFER_ARG :: u32 where "CL_BUFFER_ARG = 0x1285"
definition CL_EVENT_ARG :: u32 where "CL_EVENT_ARG = 0x1286"

definition CL_COMMAND_NDRANGE_KERNEL :: u32 where "CL_COMMAND_NDRANGE_KERNEL = 0x11F0"
definition CL_COMMAND_READ_BUFFER :: u32 where "CL_COMMAND_READ_BUFFER = 0x11F3"
definition CL_COMMAND_WRITE_BUFFER :: u32 where "CL_COMMAND_WRITE_BUFFER = 0x11F4"

lemmas cl_commands = CL_SCALAR_ARG_def CL_BUFFER_ARG_def CL_EVENT_ARG_def
  CL_COMMAND_NDRANGE_KERNEL_def CL_COMMAND_READ_BUFFER_def CL_COMMAND_WRITE_BUFFER_def

definition CL_DEVICE_TYPE_DEFAULT :: u64 where "CL_DEVICE_TYPE_DEFAULT = 1"
definition CL_DEVICE_TYPE_CPU :: u64 where "CL_DEVICE_TYPE_CPU = 2"
definition CL_DEVICE_TYPE_GPU :: u64 where "CL_DEVICE_TYPE_GPU = 4"
definition CL_DEVICE_TYPE_ACCELERATOR :: u64 where "CL_DEVICE_TYPE_ACCELERATOR = 8"
definition CL_DEVICE_TYPE_CUSTOM :: u64 where "CL_DEVICE_TYPE_CUSTOM = 16"
definition CL_DEVICE_TYPE_ALL :: u64 where "CL_DEVICE_TYPE_ALL = 0xFFFFFFFF"

lemmas cl_device_types = CL_DEVICE_TYPE_DEFAULT_def CL_DEVICE_TYPE_CPU_def CL_DEVICE_TYPE_GPU_def
  CL_DEVICE_TYPE_ACCELERATOR_def CL_DEVICE_TYPE_CUSTOM_def CL_DEVICE_TYPE_ALL_def

definition CL_MEM_READ_WRITE :: u64 where "CL_MEM_READ_WRITE = 1"
definition CL_MEM_WRITE_ONLY :: u64 where "CL_MEM_WRITE_ONLY = 2"
definition CL_MEM_READ_ONLY :: u64 where "CL_MEM_READ_ONLY = 4"
definition CL_MEM_OBJECT_BUFFER :: u32 where "CL_MEM_OBJECT_BUFFER = 0x10F0"

lemmas cl_mem_flags = CL_MEM_READ_WRITE_def CL_MEM_WRITE_ONLY_def CL_MEM_READ_ONLY_def

text \<open>What a query can ask for.\<close>

definition CL_DEVICE_TYPE :: u32 where "CL_DEVICE_TYPE = 0x1000"
definition CL_CONTEXT_DEVICES :: u32 where "CL_CONTEXT_DEVICES = 0x1081"
definition CL_CONTEXT_NUM_DEVICES :: u32 where "CL_CONTEXT_NUM_DEVICES = 0x1083"
definition CL_QUEUE_CONTEXT :: u32 where "CL_QUEUE_CONTEXT = 0x1090"
definition CL_QUEUE_DEVICE :: u32 where "CL_QUEUE_DEVICE = 0x1091"
definition CL_PROGRAM_CONTEXT :: u32 where "CL_PROGRAM_CONTEXT = 0x1161"
definition CL_PROGRAM_NUM_DEVICES :: u32 where "CL_PROGRAM_NUM_DEVICES = 0x1162"
definition CL_PROGRAM_DEVICES :: u32 where "CL_PROGRAM_DEVICES = 0x1163"
definition CL_PROGRAM_NUM_KERNELS :: u32 where "CL_PROGRAM_NUM_KERNELS = 0x1167"
definition CL_KERNEL_NUM_ARGS :: u32 where "CL_KERNEL_NUM_ARGS = 0x1191"
definition CL_KERNEL_CONTEXT :: u32 where "CL_KERNEL_CONTEXT = 0x1193"
definition CL_KERNEL_PROGRAM :: u32 where "CL_KERNEL_PROGRAM = 0x1194"
definition CL_EVENT_COMMAND_QUEUE :: u32 where "CL_EVENT_COMMAND_QUEUE = 0x11D0"
definition CL_EVENT_COMMAND_TYPE :: u32 where "CL_EVENT_COMMAND_TYPE = 0x11D1"
definition CL_EVENT_COMMAND_EXECUTION_STATUS :: u32 where "CL_EVENT_COMMAND_EXECUTION_STATUS = 0x11D3"
definition CL_EVENT_CONTEXT :: u32 where "CL_EVENT_CONTEXT = 0x11D4"
definition CL_MEM_TYPE :: u32 where "CL_MEM_TYPE = 0x1100"
definition CL_MEM_FLAGS :: u32 where "CL_MEM_FLAGS = 0x1101"
definition CL_MEM_SIZE :: u32 where "CL_MEM_SIZE = 0x1102"
definition CL_MEM_HOST_PTR :: u32 where "CL_MEM_HOST_PTR = 0x1103"
definition CL_MEM_CONTEXT :: u32 where "CL_MEM_CONTEXT = 0x1106"

lemmas cl_queries = CL_DEVICE_TYPE_def CL_CONTEXT_DEVICES_def CL_CONTEXT_NUM_DEVICES_def CL_QUEUE_CONTEXT_def
  CL_QUEUE_DEVICE_def CL_PROGRAM_CONTEXT_def CL_PROGRAM_NUM_DEVICES_def CL_PROGRAM_DEVICES_def
  CL_PROGRAM_NUM_KERNELS_def CL_KERNEL_NUM_ARGS_def CL_KERNEL_CONTEXT_def CL_KERNEL_PROGRAM_def
  CL_EVENT_COMMAND_QUEUE_def CL_EVENT_COMMAND_TYPE_def CL_EVENT_COMMAND_EXECUTION_STATUS_def CL_EVENT_CONTEXT_def
  CL_MEM_TYPE_def CL_MEM_FLAGS_def CL_MEM_SIZE_def CL_MEM_HOST_PTR_def
  CL_MEM_CONTEXT_def

section \<open>Objects\<close>

record cl_device =
  d_queue :: "nat option"
  d_type :: c_unit_type

record cl_context =
  c_queue :: "nat option"
  c_program :: "nat option"
  c_devices :: "nat list"
  c_mems :: "nat list"

record cl_command_queue =
  q_ctx :: nat
  q_device :: nat
  q_tgx :: "nat option"
  q_events :: "nat list"

record mango_kernel_function =
  mf_device :: "nat option"
  mf_function :: "nat option"
  mf_in :: "u32 list"
  mf_out :: "u32 list"

text \<open>A \<^verbatim>\<open>const char *\<close> is its address with the text behind it; programs are keyed by the address.\<close>

type_synonym c_str = "u64 \<times> string"

record cl_program =
  p_ctx :: nat
  p_functions :: "(u64, mango_kernel_function) smap"

record cl_kernel =
  kn_device :: "nat option"
  kn_program :: nat
  kn_kernel :: u32
  kn_id :: u32
  kn_args :: "nat list"

record cl_mem =
  m_ctx :: nat
  m_buffer :: u32
  m_id :: u32
  m_type :: u32
  m_host_ptr :: u64
  m_flags :: u64
  m_size :: u64

record cl_event =
  e_ctx :: nat
  e_queue :: nat
  e_ev :: u32
  e_status :: event_status
  e_type :: u32

record 'w cl =
  cl_host :: "'w host"
  cl_devices :: "cl_device option list"
  cl_contexts :: "cl_context option list"
  cl_queues :: "cl_command_queue option list"
  cl_programs :: "cl_program option list"
  cl_kernels :: "cl_kernel option list"
  cl_mems :: "cl_mem option list"
  cl_events :: "cl_event option list"

definition cl_init :: "'w \<Rightarrow> 'w cl" where
  "cl_init w = \<lparr>cl_host = host_init w, cl_devices = [], cl_contexts = [], cl_queues = [],
     cl_programs = [], cl_kernels = [], cl_mems = [], cl_events = []\<rparr>"

section \<open>Actions\<close>

text \<open>A call of the host library.\<close>

definition in_host :: "('w host, 'a) act \<Rightarrow> ('w cl, 'a) act" where
  "in_host m = (\<lambda>s. case m (cl_host s) of
      None \<Rightarrow> None | Some (r, h) \<Rightarrow> Some (r, s\<lparr>cl_host := h\<rparr>))"

lemma in_host_run [act_simps]:
  "in_host m s = (case m (cl_host s) of None \<Rightarrow> None | Some (r, h) \<Rightarrow> Some (r, s\<lparr>cl_host := h\<rparr>))"
  by (simp add: in_host_def)

text \<open>
  The handlers of \<^verbatim>\<open>cl.cpp\<close>: a thrown error code is caught; a failed assertion, an
  invalid access and the other exceptions are not. Allocation does not fail.
\<close>

definition catch_cl :: "('s, 'a) act \<Rightarrow> (int \<Rightarrow> ('s, 'a) act) \<Rightarrow> ('s, 'a) act" where
  "catch_cl m h = (\<lambda>s. case m s of
      None \<Rightarrow> None
    | Some (Inl (Thrown e), t) \<Rightarrow> h e t
    | Some (r, t) \<Rightarrow> Some (r, t))"

definition code_of :: "('s, int) act \<Rightarrow> ('s, int) act" where
  "code_of m = catch_cl m ret"

text \<open>
  A constructor's handle, and what it stores at \<^verbatim>\<open>errcode_ret\<close> when the pointer is not
  null.
\<close>

definition handle_of :: "bool \<Rightarrow> ('s, nat) act \<Rightarrow> ('s, nat option \<times> int option) act" where
  "handle_of errcode_ret m =
     catch_cl (andThen m (\<lambda>h. ret (Some h, if errcode_ret then Some CL_SUCCESS else None)))
       (\<lambda>e. ret (None, if errcode_ret then Some e else None))"

definition throw :: "int \<Rightarrow> ('s, 'a) act" where
  "throw e = fail (Thrown e)"

lemma throw_run [act_simps]: "throw e s = Some (Inl (Thrown e), s)"
  by (simp add: throw_def act_simps)

lemma catch_run [act_simps]:
  "catch_cl m h s = (case m s of None \<Rightarrow> None
     | Some (Inl (Thrown e), t) \<Rightarrow> h e t | Some (r, t) \<Rightarrow> Some (r, t))"
  by (simp add: catch_cl_def)

text \<open>Objects behind handles: using a handle, replacing, adding and deleting its object.\<close>

definition object :: "('s \<Rightarrow> 'a option list) \<Rightarrow> nat \<Rightarrow> ('s, 'a) act" where
  "object sel r = andThen (fetch sel r) (from_option Bad_pointer)"

lemma object_run [act_simps]:
  "object sel r s = Some (if r < length (sel s)
     then (case sel s ! r of None \<Rightarrow> Inl Bad_pointer | Some a \<Rightarrow> Inr a) else Inl Bad_pointer, s)"
  by (simp add: object_def act_simps split: option.split)

definition delete :: "('s \<Rightarrow> 'a option list) \<Rightarrow> (nat \<Rightarrow> 's \<Rightarrow> 's) \<Rightarrow> nat \<Rightarrow> ('s, unit) act" where
  "delete sel drp r =
     andThen (fetch sel r) (\<lambda>x. andThen (from_option Double_free x) (\<lambda>_. modify (drp r)))"

lemma delete_run [act_simps]:
  "delete sel drp r s = (if r < length (sel s)
     then (case sel s ! r of None \<Rightarrow> Some (Inl Double_free, s) | Some a \<Rightarrow> Some (Inr (), drp r s))
     else Some (Inl Bad_pointer, s))"
  by (simp add: delete_def act_simps split: option.split)

text \<open>An element of an array behind a pointer.\<close>

definition at_index :: "'a list \<Rightarrow> nat \<Rightarrow> ('s, 'a) act" where
  "at_index xs i = (if i < length xs then ret (xs ! i) else fail Out_of_bounds)"

lemma at_index_run [act_simps]:
  "at_index xs i s = Some (if i < length xs then Inr (xs ! i) else Inl Out_of_bounds, s)"
  by (simp add: at_index_def act_simps)

definition put_queue :: "nat \<Rightarrow> cl_command_queue \<Rightarrow> ('w cl, unit) act" where
  "put_queue r q = modify (\<lambda>s. s\<lparr>cl_queues := (cl_queues s)[r := Some q]\<rparr>)"

definition put_context :: "nat \<Rightarrow> cl_context \<Rightarrow> ('w cl, unit) act" where
  "put_context r c = modify (\<lambda>s. s\<lparr>cl_contexts := (cl_contexts s)[r := Some c]\<rparr>)"

definition put_device :: "nat \<Rightarrow> cl_device \<Rightarrow> ('w cl, unit) act" where
  "put_device r d = modify (\<lambda>s. s\<lparr>cl_devices := (cl_devices s)[r := Some d]\<rparr>)"

definition put_program :: "nat \<Rightarrow> cl_program \<Rightarrow> ('w cl, unit) act" where
  "put_program r p = modify (\<lambda>s. s\<lparr>cl_programs := (cl_programs s)[r := Some p]\<rparr>)"

definition put_cl_kernel :: "nat \<Rightarrow> cl_kernel \<Rightarrow> ('w cl, unit) act" where
  "put_cl_kernel r k = modify (\<lambda>s. s\<lparr>cl_kernels := (cl_kernels s)[r := Some k]\<rparr>)"

definition put_cl_event :: "nat \<Rightarrow> cl_event \<Rightarrow> ('w cl, unit) act" where
  "put_cl_event r e = modify (\<lambda>s. s\<lparr>cl_events := (cl_events s)[r := Some e]\<rparr>)"

text \<open>\<^verbatim>\<open>new _cl_event(c, q)\<close> with the two members its callers set at once.\<close>

definition new_cl_event :: "nat \<Rightarrow> nat \<Rightarrow> u32 \<Rightarrow> u32 \<Rightarrow> ('w cl, nat) act" where
  "new_cl_event c q ev t =
     andThen (reads (\<lambda>s. length (cl_events s))) (\<lambda>r.
     andThen (modify (\<lambda>s. s\<lparr>cl_events := cl_events s @
       [Some \<lparr>e_ctx = c, e_queue = q, e_ev = ev, e_status = LOCK, e_type = t\<rparr>]\<rparr>)) (\<lambda>_.
     ret r))"

lemmas put_simps = put_queue_def put_context_def put_device_def put_program_def put_cl_kernel_def
  put_cl_event_def new_cl_event_def

text \<open>A 32-bit value in memory.\<close>

definition word_bytes :: "u32 \<Rightarrow> u8 list" where
  "word_bytes w = map (\<lambda>i. ucast (drop_bit (8 * i) w)) [0..<4]"

end
