(* ===== verification/CL_Objects.thy ===== *)
theory CL_Objects
  imports CL_State
begin

text \<open>
  Creation of the OpenCL objects (\<^verbatim>\<open>clDevice.cpp\<close>, \<^verbatim>\<open>clContext.cpp\<close>,
  \<^verbatim>\<open>clCommandQueue.cpp\<close>, \<^verbatim>\<open>clProgram.cpp\<close>, \<^verbatim>\<open>clKernel.cpp\<close>, \<^verbatim>\<open>clMem.cpp\<close>). A pointer
  argument is an option, an array behind a pointer a list; a count is a number of its own,
  and reading past the list is \<open>Out_of_bounds\<close>. Console output is left out.
\<close>

unbundle bit_operations_syntax

section \<open>Devices\<close>

definition availableUnits :: "c_unit_type list" where
  "availableUnits = [C_GN, C_GN, C_GPGPU, C_PEAK]"

definition getAvailableDevicesByType :: "u64 \<Rightarrow> c_unit_type list" where
  "getAvailableDevicesByType device_type =
     (if device_type = CL_DEVICE_TYPE_ALL then availableUnits
      else if device_type = CL_DEVICE_TYPE_CPU \<or> device_type = CL_DEVICE_TYPE_DEFAULT
      then filter (\<lambda>unit. unit = C_GN) availableUnits
      else if device_type = CL_DEVICE_TYPE_GPU
      then filter (\<lambda>unit. unit = C_GPGPU) availableUnits
      else filter (\<lambda>unit. unit \<noteq> C_GPGPU \<or> unit \<noteq> C_GN) availableUnits)"

text \<open>
  \<open>devices\<close> and \<open>num_devices\<close> say whether the pointers are given; the result is the error
  code, the new devices if any were stored, and the stored number.
\<close>

definition new_device :: "c_unit_type \<Rightarrow> ('w cl, nat) act" where
  "new_device t =
     andThen (reads (\<lambda>s. length (cl_devices s))) (\<lambda>r.
     andThen (modify (\<lambda>s. s\<lparr>cl_devices := cl_devices s @ [Some \<lparr>d_queue = None, d_type = t\<rparr>]\<rparr>)) (\<lambda>_.
     ret r))"

definition cl_get_device_ids ::
  "u64 \<Rightarrow> u32 \<Rightarrow> bool \<Rightarrow> bool \<Rightarrow> ('w cl, int \<times> nat list option \<times> u32 option) act" where
  "cl_get_device_ids device_type num_entries devices num_devices =
     (let validTypes = CL_DEVICE_TYPE_GPU OR CL_DEVICE_TYPE_CPU OR CL_DEVICE_TYPE_ACCELERATOR
            OR CL_DEVICE_TYPE_DEFAULT;
          available_devices = getAvailableDevicesByType device_type;
          total_num = (of_nat (length available_devices) :: u32) in
      if (\<not> devices \<and> \<not> num_devices) \<or> (devices \<and> num_entries = 0)
      then ret (CL_INVALID_VALUE, None, None)
      else if device_type AND validTypes = 0 then ret (CL_INVALID_DEVICE_TYPE, None, None)
      else if total_num = 0 then ret (CL_DEVICE_NOT_FOUND, None, None)
      else if num_entries > total_num then ret (CL_INVALID_VALUE, None, None)
      else if devices
      then andThen (mapEach (take (unat num_entries) available_devices) new_device) (\<lambda>ds.
           ret (CL_SUCCESS, Some ds, if num_devices then Some total_num else None))
      else ret (CL_SUCCESS, None, if num_devices then Some total_num else None))"

section \<open>Contexts\<close>

text \<open>
  The process a context is created in: its id and what \<^verbatim>\<open>/proc/<pid>/cmdline\<close> holds, if
  it can be opened. The name is read into a zeroed buffer of 1024 bytes that first holds
  the path.
\<close>

record process =
  proc_id :: nat
  proc_cmdline :: "string option"

definition cmdline_path :: "nat \<Rightarrow> string" where
  "cmdline_path pid = ''/proc/'' @ show_dec pid @ ''/cmdline''"

definition c_text :: "string \<Rightarrow> fault + string" where
  "c_text buf = (if CHR 0x00 \<in> set buf then Inr (takeWhile (\<lambda>c. c \<noteq> CHR 0x00) buf) else Inl Out_of_bounds)"

definition getProcessNameByPid :: "process \<Rightarrow> fault + string" where
  "getProcessNameByPid p =
     (let name = cmdline_path (proc_id p);
          buf = name @ replicate (1024 - length name) CHR 0x00 in
      case proc_cmdline p of
        None \<Rightarrow> c_text buf
      | Some f \<Rightarrow>
          let got = take 1024 f;
              b1 = got @ drop (length got) buf;
              b2 = (if got \<noteq> [] \<and> last got = CHR 0x0A then b1[length got - 1 := CHR 0x00] else b1)
          in c_text (drop 2 b2))"

definition cl_create_context ::
  "'w platform \<Rightarrow> process \<Rightarrow> u32 \<Rightarrow> nat list option \<Rightarrow> string option \<Rightarrow> ('w cl, nat) act" where
  "cl_create_context P p num_devices devices mango_receipe =
     andThen (assert_that (mango_receipe \<noteq> None)) (\<lambda>_.
     andThen (lift_sum (getProcessNameByPid p)) (\<lambda>process_name.
     if devices = None then throw CL_INVALID_DEVICE
     else
       andThen (in_host (mango_init P (Some process_name) mango_receipe)) (\<lambda>res.
       if res \<noteq> SUCCESS then throw CL_INVALID_VALUE
       else
         andThen (mapEach [0..<unat num_devices] (at_index (the devices))) (\<lambda>ds.
         andThen (reads (\<lambda>s. length (cl_contexts s))) (\<lambda>r.
         andThen (modify (\<lambda>s. s\<lparr>cl_contexts := cl_contexts s @
           [Some \<lparr>c_queue = None, c_program = None, c_devices = ds, c_mems = []\<rparr>]\<rparr>)) (\<lambda>_.
         ret r))))))"

text \<open>The statement after the second query throws its result, an error or not.\<close>

definition cl_create_context_from_type ::
  "'w platform \<Rightarrow> process \<Rightarrow> u64 \<Rightarrow> string option \<Rightarrow> ('w cl, nat) act" where
  "cl_create_context_from_type P p device_type mango_receipe =
     (let valid_type = CL_DEVICE_TYPE_GPU OR CL_DEVICE_TYPE_ACCELERATOR OR CL_DEVICE_TYPE_CPU
            OR CL_DEVICE_TYPE_CUSTOM OR CL_DEVICE_TYPE_DEFAULT in
      if device_type AND valid_type = 0 then throw CL_INVALID_DEVICE_TYPE
      else
        andThen (cl_get_device_ids device_type 0 False True) (\<lambda>(err, _, num).
        if err \<noteq> CL_SUCCESS then throw err
        else
          andThen (from_option Bad_pointer num) (\<lambda>n.
          andThen (assert_that (0 < n)) (\<lambda>_.
          andThen (cl_get_device_ids device_type n True True) (\<lambda>(err2, ds, num2).
          andThen (throw err2 :: ('w cl, unit) act) (\<lambda>_.
          cl_create_context P p n ds mango_receipe))))))"

section \<open>Command queues\<close>

definition set_queue :: "nat \<Rightarrow> nat \<Rightarrow> ('w cl, unit) act" where
  "set_queue q d = andThen (object cl_devices d) (\<lambda>dev. put_device d (dev\<lparr>d_queue := Some q\<rparr>))"

definition cl_create_command_queue :: "nat option \<Rightarrow> nat option \<Rightarrow> ('w cl, nat) act" where
  "cl_create_command_queue context device =
     (case context of None \<Rightarrow> throw CL_INVALID_CONTEXT
      | Some c \<Rightarrow> (case device of None \<Rightarrow> throw CL_INVALID_DEVICE
        | Some d \<Rightarrow>
            andThen (reads (\<lambda>s. length (cl_queues s))) (\<lambda>q.
            andThen (modify (\<lambda>s. s\<lparr>cl_queues := cl_queues s @
              [Some \<lparr>q_ctx = c, q_device = d, q_tgx = None, q_events = []\<rparr>]\<rparr>)) (\<lambda>_.
            andThen (object cl_contexts c) (\<lambda>cx.
            andThen (put_context c (cx\<lparr>c_queue := Some q\<rparr>)) (\<lambda>_.
            andThen (forEach (c_devices cx) (set_queue q)) (\<lambda>_.
            ret q)))))))"

section \<open>Programs\<close>

definition checkDevicesInContext :: "nat \<Rightarrow> nat list \<Rightarrow> nat \<Rightarrow> ('w cl, bool) act" where
  "checkDevicesInContext ctx device_list num_devices =
     foldEach [0..<num_devices] True (\<lambda>i ok.
       if \<not> ok then ret False
       else andThen (object cl_contexts ctx) (\<lambda>cx.
            andThen (at_index device_list i) (\<lambda>d. ret (d \<in> set (c_devices cx)))))"

text \<open>\<^verbatim>\<open>operator[]\<close> of the map of kernel functions: an absent key is bound to zeros.\<close>

definition no_function :: mango_kernel_function where
  "no_function = \<lparr>mf_device = None, mf_function = None, mf_in = [], mf_out = []\<rparr>"

definition function_at :: "u64 \<Rightarrow> cl_program \<Rightarrow> mango_kernel_function" where
  "function_at a p = (case sm_at (p_functions p) a of None \<Rightarrow> no_function | Some f \<Rightarrow> f)"

definition set_function ::
  "u64 \<Rightarrow> (mango_kernel_function \<Rightarrow> mango_kernel_function) \<Rightarrow> cl_program \<Rightarrow> cl_program" where
  "set_function a f p = p\<lparr>p_functions := sm_assign a (f (function_at a p)) (p_functions p)\<rparr>"

text \<open>
  One round of the loop: \<open>None\<close> when the binary does not load. The program is not visible
  to the caller before the end, so it is passed along and stored at the end.
\<close>

definition load_binary ::
  "'w platform \<Rightarrow> nat list \<Rightarrow> c_str option list \<Rightarrow> nat \<Rightarrow> cl_program \<Rightarrow> ('w cl, cl_program option) act" where
  "load_binary P device_list binaries i program =
     andThen (at_index device_list i) (\<lambda>d.
     andThen (object cl_devices d) (\<lambda>dev.
     andThen (at_index binaries i) (\<lambda>binary.
     andThen (in_host mango_kernelfunction_init) (\<lambda>fr.
     let a = (case binary of None \<Rightarrow> 0 | Some (a, _) \<Rightarrow> a);
         program' = set_function a (\<lambda>f. f\<lparr>mf_function := Some fr, mf_device := Some d\<rparr>) program in
     andThen (in_host (mango_load_kernel P (map_option snd binary) (Some fr) (d_type dev) BINARY)) (\<lambda>err.
     ret (if err = SUCCESS then Some program' else None))))))"

text \<open>
  The statuses the loop stores, in the order of the devices; \<open>Inl\<close> is the thrown code.
\<close>

definition load_binaries ::
  "'w platform \<Rightarrow> nat list \<Rightarrow> c_str option list \<Rightarrow> nat \<Rightarrow> cl_program \<Rightarrow>
     ('w cl, cl_program option \<times> int list) act" where
  "load_binaries P device_list binaries n program =
     foldEach [0..<n] (Some program, []) (\<lambda>i (p, st).
       case p of None \<Rightarrow> ret (None, st)
       | Some p \<Rightarrow>
           andThen (load_binary P device_list binaries i p) (\<lambda>p'.
           ret (p', st @ [if p' = None then CL_INVALID_BINARY else CL_SUCCESS])))"

definition cl_create_program_with_binary ::
  "'w platform \<Rightarrow> nat option \<Rightarrow> u32 \<Rightarrow> nat list option \<Rightarrow> c_str option list option \<Rightarrow>
     ('w cl, (int + nat) \<times> int list) act" where
  "cl_create_program_with_binary P context num_devices device_list binaries =
     (case context of None \<Rightarrow> ret (Inl CL_INVALID_CONTEXT, [])
      | Some c \<Rightarrow>
          if device_list = None \<or> num_devices = 0 then ret (Inl CL_INVALID_DEVICE, [])
          else
            andThen (checkDevicesInContext c (the device_list) (unat num_devices)) (\<lambda>inside.
            if \<not> inside then ret (Inl CL_INVALID_DEVICE, [])
            else
              (case binaries of None \<Rightarrow> ret (Inl CL_INVALID_VALUE, [CL_INVALID_VALUE])
               | Some bs \<Rightarrow>
                   andThen (load_binaries P (the device_list) bs (unat num_devices)
                              \<lparr>p_ctx = c, p_functions = []\<rparr>) (\<lambda>(p, st).
                   case p of None \<Rightarrow> ret (Inl CL_INVALID_BINARY, st)
                   | Some program \<Rightarrow>
                       andThen (reads (\<lambda>s. length (cl_programs s))) (\<lambda>r.
                       andThen (modify (\<lambda>s. s\<lparr>cl_programs := cl_programs s @ [Some program]\<rparr>)) (\<lambda>_.
                       andThen (object cl_contexts c) (\<lambda>cx.
                       andThen (put_context c (cx\<lparr>c_program := Some r\<rparr>)) (\<lambda>_.
                       ret (Inr r, st)))))))))"

section \<open>Kernels\<close>

definition cl_create_kernel ::
  "'w platform \<Rightarrow> nat option \<Rightarrow> c_str option \<Rightarrow> int \<Rightarrow> ('w cl, nat) act" where
  "cl_create_kernel P program binary_path kernel_id =
     (case program of None \<Rightarrow> throw CL_INVALID_PROGRAM
      | Some pr \<Rightarrow> (case binary_path of None \<Rightarrow> throw CL_INVALID_VALUE
        | Some (a, _) \<Rightarrow>
            andThen (object cl_programs pr) (\<lambda>p.
            if p_functions p = [] then throw CL_INVALID_PROGRAM_EXECUTABLE
            else if sm_at (p_functions p) a = None then throw CL_INVALID_KERNEL_NAME
            else
              (let kern_funct = function_at a p in
               andThen (in_host (mango_register_kernel_with_buffers P (of_int kernel_id)
                  (mf_function kern_funct) (Some (mf_in kern_funct)) (Some (mf_out kern_funct)))) (\<lambda>k.
               andThen (reads (\<lambda>s. length (cl_kernels s))) (\<lambda>r.
               andThen (modify (\<lambda>s. s\<lparr>cl_kernels := cl_kernels s @
                 [Some \<lparr>kn_device = mf_device kern_funct, kn_program = pr, kn_kernel = k,
                   kn_id = of_int kernel_id, kn_args = []\<rparr>]\<rparr>)) (\<lambda>_.
               andThen (from_option Bad_pointer (mf_device kern_funct)) (\<lambda>d.
               andThen (object cl_devices d) (\<lambda>dev.
               andThen (from_option Bad_pointer (d_queue dev)) (\<lambda>q.
               andThen (object cl_queues q) (\<lambda>qu.
               andThen (in_host (mango_task_graph_add_kernel (q_tgx qu) (Some k))) (\<lambda>g.
               andThen (put_queue q (qu\<lparr>q_tgx := Some g\<rparr>)) (\<lambda>_.
               ret r))))))))))))) "

section \<open>Buffers\<close>

definition extractKernelIDs :: "nat list option \<Rightarrow> int \<Rightarrow> ('w cl, u32 list) act" where
  "extractKernelIDs kernels num_kernels =
     mapEach [0..<nat num_kernels] (\<lambda>i.
       andThen (from_option Bad_pointer kernels) (\<lambda>ks.
       andThen (at_index ks i) (\<lambda>k.
       andThen (object cl_kernels k) (\<lambda>kn. ret (kn_kernel kn)))))"

definition register_mem ::
  "'w platform \<Rightarrow> u64 \<Rightarrow> u64 \<Rightarrow> u32 \<Rightarrow> u32 list \<Rightarrow> u32 list \<Rightarrow> ('w cl, u32) act" where
  "register_mem P flags sz buffer_id ins outs =
     (if flags AND CL_MEM_READ_WRITE = CL_MEM_READ_WRITE
      then if ins = [] \<or> outs = [] then throw CL_INVALID_VALUE
           else andThen (in_host (mango_register_memory_with_kernels P buffer_id sz C_BUFFER (Some ins) (Some outs)))
                  (\<lambda>(b, _). ret b)
      else if flags AND CL_MEM_WRITE_ONLY = CL_MEM_WRITE_ONLY
      then if ins = [] then throw CL_INVALID_VALUE
           else andThen (in_host (mango_register_memory_with_kernels P buffer_id sz C_BUFFER (Some ins) None))
                  (\<lambda>(b, _). ret b)
      else if outs = [] then throw CL_INVALID_VALUE
           else andThen (in_host (mango_register_memory_with_kernels P buffer_id sz C_BUFFER None (Some outs)))
                  (\<lambda>(b, _). ret b))"

definition cl_create_buffer ::
  "'w platform \<Rightarrow> nat option \<Rightarrow> u64 \<Rightarrow> u64 \<Rightarrow> u64 \<Rightarrow> int \<Rightarrow> nat list option \<Rightarrow> int \<Rightarrow> nat list option
     \<Rightarrow> int \<Rightarrow> ('w cl, nat) act" where
  "cl_create_buffer P context flags sz host_ptr num_kernels_in kernels_in num_kernels_out kernels_out buffer_id =
     (case context of None \<Rightarrow> throw CL_INVALID_CONTEXT
      | Some c \<Rightarrow>
          if flags AND (CL_MEM_READ_WRITE OR CL_MEM_WRITE_ONLY OR CL_MEM_READ_ONLY) = 0
          then throw CL_INVALID_VALUE
          else if sz = 0 then throw CL_INVALID_BUFFER_SIZE
          else
            andThen (extractKernelIDs kernels_in num_kernels_in) (\<lambda>ins.
            andThen (extractKernelIDs kernels_out num_kernels_out) (\<lambda>outs.
            andThen (register_mem P flags sz (of_int buffer_id) ins outs) (\<lambda>buf.
            andThen (reads (\<lambda>s. length (cl_mems s))) (\<lambda>r.
            andThen (modify (\<lambda>s. s\<lparr>cl_mems := cl_mems s @
              [Some \<lparr>m_ctx = c, m_buffer = buf, m_id = of_int buffer_id, m_type = CL_MEM_OBJECT_BUFFER,
                m_host_ptr = host_ptr, m_flags = flags, m_size = sz\<rparr>]\<rparr>)) (\<lambda>_.
            andThen (object cl_contexts c) (\<lambda>cx.
            andThen (from_option Bad_pointer (c_queue cx)) (\<lambda>q.
            andThen (object cl_queues q) (\<lambda>qu.
            andThen (in_host (mango_task_graph_add_buffer (q_tgx qu) (Some buf))) (\<lambda>g.
            andThen (put_queue q (qu\<lparr>q_tgx := Some g\<rparr>)) (\<lambda>_.
            andThen (put_context c (cx\<lparr>c_mems := c_mems cx @ [r]\<rparr>)) (\<lambda>_.
            ret r))))))))))))"

end
