(* ===== verification/CL_Commands.thy ===== *)
theory CL_Commands
  imports CL_Objects
begin

text \<open>
  Commands (\<^verbatim>\<open>clEvent.cpp\<close>, \<^verbatim>\<open>clEnqueue.cpp\<close>, \<^verbatim>\<open>clCommandQueue.cpp\<close>,
  \<^verbatim>\<open>clKernel.cpp\<close>) and the allocation and release calls of \<^verbatim>\<open>cl.cpp\<close>. The host memory
  behind a pointer is a list of bytes; a read gives it as it is afterwards.
\<close>

section \<open>Waiting\<close>

definition status_for :: "u32 \<Rightarrow> event_status" where
  "status_for t = (if t = CL_COMMAND_READ_BUFFER then READ
     else if t = CL_COMMAND_WRITE_BUFFER then WRITE else END_FIFO_OPERATION)"

definition wait_one :: "'w platform \<Rightarrow> nat \<Rightarrow> ('w cl, unit) act" where
  "wait_one P r =
     andThen (object cl_events r) (\<lambda>e.
       if e_status e \<noteq> LOCK then ret ()
       else
         andThen (in_host
           (if e_type e = CL_COMMAND_READ_BUFFER then mango_wait_state P (e_ev e) (status_code READ)
            else if e_type e = CL_COMMAND_WRITE_BUFFER then mango_wait_state P (e_ev e) (status_code WRITE)
            else mango_wait_h P (e_ev e))) (\<lambda>_.
         put_cl_event r (e\<lparr>e_status := status_for (e_type e)\<rparr>)))"

definition cl_wait_for_events :: "'w platform \<Rightarrow> u32 \<Rightarrow> nat option list option \<Rightarrow> ('w cl, int) act" where
  "cl_wait_for_events P num_events event_list =
     (case event_list of None \<Rightarrow> throw CL_INVALID_VALUE
      | Some evs \<Rightarrow>
          if num_events = 0 then throw CL_INVALID_VALUE
          else
            andThen (forEach [0..<unat num_events] (\<lambda>i.
              andThen (at_index evs i) (\<lambda>e.
              case e of None \<Rightarrow> throw CL_INVALID_EVENT | Some r \<Rightarrow> wait_one P r))) (\<lambda>_.
            ret CL_SUCCESS))"

definition clWaitForEvents :: "'w platform \<Rightarrow> u32 \<Rightarrow> nat option list option \<Rightarrow> ('w cl, int) act" where
  "clWaitForEvents P num_events event_list = code_of (cl_wait_for_events P num_events event_list)"

section \<open>Wait lists\<close>

text \<open>The check dereferences every event of the list, a null one included.\<close>

definition checkWaitListInContext :: "nat \<Rightarrow> nat option list \<Rightarrow> nat \<Rightarrow> ('w cl, bool) act" where
  "checkWaitListInContext ctx event_wait_list n =
     foldEach [0..<n] True (\<lambda>i ok.
       if \<not> ok then ret False
       else andThen (at_index event_wait_list i) (\<lambda>e.
            andThen (from_option Bad_pointer e) (\<lambda>r.
            andThen (object cl_events r) (\<lambda>ev. ret (e_ctx ev = ctx)))))"

definition check_wait_list :: "nat \<Rightarrow> u32 \<Rightarrow> nat option list option \<Rightarrow> ('w cl, unit) act" where
  "check_wait_list ctx n wait_list =
     (case wait_list of
        None \<Rightarrow> if 0 < n then throw CL_INVALID_EVENT_WAIT_LIST else ret ()
      | Some evs \<Rightarrow>
          if n = 0 then throw CL_INVALID_EVENT_WAIT_LIST
          else andThen (checkWaitListInContext ctx evs (unat n)) (\<lambda>inside.
               if inside then ret () else throw CL_INVALID_CONTEXT))"

definition await_list :: "'w platform \<Rightarrow> u32 \<Rightarrow> nat option list option \<Rightarrow> ('w cl, unit) act" where
  "await_list P n wait_list =
     (case wait_list of None \<Rightarrow> ret ()
      | Some evs \<Rightarrow> forEach [0..<unat n] (\<lambda>i.
          andThen (at_index evs i) (\<lambda>e.
          andThen (cl_wait_for_events P 1 (Some [e])) (\<lambda>_. ret ()))))"

section \<open>Enqueuing\<close>

text \<open>The new event goes to the end of the queue; its handle is what \<^verbatim>\<open>event\<close> is set to.\<close>

definition push_event :: "nat \<Rightarrow> u32 \<Rightarrow> u32 \<Rightarrow> ('w cl, nat) act" where
  "push_event q ev t =
     andThen (object cl_queues q) (\<lambda>qu.
     andThen (new_cl_event (q_ctx qu) q ev t) (\<lambda>r.
     andThen (put_queue q (qu\<lparr>q_events := q_events qu @ [r]\<rparr>)) (\<lambda>_.
     ret r)))"

definition cl_enqueue_task ::
  "'w platform \<Rightarrow> nat option \<Rightarrow> nat option \<Rightarrow> u32 \<Rightarrow> nat option list option \<Rightarrow> ('w cl, nat) act" where
  "cl_enqueue_task P command_queue kern n wait_list =
     (case command_queue of None \<Rightarrow> throw CL_INVALID_COMMAND_QUEUE
      | Some q \<Rightarrow> (case kern of None \<Rightarrow> throw CL_INVALID_KERNEL
        | Some k \<Rightarrow>
            andThen (object cl_kernels k) (\<lambda>kn.
            andThen (object cl_queues q) (\<lambda>qu.
            andThen (object cl_programs (kn_program kn)) (\<lambda>p.
            if q_ctx qu \<noteq> p_ctx p then throw CL_INVALID_CONTEXT
            else
              andThen (check_wait_list (q_ctx qu) n wait_list) (\<lambda>_.
              andThen (await_list P n wait_list) (\<lambda>_.
              andThen (in_host (mango_set_args_from_vector P (kn_kernel kn) (Some (kn_args kn)))) (\<lambda>args.
              andThen (in_host (mango_start_kernel P (kn_kernel kn) (Some args) 0)) (\<lambda>ev.
              push_event q ev CL_COMMAND_NDRANGE_KERNEL)))))))))"

definition cl_enqueue_write_buffer ::
  "'w platform \<Rightarrow> nat option \<Rightarrow> nat option \<Rightarrow> u8 list option \<Rightarrow> u32 \<Rightarrow> nat option list option
     \<Rightarrow> ('w cl, nat) act" where
  "cl_enqueue_write_buffer P command_queue buffer ptr n wait_list =
     (case command_queue of None \<Rightarrow> throw CL_INVALID_COMMAND_QUEUE
      | Some q \<Rightarrow> (case buffer of None \<Rightarrow> throw CL_INVALID_MEM_OBJECT
        | Some b \<Rightarrow> (case ptr of None \<Rightarrow> throw CL_INVALID_VALUE
          | Some mem \<Rightarrow>
            andThen (object cl_queues q) (\<lambda>qu.
            andThen (object cl_mems b) (\<lambda>m.
            if q_ctx qu \<noteq> m_ctx m then throw CL_INVALID_CONTEXT
            else
              andThen (check_wait_list (q_ctx qu) n wait_list) (\<lambda>_.
              andThen (await_list P n wait_list) (\<lambda>_.
              andThen (in_host (mango_write P (Some mem) (m_buffer m) DIRECT 0)) (\<lambda>ev.
              push_event q ev CL_COMMAND_WRITE_BUFFER))))))))"

definition cl_enqueue_read_buffer ::
  "'w platform \<Rightarrow> nat option \<Rightarrow> nat option \<Rightarrow> u8 list option \<Rightarrow> u32 \<Rightarrow> nat option list option
     \<Rightarrow> ('w cl, nat \<times> u8 list) act" where
  "cl_enqueue_read_buffer P command_queue buffer ptr n wait_list =
     (case command_queue of None \<Rightarrow> throw CL_INVALID_COMMAND_QUEUE
      | Some q \<Rightarrow> (case buffer of None \<Rightarrow> throw CL_INVALID_MEM_OBJECT
        | Some b \<Rightarrow> (case ptr of None \<Rightarrow> throw CL_INVALID_VALUE
          | Some room \<Rightarrow>
            andThen (object cl_queues q) (\<lambda>qu.
            andThen (object cl_mems b) (\<lambda>m.
            if q_ctx qu \<noteq> m_ctx m then throw CL_INVALID_CONTEXT
            else
              andThen (check_wait_list (q_ctx qu) n wait_list) (\<lambda>_.
              andThen (await_list P n wait_list) (\<lambda>_.
              andThen (in_host (mango_read P (Some room) (m_buffer m) DIRECT 0)) (\<lambda>(ev, mem).
              andThen (push_event q ev CL_COMMAND_READ_BUFFER) (\<lambda>r. ret (r, mem))))))))))"

text \<open>
  The calls of \<^verbatim>\<open>cl.cpp\<close>: the error code with the event, or the code alone. The flags of
  blocking transfers, the offset and the size are not used by the code.
\<close>

definition event_of :: "('s, 'a) act \<Rightarrow> ('s, int \<times> 'a option) act" where
  "event_of m = catch_cl (andThen m (\<lambda>r. ret (CL_SUCCESS, Some r))) (\<lambda>e. ret (e, None))"

definition clEnqueueTask ::
  "'w platform \<Rightarrow> nat option \<Rightarrow> nat option \<Rightarrow> u32 \<Rightarrow> nat option list option \<Rightarrow> ('w cl, int \<times> nat option) act" where
  "clEnqueueTask P command_queue kern n wait_list = event_of (cl_enqueue_task P command_queue kern n wait_list)"

definition clEnqueueNDRangeKernel ::
  "'w platform \<Rightarrow> nat option \<Rightarrow> nat option \<Rightarrow> u32 \<Rightarrow> nat option list option \<Rightarrow> ('w cl, int \<times> nat option) act" where
  "clEnqueueNDRangeKernel P command_queue kern n wait_list =
     catch_cl (clEnqueueTask P command_queue kern n wait_list) (\<lambda>e. ret (e, None))"

definition clEnqueueWriteBuffer ::
  "'w platform \<Rightarrow> nat option \<Rightarrow> nat option \<Rightarrow> u8 list option \<Rightarrow> u32 \<Rightarrow> nat option list option
     \<Rightarrow> ('w cl, int \<times> nat option) act" where
  "clEnqueueWriteBuffer P command_queue buffer ptr n wait_list =
     event_of (cl_enqueue_write_buffer P command_queue buffer ptr n wait_list)"

definition clEnqueueReadBuffer ::
  "'w platform \<Rightarrow> nat option \<Rightarrow> nat option \<Rightarrow> u8 list option \<Rightarrow> u32 \<Rightarrow> nat option list option
     \<Rightarrow> ('w cl, int \<times> (nat \<times> u8 list) option) act" where
  "clEnqueueReadBuffer P command_queue buffer ptr n wait_list =
     event_of (cl_enqueue_read_buffer P command_queue buffer ptr n wait_list)"

section \<open>Finishing a queue\<close>

definition finish_round :: "'w platform \<Rightarrow> nat \<Rightarrow> ('w cl, int) act" where
  "finish_round P q =
     andThen (object cl_queues q) (\<lambda>qu.
     andThen (if q_events qu = [] then fail Out_of_bounds else ret (last (q_events qu))) (\<lambda>topEv.
     andThen (clWaitForEvents P 1 (Some [Some topEv])) (\<lambda>err.
       if err \<noteq> CL_SUCCESS then ret err
       else
         andThen (object cl_queues q) (\<lambda>qu.
         andThen (put_queue q (qu\<lparr>q_events := butlast (q_events qu)\<rparr>)) (\<lambda>_.
         ret CL_SUCCESS)))))"

definition cl_finish :: "'w platform \<Rightarrow> nat option \<Rightarrow> ('w cl, int) act" where
  "cl_finish P command_queue =
     (case command_queue of None \<Rightarrow> ret CL_INVALID_COMMAND_QUEUE
      | Some q \<Rightarrow>
          andThen (object cl_queues q) (\<lambda>qu.
          foldEach [0..<length (q_events qu)] CL_SUCCESS (\<lambda>_ err.
            if err \<noteq> CL_SUCCESS then ret err else finish_round P q)))"

definition clFinish :: "'w platform \<Rightarrow> nat option \<Rightarrow> ('w cl, int) act" where
  "clFinish P command_queue = cl_finish P command_queue"

section \<open>Kernel arguments\<close>

text \<open>
  What \<^verbatim>\<open>arg_value\<close> points to: bytes, a buffer handle, or an event handle to be set; read
  as something else it is an invalid pointer. A null handle is an index without object.
\<close>

datatype arg_value = Arg_bytes "u8 list" | Arg_mem nat | Arg_event

definition scalar_size :: "u64 \<Rightarrow> u64" where
  "scalar_size sz = (if sz = 4 then 4 else if sz = 8 then 8 else if sz = 2 then 2 else 4)"

definition event_arg_object :: "'w platform \<Rightarrow> cl_kernel \<Rightarrow> u32 \<Rightarrow> ('w cl, nat \<times> u32) act" where
  "event_arg_object P kn arg_index =
     andThen (from_option Bad_pointer (kn_device kn)) (\<lambda>d.
     andThen (object cl_devices d) (\<lambda>dev.
     andThen (from_option Bad_pointer (d_queue dev)) (\<lambda>q.
     andThen (object cl_queues q) (\<lambda>qu.
     andThen (at_index (kn_args kn) (unat arg_index)) (\<lambda>ar.
     andThen (in_host (fetch hargs ar)) (\<lambda>a.
     andThen (in_host (mango_get_buffer_event (a_id a))) (\<lambda>ev.
     andThen (new_cl_event (q_ctx qu) q ev CL_EVENT_ARG) (\<lambda>r.
     ret (r, ev)))))))))"

definition cl_set_kernel_arg ::
  "'w platform \<Rightarrow> nat option \<Rightarrow> u32 \<Rightarrow> u64 \<Rightarrow> arg_value option \<Rightarrow> u32 \<Rightarrow> ('w cl, int \<times> nat option) act" where
  "cl_set_kernel_arg P kern arg_index arg_size arg_value arg_type =
     (case kern of None \<Rightarrow> throw CL_INVALID_KERNEL
      | Some k \<Rightarrow>
          if arg_size = 0 then throw CL_INVALID_ARG_SIZE
          else if arg_value = None then throw CL_INVALID_ARG_VALUE
          else
            andThen (object cl_kernels k) (\<lambda>kn.
            andThen
              (if arg_type = CL_SCALAR_ARG
               then (case the arg_value of
                       Arg_bytes bs \<Rightarrow> ret (bs, scalar_size arg_size, C_SCALAR, None)
                     | _ \<Rightarrow> fail Bad_pointer)
               else if arg_type = CL_BUFFER_ARG
               then (case the arg_value of
                       Arg_mem b \<Rightarrow> andThen (object cl_mems b) (\<lambda>m.
                         ret (word_bytes (m_buffer m), 8, C_BUFFER, None))
                     | _ \<Rightarrow> fail Bad_pointer)
               else if arg_type = CL_EVENT_ARG
               then (case the arg_value of
                       Arg_event \<Rightarrow> andThen (event_arg_object P kn arg_index) (\<lambda>(r, ev).
                         ret (word_bytes ev, 8, C_EVENT, Some r))
                     | _ \<Rightarrow> fail Bad_pointer)
               else throw CL_INVALID_VALUE) (\<lambda>(value, sz, t, ev).
            andThen (in_host (mango_arg P (kn_kernel kn) (Some value) sz t)) (\<lambda>ar.
            andThen (put_cl_kernel k (kn\<lparr>kn_args := kn_args kn @ [ar]\<rparr>)) (\<lambda>_.
            ret (CL_SUCCESS, ev))))))"

definition clSetKernelArg ::
  "'w platform \<Rightarrow> nat option \<Rightarrow> u32 \<Rightarrow> u64 \<Rightarrow> arg_value option \<Rightarrow> u32 \<Rightarrow> ('w cl, int \<times> nat option) act" where
  "clSetKernelArg P kern arg_index arg_size arg_value arg_type =
     catch_cl (cl_set_kernel_arg P kern arg_index arg_size arg_value arg_type) (\<lambda>e. ret (e, None))"

section \<open>The remaining calls of cl.cpp\<close>

definition clGetDeviceIDs :: "u64 \<Rightarrow> u32 \<Rightarrow> bool \<Rightarrow> bool \<Rightarrow> ('w cl, int \<times> nat list option \<times> u32 option) act" where
  "clGetDeviceIDs device_type num_entries devices num_devices =
     cl_get_device_ids device_type num_entries devices num_devices"

definition clCreateContext ::
  "'w platform \<Rightarrow> process \<Rightarrow> u32 \<Rightarrow> nat list option \<Rightarrow> string option \<Rightarrow> bool \<Rightarrow> ('w cl, nat option \<times> int option) act" where
  "clCreateContext P p num_devices devices user_data errcode_ret =
     handle_of errcode_ret (cl_create_context P p num_devices devices user_data)"

definition clCreateContextFromType ::
  "'w platform \<Rightarrow> process \<Rightarrow> u64 \<Rightarrow> string option \<Rightarrow> bool \<Rightarrow> ('w cl, nat option \<times> int option) act" where
  "clCreateContextFromType P p device_type user_data errcode_ret =
     handle_of errcode_ret (cl_create_context_from_type P p device_type user_data)"

definition clCreateCommandQueue ::
  "nat option \<Rightarrow> nat option \<Rightarrow> bool \<Rightarrow> ('w cl, nat option \<times> int option) act" where
  "clCreateCommandQueue context device errcode_ret =
     handle_of errcode_ret (cl_create_command_queue context device)"

definition clCreateBuffer ::
  "'w platform \<Rightarrow> nat option \<Rightarrow> u64 \<Rightarrow> u64 \<Rightarrow> u64 \<Rightarrow> int \<Rightarrow> nat list option \<Rightarrow> int \<Rightarrow> nat list option
     \<Rightarrow> int \<Rightarrow> bool \<Rightarrow> ('w cl, nat option \<times> int option) act" where
  "clCreateBuffer P context flags sz host_ptr nin kin nout kout buffer_id errcode_ret =
     handle_of errcode_ret (cl_create_buffer P context flags sz host_ptr nin kin nout kout buffer_id)"

definition clCreateProgramWithBinary ::
  "'w platform \<Rightarrow> nat option \<Rightarrow> u32 \<Rightarrow> nat list option \<Rightarrow> c_str option list option \<Rightarrow> bool \<Rightarrow>
     ('w cl, nat option \<times> int option \<times> int list) act" where
  "clCreateProgramWithBinary P context num_devices device_list binaries errcode_ret =
     andThen (cl_create_program_with_binary P context num_devices device_list binaries) (\<lambda>(r, st).
     ret (case r of Inl e \<Rightarrow> (None, if errcode_ret then Some e else None, st)
          | Inr p \<Rightarrow> (Some p, if errcode_ret then Some CL_SUCCESS else None, st)))"

definition clCreateKernel ::
  "'w platform \<Rightarrow> nat option \<Rightarrow> c_str option \<Rightarrow> int \<Rightarrow> bool \<Rightarrow> ('w cl, nat option \<times> int option) act" where
  "clCreateKernel P program kernel_name kernel_id errcode_ret =
     handle_of errcode_ret (cl_create_kernel P program kernel_name kernel_id)"

text \<open>Releasing: \<^verbatim>\<open>delete\<close> of a null pointer does nothing.\<close>

definition clReleaseDevice :: "nat option \<Rightarrow> ('w cl, int) act" where
  "clReleaseDevice device =
     andThen (case device of None \<Rightarrow> ret ()
       | Some d \<Rightarrow> delete cl_devices (\<lambda>r s. s\<lparr>cl_devices := (cl_devices s)[r := None]\<rparr>) d) (\<lambda>_.
     ret CL_SUCCESS)"

definition clReleaseContext :: "'w platform \<Rightarrow> nat option \<Rightarrow> ('w cl, int) act" where
  "clReleaseContext P context =
     (case context of None \<Rightarrow> ret CL_INVALID_CONTEXT
      | Some c \<Rightarrow>
          andThen (in_host (mango_release P)) (\<lambda>res.
          if res \<noteq> SUCCESS then ret CL_OUT_OF_RESOURCES
          else
            andThen (delete cl_contexts (\<lambda>r s. s\<lparr>cl_contexts := (cl_contexts s)[r := None]\<rparr>) c) (\<lambda>_.
            ret CL_SUCCESS)))"

text \<open>The queue's task graph is deleted by the host library and then again.\<close>

definition clReleaseCommandQueue :: "nat option \<Rightarrow> ('w cl, int) act" where
  "clReleaseCommandQueue command_queue =
     (case command_queue of None \<Rightarrow> ret CL_INVALID_COMMAND_QUEUE
      | Some q \<Rightarrow>
          andThen (object cl_queues q) (\<lambda>qu.
          andThen (in_host (mango_resource_deallocation (q_tgx qu))) (\<lambda>_.
          andThen (in_host (mango_task_graph_destroy_all (q_tgx qu))) (\<lambda>_.
          andThen (in_host (mango_task_graph_destroy_all (q_tgx qu))) (\<lambda>_.
          andThen (delete cl_queues (\<lambda>r s. s\<lparr>cl_queues := (cl_queues s)[r := None]\<rparr>) q) (\<lambda>_.
          ret CL_SUCCESS))))))"

definition clReleaseMemObject :: "nat option \<Rightarrow> ('w cl, int) act" where
  "clReleaseMemObject memobj =
     (case memobj of None \<Rightarrow> ret CL_INVALID_MEM_OBJECT
      | Some b \<Rightarrow>
          andThen (object cl_mems b) (\<lambda>m.
          andThen (in_host (mango_deregister_memory (m_buffer m))) (\<lambda>_.
          andThen (delete cl_mems (\<lambda>r s. s\<lparr>cl_mems := (cl_mems s)[r := None]\<rparr>) b) (\<lambda>_.
          ret CL_SUCCESS))))"

definition clReleaseProgram :: "nat option \<Rightarrow> ('w cl, int) act" where
  "clReleaseProgram program =
     (case program of None \<Rightarrow> ret CL_INVALID_PROGRAM
      | Some p \<Rightarrow> andThen (delete cl_programs (\<lambda>r s. s\<lparr>cl_programs := (cl_programs s)[r := None]\<rparr>) p) (\<lambda>_.
          ret CL_SUCCESS))"

definition clReleaseKernel :: "nat option \<Rightarrow> ('w cl, int) act" where
  "clReleaseKernel kern =
     (case kern of None \<Rightarrow> ret CL_INVALID_KERNEL
      | Some k \<Rightarrow> andThen (delete cl_kernels (\<lambda>r s. s\<lparr>cl_kernels := (cl_kernels s)[r := None]\<rparr>) k) (\<lambda>_.
          ret CL_SUCCESS))"

definition clReleaseEvent :: "nat option \<Rightarrow> ('w cl, int) act" where
  "clReleaseEvent event =
     andThen (case event of None \<Rightarrow> ret ()
       | Some e \<Rightarrow> delete cl_events (\<lambda>r s. s\<lparr>cl_events := (cl_events s)[r := None]\<rparr>) e) (\<lambda>_.
     ret CL_SUCCESS)"

text \<open>
  The buffer ids of a kernel function. A null program is dereferenced; the functions fall
  off their end without a \<^verbatim>\<open>return\<close>, so they give no value.
\<close>

definition MAX_NUM_KERNEL_BUFFERS :: nat where "MAX_NUM_KERNEL_BUFFERS = 10"

definition clSetInputBufferIDs :: "nat option \<Rightarrow> c_str option \<Rightarrow> u32 list \<Rightarrow> ('w cl, unit) act" where
  "clSetInputBufferIDs program binary ids =
     andThen (assert_that (binary \<noteq> None)) (\<lambda>_.
     andThen (assert_that (length ids < MAX_NUM_KERNEL_BUFFERS)) (\<lambda>_.
     andThen (from_option Bad_pointer program) (\<lambda>pr.
     andThen (object cl_programs pr) (\<lambda>p.
     put_program pr (set_function (fst (the binary)) (\<lambda>f. f\<lparr>mf_in := ids\<rparr>) p)))))"

definition clSetOutputBufferIDs :: "nat option \<Rightarrow> c_str option \<Rightarrow> u32 list \<Rightarrow> ('w cl, unit) act" where
  "clSetOutputBufferIDs program binary ids =
     andThen (assert_that (binary \<noteq> None)) (\<lambda>_.
     andThen (assert_that (length ids < MAX_NUM_KERNEL_BUFFERS)) (\<lambda>_.
     andThen (from_option Bad_pointer program) (\<lambda>pr.
     andThen (object cl_programs pr) (\<lambda>p.
     put_program pr (set_function (fst (the binary)) (\<lambda>f. f\<lparr>mf_out := ids\<rparr>) p)))))"

definition clKernelAndBufferAllocation :: "'w platform \<Rightarrow> nat option \<Rightarrow> ('w cl, int) act" where
  "clKernelAndBufferAllocation P command_queue =
     andThen (from_option Bad_pointer command_queue) (\<lambda>q.
     andThen (object cl_queues q) (\<lambda>qu.
     andThen (in_host (mango_task_graph_add_event (q_tgx qu) None)) (\<lambda>g.
     andThen (put_queue q (qu\<lparr>q_tgx := Some g\<rparr>)) (\<lambda>_.
     andThen (in_host (mango_resource_allocation P (Some g))) (\<lambda>err.
     ret (if err = SUCCESS then CL_SUCCESS else CL_OUT_OF_RESOURCES))))))"

end
