(* ===== verification/CL_Info.thy ===== *)
theory CL_Info
  imports CL_Commands
begin

text \<open>
  The queries of the OpenCL layer: \<^verbatim>\<open>cl_get_device_info\<close>, \<^verbatim>\<open>cl_get_context_info\<close>,
  \<^verbatim>\<open>cl_get_command_queue_info\<close>, \<^verbatim>\<open>cl_get_program_info\<close>, \<^verbatim>\<open>cl_get_kernel_info\<close>,
  \<^verbatim>\<open>cl_get_event_info\<close>, \<^verbatim>\<open>cl_get_mem_object_info\<close>. They share the tail that compares the
  caller's room with the size of the answer and copies it.
\<close>

section \<open>Answers\<close>

text \<open>An answer is an array of handles or a number of 4 or 8 bytes; a handle has 8 bytes.\<close>

datatype info = Handles "nat option list" | Uint u32 | Ulong u64

fun info_size :: "info \<Rightarrow> u64" where
  "info_size (Handles hs) = 8 * of_nat (length hs)"
| "info_size (Uint _) = 4"
| "info_size (Ulong _) = 8"

text \<open>
  What a query leaves: the code, what was copied to \<^verbatim>\<open>param_value\<close> and what was stored at
  \<^verbatim>\<open>param_value_size_ret\<close>. \<open>value\<close> and \<open>size_ret\<close> say whether the pointers are given.
\<close>

record answer =
  an_code :: int
  an_copied :: "info option"
  an_size :: "u64 option"

definition refuse :: "int \<Rightarrow> answer" where
  "refuse e = \<lparr>an_code = e, an_copied = None, an_size = None\<rparr>"

record request =
  rq_name :: u32
  rq_room :: u64
  rq_value :: bool
  rq_size_ret :: bool

definition give :: "request \<Rightarrow> info \<Rightarrow> answer" where
  "give rq i =
     (if rq_value rq \<and> rq_room rq < info_size i then refuse CL_INVALID_VALUE
      else \<lparr>an_code = CL_SUCCESS,
             an_copied = (if rq_value rq \<and> rq_room rq \<noteq> 0 then Some i else None),
             an_size = (if rq_size_ret rq then Some (info_size i) else None)\<rparr>)"

definition cl_get_device_info :: "nat option \<Rightarrow> request \<Rightarrow> ('w cl, answer) act" where
  "cl_get_device_info device rq =
     (case device of None \<Rightarrow> ret (refuse CL_INVALID_DEVICE)
      | Some d \<Rightarrow>
          if rq_name rq = CL_DEVICE_TYPE
          then andThen (object cl_devices d) (\<lambda>dev. ret (give rq (Uint (of_nat (c_unit_code (d_type dev))))))
          else ret (refuse CL_INVALID_VALUE))"

definition cl_get_context_info :: "nat option \<Rightarrow> request \<Rightarrow> ('w cl, answer) act" where
  "cl_get_context_info context rq =
     (case context of None \<Rightarrow> ret (refuse CL_INVALID_CONTEXT)
      | Some c \<Rightarrow>
          if rq_name rq = CL_CONTEXT_DEVICES
          then andThen (object cl_contexts c) (\<lambda>cx. ret (give rq (Handles (map Some (c_devices cx)))))
          else if rq_name rq = CL_CONTEXT_NUM_DEVICES
          then andThen (object cl_contexts c) (\<lambda>cx. ret (give rq (Uint (of_nat (length (c_devices cx))))))
          else ret (refuse CL_INVALID_VALUE))"

definition cl_get_command_queue_info :: "nat option \<Rightarrow> request \<Rightarrow> ('w cl, answer) act" where
  "cl_get_command_queue_info command_queue rq =
     (case command_queue of None \<Rightarrow> ret (refuse CL_INVALID_COMMAND_QUEUE)
      | Some q \<Rightarrow>
          if rq_name rq = CL_QUEUE_CONTEXT
          then andThen (object cl_queues q) (\<lambda>qu. ret (give rq (Handles [Some (q_ctx qu)])))
          else if rq_name rq = CL_QUEUE_DEVICE
          then andThen (object cl_queues q) (\<lambda>qu. ret (give rq (Handles [Some (q_device qu)])))
          else ret (refuse CL_INVALID_VALUE))"

definition cl_get_program_info :: "nat option \<Rightarrow> request \<Rightarrow> ('w cl, answer) act" where
  "cl_get_program_info program rq =
     (case program of None \<Rightarrow> ret (refuse CL_INVALID_PROGRAM)
      | Some pr \<Rightarrow>
          if rq_name rq = CL_PROGRAM_CONTEXT
          then andThen (object cl_programs pr) (\<lambda>p. ret (give rq (Handles [Some (p_ctx p)])))
          else if rq_name rq = CL_PROGRAM_NUM_DEVICES
          then andThen (object cl_programs pr) (\<lambda>p. andThen (object cl_contexts (p_ctx p)) (\<lambda>cx.
               ret (give rq (Uint (of_nat (length (c_devices cx)))))))
          else if rq_name rq = CL_PROGRAM_DEVICES
          then andThen (object cl_programs pr) (\<lambda>p. andThen (object cl_contexts (p_ctx p)) (\<lambda>cx.
               ret (give rq (Handles (map Some (c_devices cx))))))
          else if rq_name rq = CL_PROGRAM_NUM_KERNELS
          then andThen (object cl_programs pr) (\<lambda>p. ret (give rq (Uint (of_nat (length (p_functions p))))))
          else ret (refuse CL_INVALID_VALUE))"

definition cl_get_kernel_info :: "nat option \<Rightarrow> request \<Rightarrow> ('w cl, answer) act" where
  "cl_get_kernel_info kern rq =
     (case kern of None \<Rightarrow> ret (refuse CL_INVALID_KERNEL)
      | Some k \<Rightarrow>
          if rq_name rq = CL_KERNEL_CONTEXT
          then andThen (object cl_kernels k) (\<lambda>kn. andThen (object cl_programs (kn_program kn)) (\<lambda>p.
               ret (give rq (Handles [Some (p_ctx p)]))))
          else if rq_name rq = CL_KERNEL_PROGRAM
          then andThen (object cl_kernels k) (\<lambda>kn. ret (give rq (Handles [Some (kn_program kn)])))
          else if rq_name rq = CL_KERNEL_NUM_ARGS
          then andThen (object cl_kernels k) (\<lambda>kn. ret (give rq (Uint (of_nat (length (kn_args kn))))))
          else ret (refuse CL_INVALID_VALUE))"

definition CL_QUEUED :: u32 where "CL_QUEUED = 3"
definition CL_COMPLETE :: u32 where "CL_COMPLETE = 0"

definition execution_status :: "cl_event \<Rightarrow> u32" where
  "execution_status e = (if e_status e = LOCK then CL_QUEUED else CL_COMPLETE)"

definition cl_get_event_info :: "nat option \<Rightarrow> request \<Rightarrow> ('w cl, answer) act" where
  "cl_get_event_info event rq =
     (case event of None \<Rightarrow> ret (refuse CL_INVALID_EVENT)
      | Some r \<Rightarrow>
          if rq_name rq = CL_EVENT_COMMAND_QUEUE
          then andThen (object cl_events r) (\<lambda>e. ret (give rq (Handles [Some (e_queue e)])))
          else if rq_name rq = CL_EVENT_COMMAND_EXECUTION_STATUS
          then andThen (object cl_events r) (\<lambda>e. ret (give rq (Uint (execution_status e))))
          else if rq_name rq = CL_EVENT_CONTEXT
          then andThen (object cl_events r) (\<lambda>e. ret (give rq (Handles [Some (e_ctx e)])))
          else if rq_name rq = CL_EVENT_COMMAND_TYPE
          then andThen (object cl_events r) (\<lambda>e. ret (give rq (Uint (e_type e))))
          else ret (refuse CL_INVALID_VALUE))"

definition cl_get_mem_object_info :: "nat option \<Rightarrow> request \<Rightarrow> ('w cl, answer) act" where
  "cl_get_mem_object_info memobj rq =
     (case memobj of None \<Rightarrow> ret (refuse CL_INVALID_MEM_OBJECT)
      | Some b \<Rightarrow>
          if rq_name rq \<notin> {CL_MEM_TYPE, CL_MEM_FLAGS, CL_MEM_SIZE, CL_MEM_HOST_PTR, CL_MEM_CONTEXT} then ret (refuse CL_INVALID_VALUE)
          else
            andThen (object cl_mems b) (\<lambda>m.
            ret (give rq
              (if rq_name rq = CL_MEM_TYPE then Uint (m_type m)
               else if rq_name rq = CL_MEM_FLAGS then Ulong (m_flags m)
               else if rq_name rq = CL_MEM_SIZE then Ulong (m_size m)
               else if rq_name rq = CL_MEM_HOST_PTR then Ulong (m_host_ptr m)
               else Handles [Some (m_ctx m)]))))"

text \<open>The wrappers of \<^verbatim>\<open>cl.cpp\<close> pass the queries on, one per kind of object.\<close>

definition clGetDeviceInfo :: "nat option \<Rightarrow> request \<Rightarrow> ('w cl, answer) act" where
  "clGetDeviceInfo d rq = cl_get_device_info d rq"

definition clGetContextInfo :: "nat option \<Rightarrow> request \<Rightarrow> ('w cl, answer) act" where
  "clGetContextInfo c rq = cl_get_context_info c rq"

definition clGetCommandQueueInfo :: "nat option \<Rightarrow> request \<Rightarrow> ('w cl, answer) act" where
  "clGetCommandQueueInfo q rq = cl_get_command_queue_info q rq"

definition clGetProgramInfo :: "nat option \<Rightarrow> request \<Rightarrow> ('w cl, answer) act" where
  "clGetProgramInfo p rq = cl_get_program_info p rq"

definition clGetKernelInfo :: "nat option \<Rightarrow> request \<Rightarrow> ('w cl, answer) act" where
  "clGetKernelInfo k rq = cl_get_kernel_info k rq"

definition clGetEventInfo :: "nat option \<Rightarrow> request \<Rightarrow> ('w cl, answer) act" where
  "clGetEventInfo e rq = cl_get_event_info e rq"

definition clGetMemObjectInfo :: "nat option \<Rightarrow> request \<Rightarrow> ('w cl, answer) act" where
  "clGetMemObjectInfo m rq = cl_get_mem_object_info m rq"

datatype queried =
    Device "nat option" | Context "nat option" | CommandQueue "nat option" | Program "nat option"
  | Kernel "nat option" | Event "nat option" | MemObject "nat option"

fun clGetInfo :: "queried \<Rightarrow> request \<Rightarrow> ('w cl, answer) act" where
  "clGetInfo (Device d) rq = clGetDeviceInfo d rq"
| "clGetInfo (Context c) rq = clGetContextInfo c rq"
| "clGetInfo (CommandQueue q) rq = clGetCommandQueueInfo q rq"
| "clGetInfo (Program p) rq = clGetProgramInfo p rq"
| "clGetInfo (Kernel k) rq = clGetKernelInfo k rq"
| "clGetInfo (Event e) rq = clGetEventInfo e rq"
| "clGetInfo (MemObject m) rq = clGetMemObjectInfo m rq"

lemmas entry_defs =
  clGetDeviceInfo_def clGetContextInfo_def clGetCommandQueueInfo_def clGetProgramInfo_def
  clGetKernelInfo_def clGetEventInfo_def clGetMemObjectInfo_def

section \<open>No query overflows\<close>

text \<open>A well-formed answer: a refusal stores nothing, and what is copied fits the room.\<close>

definition fair :: "request \<Rightarrow> answer \<Rightarrow> bool" where
  "fair rq a \<longleftrightarrow>
     (an_code a \<noteq> CL_SUCCESS \<longrightarrow> an_copied a = None \<and> an_size a = None)
   \<and> (\<forall>i. an_copied a = Some i \<longrightarrow> rq_value rq \<and> info_size i \<le> rq_room rq)
   \<and> (an_code a = CL_SUCCESS \<longrightarrow> (an_size a = None \<longleftrightarrow> \<not> rq_size_ret rq))"

lemma fair_refuse: "e \<noteq> CL_SUCCESS \<Longrightarrow> fair rq (refuse e)"
  by (simp add: fair_def refuse_def)

lemma fair_give: "fair rq (give rq i)"
  by (auto simp: fair_def give_def refuse_def cl_codes not_less)

lemma query_fair:
  assumes "clGetInfo x rq s = Some (Inr a, t)"
  shows "fair rq a" and "t = s"
  using assms
  by (cases x; auto simp: entry_defs cl_get_device_info_def cl_get_context_info_def cl_get_command_queue_info_def
      cl_get_program_info_def cl_get_kernel_info_def cl_get_event_info_def cl_get_mem_object_info_def
      act_simps cl_codes fair_give fair_refuse split: option.splits if_splits)+

end
