(* ===== verification/CL_Stubs.thy ===== *)
theory CL_Stubs
  imports CL_Info
begin

text \<open>
  The entry points of \<^verbatim>\<open>cl.cpp\<close> without an implementation. Each prints a line, which is
  left out, and gives \<^verbatim>\<open>CL_SUCCESS\<close> or a null pointer. Arguments the model has no type
  for (formats, regions, callbacks) are left out too: no body looks at its arguments. An
  answer of a query stores nothing although its code is \<^verbatim>\<open>CL_SUCCESS\<close>; a constructor
  leaves \<^verbatim>\<open>errcode_ret\<close> alone; a command leaves \<^verbatim>\<open>event\<close> alone.
\<close>

definition nothing_stored :: answer where
  "nothing_stored = \<lparr>an_code = CL_SUCCESS, an_copied = None, an_size = None\<rparr>"

section \<open>Platforms, devices, contexts and queues\<close>

definition clGetPlatformIDs :: "u32 \<Rightarrow> bool \<Rightarrow> ('w cl, int) act" where
  "clGetPlatformIDs num_entries num_platforms = ret CL_SUCCESS"

definition clGetPlatformInfo ::
  "nat option \<Rightarrow> request \<Rightarrow> ('w cl, answer) act" where
  "clGetPlatformInfo platform rq = ret nothing_stored"

definition clCreateSubDevices :: "nat option \<Rightarrow> u32 \<Rightarrow> ('w cl, int) act" where
  "clCreateSubDevices in_device num_devices = ret CL_SUCCESS"

definition clRetainDevice :: "nat option \<Rightarrow> ('w cl, int) act" where
  "clRetainDevice device = ret CL_SUCCESS"

definition clRetainContext :: "nat option \<Rightarrow> ('w cl, int) act" where
  "clRetainContext context = ret CL_SUCCESS"

definition clRetainCommandQueue :: "nat option \<Rightarrow> ('w cl, int) act" where
  "clRetainCommandQueue command_queue = ret CL_SUCCESS"

section \<open>Memory objects and samplers\<close>

definition clCreateSubBuffer ::
  "nat option \<Rightarrow> u64 \<Rightarrow> u32 \<Rightarrow> ('w cl, nat option \<times> int option) act" where
  "clCreateSubBuffer buffer flags buffer_create_type = ret (None, None)"

definition clCreateImage ::
  "nat option \<Rightarrow> u64 \<Rightarrow> u64 \<Rightarrow> ('w cl, nat option \<times> int option) act" where
  "clCreateImage context flags host_ptr = ret (None, None)"

definition clRetainMemObject :: "nat option \<Rightarrow> ('w cl, int) act" where
  "clRetainMemObject memobj = ret CL_SUCCESS"

definition clGetSupportedImageFormats ::
  "nat option \<Rightarrow> u64 \<Rightarrow> u32 \<Rightarrow> u32 \<Rightarrow> ('w cl, int) act" where
  "clGetSupportedImageFormats context flags image_type num_entries = ret CL_SUCCESS"

definition clGetImageInfo :: "nat option \<Rightarrow> request \<Rightarrow> ('w cl, answer) act" where
  "clGetImageInfo img rq = ret nothing_stored"

definition clSetMemObjectDestructorCallback :: "nat option \<Rightarrow> ('w cl, int) act" where
  "clSetMemObjectDestructorCallback memobj = ret CL_SUCCESS"

definition clCreateSampler ::
  "nat option \<Rightarrow> bool \<Rightarrow> u32 \<Rightarrow> u32 \<Rightarrow> ('w cl, nat option \<times> int option) act" where
  "clCreateSampler context normalized_coords addressing_mode filter_mode = ret (None, None)"

definition clRetainSampler :: "nat option \<Rightarrow> ('w cl, int) act" where
  "clRetainSampler sampler = ret CL_SUCCESS"

text \<open>No sampler can have been made: a pointer that is not null points to none.\<close>

definition clReleaseSampler :: "nat option \<Rightarrow> ('w cl, int) act" where
  "clReleaseSampler sampler = (case sampler of None \<Rightarrow> ret CL_SUCCESS | Some _ \<Rightarrow> fail Bad_pointer)"

definition clGetSamplerInfo ::
  "nat option \<Rightarrow> request \<Rightarrow> ('w cl, answer) act" where
  "clGetSamplerInfo sampler rq = ret nothing_stored"

section \<open>Programs and kernels\<close>

definition clCreateProgramWithSource ::
  "nat option \<Rightarrow> string list \<Rightarrow> ('w cl, nat option \<times> int option) act" where
  "clCreateProgramWithSource context strings = ret (None, None)"

definition clCreateProgramWithBuiltInKernels ::
  "nat option \<Rightarrow> nat list \<Rightarrow> string \<Rightarrow> ('w cl, nat option \<times> int option) act" where
  "clCreateProgramWithBuiltInKernels context device_list kernel_names = ret (None, None)"

definition clRetainProgram :: "nat option \<Rightarrow> ('w cl, int) act" where
  "clRetainProgram program = ret CL_SUCCESS"

definition clBuildProgram ::
  "nat option \<Rightarrow> nat list \<Rightarrow> string option \<Rightarrow> ('w cl, int) act" where
  "clBuildProgram program device_list options = ret CL_SUCCESS"

definition clCompileProgram ::
  "nat option \<Rightarrow> nat list \<Rightarrow> string option \<Rightarrow> ('w cl, int) act" where
  "clCompileProgram program device_list options = ret CL_SUCCESS"

definition clLinkProgram ::
  "nat option \<Rightarrow> nat list \<Rightarrow> nat list \<Rightarrow> ('w cl, nat option \<times> int option) act" where
  "clLinkProgram context device_list input_programs = ret (None, None)"

definition clUnloadPlatformCompiler :: "nat option \<Rightarrow> ('w cl, int) act" where
  "clUnloadPlatformCompiler platform = ret CL_SUCCESS"

definition clCreateKernelsInProgram ::
  "nat option \<Rightarrow> u32 \<Rightarrow> ('w cl, int) act" where
  "clCreateKernelsInProgram program num_kernels = ret CL_SUCCESS"

definition clRetainKernel :: "nat option \<Rightarrow> ('w cl, int) act" where
  "clRetainKernel kern = ret CL_SUCCESS"

definition clGetKernelArgInfo ::
  "nat option \<Rightarrow> u32 \<Rightarrow> request \<Rightarrow> ('w cl, answer) act" where
  "clGetKernelArgInfo kern arg_indx rq = ret nothing_stored"

definition clGetKernelWorkGroupInfo ::
  "nat option \<Rightarrow> nat option \<Rightarrow> request \<Rightarrow> ('w cl, answer) act" where
  "clGetKernelWorkGroupInfo kern device rq = ret nothing_stored"

section \<open>Events and flushing\<close>

definition clCreateUserEvent ::
  "nat option \<Rightarrow> ('w cl, nat option \<times> int option) act" where
  "clCreateUserEvent context = ret (None, None)"

definition clRetainEvent :: "nat option \<Rightarrow> ('w cl, int) act" where
  "clRetainEvent event = ret CL_SUCCESS"

definition clSetUserEventStatus :: "nat option \<Rightarrow> int \<Rightarrow> ('w cl, int) act" where
  "clSetUserEventStatus event status = ret CL_SUCCESS"

definition clSetEventCallback :: "nat option \<Rightarrow> int \<Rightarrow> ('w cl, int) act" where
  "clSetEventCallback event callback_type = ret CL_SUCCESS"

definition clGetEventProfilingInfo ::
  "nat option \<Rightarrow> request \<Rightarrow> ('w cl, answer) act" where
  "clGetEventProfilingInfo event rq = ret nothing_stored"

definition clFlush :: "nat option \<Rightarrow> ('w cl, int) act" where
  "clFlush command_queue = ret CL_SUCCESS"

section \<open>Commands\<close>

definition clEnqueueReadBufferRect ::
  "nat option \<Rightarrow> nat option \<Rightarrow> u8 list option \<Rightarrow> u32 \<Rightarrow> nat option list option \<Rightarrow> ('w cl, int \<times> nat option) act" where
  "clEnqueueReadBufferRect command_queue buffer ptr n wait_list = ret (CL_SUCCESS, None)"

definition clEnqueueWriteBufferRect ::
  "nat option \<Rightarrow> nat option \<Rightarrow> u8 list option \<Rightarrow> u32 \<Rightarrow> nat option list option \<Rightarrow> ('w cl, int \<times> nat option) act" where
  "clEnqueueWriteBufferRect command_queue buffer ptr n wait_list = ret (CL_SUCCESS, None)"

definition clEnqueueFillBuffer ::
  "nat option \<Rightarrow> nat option \<Rightarrow> u8 list \<Rightarrow> u32 \<Rightarrow> nat option list option \<Rightarrow> ('w cl, int \<times> nat option) act" where
  "clEnqueueFillBuffer command_queue buffer pattern n wait_list = ret (CL_SUCCESS, None)"

definition clEnqueueCopyBuffer ::
  "nat option \<Rightarrow> nat option \<Rightarrow> nat option \<Rightarrow> u32 \<Rightarrow> nat option list option \<Rightarrow> ('w cl, int \<times> nat option) act" where
  "clEnqueueCopyBuffer command_queue src_buffer dst_buffer n wait_list = ret (CL_SUCCESS, None)"

definition clEnqueueCopyBufferRect ::
  "nat option \<Rightarrow> nat option \<Rightarrow> nat option \<Rightarrow> u32 \<Rightarrow> nat option list option \<Rightarrow> ('w cl, int \<times> nat option) act" where
  "clEnqueueCopyBufferRect command_queue src_buffer dst_buffer n wait_list = ret (CL_SUCCESS, None)"

definition clEnqueueMapBuffer ::
  "nat option \<Rightarrow> nat option \<Rightarrow> u32 \<Rightarrow> nat option list option \<Rightarrow> ('w cl, nat option \<times> int option) act" where
  "clEnqueueMapBuffer command_queue buffer n wait_list = ret (None, None)"

definition clEnqueueUnmapMemObject ::
  "nat option \<Rightarrow> nat option \<Rightarrow> u64 \<Rightarrow> u32 \<Rightarrow> nat option list option \<Rightarrow> ('w cl, int \<times> nat option) act" where
  "clEnqueueUnmapMemObject command_queue memobj mapped_ptr n wait_list = ret (CL_SUCCESS, None)"

definition clEnqueueMigrateMemObjects ::
  "nat option \<Rightarrow> nat list \<Rightarrow> u32 \<Rightarrow> nat option list option \<Rightarrow> ('w cl, int \<times> nat option) act" where
  "clEnqueueMigrateMemObjects command_queue mem_objects n wait_list = ret (CL_SUCCESS, None)"

definition clEnqueueNativeKernel ::
  "nat option \<Rightarrow> u32 \<Rightarrow> nat option list option \<Rightarrow> ('w cl, int \<times> nat option) act" where
  "clEnqueueNativeKernel command_queue n wait_list = ret (CL_SUCCESS, None)"

definition clEnqueueMarkerWithWaitList ::
  "nat option \<Rightarrow> u32 \<Rightarrow> nat option list option \<Rightarrow> ('w cl, int \<times> nat option) act" where
  "clEnqueueMarkerWithWaitList command_queue n wait_list = ret (CL_SUCCESS, None)"

definition clEnqueueBarrierWithWaitList ::
  "nat option \<Rightarrow> u32 \<Rightarrow> nat option list option \<Rightarrow> ('w cl, int \<times> nat option) act" where
  "clEnqueueBarrierWithWaitList command_queue n wait_list = ret (CL_SUCCESS, None)"

definition clGetExtensionFunctionAddressForPlatform ::
  "nat option \<Rightarrow> string \<Rightarrow> ('w cl, nat option \<times> int option) act" where
  "clGetExtensionFunctionAddressForPlatform platform func_name = ret (None, None)"

section \<open>All of them\<close>

datatype unimplemented =
    U_GetPlatformIDs u32 bool
  | U_GetPlatformInfo "nat option" request
  | U_CreateSubDevices "nat option" u32
  | U_RetainDevice "nat option"
  | U_RetainContext "nat option"
  | U_RetainCommandQueue "nat option"
  | U_CreateSubBuffer "nat option" u64 u32
  | U_CreateImage "nat option" u64 u64
  | U_RetainMemObject "nat option"
  | U_GetSupportedImageFormats "nat option" u64 u32 u32
  | U_GetImageInfo "nat option" request
  | U_SetMemObjectDestructorCallback "nat option"
  | U_CreateSampler "nat option" bool u32 u32
  | U_RetainSampler "nat option"
  | U_ReleaseSampler "nat option"
  | U_GetSamplerInfo "nat option" request
  | U_CreateProgramWithSource "nat option" "string list"
  | U_CreateProgramWithBuiltInKernels "nat option" "nat list" string
  | U_RetainProgram "nat option"
  | U_BuildProgram "nat option" "nat list" "string option"
  | U_CompileProgram "nat option" "nat list" "string option"
  | U_LinkProgram "nat option" "nat list" "nat list"
  | U_UnloadPlatformCompiler "nat option"
  | U_CreateKernelsInProgram "nat option" u32
  | U_RetainKernel "nat option"
  | U_GetKernelArgInfo "nat option" u32 request
  | U_GetKernelWorkGroupInfo "nat option" "nat option" request
  | U_CreateUserEvent "nat option"
  | U_RetainEvent "nat option"
  | U_SetUserEventStatus "nat option" int
  | U_SetEventCallback "nat option" int
  | U_GetEventProfilingInfo "nat option" request
  | U_Flush "nat option"
  | U_EnqueueReadBufferRect "nat option" "nat option" "u8 list option" u32 "nat option list option"
  | U_EnqueueWriteBufferRect "nat option" "nat option" "u8 list option" u32 "nat option list option"
  | U_EnqueueFillBuffer "nat option" "nat option" "u8 list" u32 "nat option list option"
  | U_EnqueueCopyBuffer "nat option" "nat option" "nat option" u32 "nat option list option"
  | U_EnqueueCopyBufferRect "nat option" "nat option" "nat option" u32 "nat option list option"
  | U_EnqueueMapBuffer "nat option" "nat option" u32 "nat option list option"
  | U_EnqueueUnmapMemObject "nat option" "nat option" u64 u32 "nat option list option"
  | U_EnqueueMigrateMemObjects "nat option" "nat list" u32 "nat option list option"
  | U_EnqueueNativeKernel "nat option" u32 "nat option list option"
  | U_EnqueueMarkerWithWaitList "nat option" u32 "nat option list option"
  | U_EnqueueBarrierWithWaitList "nat option" u32 "nat option list option"
  | U_GetExtensionFunctionAddressForPlatform "nat option" string

primrec run_unimplemented :: "unimplemented \<Rightarrow> ('w cl, unit) act" where
  "run_unimplemented (U_GetPlatformIDs a b) = andThen (clGetPlatformIDs a b) (\<lambda>_. ret ())"
| "run_unimplemented (U_GetPlatformInfo a b) = andThen (clGetPlatformInfo a b) (\<lambda>_. ret ())"
| "run_unimplemented (U_CreateSubDevices a b) = andThen (clCreateSubDevices a b) (\<lambda>_. ret ())"
| "run_unimplemented (U_RetainDevice a) = andThen (clRetainDevice a) (\<lambda>_. ret ())"
| "run_unimplemented (U_RetainContext a) = andThen (clRetainContext a) (\<lambda>_. ret ())"
| "run_unimplemented (U_RetainCommandQueue a) = andThen (clRetainCommandQueue a) (\<lambda>_. ret ())"
| "run_unimplemented (U_CreateSubBuffer a b c) = andThen (clCreateSubBuffer a b c) (\<lambda>_. ret ())"
| "run_unimplemented (U_CreateImage a b c) = andThen (clCreateImage a b c) (\<lambda>_. ret ())"
| "run_unimplemented (U_RetainMemObject a) = andThen (clRetainMemObject a) (\<lambda>_. ret ())"
| "run_unimplemented (U_GetSupportedImageFormats a b c d) = andThen (clGetSupportedImageFormats a b c d) (\<lambda>_. ret ())"
| "run_unimplemented (U_GetImageInfo a b) = andThen (clGetImageInfo a b) (\<lambda>_. ret ())"
| "run_unimplemented (U_SetMemObjectDestructorCallback a) = andThen (clSetMemObjectDestructorCallback a) (\<lambda>_. ret ())"
| "run_unimplemented (U_CreateSampler a b c d) = andThen (clCreateSampler a b c d) (\<lambda>_. ret ())"
| "run_unimplemented (U_RetainSampler a) = andThen (clRetainSampler a) (\<lambda>_. ret ())"
| "run_unimplemented (U_ReleaseSampler a) = andThen (clReleaseSampler a) (\<lambda>_. ret ())"
| "run_unimplemented (U_GetSamplerInfo a b) = andThen (clGetSamplerInfo a b) (\<lambda>_. ret ())"
| "run_unimplemented (U_CreateProgramWithSource a b) = andThen (clCreateProgramWithSource a b) (\<lambda>_. ret ())"
| "run_unimplemented (U_CreateProgramWithBuiltInKernels a b c) = andThen (clCreateProgramWithBuiltInKernels a b c) (\<lambda>_. ret ())"
| "run_unimplemented (U_RetainProgram a) = andThen (clRetainProgram a) (\<lambda>_. ret ())"
| "run_unimplemented (U_BuildProgram a b c) = andThen (clBuildProgram a b c) (\<lambda>_. ret ())"
| "run_unimplemented (U_CompileProgram a b c) = andThen (clCompileProgram a b c) (\<lambda>_. ret ())"
| "run_unimplemented (U_LinkProgram a b c) = andThen (clLinkProgram a b c) (\<lambda>_. ret ())"
| "run_unimplemented (U_UnloadPlatformCompiler a) = andThen (clUnloadPlatformCompiler a) (\<lambda>_. ret ())"
| "run_unimplemented (U_CreateKernelsInProgram a b) = andThen (clCreateKernelsInProgram a b) (\<lambda>_. ret ())"
| "run_unimplemented (U_RetainKernel a) = andThen (clRetainKernel a) (\<lambda>_. ret ())"
| "run_unimplemented (U_GetKernelArgInfo a b c) = andThen (clGetKernelArgInfo a b c) (\<lambda>_. ret ())"
| "run_unimplemented (U_GetKernelWorkGroupInfo a b c) = andThen (clGetKernelWorkGroupInfo a b c) (\<lambda>_. ret ())"
| "run_unimplemented (U_CreateUserEvent a) = andThen (clCreateUserEvent a) (\<lambda>_. ret ())"
| "run_unimplemented (U_RetainEvent a) = andThen (clRetainEvent a) (\<lambda>_. ret ())"
| "run_unimplemented (U_SetUserEventStatus a b) = andThen (clSetUserEventStatus a b) (\<lambda>_. ret ())"
| "run_unimplemented (U_SetEventCallback a b) = andThen (clSetEventCallback a b) (\<lambda>_. ret ())"
| "run_unimplemented (U_GetEventProfilingInfo a b) = andThen (clGetEventProfilingInfo a b) (\<lambda>_. ret ())"
| "run_unimplemented (U_Flush a) = andThen (clFlush a) (\<lambda>_. ret ())"
| "run_unimplemented (U_EnqueueReadBufferRect a b c d e) = andThen (clEnqueueReadBufferRect a b c d e) (\<lambda>_. ret ())"
| "run_unimplemented (U_EnqueueWriteBufferRect a b c d e) = andThen (clEnqueueWriteBufferRect a b c d e) (\<lambda>_. ret ())"
| "run_unimplemented (U_EnqueueFillBuffer a b c d e) = andThen (clEnqueueFillBuffer a b c d e) (\<lambda>_. ret ())"
| "run_unimplemented (U_EnqueueCopyBuffer a b c d e) = andThen (clEnqueueCopyBuffer a b c d e) (\<lambda>_. ret ())"
| "run_unimplemented (U_EnqueueCopyBufferRect a b c d e) = andThen (clEnqueueCopyBufferRect a b c d e) (\<lambda>_. ret ())"
| "run_unimplemented (U_EnqueueMapBuffer a b c d) = andThen (clEnqueueMapBuffer a b c d) (\<lambda>_. ret ())"
| "run_unimplemented (U_EnqueueUnmapMemObject a b c d e) = andThen (clEnqueueUnmapMemObject a b c d e) (\<lambda>_. ret ())"
| "run_unimplemented (U_EnqueueMigrateMemObjects a b c d) = andThen (clEnqueueMigrateMemObjects a b c d) (\<lambda>_. ret ())"
| "run_unimplemented (U_EnqueueNativeKernel a b c) = andThen (clEnqueueNativeKernel a b c) (\<lambda>_. ret ())"
| "run_unimplemented (U_EnqueueMarkerWithWaitList a b c) = andThen (clEnqueueMarkerWithWaitList a b c) (\<lambda>_. ret ())"
| "run_unimplemented (U_EnqueueBarrierWithWaitList a b c) = andThen (clEnqueueBarrierWithWaitList a b c) (\<lambda>_. ret ())"
| "run_unimplemented (U_GetExtensionFunctionAddressForPlatform a b) = andThen (clGetExtensionFunctionAddressForPlatform a b) (\<lambda>_. ret ())"

lemmas stub_defs =
  nothing_stored_def clGetPlatformIDs_def clGetPlatformInfo_def
  clCreateSubDevices_def clRetainDevice_def clRetainContext_def
  clRetainCommandQueue_def clCreateSubBuffer_def clCreateImage_def
  clRetainMemObject_def clGetSupportedImageFormats_def clGetImageInfo_def
  clSetMemObjectDestructorCallback_def clCreateSampler_def clRetainSampler_def
  clReleaseSampler_def clGetSamplerInfo_def clCreateProgramWithSource_def
  clCreateProgramWithBuiltInKernels_def clRetainProgram_def clBuildProgram_def
  clCompileProgram_def clLinkProgram_def clUnloadPlatformCompiler_def
  clCreateKernelsInProgram_def clRetainKernel_def clGetKernelArgInfo_def
  clGetKernelWorkGroupInfo_def clCreateUserEvent_def clRetainEvent_def
  clSetUserEventStatus_def clSetEventCallback_def clGetEventProfilingInfo_def
  clFlush_def clEnqueueReadBufferRect_def clEnqueueWriteBufferRect_def
  clEnqueueFillBuffer_def clEnqueueCopyBuffer_def clEnqueueCopyBufferRect_def
  clEnqueueMapBuffer_def clEnqueueUnmapMemObject_def clEnqueueMigrateMemObjects_def
  clEnqueueNativeKernel_def clEnqueueMarkerWithWaitList_def clEnqueueBarrierWithWaitList_def
  clGetExtensionFunctionAddressForPlatform_def

lemma unimplemented_changes_nothing: "run_unimplemented c s = Some (r, t) \<Longrightarrow> t = s"
  by (cases c) (auto simp: stub_defs act_simps split: option.splits)

end
