(* ===== verification/CL_Reach.thy ===== *)
theory CL_Reach
  imports CL_Stubs
begin

text \<open>
  Programs over the OpenCL layer: the host library underneath stays consistent, whatever
  calls a program makes, because the layer touches it only through the C interface.
\<close>

section \<open>Lifting what the host keeps\<close>

definition host_ok :: "'w cl \<Rightarrow> bool" where
  "host_ok s \<longleftrightarrow> consistent (cl_host s)"

named_theorems lifted \<open>actions of the OpenCL layer that keep the host consistent\<close>

lemma lift_in_host: "keeps consistent m \<Longrightarrow> keeps host_ok (in_host m)"
  by (auto simp: keeps_def host_ok_def act_simps split: option.splits)

lemma lift_modify [lifted]: "(\<And>s. cl_host (f s) = cl_host s) \<Longrightarrow> keeps host_ok (modify f)"
  by (auto simp: keeps_def host_ok_def act_simps)

lemma lift_catch [lifted]:
  assumes "keeps Q m" and "\<And>e. keeps Q (h e)"
  shows "keeps Q (catch_cl m h)"
proof (rule keepsI)
  fix s r t
  assume "Q s" and run: "catch_cl m h s = Some (r, t)"
  then obtain q u where m: "m s = Some (q, u)" by (auto simp: act_simps split: option.splits)
  with \<open>Q s\<close> have "Q u" by (rule keepsD [OF assms(1)])
  with m run show "Q t"
    by (auto simp: act_simps split: sum.splits fault.splits intro: keepsD [OF assms(2)])
qed

lemmas [lifted] = keeps_ret keeps_fail keeps_reads keeps_assert keeps_from_option keeps_lift_sum
  keeps_andThen keeps_forEach keeps_mapEach keeps_foldEach keeps_fetch frame_if frame_option frame_prod

lemma lift_throw [lifted]: "keeps Q (throw e)"
  by (simp add: throw_def keeps_fail)

lemma lift_at_index [lifted]: "keeps Q (at_index xs i)"
  by (auto simp: at_index_def)

lemma lift_object [lifted]: "keeps Q (object sel r)"
  unfolding object_def by (auto intro!: lifted)

lemma lift_delete [lifted]: "(\<And>s. cl_host (drp r s) = cl_host s) \<Longrightarrow> keeps host_ok (delete sel drp r)"
  unfolding delete_def by (auto intro!: lifted)

lemma lift_put [lifted]:
  "keeps host_ok (put_queue r q)" "keeps host_ok (put_context r c)" "keeps host_ok (put_device r d)"
  "keeps host_ok (put_program r p)" "keeps host_ok (put_cl_kernel r k)" "keeps host_ok (put_cl_event r e)"
  "keeps host_ok (new_cl_event c' q' ev t)"
  unfolding put_simps by (auto intro!: lifted)

lemma lift_growing [lifted]:
  "keeps host_ok (in_host (mango_init P n r))" "keeps host_ok (in_host (mango_release P))"
  "keeps host_ok (in_host (mango_register_kernel_with_buffers P i kern ins outs))"
  "keeps host_ok (in_host (mango_register_memory_with_kernels P i sz mode ins outs))"
  "keeps host_ok (in_host (mango_deregister_memory b))"
  by (rule lift_in_host, rule keeps_growing)+

lemma lift_api [lifted]:
  "keeps host_ok (in_host mango_kernelfunction_init)" "keeps host_ok (in_host (mango_load_kernel P n f u t))"
  "keeps host_ok (in_host (mango_task_graph_add_kernel g i))" "keeps host_ok (in_host (mango_task_graph_add_buffer g i))"
  "keeps host_ok (in_host (mango_task_graph_add_event g i))" "keeps host_ok (in_host (mango_resource_allocation P g))"
  "keeps host_ok (in_host (mango_resource_deallocation g))" "keeps host_ok (in_host (mango_task_graph_destroy_all g))"
  "keeps host_ok (in_host (mango_write P mem b mode len))" "keeps host_ok (in_host (mango_read P mem b mode len))"
  "keeps host_ok (in_host (mango_set_args_from_vector P k as))" "keeps host_ok (in_host (mango_start_kernel P k ka e))"
  "keeps host_ok (in_host (mango_wait_h P e))" "keeps host_ok (in_host (mango_wait_state P e v))"
  "keeps host_ok (in_host (mango_get_buffer_event b))" "keeps host_ok (in_host (mango_arg P k val len ty))"
  by (rule lift_in_host, rule keeps_of_frame, rule frame_api)+

lemma lift_fetch [lifted]: "keeps host_ok (in_host (fetch sel r))"
  by (rule lift_in_host, rule keeps_fetch)

section \<open>The calls\<close>

lemma lift_device [lifted]: "keeps host_ok (new_device u)" "keeps host_ok (cl_get_device_ids t n d m)"
  unfolding new_device_def cl_get_device_ids_def Let_def by (auto intro!: lifted)

lemma lift_context [lifted]: "keeps host_ok (cl_create_context P p n ds r)"
  unfolding cl_create_context_def by (auto intro!: lifted)

lemma lift_from_type [lifted]: "keeps host_ok (cl_create_context_from_type P p t r)"
  unfolding cl_create_context_from_type_def Let_def by (auto intro!: lifted)

lemma lift_queue [lifted]: "keeps host_ok (cl_create_command_queue c d)"
  unfolding cl_create_command_queue_def set_queue_def by (auto intro!: lifted)

lemma lift_program [lifted]: "keeps host_ok (cl_create_program_with_binary P c n ds bs)"
  unfolding cl_create_program_with_binary_def checkDevicesInContext_def load_binaries_def
    load_binary_def Let_def
  by (auto intro!: lifted split: option.split)

lemma lift_kernel [lifted]: "keeps host_ok (cl_create_kernel P p b i)"
  unfolding cl_create_kernel_def Let_def by (auto intro!: lifted split: option.split)

lemma lift_register_mem [lifted]: "keeps host_ok (register_mem P fl sz i ins outs)"
  unfolding register_mem_def by (auto intro!: lifted)

lemma lift_buffer [lifted]: "keeps host_ok (cl_create_buffer P c fl sz p ni ki no ko i)"
  unfolding cl_create_buffer_def extractKernelIDs_def by (auto intro!: lifted)

lemma lift_wait [lifted]: "keeps host_ok (cl_wait_for_events P n evs)" "keeps host_ok (clWaitForEvents P n evs)"
  unfolding clWaitForEvents_def code_of_def cl_wait_for_events_def wait_one_def
  by (auto intro!: lifted split: option.split)

lemma lift_wait_list [lifted]:
  "keeps host_ok (check_wait_list c n evs)" "keeps host_ok (await_list P n evs)" "keeps host_ok (push_event q ev t)"
  unfolding check_wait_list_def checkWaitListInContext_def await_list_def push_event_def
  by (auto intro!: lifted split: option.split)

lemma lift_enqueue [lifted]:
  "keeps host_ok (cl_enqueue_task P q k n evs)" "keeps host_ok (cl_enqueue_write_buffer P q b ptr n evs)"
  "keeps host_ok (cl_enqueue_read_buffer P q b ptr n evs)"
  unfolding cl_enqueue_task_def cl_enqueue_write_buffer_def cl_enqueue_read_buffer_def
  by (auto intro!: lifted split: option.split)

lemma lift_finish [lifted]: "keeps host_ok (clFinish P q)"
  unfolding clFinish_def cl_finish_def finish_round_def by (auto intro!: lifted split: option.split)

lemma lift_arg [lifted]: "keeps host_ok (cl_set_kernel_arg P k i sz v t)"
  unfolding cl_set_kernel_arg_def event_arg_object_def
  by (auto intro!: lifted split: option.split arg_value.split)

lemma lift_info [lifted]: "keeps host_ok (clGetInfo x rq)"
  by (cases x) (auto intro!: lifted split: option.split simp: entry_defs cl_get_device_info_def
    cl_get_context_info_def cl_get_command_queue_info_def cl_get_program_info_def
    cl_get_kernel_info_def cl_get_event_info_def cl_get_mem_object_info_def)

lemma lift_unimplemented [lifted]: "keeps Q (run_unimplemented c)"
  by (rule keepsI) (auto dest: unimplemented_changes_nothing)

section \<open>Programs\<close>

datatype cl_call =
    Get_device_ids u64 u32 bool bool
  | Create_context process u32 "nat list option" "string option" bool
  | Create_context_from_type process u64 "string option" bool
  | Create_command_queue "nat option" "nat option" bool
  | Create_program "nat option" u32 "nat list option" "c_str option list option" bool
  | Create_kernel "nat option" "c_str option" int bool
  | Create_buffer "nat option" u64 u64 u64 int "nat list option" int "nat list option" int bool
  | Set_kernel_arg "nat option" u32 u64 "arg_value option" u32
  | Set_input_buffers "nat option" "c_str option" "u32 list"
  | Set_output_buffers "nat option" "c_str option" "u32 list"
  | Allocate "nat option"
  | Enqueue_task "nat option" "nat option" u32 "nat option list option"
  | Enqueue_kernel "nat option" "nat option" u32 "nat option list option"
  | Enqueue_write "nat option" "nat option" "u8 list option" u32 "nat option list option"
  | Enqueue_read "nat option" "nat option" "u8 list option" u32 "nat option list option"
  | Wait_for_events u32 "nat option list option"
  | Finish "nat option"
  | Get_info queried request
  | Release_device "nat option"
  | Release_context "nat option"
  | Release_command_queue "nat option"
  | Release_mem_object "nat option"
  | Release_program "nat option"
  | Release_kernel "nat option"
  | Release_event "nat option"
  | Unimplemented unimplemented

primrec run_cl :: "'w platform \<Rightarrow> cl_call \<Rightarrow> ('w cl, unit) act" where
  "run_cl P (Get_device_ids a b c d) = andThen (clGetDeviceIDs a b c d) (\<lambda>_. ret ())"
| "run_cl P (Create_context a b c d e) = andThen (clCreateContext P a b c d e) (\<lambda>_. ret ())"
| "run_cl P (Create_context_from_type a b c d) = andThen (clCreateContextFromType P a b c d) (\<lambda>_. ret ())"
| "run_cl P (Create_command_queue a b c) = andThen (clCreateCommandQueue a b c) (\<lambda>_. ret ())"
| "run_cl P (Create_program a b c d e) = andThen (clCreateProgramWithBinary P a b c d e) (\<lambda>_. ret ())"
| "run_cl P (Create_kernel a b c d) = andThen (clCreateKernel P a b c d) (\<lambda>_. ret ())"
| "run_cl P (Create_buffer a b c d e f g h i j) = andThen (clCreateBuffer P a b c d e f g h i j) (\<lambda>_. ret ())"
| "run_cl P (Set_kernel_arg a b c d e) = andThen (clSetKernelArg P a b c d e) (\<lambda>_. ret ())"
| "run_cl P (Set_input_buffers a b c) = andThen (clSetInputBufferIDs a b c) (\<lambda>_. ret ())"
| "run_cl P (Set_output_buffers a b c) = andThen (clSetOutputBufferIDs a b c) (\<lambda>_. ret ())"
| "run_cl P (Allocate a) = andThen (clKernelAndBufferAllocation P a) (\<lambda>_. ret ())"
| "run_cl P (Enqueue_task a b c d) = andThen (clEnqueueTask P a b c d) (\<lambda>_. ret ())"
| "run_cl P (Enqueue_kernel a b c d) = andThen (clEnqueueNDRangeKernel P a b c d) (\<lambda>_. ret ())"
| "run_cl P (Enqueue_write a b c d e) = andThen (clEnqueueWriteBuffer P a b c d e) (\<lambda>_. ret ())"
| "run_cl P (Enqueue_read a b c d e) = andThen (clEnqueueReadBuffer P a b c d e) (\<lambda>_. ret ())"
| "run_cl P (Wait_for_events a b) = andThen (clWaitForEvents P a b) (\<lambda>_. ret ())"
| "run_cl P (Finish a) = andThen (clFinish P a) (\<lambda>_. ret ())"
| "run_cl P (Get_info a b) = andThen (clGetInfo a b) (\<lambda>_. ret ())"
| "run_cl P (Release_device a) = andThen (clReleaseDevice a) (\<lambda>_. ret ())"
| "run_cl P (Release_context a) = andThen (clReleaseContext P a) (\<lambda>_. ret ())"
| "run_cl P (Release_command_queue a) = andThen (clReleaseCommandQueue a) (\<lambda>_. ret ())"
| "run_cl P (Release_mem_object a) = andThen (clReleaseMemObject a) (\<lambda>_. ret ())"
| "run_cl P (Release_program a) = andThen (clReleaseProgram a) (\<lambda>_. ret ())"
| "run_cl P (Release_kernel a) = andThen (clReleaseKernel a) (\<lambda>_. ret ())"
| "run_cl P (Release_event a) = andThen (clReleaseEvent a) (\<lambda>_. ret ())"
| "run_cl P (Unimplemented a) = run_unimplemented a"

inductive cl_reaches :: "'w platform \<Rightarrow> 'w cl \<Rightarrow> bool" for P where
  start: "cl_reaches P (cl_init w)"
| call: "cl_reaches P s \<Longrightarrow> run_cl P c s = Some (q, t) \<Longrightarrow> cl_reaches P t"

lemmas cl_wrappers = clGetDeviceIDs_def clCreateContext_def clCreateContextFromType_def
  clCreateCommandQueue_def clCreateProgramWithBinary_def clCreateKernel_def clCreateBuffer_def
  clSetKernelArg_def clSetInputBufferIDs_def clSetOutputBufferIDs_def clKernelAndBufferAllocation_def
  clEnqueueTask_def clEnqueueNDRangeKernel_def clEnqueueWriteBuffer_def clEnqueueReadBuffer_def
  clReleaseDevice_def clReleaseContext_def clReleaseCommandQueue_def clReleaseMemObject_def
  clReleaseProgram_def clReleaseKernel_def clReleaseEvent_def handle_of_def event_of_def

lemma keeps_run_cl: "keeps host_ok (run_cl P c)"
  by (cases c; simp only: run_cl.simps cl_wrappers; (intro lifted; simp))

lemma cl_reaches_host_ok: "cl_reaches P s \<Longrightarrow> host_ok s"
  by (induction rule: cl_reaches.induct)
    (auto simp: host_ok_def cl_init_def consistent_init intro: keepsD [OF keeps_run_cl, unfolded host_ok_def])

end
