(* ===== verification/CL_Quiet.thy ===== *)
theory CL_Quiet
  imports CL_Reach Host_Props
begin

text \<open>
  The host calls behind the OpenCL commands throw no OpenCL error code: the codes a
  command gives come from its own checks.
\<close>

section \<open>Host calls throw no error codes\<close>

definition quiet :: "('s, 'a) act \<Rightarrow> bool" where
  "quiet m \<longleftrightarrow> (\<forall>s e t. m s \<noteq> Some (Inl (Thrown e), t))"

named_theorems quiet_rules \<open>actions that throw no OpenCL error code\<close>

lemma quiet_andThen [quiet_rules]: "quiet m \<Longrightarrow> (\<And>a. quiet (f a)) \<Longrightarrow> quiet (andThen m f)"
  by (auto simp: quiet_def act_simps split: option.splits sum.splits)

lemma quiet_basic [quiet_rules]:
  "quiet (ret a)" "quiet (reads f)" "quiet (modify g)" "quiet (assert_that b)"
  by (auto simp: quiet_def act_simps)

lemma quiet_fail [quiet_rules]: "(\<And>c. e \<noteq> Thrown c) \<Longrightarrow> quiet (fail e)"
  by (auto simp: quiet_def act_simps)

lemma quiet_from_option [quiet_rules]: "(\<And>c. e \<noteq> Thrown c) \<Longrightarrow> quiet (from_option e x)"
  by (auto simp: quiet_def act_simps split: option.splits)

lemma quiet_lift_sum [quiet_rules]: "(\<And>c. r \<noteq> Inl (Thrown c)) \<Longrightarrow> quiet (lift_sum r)"
  by (auto simp: quiet_def act_simps)

lemma quiet_if [quiet_rules]: "quiet m \<Longrightarrow> quiet n \<Longrightarrow> quiet (if b then m else n)"
  by simp

lemma quiet_option [quiet_rules]: "quiet m \<Longrightarrow> (\<And>a. quiet (f a)) \<Longrightarrow> quiet (case x of None \<Rightarrow> m | Some a \<Rightarrow> f a)"
  by (cases x) auto

lemma quiet_prod [quiet_rules]: "(\<And>a b. quiet (f a b)) \<Longrightarrow> quiet (case x of (a, b) \<Rightarrow> f a b)"
  by (cases x) simp

lemma quiet_mapEach [quiet_rules]: "(\<And>x. quiet (f x)) \<Longrightarrow> quiet (mapEach xs f)"
  by (induction xs) (auto intro!: quiet_rules)

lemma quiet_fetch [quiet_rules]: "quiet (fetch sel r)"
  by (auto simp: quiet_def act_simps)

lemma quiet_world [quiet_rules]: "quiet (do_world g)" "quiet (on_world f)" "quiet (try_world h)"
  by (auto simp: quiet_def act_simps split: option.splits)

lemma quiet_access [quiet_rules]:
  "quiet (the_event r)" "quiet (the_buffer r)" "quiet (the_kernel r)" "quiet (the_function r)"
  "quiet (put_event r e)" "quiet (put_buffer r b)" "quiet (put_kernel r k)" "quiet (put_function r f)"
  unfolding access_simps by (auto intro!: quiet_rules)

lemma quiet_in_host [quiet_rules]: "quiet m \<Longrightarrow> quiet (in_host m)"
  by (auto simp: quiet_def act_simps split: option.splits)

lemma quiet_lookup [quiet_rules]:
  "quiet (get_kernel i)" "quiet (get_buffer i)" "quiet (get_event i)" "quiet (event_id er)"
  "quiet (positive_event_id er)" "quiet m \<Longrightarrow> quiet (with_cxt m)"
  unfolding get_kernel_def get_buffer_def get_event_def positive_event_id_def event_id_def with_cxt_def
  by (auto intro!: quiet_rules)

lemma quiet_fifo [quiet_rules]: "quiet (set_fifo_task P er task)" "quiet (fifo_write P r mem n)" "quiet (fifo_read P r room n)"
  "quiet (buffer_write P r mem n)" "quiet (buffer_read P r mem n)" "quiet (host_event_write P r v)"
  "quiet (host_wait_state P r v)"
  unfolding set_fifo_task_def fifo_write_def fifo_read_def buffer_write_def buffer_read_def
    host_event_write_def host_wait_state_def
  by (auto intro!: quiet_rules split: option.split bool.split)

lemma base_wait_fault: "base_wait P e w = Some (Inl f, w') \<Longrightarrow> f = Terminated"
  by (auto simp: base_wait_def split: option.splits if_splits Option.bind_splits)

lemma event_wait_fault: "event_wait P e w = Some (Inl f, w') \<Longrightarrow> f = Terminated"
  by (auto simp: event_wait_def dest: base_wait_fault split: option.splits sum.splits Option.bind_splits)

lemma quiet_host_wait [quiet_rules]: "quiet (host_wait P r)"
  unfolding host_wait_def
  by (intro quiet_rules) (auto simp: quiet_def split: option.splits sum.splits dest: event_wait_fault)

lemma set_value_fault: "arg_set_value t a = Inl f \<Longrightarrow> f = Out_of_range"
  by (auto simp: arg_set_value_def get_virt_addr_buffer_def get_virt_addr_event_def
      split: arg_class.splits option.splits)

lemma set_values_fault: "set_values t as = Inl f \<Longrightarrow> f = Out_of_range"
proof (induction "as" arbitrary: f)
  case (Cons a as)
  then show ?case
    by (cases "arg_set_value t a"; cases "set_values t as") (auto dest: set_value_fault)
qed simp

lemma quiet_setup [quiet_rules]: "quiet (setup_args P as kr)"
  unfolding setup_args_def
  by (auto intro!: quiet_rules dest: set_value_fault set_values_fault)

lemma quiet_arguments [quiet_rules]: "quiet (get_arguments P ka arch)"
  unfolding get_arguments_def
  by (auto intro!: quiet_rules simp: get_kernel_version_def split: option.splits)

lemma quiet_start [quiet_rules]: "quiet (start_kernel P kr ka)"
  unfolding start_kernel_def assigned_unit_def
  by (auto intro!: quiet_rules simp: get_kernel_version_def split: option.splits)

lemma quiet_bbq_start [quiet_rules]: "quiet (bbq_start_kernel P kr ka)"
  unfolding bbq_start_kernel_def set_callback_def by (auto intro!: quiet_rules)

lemma quiet_api [quiet_rules]:
  "quiet (mango_write P mem b mode n)" "quiet (mango_read P mem b mode n)"
  "quiet (mango_set_args_from_vector P k as)" "quiet (mango_start_kernel P k ka e)"
  "quiet (mango_wait_h P e)" "quiet (mango_wait_state P e v)"
  unfolding mango_write_def mango_read_def mango_set_args_from_vector_def mango_set_args_def
    mango_start_kernel_def mango_wait_h_def mango_wait_state_def
  by (auto intro!: quiet_rules)

section \<open>The layer's own actions\<close>

lemma quiet_objects [quiet_rules]:
  "quiet (object sel r)" "quiet (at_index xs i)" "quiet (put_queue q qu)" "quiet (put_cl_event r ev)"
  "quiet (new_cl_event c q w t)"
  unfolding object_def at_index_def put_simps by (auto intro!: quiet_rules)

lemma quiet_push [quiet_rules]: "quiet (push_event q ev t)"
  unfolding push_event_def by (auto intro!: quiet_rules)

lemma quiet_wait_one [quiet_rules]: "quiet (wait_one P r)"
  unfolding wait_one_def by (auto intro!: quiet_rules)

text \<open>An action that throws has changed nothing; the commands are built of such actions.\<close>

definition clean :: "('s, 'a) act \<Rightarrow> bool" where
  "clean m \<longleftrightarrow> (\<forall>s e t. m s = Some (Inl (Thrown e), t) \<longrightarrow> t = s \<and> e \<noteq> CL_SUCCESS)"

lemma clean_quiet: "quiet m \<Longrightarrow> clean m"
  by (auto simp: clean_def quiet_def)

lemma clean_throw: "e \<noteq> CL_SUCCESS \<Longrightarrow> clean (throw e)"
  by (auto simp: clean_def act_simps)

text \<open>An action that only looks: it returns in the state it was given.\<close>

definition looks :: "('s, 'a) act \<Rightarrow> bool" where
  "looks m \<longleftrightarrow> (\<forall>s r t. m s = Some (r, t) \<longrightarrow> t = s)"

lemma clean_look_then:
  assumes "looks m" and "clean m" and f: "\<And>s a t. m s = Some (Inr a, t) \<Longrightarrow> clean (f a)"
  shows "clean (andThen m f)"
  unfolding clean_def
proof (intro allI impI)
  fix s e t assume run: "andThen m f s = Some (Inl (Thrown e), t)"
  then obtain q u where m: "m s = Some (q, u)" by (auto simp: act_simps split: option.splits)
  then have u: "u = s" using assms(1) by (auto simp: looks_def)
  show "t = s \<and> e \<noteq> CL_SUCCESS"
  proof (cases q)
    case (Inl fl)
    with run m have "m s = Some (Inl (Thrown e), t)" by (simp add: act_simps)
    with assms(2) show ?thesis by (simp add: clean_def)
  next
    case (Inr a)
    with run m u have "f a s = Some (Inl (Thrown e), t)" by (simp add: act_simps)
    with f [of s a u] m Inr show ?thesis by (simp add: clean_def)
  qed
qed

lemma clean_look: "looks m \<Longrightarrow> clean m \<Longrightarrow> (\<And>a. clean (f a)) \<Longrightarrow> clean (andThen m f)"
  by (rule clean_look_then)

lemma clean_then_quiet: "clean m \<Longrightarrow> (\<And>a. quiet (f a)) \<Longrightarrow> clean (andThen m f)"
  by (auto simp: clean_def quiet_def act_simps split: option.splits sum.splits)

lemma looks_andThen: "looks m \<Longrightarrow> (\<And>a. looks (f a)) \<Longrightarrow> looks (andThen m f)"
  unfolding looks_def by (simp add: act_simps split: option.splits sum.splits) blast

lemma looks_basic:
  "looks (ret a)" "looks (fail e)" "looks (reads g)" "looks (object sel r)" "looks (at_index xs i)"
  "looks (from_option e x)" "looks (throw c)" "looks m \<Longrightarrow> looks n \<Longrightarrow> looks (if b then m else n)"
  by (auto simp: looks_def act_simps)

lemmas looks_rules = looks_basic looks_andThen

lemma looks_fold: "(\<And>x b. looks (f x b)) \<Longrightarrow> looks (foldEach xs b f)"
  by (induction xs arbitrary: b) (auto intro!: looks_rules)

lemma quiet_fold: "(\<And>x b. quiet (f x b)) \<Longrightarrow> quiet (foldEach xs b f)"
  by (induction xs arbitrary: b) (auto intro!: quiet_rules)

lemma check_context_rules: "looks (checkWaitListInContext c evs n)" "quiet (checkWaitListInContext c evs n)"
  unfolding checkWaitListInContext_def
  by (auto intro!: looks_rules looks_fold quiet_rules quiet_fold)

lemma check_list_looks: "looks (check_wait_list c n wl)"
  unfolding check_wait_list_def
  by (auto intro!: looks_rules check_context_rules split: option.split)

lemma check_list_clean: "clean (check_wait_list c n wl)"
proof (cases wl)
  case None
  then show ?thesis
    by (auto simp: check_wait_list_def cl_codes intro: clean_throw clean_quiet quiet_basic)
next
  case (Some evs)
  have "clean (if inside then ret () else throw CL_INVALID_CONTEXT)" for inside
    by (auto simp: cl_codes intro: clean_throw clean_quiet quiet_basic)
  then have "clean (andThen (checkWaitListInContext c evs (unat n))
      (\<lambda>inside. if inside then ret () else throw CL_INVALID_CONTEXT))"
    by (rule clean_look [OF check_context_rules(1) clean_quiet [OF check_context_rules(2)]])
  with Some show ?thesis by (auto simp: check_wait_list_def cl_codes intro: clean_throw)
qed

section \<open>Waiting on a checked list\<close>

lemma check_inside:
  assumes "checkWaitListInContext c evs n s = Some (Inr True, t)"
  shows "i < n \<Longrightarrow> i < length evs \<and> evs ! i \<noteq> None"
proof -
  have "(\<forall>i \<in> set is. i < length evs \<and> evs ! i \<noteq> None) \<and> ok"
    if "foldEach is ok (\<lambda>i ok. if \<not> ok then ret False
       else andThen (at_index evs i) (\<lambda>e. andThen (from_option Bad_pointer e) (\<lambda>r.
            andThen (object cl_events r) (\<lambda>ev. ret (e_ctx ev = c))))) s = Some (Inr True, t)"
    for "is" ok and s :: "'w cl" and t
    using that
  proof (induction "is" arbitrary: ok s)
    case Nil
    then show ?case by (simp add: act_simps)
  next
    case (Cons j js)
    show ?case
    proof (cases ok)
      case True
      with Cons.prems Cons.IH show ?thesis
        by (auto simp: act_simps split: if_splits option.splits)
    next
      case False
      with Cons.prems Cons.IH [of False s] show ?thesis by (simp add: act_simps)
    qed
  qed
  from this [of "[0..<n]" True s t] assms
  have "\<forall>i \<in> set [0..<n]. i < length evs \<and> evs ! i \<noteq> None"
    unfolding checkWaitListInContext_def by blast
  then show "i < n \<Longrightarrow> i < length evs \<and> evs ! i \<noteq> None" by simp
qed

definition list_checked :: "u32 \<Rightarrow> nat option list option \<Rightarrow> bool" where
  "list_checked n wl \<longleftrightarrow>
     (\<forall>evs. wl = Some evs \<longrightarrow> 0 < n \<and> (\<forall>i < unat n. i < length evs \<and> evs ! i \<noteq> None))"

lemma check_list_checked: "check_wait_list c n wl s = Some (Inr (), t) \<Longrightarrow> list_checked n wl"
  by (auto simp: check_wait_list_def list_checked_def act_simps word_gt_0 dest: check_inside
      split: option.splits if_splits sum.splits)

lemma quiet_forEach: "(\<And>x. x \<in> set xs \<Longrightarrow> quiet (f x)) \<Longrightarrow> quiet (forEach xs f)"
  by (induction xs) (auto intro!: quiet_rules)

lemma quiet_wait_some: "quiet (cl_wait_for_events P 1 (Some [Some r]))"
  by (auto simp: cl_wait_for_events_def at_index_def intro!: quiet_rules quiet_forEach)

lemma quiet_await:
  assumes "list_checked n wl"
  shows "quiet (await_list P n wl)"
proof (cases wl)
  case None
  then show ?thesis by (simp add: await_list_def quiet_basic)
next
  case (Some evs)
  have "quiet (andThen (at_index evs i) (\<lambda>e. andThen (cl_wait_for_events P 1 (Some [e])) (\<lambda>_. ret ())))"
    if "i < unat n" for i
  proof -
    obtain r where "i < length evs" "evs ! i = Some r"
      using assms Some \<open>i < unat n\<close> by (auto simp: list_checked_def)
    then have "andThen (at_index evs i) (\<lambda>e. andThen (cl_wait_for_events P 1 (Some [e])) (\<lambda>_. ret ()))
        = andThen (cl_wait_for_events P 1 (Some [Some r])) (\<lambda>_. ret ())"
      by (simp add: at_index_def)
    then show ?thesis by (simp add: quiet_andThen quiet_wait_some quiet_basic)
  qed
  with Some show ?thesis by (auto simp: await_list_def intro!: quiet_forEach)
qed

lemma clean_checked:
  assumes "\<And>a. quiet (f a)"
  shows "clean (andThen (check_wait_list c n wl) (\<lambda>_. andThen (await_list P n wl) f))"
  by (rule clean_look_then [OF check_list_looks check_list_clean])
    (auto intro!: clean_quiet quiet_andThen quiet_await assms dest: check_list_checked)

lemma clean_object: "(\<And>a. clean (f a)) \<Longrightarrow> clean (andThen (object sel r) f)"
  by (rule clean_look [OF looks_basic(4) clean_quiet [OF quiet_objects(1)]])

lemma clean_if: "clean m \<Longrightarrow> clean n \<Longrightarrow> clean (if b then m else n)"
  by simp

lemma clean_option: "clean m \<Longrightarrow> (\<And>a. clean (f a)) \<Longrightarrow> clean (case x of None \<Rightarrow> m | Some a \<Rightarrow> f a)"
  by (cases x) auto

lemma clean_enqueue:
  "clean (cl_enqueue_task P q k n wl)" "clean (cl_enqueue_write_buffer P q b mem n wl)"
  "clean (cl_enqueue_read_buffer P q b room n wl)"
  unfolding cl_enqueue_task_def cl_enqueue_write_buffer_def cl_enqueue_read_buffer_def
  by (intro clean_option clean_object clean_if clean_throw clean_checked quiet_rules; simp add: cl_codes)+

lemma event_of_error:
  assumes "clean m" and "event_of m s = Some (Inr (e, r), t)" and "e \<noteq> CL_SUCCESS"
  shows "t = s \<and> r = None"
  using assms
  by (auto simp: event_of_def clean_def act_simps split: option.splits sum.splits fault.splits)

end
