(* ===== verification/CL_Props.thy ===== *)
theory CL_Props
  imports CL_Quiet
begin

text \<open>
  Properties of the OpenCL layer: which error codes its commands give and what they leave
  behind, what waiting and finishing establish, and how the layer and the host library
  work together.
\<close>

section \<open>The layer on top of the host library\<close>






section \<open>Errors\<close>

lemma catch_event_of: "catch_cl (event_of m) h = event_of m"
proof
  fix s
  show "catch_cl (event_of m) h s = event_of m s"
  proof (cases "m s")
    case (Some p)
    then show ?thesis
      by (cases p; cases "fst p"; cases "projl (fst p)") (auto simp: event_of_def act_simps)
  qed (simp add: event_of_def act_simps)
qed

text \<open>
  C29. A command that gives an error code has done nothing: the task, kernel, write and
  read commands return an error with the state exactly as it was; no event was made and
  nothing was waited for or transferred.
\<close>

theorem enqueue_error_changes_nothing:
  assumes "e \<noteq> CL_SUCCESS"
  shows "(clEnqueueTask P q k n wl s = Some (Inr (e, r), t) \<longrightarrow> t = s \<and> r = None)
     \<and> (clEnqueueNDRangeKernel P q k n wl s = Some (Inr (e, r), t) \<longrightarrow> t = s \<and> r = None)
     \<and> (clEnqueueWriteBuffer P q b mem n wl s = Some (Inr (e, r), t) \<longrightarrow> t = s \<and> r = None)
     \<and> (clEnqueueReadBuffer P q b room n wl s = Some (Inr (e, r'), t) \<longrightarrow> t = s \<and> r' = None)"
  unfolding clEnqueueTask_def clEnqueueNDRangeKernel_def clEnqueueWriteBuffer_def
    clEnqueueReadBuffer_def catch_event_of
  by (intro conjI; rule impI; rule event_of_error [OF clean_enqueue(1) _ assms]
      event_of_error [OF clean_enqueue(2) _ assms] event_of_error [OF clean_enqueue(3) _ assms]; assumption)

definition bare_queue :: "bank cl" where
  "bare_queue = (cl_init (\<lambda>_. 0))\<lparr>
     cl_contexts := [Some \<lparr>c_queue = Some 0, c_program = None, c_devices = [], c_mems = [0]\<rparr>],
     cl_queues := [Some \<lparr>q_ctx = 0, q_device = 0, q_tgx = None, q_events = []\<rparr>],
     cl_mems := [Some \<lparr>m_ctx = 1, m_buffer = 5, m_id = 5, m_type = CL_MEM_OBJECT_BUFFER, m_host_ptr = 0,
       m_flags = 1, m_size = 4\<rparr>]\<rparr>"

theorem enqueue_error_changes_nothing_witness:
  "\<exists>t. clEnqueueReadBuffer (bank_platform True) (Some 0) (Some 0) (Some [0, 0, 0, 0]) 0 None bare_queue
        = Some (Inr (CL_INVALID_CONTEXT, None), t) \<and> t = bare_queue"
proof -
  have e: "CL_INVALID_CONTEXT \<noteq> CL_SUCCESS" by (simp add: cl_codes)
  have "\<exists>t. clEnqueueReadBuffer (bank_platform True) (Some 0) (Some 0) (Some [0, 0, 0, 0]) 0 None bare_queue
        = Some (Inr (CL_INVALID_CONTEXT, None), t)"
    by (simp add: clEnqueueReadBuffer_def event_of_def cl_enqueue_read_buffer_def act_simps bare_queue_def)
  with enqueue_error_changes_nothing [OF e] show ?thesis by metis
qed


section \<open>Queries\<close>

text \<open>
  C33. A query never writes more than the caller's room, never changes the state, and stores
  nothing when it refuses: \<^verbatim>\<open>param_value\<close> is written only if it is given and at least as
  large as the answer, and the answer's size is reported exactly when it was asked for.
\<close>

theorem query_stays_within_room:
  assumes "clGetInfo x rq s = Some (Inr a, t)"
  shows "t = s
    \<and> (\<forall>i. an_copied a = Some i \<longrightarrow> rq_value rq \<and> info_size i \<le> rq_room rq)
    \<and> (an_code a \<noteq> CL_SUCCESS \<longrightarrow> an_copied a = None \<and> an_size a = None)
    \<and> (an_code a = CL_SUCCESS \<longrightarrow> (an_size a \<noteq> None \<longleftrightarrow> rq_size_ret rq))"
  using query_fair [OF assms] by (auto simp: fair_def)

theorem query_stays_within_room_witness:
  "\<exists>a. clGetInfo (Context (Some 0)) \<lparr>rq_name = CL_CONTEXT_NUM_DEVICES, rq_room = 3, rq_value = True, rq_size_ret = True\<rparr>
        bare_queue = Some (Inr a, bare_queue) \<and> an_code a = CL_INVALID_VALUE \<and> an_copied a = None"
proof -
  obtain a t where run: "clGetInfo (Context (Some 0))
      \<lparr>rq_name = CL_CONTEXT_NUM_DEVICES, rq_room = 3, rq_value = True, rq_size_ret = True\<rparr> bare_queue = Some (Inr a, t)"
    "an_code a = CL_INVALID_VALUE"
    by (simp add: cl_get_context_info_def bare_queue_def act_simps give_def refuse_def entry_defs cl_queries)
  with query_stays_within_room [OF run(1)] show ?thesis by (auto simp: cl_codes)
qed

section \<open>Waiting and finishing\<close>

definition completed :: "'w cl \<Rightarrow> nat \<Rightarrow> bool" where
  "completed s r \<longleftrightarrow> r < length (cl_events s) \<and> (\<exists>e. cl_events s ! r = Some e \<and> e_status e \<noteq> LOCK)"

lemma status_for_done [simp]: "status_for ty \<noteq> LOCK"
  by (simp add: status_for_def)

lemma wait_one_done:
  assumes "wait_one P r s = Some (Inr (), t)"
  shows "completed t r" and "completed s r' \<Longrightarrow> completed t r'" and "cl_queues t = cl_queues s"
  using assms
  by (auto simp: wait_one_def completed_def put_simps act_simps nth_list_update
      split: option.splits if_splits sum.splits prod.splits)

lemma wait_completed: "completed s r \<Longrightarrow> wait_one P r s = Some (Inr (), s)"
  by (auto simp: wait_one_def completed_def act_simps)

text \<open>One round of \<^verbatim>\<open>clFinish\<close> takes the last event of the queue and leaves it completed.\<close>

lemma finish_round_done:
  assumes "finish_round P q s = Some (Inr CL_SUCCESS, t)"
    and "q < length (cl_queues s)" and "cl_queues s ! q = Some qu"
  shows "q_events qu \<noteq> []" and "completed t (last (q_events qu))" and "completed s r' \<Longrightarrow> completed t r'"
    and "cl_queues t = (cl_queues s)[q := Some (qu\<lparr>q_events := butlast (q_events qu)\<rparr>)]"
proof -
  show ne: "q_events qu \<noteq> []"
    using assms by (auto simp: finish_round_def act_simps)
  have one: "[0..<unat (1 :: u32)] = [0]" by simp
  obtain u where u: "wait_one P (last (q_events qu)) s = Some (Inr (), u)"
    "t = u\<lparr>cl_queues := (cl_queues u)[q := Some (qu\<lparr>q_events := butlast (q_events qu)\<rparr>)]\<rparr>"
  proof -
    have "\<exists>u. wait_one P (last (q_events qu)) s = Some (Inr (), u)"
      using assms ne quiet_wait_one [of P "last (q_events qu)"]
      by (auto simp: finish_round_def clWaitForEvents_def code_of_def cl_wait_for_events_def act_simps
          one quiet_def split: option.splits sum.splits fault.splits)
    then obtain u where u: "wait_one P (last (q_events qu)) s = Some (Inr (), u)" ..
    with wait_one_done(3) [OF u] assms ne show thesis
      by (intro that [OF u])
        (simp add: finish_round_def clWaitForEvents_def code_of_def cl_wait_for_events_def act_simps one put_simps)
  qed
  have "completed t x = completed u x" for x by (simp add: u(2) completed_def)
  with wait_one_done [OF u(1)] u(2)
  show "completed t (last (q_events qu))" "completed s r' \<Longrightarrow> completed t r'"
    "cl_queues t = (cl_queues s)[q := Some (qu\<lparr>q_events := butlast (q_events qu)\<rparr>)]"
    by simp_all
qed

lemma finish_error_stays:
  assumes "err \<noteq> CL_SUCCESS"
  shows "foldEach is err (\<lambda>_ err. if err \<noteq> CL_SUCCESS then ret err else m) s = Some (Inr err, s)"
  using assms by (induction "is") (simp_all add: act_simps)

lemma finish_rounds:
  assumes "foldEach is CL_SUCCESS (\<lambda>_ err. if err \<noteq> CL_SUCCESS then ret err else finish_round P q) s
      = Some (Inr CL_SUCCESS, t)"
    and "q < length (cl_queues s)" and "cl_queues s ! q = Some qu"
    and "q_events qu = ys @ xs" and "length xs = length is"
  shows "(\<forall>r \<in> set xs. completed t r) \<and> (\<forall>r. completed s r \<longrightarrow> completed t r)
    \<and> cl_queues t = (cl_queues s)[q := Some (qu\<lparr>q_events := ys\<rparr>)]"
  using assms
proof (induction "is" arbitrary: s qu xs)
  case Nil
  then have "s = t" "xs = []" "qu\<lparr>q_events := ys\<rparr> = qu" by (simp_all add: act_simps)
  with Nil.prems(3) show ?case by (metis all_not_in_conv list_update_id set_empty)
next
  case (Cons i "is")
  obtain zs x where xs: "xs = zs @ [x]" using Cons.prems(5) by (cases xs rule: rev_cases) auto
  obtain u where u: "finish_round P q s = Some (Inr CL_SUCCESS, u)"
    and rest: "foldEach is CL_SUCCESS (\<lambda>_ err. if err \<noteq> CL_SUCCESS then ret err else finish_round P q) u
      = Some (Inr CL_SUCCESS, t)"
  proof -
    obtain err u where "finish_round P q s = Some (Inr err, u)"
      "foldEach is err (\<lambda>_ err. if err \<noteq> CL_SUCCESS then ret err else finish_round P q) u
        = Some (Inr CL_SUCCESS, t)"
      using Cons.prems(1) by (auto simp: act_simps split: option.splits sum.splits)
    with finish_error_stays [of err "is" "finish_round P q" u] that show thesis
      by (cases "err = CL_SUCCESS") auto
  qed
  note round = finish_round_done [OF u Cons.prems(2,3)]
  let ?qu = "qu\<lparr>q_events := butlast (q_events qu)\<rparr>"
  have step: "(\<forall>r \<in> set zs. completed t r) \<and> (\<forall>r. completed u r \<longrightarrow> completed t r)
      \<and> cl_queues t = (cl_queues u)[q := Some (?qu\<lparr>q_events := ys\<rparr>)]"
    by (rule Cons.IH [OF rest]) (use Cons.prems round(4) xs in \<open>auto simp: butlast_append\<close>)
  with round xs Cons.prems(4) show ?case by auto
qed

text \<open>
  C20. When \<^verbatim>\<open>clFinish\<close> gives \<^verbatim>\<open>CL_SUCCESS\<close>, the queue is empty, every event that was in
  it is completed, no completed event was undone, and no other queue has changed.
\<close>

theorem finish_empties_queue:
  assumes "clFinish P (Some q) s = Some (Inr CL_SUCCESS, t)"
    and "q < length (cl_queues s)" and "cl_queues s ! q = Some qu"
  shows "cl_queues t = (cl_queues s)[q := Some (qu\<lparr>q_events := []\<rparr>)]
    \<and> (\<forall>r \<in> set (q_events qu). completed t r) \<and> (\<forall>r. completed s r \<longrightarrow> completed t r)"
proof -
  have "foldEach [0..<length (q_events qu)] CL_SUCCESS
      (\<lambda>_ err. if err \<noteq> CL_SUCCESS then ret err else finish_round P q) s = Some (Inr CL_SUCCESS, t)"
    using assms by (simp add: clFinish_def cl_finish_def act_simps)
  from finish_rounds [OF this assms(2,3), of "[]" "q_events qu"] show ?thesis by simp
qed

definition busy_queue :: "bank cl" where
  "busy_queue = bare_queue\<lparr>
     cl_queues := [Some \<lparr>q_ctx = 0, q_device = 0, q_tgx = None, q_events = [1, 0]\<rparr>],
     cl_events := [Some \<lparr>e_ctx = 0, e_queue = 0, e_ev = 0, e_status = LOCK, e_type = CL_COMMAND_WRITE_BUFFER\<rparr>,
                   Some \<lparr>e_ctx = 0, e_queue = 0, e_ev = 0, e_status = READ, e_type = CL_COMMAND_READ_BUFFER\<rparr>],
     cl_host := one_event 2\<rparr>"

theorem finish_empties_queue_witness:
  "\<exists>t. clFinish (bank_platform True) (Some 0) busy_queue = Some (Inr CL_SUCCESS, t)
     \<and> completed t 0 \<and> completed t 1"
proof -
  have sync: "sync_arch (host_arch (bank_platform True)) (\<lambda>w. w)" by (rule tilereg.sync_arch_axioms)
  have "ev_addr (hevents (one_event 2) ! 0) = \<lparr>vaddr = 0\<rparr>"
    by (simp add: ev_addr_def one_event_def new_event_def)
  then obtain h where h: "mango_wait_state (bank_platform True) 0 2 (one_event 2) = Some (Inr (), h)"
    using wait_returns_iff(1) [OF sync, of "one_event 2" 0 0 2] by (auto simp: one_event_def host_init_def)
  have two: "[0..<2] = [0, 1 :: nat]" by (simp add: upt_rec)
  obtain t where t: "clFinish (bank_platform True) (Some 0) busy_queue = Some (Inr CL_SUCCESS, t)"
    using h by (auto simp: clFinish_def cl_finish_def finish_round_def clWaitForEvents_def code_of_def
        cl_wait_for_events_def wait_one_def busy_queue_def bare_queue_def cl_init_def act_simps
        put_simps cl_commands two cl_codes)
  with finish_empties_queue [OF t] show ?thesis by (auto simp: busy_queue_def)
qed

section \<open>Two writes of one buffer\<close>

lemma buffer_transfer_run:
  "buffer_write P br mem n h = Some (Inr er, h') \<Longrightarrow>
     br < length (hbuffers h) \<and> er = b_event (hbuffers h ! br) \<and> cxt h' = cxt h"
  "fifo_write P br mem n h = Some (Inr er, h') \<Longrightarrow>
     br < length (hbuffers h) \<and> er = b_event (hbuffers h ! br) \<and> cxt h' = cxt h"
  by (auto simp: buffer_write_def fifo_write_def set_fifo_task_def access_simps act_simps
      split: if_splits option.splits bool.splits prod.splits)

lemma mango_write_run:
  assumes "mango_write P (Some mem) i DIRECT 0 h = Some (Inr ev, h')"
  obtains br where "sm_at (cxt_buffers h) i = Some br" "br < length (hbuffers h)"
    "b_event (hbuffers h ! br) < length (hevents h)"
    "ev = ev_id (hevents h ! b_event (hbuffers h ! br))" "cxt h = Cxt_live" "cxt h' = Cxt_live"
    "skel h' = skel h"
proof -
  have skel: "skel h' = skel h" using keepsD [OF frame_api(12) refl assms] .
  have live: "cxt h = Cxt_live"
    using assms by (auto simp: mango_write_def with_cxt_def act_simps split: if_splits)
  with assms obtain br where br: "sm_at (cxt_buffers h) i = Some br" "br < length (hbuffers h)"
    by (auto simp: mango_write_def get_buffer_def access_simps act_simps split: option.splits if_splits)
  define er where "er = b_event (hbuffers h ! br)"
  obtain e1 h1 where run: "buffer_write P br mem 0 h = Some (Inr e1, h1) \<or> fifo_write P br mem 0 h = Some (Inr e1, h1)"
    and ev: "positive_event_id e1 h1 = Some (Inr ev, h')"
    using assms live br
    by (auto simp: mango_write_def get_buffer_def the_buffer_def act_simps split: if_splits option.splits sum.splits)
      (blast+)
  from run have "e1 = er" "cxt h1 = cxt h" unfolding er_def by (auto dest: buffer_transfer_run)
  with ev have h1: "positive_event_id er h1 = Some (Inr ev, h')" "cxt h1 = cxt h" by simp_all
  then have "h1 = h'" "er < length (hevents h')" "ev = ev_id (hevents h' ! er)"
    by (auto simp: positive_event_id_def event_id_def access_simps act_simps split: if_splits)
  with h1 live skel br that show thesis
    unfolding er_def by (metis skel_nth(1) skel_simps(4))
qed

lemma mango_write_bound:
  assumes "sk_ok (skel h)" and "mango_write P (Some mem) i DIRECT 0 h = Some (Inr ev, h')"
  obtains br er where "sm_at (cxt_buffers h) i = Some br" "er = snd (sk_buffers (skel h) ! br)"
    "br < length (hbuffers h)" "ev = of_nat er" "sm_at (cxt_events h') ev = Some er"
    "er < length (hevents h')" "cxt h' = Cxt_live" "skel h' = skel h"
proof -
  obtain br where br: "sm_at (cxt_buffers h) i = Some br" "br < length (hbuffers h)"
    "b_event (hbuffers h ! br) < length (hevents h)"
    "ev = ev_id (hevents h ! b_event (hbuffers h ! br))" "cxt h' = Cxt_live" "skel h' = skel h"
    using mango_write_run [OF assms(2)] by metis
  define er where "er = b_event (hbuffers h ! br)"
  have er: "er = snd (sk_buffers (skel h) ! br)" using br(2) skel_nth(2) by (simp add: er_def)
  have "maps_agree h" using assms(1) by (rule sk_ok_maps_agree)
  with br(1,4) have "sm_at (cxt_events h) ev = Some er" unfolding maps_agree_def Let_def er_def by metis
  moreover have "cxt_events h' = cxt_events h" "length (hevents h') = length (hevents h)"
    using br(6) skel_simps(1,4) by metis+
  moreover have "ev = of_nat er" using skel_numbered [OF assms(1)] br(3,4) by (simp add: er_def)
  ultimately show thesis using that er br by (simp add: er_def)
qed

lemma host_ok_sk: "host_ok s \<Longrightarrow> length (hevents (cl_host s)) \<le> 2 ^ 32 \<Longrightarrow> sk_ok (skel (cl_host s))"
  by (simp add: host_ok_def consistent_def skel_def)

lemma enqueue_write_run:
  assumes "clEnqueueWriteBuffer P (Some q) (Some b) (Some mem) 0 None s = Some (Inr (CL_SUCCESS, Some r), t)"
  obtains qu m h where "q < length (cl_queues s)" "cl_queues s ! q = Some qu"
    "b < length (cl_mems s)" "cl_mems s ! b = Some m" "r = length (cl_events s)"
    "mango_write P (Some mem) (m_buffer m) DIRECT 0 (cl_host s) = Some (Inr (e_ev (the (cl_events t ! r))), h)"
    "t = s\<lparr>cl_host := h, cl_queues := (cl_queues s)[q := Some (qu\<lparr>q_events := q_events qu @ [r]\<rparr>)],
       cl_events := cl_events s @ [Some \<lparr>e_ctx = q_ctx qu, e_queue = q,
         e_ev = e_ev (the (cl_events t ! r)), e_status = LOCK, e_type = CL_COMMAND_WRITE_BUFFER\<rparr>]\<rparr>"
  using assms
  by (auto simp: clEnqueueWriteBuffer_def event_of_def cl_enqueue_write_buffer_def check_wait_list_def
      await_list_def push_event_def put_simps act_simps split: option.splits sum.splits fault.splits if_splits)

lemma finish_round_write:
  assumes "q < length (cl_queues s)" and "cl_queues s ! q = Some qu" and "q_events qu = xs @ [r]"
    and "r < length (cl_events s)" and "cl_events s ! r = Some e" and "e_status e = LOCK"
    and "e_type e = CL_COMMAND_WRITE_BUFFER"
  shows "mango_wait_state P (e_ev e) (status_code WRITE) (cl_host s) = None \<Longrightarrow> finish_round P q s = None"
    and "mango_wait_state P (e_ev e) (status_code WRITE) (cl_host s) = Some (Inr (), h) \<Longrightarrow>
      finish_round P q s = Some (Inr CL_SUCCESS, s\<lparr>cl_host := h, cl_events := (cl_events s)[r := Some (e\<lparr>e_status := WRITE\<rparr>)],
        cl_queues := (cl_queues s)[q := Some (qu\<lparr>q_events := xs\<rparr>)]\<rparr>)"
proof -
  have "CL_COMMAND_WRITE_BUFFER \<noteq> CL_COMMAND_READ_BUFFER" by (simp add: cl_commands)
  with assms show
    "mango_wait_state P (e_ev e) (status_code WRITE) (cl_host s) = None \<Longrightarrow> finish_round P q s = None"
    "mango_wait_state P (e_ev e) (status_code WRITE) (cl_host s) = Some (Inr (), h) \<Longrightarrow>
      finish_round P q s = Some (Inr CL_SUCCESS, s\<lparr>cl_host := h, cl_events := (cl_events s)[r := Some (e\<lparr>e_status := WRITE\<rparr>)],
        cl_queues := (cl_queues s)[q := Some (qu\<lparr>q_events := xs\<rparr>)]\<rparr>)"
    by (auto simp: finish_round_def clWaitForEvents_def code_of_def cl_wait_for_events_def wait_one_def
        status_for_def put_simps act_simps)
qed

lemma finish_two_writes:
  assumes "sync_arch (host_arch P) reg" and "cxt (cl_host s) = Cxt_live"
    and "sm_at (cxt_events (cl_host s)) i = Some e" and "e < length (hevents (cl_host s))"
    and "q < length (cl_queues s)" and "cl_queues s ! q = Some qu" and "q_events qu = xs @ [r, Suc r]"
    and "Suc r < length (cl_events s)"
    and "cl_events s ! r = Some ev" "e_ev ev = i" "e_status ev = LOCK" "e_type ev = CL_COMMAND_WRITE_BUFFER"
    and "cl_events s ! Suc r = Some ev'" "e_ev ev' = i" "e_status ev' = LOCK"
      "e_type ev' = CL_COMMAND_WRITE_BUFFER"
  shows "clFinish P (Some q) s = None"
proof -
  let ?body = "\<lambda>_ err. if err \<noteq> CL_SUCCESS then ret err else finish_round P q"
  have "finish_round P q s = None \<or> (\<exists>t. finish_round P q s = Some (Inr CL_SUCCESS, t) \<and> finish_round P q t = None)"
  proof (cases "reg (world (cl_host s)) (ev_addr (hevents (cl_host s) ! e)) = status_code WRITE")
    case False
    then have "mango_wait_state P i (status_code WRITE) (cl_host s) = None"
      by (simp add: wait_returns_iff(2) [OF assms(1-4)])
    then show ?thesis using finish_round_write(1) [of q s qu "xs @ [r]" "Suc r" ev' P] assms by simp
  next
    case True
    then obtain h where h: "mango_wait_state P i (status_code WRITE) (cl_host s) = Some (Inr (), h)"
        "reg (world h) = (reg (world (cl_host s)))(ev_addr (hevents (cl_host s) ! e) := 0)"
        "h = (cl_host s)\<lparr>world := world h\<rparr>"
      using wait_returns_iff(1) [OF assms(1-4), of "status_code WRITE"] by auto
    from h(3) have same: "hevents h = hevents (cl_host s)" "cxt h = Cxt_live" "cxt_events h = cxt_events (cl_host s)"
      using assms(2) by (metis host.select_convs host.surjective host.update_convs(1))+
    have "mango_wait_state P i v h = None" for v
      using wait_returns_iff(2) [OF assms(1), of h i e v] assms(3,4) same h(2) by auto
    then show ?thesis
      using finish_round_write(2) [of q s qu "xs @ [r]" "Suc r" ev' P h] h(1) assms
      by (simp add: finish_round_write(1) [where xs = xs and r = r and e = ev])
  qed
  moreover have "[0..<Suc (Suc n)] = 0 # 1 # [2..<Suc (Suc n)]" for n
    by (simp add: upt_conv_Cons numeral_2_eq_2 del: upt_Suc)
  then have "[0..<length (q_events qu)] = 0 # 1 # [2..<length (q_events qu)]"
    using assms(7) by (simp del: upt_Suc)
  ultimately have "foldEach [0..<length (q_events qu)] CL_SUCCESS ?body s = None"
    by (auto simp: act_simps)
  with assms(5,6) show ?thesis by (simp add: clFinish_def cl_finish_def act_simps)
qed

text \<open>
  C21. Two writes of one buffer on one queue cannot be finished when their events are
  registered: the first wait of \<^verbatim>\<open>clFinish\<close> leaves 0 in the event's register, and the
  second wait on that register never ends, as long as no device writes to it.
\<close>

theorem two_writes_never_finish:
  assumes "sync_arch (host_arch P) reg" and "host_ok s" and "length (hevents (cl_host s)) \<le> 2 ^ 32"
    and "clEnqueueWriteBuffer P (Some q) (Some b) (Some mem) 0 None s = Some (Inr (CL_SUCCESS, Some r), t)"
    and "clEnqueueWriteBuffer P (Some q) (Some b) (Some mem') 0 None t = Some (Inr (CL_SUCCESS, Some r'), u)"
  shows "clFinish P (Some q) u = None"
proof -
  from assms(4) obtain qu m h where s: "q < length (cl_queues s)" "cl_queues s ! q = Some qu"
      "b < length (cl_mems s)" "cl_mems s ! b = Some m" "r = length (cl_events s)"
    and w: "mango_write P (Some mem) (m_buffer m) DIRECT 0 (cl_host s) = Some (Inr (e_ev (the (cl_events t ! r))), h)"
    and t: "t = s\<lparr>cl_host := h, cl_queues := (cl_queues s)[q := Some (qu\<lparr>q_events := q_events qu @ [r]\<rparr>)],
       cl_events := cl_events s @ [Some \<lparr>e_ctx = q_ctx qu, e_queue = q,
         e_ev = e_ev (the (cl_events t ! r)), e_status = LOCK, e_type = CL_COMMAND_WRITE_BUFFER\<rparr>]\<rparr>"
    by (rule enqueue_write_run)
  define ev where "ev = e_ev (the (cl_events t ! r))"
  note t = t [folded ev_def]
  from assms(5) obtain qu' m' h' where s': "q < length (cl_queues t)" "cl_queues t ! q = Some qu'"
      "b < length (cl_mems t)" "cl_mems t ! b = Some m'" "r' = length (cl_events t)"
    and w': "mango_write P (Some mem') (m_buffer m') DIRECT 0 (cl_host t) = Some (Inr (e_ev (the (cl_events u ! r'))), h')"
    and u: "u = t\<lparr>cl_host := h', cl_queues := (cl_queues t)[q := Some (qu'\<lparr>q_events := q_events qu' @ [r']\<rparr>)],
       cl_events := cl_events t @ [Some \<lparr>e_ctx = q_ctx qu', e_queue = q,
         e_ev = e_ev (the (cl_events u ! r')), e_status = LOCK, e_type = CL_COMMAND_WRITE_BUFFER\<rparr>]\<rparr>"
    by (rule enqueue_write_run)
  define ev' where "ev' = e_ev (the (cl_events u ! r'))"
  note u = u [folded ev'_def]
  have same: "m' = m" "cl_host t = h" "qu' = qu\<lparr>q_events := q_events qu @ [r]\<rparr>" "r' = Suc r"
    using s s' t by simp_all
  have ok: "sk_ok (skel (cl_host s))" by (rule host_ok_sk [OF assms(2,3)])
  obtain br er where br: "sm_at (cxt_buffers (cl_host s)) (m_buffer m) = Some br"
      "er = snd (sk_buffers (skel (cl_host s)) ! br)" "ev = of_nat er" "skel h = skel (cl_host s)"
    using mango_write_bound [OF ok w [folded ev_def]] by metis
  obtain br' er' where br': "sm_at (cxt_buffers h) (m_buffer m) = Some br'"
      "er' = snd (sk_buffers (skel h) ! br')" "ev' = of_nat er'" "sm_at (cxt_events h') ev' = Some er'"
      "er' < length (hevents h')" "cxt h' = Cxt_live"
    using mango_write_bound [OF _ w' [folded ev'_def, unfolded same]] ok br(4) by metis
  have "br' = br" using br(1,4) br'(1) skel_simps(2) by (metis option.inject)
  then have "er' = er" "ev' = ev" using br br' by simp_all
  then have bound: "sm_at (cxt_events (cl_host u)) ev = Some er" "er < length (hevents (cl_host u))"
    "cxt (cl_host u) = Cxt_live"
    using br'(4-6) u by simp_all
  let ?ev = "\<lparr>e_ctx = q_ctx qu, e_queue = q, e_ev = ev, e_status = LOCK, e_type = CL_COMMAND_WRITE_BUFFER\<rparr>"
  show ?thesis
    by (rule finish_two_writes [OF assms(1) bound(3,1,2), where qu = "qu\<lparr>q_events := q_events qu @ [r, r']\<rparr>"
          and xs = "q_events qu" and r = r and ev = ?ev and ev' = ?ev])
      (use s same t u \<open>ev' = ev\<close> in \<open>simp_all add: nth_append\<close>)
qed

definition two_writes :: "bank cl" where
  "two_writes = bare_queue\<lparr>
     cl_contexts := [Some \<lparr>c_queue = Some 0, c_program = None, c_devices = [], c_mems = [0]\<rparr>],
     cl_mems := [Some \<lparr>m_ctx = 0, m_buffer = 5, m_id = 5, m_type = CL_MEM_OBJECT_BUFFER, m_host_ptr = 0,
       m_flags = 1, m_size = 4\<rparr>],
     cl_host := (one_event 2)\<lparr>id_gen := 2, cxt_events := [(0, 0), (1, 1)],
       cxt_buffers := [(5, 0)], hbuffers := [\<lparr>b_id = 5, b_event = 1, b_cluster = 0,
       b_phy = 64, b_tile = 0, b_size = 4, b_in = [], b_out = [], b_fifo = False\<rparr>],
       hevents := [new_event 0 0 [] [] False, (new_event 0 1 [] [] False)\<lparr>ev_phy := 8\<rparr>]\<rparr>\<rparr>"

lemma two_writes_ok: "host_ok two_writes"
  by (simp add: host_ok_def consistent_def two_writes_def one_event_def host_init_def sk_ok_def skel_def
      numbered_def owned_def registered_def new_event_def sm_ok_def All_less_Suc)

lemmas write_run = clEnqueueWriteBuffer_def event_of_def cl_enqueue_write_buffer_def check_wait_list_def
  await_list_def push_event_def put_simps act_simps two_writes_def bare_queue_def one_event_def host_init_def
  new_event_def mango_write_def get_buffer_def access_simps buffer_write_def positive_event_id_def event_id_def
  cl_init_def bank_platform_def transfer_size_def

theorem two_writes_never_finish_witness:
  "\<exists>t u. clEnqueueWriteBuffer (bank_platform True) (Some 0) (Some 0) (Some [1, 2, 3, 4]) 0 None two_writes
        = Some (Inr (CL_SUCCESS, Some 0), t)
     \<and> clEnqueueWriteBuffer (bank_platform True) (Some 0) (Some 0) (Some [5, 6, 7, 8]) 0 None t
        = Some (Inr (CL_SUCCESS, Some 1), u)
     \<and> clFinish (bank_platform True) (Some 0) u = None"
proof -
  let ?P = "bank_platform True"
  have sync: "sync_arch (host_arch ?P) (\<lambda>w. w)" by (rule tilereg.sync_arch_axioms)
  obtain t where t: "clEnqueueWriteBuffer ?P (Some 0) (Some 0) (Some [1, 2, 3, 4]) 0 None two_writes
        = Some (Inr (CL_SUCCESS, Some 0), t)"
    by (simp add: write_run)
  obtain u where u: "clEnqueueWriteBuffer ?P (Some 0) (Some 0) (Some [5, 6, 7, 8]) 0 None t
        = Some (Inr (CL_SUCCESS, Some 1), u)"
    using t by (auto simp: write_run)
  have "length (hevents (cl_host two_writes)) \<le> 2 ^ 32" by (simp add: two_writes_def)
  from two_writes_never_finish [OF sync two_writes_ok this t u] t u show ?thesis by blast
qed

section \<open>One write\<close>

text \<open>
  C22. One write enqueued on an empty queue can be finished exactly when the register of the
  buffer's event holds WRITE, as the resource allocation leaves it.
\<close>

theorem one_write_finishes_iff:
  assumes "sync_arch (host_arch P) reg" and "host_ok s" and "length (hevents (cl_host s)) \<le> 2 ^ 32"
    and "clEnqueueWriteBuffer P (Some q) (Some b) (Some mem) 0 None s = Some (Inr (CL_SUCCESS, Some r), t)"
    and "cl_queues s ! q = Some qu" and "q_events qu = []" and "cl_mems s ! b = Some m"
    and "sm_at (cxt_buffers (cl_host s)) (m_buffer m) = Some br"
    and "hevents (cl_host t) ! b_event (hbuffers (cl_host s) ! br) = e"
  shows "(\<exists>u. clFinish P (Some q) t = Some (Inr CL_SUCCESS, u))
    \<longleftrightarrow> reg (world (cl_host t)) (ev_addr e) = status_code WRITE"
proof -
  from assms(4) obtain qu' m' h where s: "q < length (cl_queues s)" "cl_queues s ! q = Some qu'"
      "b < length (cl_mems s)" "cl_mems s ! b = Some m'" "r = length (cl_events s)"
    and w: "mango_write P (Some mem) (m_buffer m') DIRECT 0 (cl_host s) = Some (Inr (e_ev (the (cl_events t ! r))), h)"
    and t: "t = s\<lparr>cl_host := h, cl_queues := (cl_queues s)[q := Some (qu'\<lparr>q_events := q_events qu' @ [r]\<rparr>)],
       cl_events := cl_events s @ [Some \<lparr>e_ctx = q_ctx qu', e_queue = q,
         e_ev = e_ev (the (cl_events t ! r)), e_status = LOCK, e_type = CL_COMMAND_WRITE_BUFFER\<rparr>]\<rparr>"
    by (rule enqueue_write_run)
  define ev where "ev = e_ev (the (cl_events t ! r))"
  note t = t [folded ev_def]
  have same: "qu' = qu" "m' = m" using s assms(5,7) by simp_all
  obtain br' er where br: "sm_at (cxt_buffers (cl_host s)) (m_buffer m) = Some br'"
      "er = snd (sk_buffers (skel (cl_host s)) ! br')" "br' < length (hbuffers (cl_host s))"
      "sm_at (cxt_events h) ev = Some er" "er < length (hevents h)" "cxt h = Cxt_live"
    using mango_write_bound [OF host_ok_sk [OF assms(2,3)] w [folded ev_def, unfolded same]] by metis
  let ?ev = "\<lparr>e_ctx = q_ctx qu, e_queue = q, e_ev = ev, e_status = LOCK, e_type = CL_COMMAND_WRITE_BUFFER\<rparr>"
  let ?qu = "qu\<lparr>q_events := [r]\<rparr>"
  have top: "q < length (cl_queues t)" "cl_queues t ! q = Some ?qu" "r < length (cl_events t)"
    "cl_events t ! r = Some ?ev" "cl_host t = h"
    using s t same assms(6) by simp_all
  have finish: "(\<exists>u. clFinish P (Some q) t = Some (Inr CL_SUCCESS, u))
      \<longleftrightarrow> (\<exists>u. finish_round P q t = Some (Inr CL_SUCCESS, u))"
    using top(1,2) by (auto simp: clFinish_def cl_finish_def act_simps split: option.splits sum.splits)
  note round = finish_round_write [of q t ?qu "[]" r ?ev P, OF top(1,2) _ top(3,4)]
  note wait = wait_returns_iff [OF assms(1) br(6,4,5), of "status_code WRITE"]
  have "e = hevents h ! er" using assms(8,9) top(5) br(1-3) skel_nth(2) by simp
  show ?thesis
  proof
    assume "\<exists>u. clFinish P (Some q) t = Some (Inr CL_SUCCESS, u)"
    with finish obtain u where u: "finish_round P q t = Some (Inr CL_SUCCESS, u)" by blast
    have "mango_wait_state P ev (status_code WRITE) h \<noteq> None"
    proof
      assume "mango_wait_state P ev (status_code WRITE) h = None"
      with round(1) u show False by (simp add: top(5))
    qed
    with wait(2) show "reg (world (cl_host t)) (ev_addr e) = status_code WRITE"
      unfolding top(5) \<open>e = hevents h ! er\<close> by blast
  next
    assume "reg (world (cl_host t)) (ev_addr e) = status_code WRITE"
    with wait(1) obtain h' where "mango_wait_state P ev (status_code WRITE) h = Some (Inr (), h')"
      by (auto simp: top(5) \<open>e = hevents h ! er\<close>)
    with round(2) finish show "\<exists>u. clFinish P (Some q) t = Some (Inr CL_SUCCESS, u)" by (auto simp: top(5))
  qed
qed

theorem one_write_finishes_iff_witness:
  "\<exists>t u. clEnqueueWriteBuffer (bank_platform True) (Some 0) (Some 0) (Some [1, 2, 3, 4]) 0 None
        (two_writes\<lparr>cl_host := (cl_host two_writes)\<lparr>world := (\<lambda>_. 0)(\<lparr>vaddr = 8\<rparr> := 2)\<rparr>\<rparr>)
        = Some (Inr (CL_SUCCESS, Some 0), t)
     \<and> clFinish (bank_platform True) (Some 0) t = Some (Inr CL_SUCCESS, u)"
proof -
  let ?P = "bank_platform True"
  let ?s = "two_writes\<lparr>cl_host := (cl_host two_writes)\<lparr>world := (\<lambda>_. 0)(\<lparr>vaddr = 8\<rparr> := 2)\<rparr>\<rparr>"
  have sync: "sync_arch (host_arch ?P) (\<lambda>w. w)" by (rule tilereg.sync_arch_axioms)
  have ok: "host_ok ?s"
    using two_writes_ok by (simp add: host_ok_def consistent_def skel_def)
  obtain t where t: "clEnqueueWriteBuffer ?P (Some 0) (Some 0) (Some [1, 2, 3, 4]) 0 None ?s
        = Some (Inr (CL_SUCCESS, Some 0), t)"
      "world (cl_host t) \<lparr>vaddr = 8\<rparr> = 2" "hevents (cl_host t) = hevents (cl_host two_writes)"
    by (simp add: write_run)
  have "length (hevents (cl_host ?s)) \<le> 2 ^ 32" by (simp add: two_writes_def)
  from one_write_finishes_iff [OF sync ok this t(1), where m = "the (cl_mems two_writes ! 0)" and br = 0
      and qu = "the (cl_queues two_writes ! 0)" and e = "hevents (cl_host two_writes) ! 1"] t
  show ?thesis by (auto simp: two_writes_def bare_queue_def new_event_def ev_addr_def)
qed

end
