(* ===== verification/CL_Handles.thy ===== *)
theory CL_Handles
  imports CL_Reach
begin

text \<open>
  The handles inside the objects of the OpenCL layer: each has been created as an object of
  the kind its field calls for. The objects of a kind are never reused and their stores
  only grow, so what is well formed stays so when objects are added. The devices of a
  context and the device of a queue are left out: the code copies what the caller passes.
\<close>

section \<open>Well-formed objects\<close>

definition points :: "nat \<Rightarrow> nat option \<Rightarrow> bool" where
  "points n r \<longleftrightarrow> (\<forall>i. r = Some i \<longrightarrow> i < n)"

definition device_ok :: "nat \<Rightarrow> cl_device \<Rightarrow> bool" where
  "device_ok nq d \<longleftrightarrow> points nq (d_queue d)"

definition context_ok :: "nat \<Rightarrow> nat \<Rightarrow> nat \<Rightarrow> cl_context \<Rightarrow> bool" where
  "context_ok nq np nm c \<longleftrightarrow> points nq (c_queue c) \<and> points np (c_program c) \<and> (\<forall>m \<in> set (c_mems c). m < nm)"

definition queue_ok :: "nat \<Rightarrow> nat \<Rightarrow> cl_command_queue \<Rightarrow> bool" where
  "queue_ok nc ne q \<longleftrightarrow> q_ctx q < nc \<and> (\<forall>e \<in> set (q_events q). e < ne)"

definition program_ok :: "nat \<Rightarrow> nat \<Rightarrow> cl_program \<Rightarrow> bool" where
  "program_ok nc nd p \<longleftrightarrow> p_ctx p < nc \<and> (\<forall>f \<in> snd ` set (p_functions p). points nd (mf_device f))"

definition kernel_ok :: "nat \<Rightarrow> nat \<Rightarrow> cl_kernel \<Rightarrow> bool" where
  "kernel_ok nd np k \<longleftrightarrow> points nd (kn_device k) \<and> kn_program k < np"

definition mem_ok :: "nat \<Rightarrow> cl_mem \<Rightarrow> bool" where
  "mem_ok nc m \<longleftrightarrow> m_ctx m < nc"

definition event_ok :: "nat \<Rightarrow> nat \<Rightarrow> cl_event \<Rightarrow> bool" where
  "event_ok nc nq e \<longleftrightarrow> e_ctx e < nc \<and> e_queue e < nq"

definition all_of :: "('a \<Rightarrow> bool) \<Rightarrow> 'a option list \<Rightarrow> bool" where
  "all_of good xs \<longleftrightarrow> (\<forall>x. Some x \<in> set xs \<longrightarrow> good x)"

definition cl_typed :: "'w cl \<Rightarrow> bool" where
  "cl_typed s \<longleftrightarrow>
     (let nd = length (cl_devices s); nc = length (cl_contexts s); nq = length (cl_queues s);
          np = length (cl_programs s); nm = length (cl_mems s); ne = length (cl_events s) in
      all_of (device_ok nq) (cl_devices s) \<and> all_of (context_ok nq np nm) (cl_contexts s)
    \<and> all_of (queue_ok nc ne) (cl_queues s) \<and> all_of (program_ok nc nd) (cl_programs s)
    \<and> all_of (kernel_ok nd np) (cl_kernels s) \<and> all_of (mem_ok nc) (cl_mems s)
    \<and> all_of (event_ok nc nq) (cl_events s))"

lemma all_of_simps [simp]:
  "all_of good []" "all_of good (xs @ ys) = (all_of good xs \<and> all_of good ys)"
  "all_of good (Some a # xs) = (good a \<and> all_of good xs)" "all_of good (None # xs) = all_of good xs"
  by (auto simp: all_of_def)

lemma all_of_nth: "all_of good xs \<Longrightarrow> i < length xs \<Longrightarrow> xs ! i = Some a \<Longrightarrow> good a"
  unfolding all_of_def by (metis nth_mem)

lemma all_of_update: "all_of good xs \<Longrightarrow> (\<And>a. x = Some a \<Longrightarrow> good a) \<Longrightarrow> all_of good (xs[i := x])"
  unfolding all_of_def using set_update_subset_insert by fastforce

lemma all_of_mono: "all_of good xs \<Longrightarrow> (\<And>a. good a \<Longrightarrow> better a) \<Longrightarrow> all_of better xs"
  by (auto simp: all_of_def)

lemma points_mono: "points n r \<Longrightarrow> n \<le> n' \<Longrightarrow> points n' r"
  and points_simps [simp]: "points n None" "points n (Some i) = (i < n)"
  by (auto simp: points_def)

lemma ok_mono:
  "device_ok nq d \<Longrightarrow> nq \<le> nq' \<Longrightarrow> device_ok nq' d"
  "context_ok nq np nm c \<Longrightarrow> nq \<le> nq' \<Longrightarrow> np \<le> np' \<Longrightarrow> nm \<le> nm' \<Longrightarrow> context_ok nq' np' nm' c"
  "queue_ok nc ne q \<Longrightarrow> nc \<le> nc' \<Longrightarrow> ne \<le> ne' \<Longrightarrow> queue_ok nc' ne' q"
  "program_ok nc nd p \<Longrightarrow> nc \<le> nc' \<Longrightarrow> nd \<le> nd' \<Longrightarrow> program_ok nc' nd' p"
  "kernel_ok nd np k \<Longrightarrow> nd \<le> nd' \<Longrightarrow> np \<le> np' \<Longrightarrow> kernel_ok nd' np' k"
  "mem_ok nc m \<Longrightarrow> nc \<le> nc' \<Longrightarrow> mem_ok nc' m"
  "event_ok nc nq e \<Longrightarrow> nc \<le> nc' \<Longrightarrow> nq \<le> nq' \<Longrightarrow> event_ok nc' nq' e"
  by (fastforce simp: device_ok_def context_ok_def queue_ok_def program_ok_def kernel_ok_def mem_ok_def
      event_ok_def intro: points_mono less_le_trans)+

text \<open>One store changes: the rules for adding and replacing an object of each kind.\<close>

lemmas typed_parts = cl_typed_def Let_def

lemma typed_host [simp]: "cl_typed (s\<lparr>cl_host := h\<rparr>) = cl_typed s"
  by (simp add: typed_parts)

lemma typed_add:
  assumes "cl_typed s"
  shows "device_ok (length (cl_queues s)) d \<Longrightarrow> cl_typed (s\<lparr>cl_devices := cl_devices s @ [Some d]\<rparr>)"
    and "context_ok (length (cl_queues s)) (length (cl_programs s)) (length (cl_mems s)) c \<Longrightarrow>
      cl_typed (s\<lparr>cl_contexts := cl_contexts s @ [Some c]\<rparr>)"
    and "queue_ok (length (cl_contexts s)) (length (cl_events s)) q \<Longrightarrow>
      cl_typed (s\<lparr>cl_queues := cl_queues s @ [Some q]\<rparr>)"
    and "program_ok (length (cl_contexts s)) (length (cl_devices s)) p \<Longrightarrow>
      cl_typed (s\<lparr>cl_programs := cl_programs s @ [Some p]\<rparr>)"
    and "kernel_ok (length (cl_devices s)) (length (cl_programs s)) k \<Longrightarrow>
      cl_typed (s\<lparr>cl_kernels := cl_kernels s @ [Some k]\<rparr>)"
    and "mem_ok (length (cl_contexts s)) m \<Longrightarrow> cl_typed (s\<lparr>cl_mems := cl_mems s @ [Some m]\<rparr>)"
    and "event_ok (length (cl_contexts s)) (length (cl_queues s)) e \<Longrightarrow>
      cl_typed (s\<lparr>cl_events := cl_events s @ [Some e]\<rparr>)"
  using assms by (auto simp: typed_parts intro: ok_mono elim!: all_of_mono)

lemma typed_put:
  assumes "cl_typed s"
  shows "(\<And>a. x = Some a \<Longrightarrow> device_ok (length (cl_queues s)) a) \<Longrightarrow>
      cl_typed (s\<lparr>cl_devices := (cl_devices s)[i := x]\<rparr>)"
    and "(\<And>a. y = Some a \<Longrightarrow> context_ok (length (cl_queues s)) (length (cl_programs s)) (length (cl_mems s)) a) \<Longrightarrow>
      cl_typed (s\<lparr>cl_contexts := (cl_contexts s)[i := y]\<rparr>)"
    and "(\<And>a. z = Some a \<Longrightarrow> queue_ok (length (cl_contexts s)) (length (cl_events s)) a) \<Longrightarrow>
      cl_typed (s\<lparr>cl_queues := (cl_queues s)[i := z]\<rparr>)"
    and "(\<And>a. p = Some a \<Longrightarrow> program_ok (length (cl_contexts s)) (length (cl_devices s)) a) \<Longrightarrow>
      cl_typed (s\<lparr>cl_programs := (cl_programs s)[i := p]\<rparr>)"
    and "(\<And>a. k = Some a \<Longrightarrow> kernel_ok (length (cl_devices s)) (length (cl_programs s)) a) \<Longrightarrow>
      cl_typed (s\<lparr>cl_kernels := (cl_kernels s)[i := k]\<rparr>)"
    and "(\<And>a. m = Some a \<Longrightarrow> mem_ok (length (cl_contexts s)) a) \<Longrightarrow>
      cl_typed (s\<lparr>cl_mems := (cl_mems s)[i := m]\<rparr>)"
    and "(\<And>a. e = Some a \<Longrightarrow> event_ok (length (cl_contexts s)) (length (cl_queues s)) a) \<Longrightarrow>
      cl_typed (s\<lparr>cl_events := (cl_events s)[i := e]\<rparr>)"
  using assms by (auto simp: typed_parts intro!: all_of_update)

lemma typed_nth:
  assumes "cl_typed s"
  shows "i < length (cl_devices s) \<Longrightarrow> cl_devices s ! i = Some d \<Longrightarrow> device_ok (length (cl_queues s)) d"
    and "i < length (cl_contexts s) \<Longrightarrow> cl_contexts s ! i = Some c \<Longrightarrow>
      context_ok (length (cl_queues s)) (length (cl_programs s)) (length (cl_mems s)) c"
    and "i < length (cl_queues s) \<Longrightarrow> cl_queues s ! i = Some q \<Longrightarrow>
      queue_ok (length (cl_contexts s)) (length (cl_events s)) q"
    and "i < length (cl_programs s) \<Longrightarrow> cl_programs s ! i = Some p \<Longrightarrow>
      program_ok (length (cl_contexts s)) (length (cl_devices s)) p"
    and "i < length (cl_kernels s) \<Longrightarrow> cl_kernels s ! i = Some k \<Longrightarrow>
      kernel_ok (length (cl_devices s)) (length (cl_programs s)) k"
    and "i < length (cl_mems s) \<Longrightarrow> cl_mems s ! i = Some m \<Longrightarrow> mem_ok (length (cl_contexts s)) m"
    and "i < length (cl_events s) \<Longrightarrow> cl_events s ! i = Some e \<Longrightarrow>
      event_ok (length (cl_contexts s)) (length (cl_queues s)) e"
  using assms by (auto simp: typed_parts intro: all_of_nth)

section \<open>Calls that return or throw\<close>

text \<open>
  A call settles when it returns a value or an error code; a failed assertion or an invalid
  access ends the process, and may leave an object that is not well formed behind.
\<close>

definition settled :: "fault + 'a \<Rightarrow> bool" where
  "settled r \<longleftrightarrow> (case r of Inr _ \<Rightarrow> True | Inl f \<Rightarrow> (\<exists>e. f = Thrown e))"

definition settles :: "('w cl, 'a) act \<Rightarrow> bool" where
  "settles m \<longleftrightarrow> (\<forall>s r t. cl_typed s \<longrightarrow> m s = Some (r, t) \<longrightarrow> settled r \<longrightarrow> cl_typed t)"

lemma settled_simps [simp]:
  "settled (Inr a)" "settled (Inl (Thrown e))" "settled (Inl Assert_failed) = False" "settled (Inl Bad_pointer) = False"
  "settled (Inl Out_of_bounds) = False" "settled (Inl Double_free) = False" "settled (Inl Runtime_error) = False"
  by (simp_all add: settled_def)

named_theorems typing \<open>actions that keep the handles well formed\<close>

lemma settles_keeps: "keeps cl_typed m \<Longrightarrow> settles m"
  by (auto simp: keeps_def settles_def)

lemma settlesD: "settles m \<Longrightarrow> cl_typed s \<Longrightarrow> m s = Some (r, t) \<Longrightarrow> settled r \<Longrightarrow> cl_typed t"
  by (auto simp: settles_def)

lemma settlesI: "(\<And>s r t. cl_typed s \<Longrightarrow> m s = Some (r, t) \<Longrightarrow> settled r \<Longrightarrow> cl_typed t) \<Longrightarrow> settles m"
  by (auto simp: settles_def)

lemma settles_andThen:
  assumes "settles m" and f: "\<And>a. settles (f a)"
  shows "settles (andThen m f)"
proof (rule settlesI)
  fix s r t assume s: "cl_typed s" and run: "andThen m f s = Some (r, t)" and r: "settled r"
  from run obtain q u where m: "m s = Some (q, u)" by (auto simp: act_simps split: option.splits)
  show "cl_typed t"
  proof (cases q)
    case (Inl e)
    with run m have "r = Inl e" "t = u" by (simp_all add: act_simps)
    with r have "settled q" using Inl by (auto simp: settled_def)
    with settlesD [OF assms(1) s m] \<open>t = u\<close> show ?thesis by simp
  next
    case (Inr a)
    with run m have "f a u = Some (r, t)" by (simp add: act_simps)
    with settlesD [OF f _ _ r] settlesD [OF assms(1) s m] Inr show ?thesis by simp
  qed
qed

lemma settles_catch:
  assumes "settles m" and h: "\<And>e. settles (h e)"
  shows "settles (catch_cl m h)"
proof (rule settlesI)
  fix s r t assume s: "cl_typed s" and run: "catch_cl m h s = Some (r, t)" and r: "settled r"
  from run obtain q u where m: "m s = Some (q, u)" by (auto simp: act_simps split: option.splits)
  show "cl_typed t"
  proof (cases "\<exists>e. q = Inl (Thrown e)")
    case True
    then obtain e where q: "q = Inl (Thrown e)" ..
    with run m have "h e u = Some (r, t)" by (simp add: act_simps)
    with settlesD [OF h _ _ r] settlesD [OF assms(1) s m] q show ?thesis by simp
  next
    case False
    with run m have "q = r" "u = t" by (auto simp: act_simps split: sum.splits fault.splits)
    with settlesD [OF assms(1) s m] r show ?thesis by simp
  qed
qed

lemma settles_if: "settles m \<Longrightarrow> settles n \<Longrightarrow> settles (if b then m else n)"
  by simp

lemma settles_ret: "settles (ret a)"
  by (simp add: settles_def act_simps)

lemmas [typing] = keeps_ret keeps_fail keeps_reads keeps_assert keeps_from_option keeps_lift_sum
  keeps_andThen keeps_forEach keeps_mapEach keeps_foldEach keeps_fetch frame_if frame_option frame_prod
  lift_catch lift_throw lift_at_index lift_object

lemma type_host [typing]: "keeps cl_typed (in_host m)"
  by (auto simp: keeps_def act_simps split: option.splits)

lemma type_delete [typing]: "(\<And>s. cl_typed s \<Longrightarrow> cl_typed (drp r s)) \<Longrightarrow> keeps cl_typed (delete sel drp r)"
  unfolding delete_def by (intro typing keeps_modify)

lemma type_device [typing]: "keeps cl_typed (new_device u)" "keeps cl_typed (cl_get_device_ids t n d m)"
proof -
  show new: "keeps cl_typed (new_device u)" for u
    unfolding new_device_def by (auto simp: keeps_def act_simps device_ok_def intro: typed_add(1))
  show "keeps cl_typed (cl_get_device_ids t n d m)"
    unfolding cl_get_device_ids_def Let_def by (auto intro!: typing new)
qed

lemma type_context [typing]: "keeps cl_typed (cl_create_context P p n ds r)"
  unfolding cl_create_context_def
  by (auto intro!: typing keeps_modify typed_add(2) simp: context_ok_def)

lemma type_from_type [typing]: "keeps cl_typed (cl_create_context_from_type P p t r)"
  unfolding cl_create_context_from_type_def Let_def by (auto intro!: typing)

section \<open>Events and commands\<close>

lemma put_event_after_host:
  "andThen (in_host m) (\<lambda>_. put_cl_event r e) s = Some (q, t) \<Longrightarrow>
     t = s\<lparr>cl_host := cl_host t\<rparr> \<or> t = s\<lparr>cl_host := cl_host t, cl_events := (cl_events s)[r := Some e]\<rparr>"
  by (auto simp: act_simps put_simps split: option.splits sum.splits)

lemma type_wait_one [typing]: "keeps cl_typed (wait_one P r)"
proof (rule keepsI)
  fix s q t assume s: "cl_typed s" and run: "wait_one P r s = Some (q, t)"
  show "cl_typed t"
  proof (cases "r < length (cl_events s) \<and> cl_events s ! r \<noteq> None")
    case True
    then obtain e where e: "r < length (cl_events s)" "cl_events s ! r = Some e" by auto
    let ?e = "e\<lparr>e_status := status_for (e_type e)\<rparr>"
    have ok: "event_ok (length (cl_contexts s)) (length (cl_queues s)) ?e"
      using typed_nth(7) [OF s e] by (simp add: event_ok_def)
    from run e have "t = s \<or> t = s\<lparr>cl_host := cl_host t\<rparr>
        \<or> t = s\<lparr>cl_host := cl_host t, cl_events := (cl_events s)[r := Some ?e]\<rparr>"
      unfolding wait_one_def andThen_run [of "object cl_events r"] object_run
      by (auto simp: ret_run dest: put_event_after_host split: if_splits)
    moreover have "cl_typed (s\<lparr>cl_host := cl_host t, cl_events := (cl_events s)[r := Some ?e]\<rparr>)"
      using typed_put(7) [of "s\<lparr>cl_host := cl_host t\<rparr>" "Some ?e" r] s ok by simp
    ultimately show ?thesis using s by (metis typed_host)
  next
    case False
    with run s show ?thesis by (auto simp: wait_one_def act_simps split: if_splits option.splits)
  qed
qed

lemma type_wait [typing]: "keeps cl_typed (cl_wait_for_events P n evs)" "keeps cl_typed (clWaitForEvents P n evs)"
  unfolding clWaitForEvents_def code_of_def cl_wait_for_events_def
  by (auto intro!: typing split: option.split)

lemma type_push [typing]: "keeps cl_typed (push_event q ev t)"
proof (rule keepsI)
  fix s r u assume s: "cl_typed s" and run: "push_event q ev t s = Some (r, u)"
  show "cl_typed u"
  proof (cases "q < length (cl_queues s) \<and> cl_queues s ! q \<noteq> None")
    case True
    then obtain qu where qu: "q < length (cl_queues s)" "cl_queues s ! q = Some qu" by auto
    let ?e = "\<lparr>e_ctx = q_ctx qu, e_queue = q, e_ev = ev, e_status = LOCK, e_type = t\<rparr>"
    let ?s = "s\<lparr>cl_events := cl_events s @ [Some ?e]\<rparr>"
    note ok = typed_nth(3) [OF s qu]
    have "cl_typed ?s" using ok qu(1) by (intro typed_add(7) s) (simp add: event_ok_def queue_ok_def)
    then have "cl_typed (?s\<lparr>cl_queues := (cl_queues ?s)[q := Some (qu\<lparr>q_events := q_events qu @ [length (cl_events s)]\<rparr>)]\<rparr>)"
      using ok by (intro typed_put(3)) (auto simp: queue_ok_def less_SucI)
    with run qu show ?thesis by (simp add: push_event_def act_simps put_simps)
  next
    case False
    with run s show ?thesis by (auto simp: push_event_def act_simps split: if_splits option.splits)
  qed
qed

lemma type_wait_list [typing]: "keeps cl_typed (check_wait_list c n evs)" "keeps cl_typed (await_list P n evs)"
  unfolding check_wait_list_def checkWaitListInContext_def await_list_def
  by (auto intro!: typing split: option.split)

lemma type_enqueue [typing]:
  "keeps cl_typed (cl_enqueue_task P q k n evs)" "keeps cl_typed (cl_enqueue_write_buffer P q b ptr n evs)"
  "keeps cl_typed (cl_enqueue_read_buffer P q b ptr n evs)"
  unfolding cl_enqueue_task_def cl_enqueue_write_buffer_def cl_enqueue_read_buffer_def
  by (auto intro!: typing split: option.split)

section \<open>Finishing, arguments, allocation\<close>

text \<open>Replacing a queue by one with the same context and fewer events.\<close>

lemma type_requeue:
  assumes "cl_typed s" and "q < length (cl_queues s)" and "cl_queues s ! q = Some qu"
    and "q_ctx qu' = q_ctx qu" and "set (q_events qu') \<subseteq> set (q_events qu)"
  shows "cl_typed (s\<lparr>cl_queues := (cl_queues s)[q := Some qu']\<rparr>)"
  using typed_nth(3) [OF assms(1-3)] assms(4,5)
  by (intro typed_put(3) assms(1)) (auto simp: queue_ok_def)

lemma type_finish [typing]: "keeps cl_typed (clFinish P q)"
proof -
  have pop: "keeps cl_typed (andThen (object cl_queues q) (\<lambda>qu.
      andThen (put_queue q (qu\<lparr>q_events := butlast (q_events qu)\<rparr>)) (\<lambda>_. ret CL_SUCCESS)))" for q
    by (auto simp: keeps_def act_simps put_simps split: option.splits
        intro!: type_requeue dest: in_set_butlastD)
  have "keeps cl_typed (finish_round P q)" for q
    unfolding finish_round_def by (intro typing pop)
  then show ?thesis
    unfolding clFinish_def cl_finish_def by (auto intro!: typing split: option.split)
qed

text \<open>
  Between two looks at the state the stores of devices, contexts, queues and programs keep
  their lengths, so what was well formed at the first look still is at the second.
\<close>

definition sized :: "nat \<Rightarrow> nat \<Rightarrow> nat \<Rightarrow> nat \<Rightarrow> 'w cl \<Rightarrow> bool" where
  "sized nd nc nq np s \<longleftrightarrow> cl_typed s \<and> length (cl_devices s) = nd \<and> length (cl_contexts s) = nc
     \<and> length (cl_queues s) = nq \<and> length (cl_programs s) = np"

lemma keeps_sized: "(\<And>nd nc nq np. keeps (sized nd nc nq np) m) \<Longrightarrow> keeps cl_typed m"
  unfolding keeps_def sized_def by blast

lemma keeps_object_then:
  assumes "\<And>s a. Q s \<Longrightarrow> r < length (sel s) \<Longrightarrow> sel s ! r = Some a \<Longrightarrow> F a" and "\<And>a. F a \<Longrightarrow> keeps Q (f a)"
  shows "keeps Q (andThen (object sel r) f)"
proof (rule keepsI)
  fix s x t assume s: "Q s" and run: "andThen (object sel r) f s = Some (x, t)"
  show "Q t"
  proof (cases "r < length (sel s) \<and> sel s ! r \<noteq> None")
    case True
    then obtain a where a: "r < length (sel s)" "sel s ! r = Some a" by auto
    with run have "f a s = Some (x, t)" by (simp add: act_simps)
    with assms(2) [OF assms(1) [OF s a]] s show ?thesis by (rule keepsD)
  next
    case False
    with run s show ?thesis by (auto simp: act_simps split: if_splits option.splits)
  qed
qed

lemmas sized_rules = keeps_ret keeps_fail keeps_reads keeps_assert keeps_from_option
  frame_if frame_option frame_prod lift_throw lift_at_index lift_object

lemma sized_host: "keeps (sized nd nc nq np) (in_host m)"
  by (auto simp: keeps_def sized_def act_simps split: option.splits)

lemma sized_event: "c < nc \<Longrightarrow> q < nq \<Longrightarrow> keeps (sized nd nc nq np) (new_cl_event c q ev t)"
  by (auto simp: keeps_def sized_def act_simps put_simps event_ok_def intro: typed_add(7))

lemma sized_kernel: "kernel_ok nd np kn \<Longrightarrow> keeps (sized nd nc nq np) (put_cl_kernel k kn)"
  by (auto simp: keeps_def sized_def act_simps put_simps intro: typed_put(5))

lemma sized_event_arg: "keeps (sized nd nc nq np) (event_arg_object P kn i)"
proof -
  have "keeps (sized nd nc nq np) (andThen (object cl_queues q) (\<lambda>qu.
     andThen (at_index (kn_args kn) (unat i)) (\<lambda>ar.
     andThen (in_host (fetch hargs ar)) (\<lambda>a.
     andThen (in_host (mango_get_buffer_event (a_id a))) (\<lambda>ev.
     andThen (new_cl_event (q_ctx qu) q ev CL_EVENT_ARG) (\<lambda>r.
     ret (r, ev)))))))" for q
    by (rule keeps_object_then [where F = "\<lambda>qu. q < nq \<and> q_ctx qu < nc"])
      (auto simp: sized_def queue_ok_def dest: typed_nth(3) intro!: keeps_andThen sized_rules sized_host sized_event)
  then show ?thesis
    unfolding event_arg_object_def
    by (intro keeps_andThen [OF keeps_from_option keeps_andThen [OF lift_object keeps_andThen [OF keeps_from_option]]])
qed

lemma type_arg [typing]: "keeps cl_typed (cl_set_kernel_arg P k i sz v t)"
proof (cases k)
  case (Some kr)
  have val: "keeps (sized nd nc nq np)
      (if t = CL_SCALAR_ARG
       then (case the v of Arg_bytes bs \<Rightarrow> ret (bs, scalar_size sz, C_SCALAR, None) | _ \<Rightarrow> fail Bad_pointer)
       else if t = CL_BUFFER_ARG
       then (case the v of
               Arg_mem b \<Rightarrow> andThen (object cl_mems b) (\<lambda>m. ret (word_bytes (m_buffer m), 8, C_BUFFER, None))
             | _ \<Rightarrow> fail Bad_pointer)
       else if t = CL_EVENT_ARG
       then (case the v of
               Arg_event \<Rightarrow> andThen (event_arg_object P kn i) (\<lambda>(r, ev). ret (word_bytes ev, 8, C_EVENT, Some r))
             | _ \<Rightarrow> fail Bad_pointer)
       else throw CL_INVALID_VALUE)" for nd nc nq np kn
    by (auto intro!: keeps_andThen sized_rules sized_event_arg split: arg_value.split)
  show ?thesis
    unfolding cl_set_kernel_arg_def Some option.case
  proof (intro frame_if lift_throw keeps_sized, goal_cases)
    case (1 nd nc nq np)
    show ?case
    proof (rule keeps_object_then [where F = "kernel_ok nd np"], goal_cases)
      case (1 s a)
      then show ?case using typed_nth(5) by (auto simp: sized_def)
    next
      case (2 kn)
      then have "kernel_ok nd np (kn\<lparr>kn_args := as\<rparr>)" for as by (simp add: kernel_ok_def)
      then show ?case by (intro keeps_andThen val frame_prod sized_rules sized_host sized_kernel)
    qed
  qed
qed (simp add: cl_set_kernel_arg_def lift_throw)

end
