(* ===== verification/CL_Typed.thy ===== *)
theory CL_Typed
  imports CL_Handles
begin

text \<open>
  The constructors of the OpenCL layer keep the handles well formed, and with them every
  call of a program that has returned or thrown so far.
\<close>

section \<open>Constructors\<close>

text \<open>The same with the stores of memory objects and events fixed as well.\<close>

definition still :: "nat \<Rightarrow> nat \<Rightarrow> nat \<Rightarrow> nat \<Rightarrow> nat \<Rightarrow> nat \<Rightarrow> 'w cl \<Rightarrow> bool" where
  "still nd nc nq np nm ne s \<longleftrightarrow> sized nd nc nq np s \<and> length (cl_mems s) = nm \<and> length (cl_events s) = ne"

lemma keeps_still: "(\<And>nd nc nq np nm ne. keeps (still nd nc nq np nm ne) m) \<Longrightarrow> keeps cl_typed m"
  unfolding keeps_def still_def sized_def by blast

lemma still_host: "keeps (still nd nc nq np nm ne) (in_host m)"
  by (auto simp: keeps_def still_def sized_def act_simps split: option.splits)

lemma still_put:
  "queue_ok nc ne qu \<Longrightarrow> keeps (still nd nc nq np nm ne) (put_queue q qu)"
  "context_ok nq np nm cx \<Longrightarrow> keeps (still nd nc nq np nm ne) (put_context c cx)"
  "kernel_ok nd np k \<Longrightarrow> keeps (still nd nc nq np nm ne) (modify (\<lambda>s. s\<lparr>cl_kernels := cl_kernels s @ [Some k]\<rparr>))"
  by (auto simp: keeps_def still_def sized_def act_simps put_simps intro: typed_put typed_add)

lemma still_queue_then:
  "(\<And>qu. queue_ok nc ne qu \<Longrightarrow> keeps (still nd nc nq np nm ne) (f qu)) \<Longrightarrow>
     keeps (still nd nc nq np nm ne) (andThen (object cl_queues q) f)"
  by (rule keeps_object_then [where F = "queue_ok nc ne"]) (auto simp: still_def sized_def dest: typed_nth(3))

lemma tgx_ok [simp]: "queue_ok nc ne (qu\<lparr>q_tgx := g\<rparr>) = queue_ok nc ne qu"
  by (simp add: queue_ok_def)

lemma function_at_ok: "program_ok nc nd p \<Longrightarrow> points nd (mf_device (function_at a p))"
proof -
  have "sm_at m a = Some f \<Longrightarrow> f \<in> snd ` set m" for m :: "(u64, mango_kernel_function) smap" and f
    by (induction m a rule: sm_at.induct) (auto split: if_splits)
  then show "program_ok nc nd p \<Longrightarrow> points nd (mf_device (function_at a p))"
    by (auto simp: function_at_def no_function_def program_ok_def split: option.split)
qed

lemma type_kernel [typing]: "keeps cl_typed (cl_create_kernel P p b i)"
proof -
  have tail: "keeps (still nd nc nq np nm ne) (andThen (object cl_queues q) (\<lambda>qu.
      andThen (in_host (H qu)) (\<lambda>g. andThen (put_queue q (qu\<lparr>q_tgx := Some g\<rparr>)) (\<lambda>_. ret r))))"
    for nd nc nq np nm ne q H r
    by (intro still_queue_then keeps_andThen keeps_ret still_host still_put) simp
  show ?thesis
  proof (cases "p = None \<or> b = None")
    case True
    then show ?thesis
      unfolding cl_create_kernel_def by (auto intro!: typing split: option.split)
  next
    case False
    then obtain pr a path where some: "p = Some pr" "b = Some (a, path)" by auto
    show ?thesis
      unfolding cl_create_kernel_def some option.case prod.case
    proof (rule keeps_still, goal_cases)
      case (1 nd nc nq np nm ne)
      show ?case
      proof (rule keeps_object_then [where F = "\<lambda>p. program_ok nc nd p \<and> pr < np"], goal_cases)
        case (1 s p)
        then show ?case using typed_nth(4) by (auto simp: still_def sized_def)
      next
        case (2 p)
        then have "kernel_ok nd np \<lparr>kn_device = mf_device (function_at a p), kn_program = pr, kn_kernel = k,
            kn_id = of_int i, kn_args = []\<rparr>" for k
          by (auto simp: kernel_ok_def intro: function_at_ok)
        then show ?case
          unfolding Let_def
          by (intro frame_if lift_throw keeps_andThen [OF still_host] keeps_andThen [OF keeps_reads]
              keeps_andThen [OF still_put(3)] keeps_andThen [OF keeps_from_option] keeps_andThen [OF lift_object] tail)
      qed
    qed
  qed
qed

lemma settles_queue: "settles (cl_create_command_queue c d)"
proof (rule settlesI)
  fix s r t assume s: "cl_typed s" and run: "cl_create_command_queue c d s = Some (r, t)" and r: "settled r"
  show "cl_typed t"
  proof (cases "c = None \<or> d = None")
    case True
    with run s show ?thesis
      by (auto simp: cl_create_command_queue_def act_simps split: option.splits)
  next
    case False
    then obtain cr dr where some: "c = Some cr" "d = Some dr" by auto
    let ?q = "length (cl_queues s)"
    let ?s = "s\<lparr>cl_queues := cl_queues s @ [Some \<lparr>q_ctx = cr, q_device = dr, q_tgx = None, q_events = []\<rparr>]\<rparr>"
    have "\<exists>cx. cr < length (cl_contexts s) \<and> cl_contexts s ! cr = Some cx"
      using run r some by (auto simp: cl_create_command_queue_def act_simps split: option.splits if_splits)
    then obtain cx where cx: "cr < length (cl_contexts s)" "cl_contexts s ! cr = Some cx" by blast
    let ?t = "?s\<lparr>cl_contexts := (cl_contexts s)[cr := Some (cx\<lparr>c_queue := Some ?q\<rparr>)]\<rparr>"
    have "cl_typed ?s" using cx(1) by (intro typed_add(3) s) (simp add: queue_ok_def)
    from typed_put(2) [OF this, of "Some (cx\<lparr>c_queue := Some ?q\<rparr>)" cr]
    have t: "cl_typed ?t" using typed_nth(2) [OF s cx] by (simp add: context_ok_def)
    have each: "keeps (\<lambda>s. cl_typed s \<and> ?q < length (cl_queues s)) (set_queue ?q d)" for d
      by (auto simp: keeps_def set_queue_def act_simps put_simps device_ok_def split: option.splits
          intro: typed_put(1))
    from run some cx obtain x where "forEach (c_devices cx) (set_queue ?q) ?t = Some (x, t)"
      by (auto simp: cl_create_command_queue_def act_simps put_simps split: option.splits sum.splits)
    with keepsD [OF keeps_forEach [OF each]] t show ?thesis by fastforce
  qed
qed

lemma still_add_mem:
  assumes "context_ok nq np nm cx'"
  shows "keeps (still nd nc nq np nm ne) (andThen (from_option e x) (\<lambda>q.
    andThen (object cl_queues q) (\<lambda>qu.
    andThen (in_host (H qu)) (\<lambda>g.
    andThen (put_queue q (qu\<lparr>q_tgx := Some g\<rparr>)) (\<lambda>_.
    andThen (put_context cr cx') (\<lambda>_. ret r))))))"
  using assms
  by (intro keeps_andThen [OF keeps_from_option] still_queue_then keeps_andThen [OF still_host]
      keeps_andThen [OF still_put(1)] keeps_andThen [OF still_put(2)] keeps_ret) simp_all

lemma settles_buffer: "settles (cl_create_buffer P c fl sz p ni ki no ko i)"
proof (cases c)
  case (Some cr)
  have tail: "settles (andThen (reads (\<lambda>s. length (cl_mems s))) (\<lambda>r.
      andThen (modify (\<lambda>s. s\<lparr>cl_mems := cl_mems s @ [Some (M b)]\<rparr>)) (\<lambda>_.
      andThen (object cl_contexts cr) (\<lambda>cx.
      andThen (from_option Bad_pointer (c_queue cx)) (\<lambda>q.
      andThen (object cl_queues q) (\<lambda>qu.
      andThen (in_host (mango_task_graph_add_buffer (q_tgx qu) (Some b))) (\<lambda>g.
      andThen (put_queue q (qu\<lparr>q_tgx := Some g\<rparr>)) (\<lambda>_.
      andThen (put_context cr (cx\<lparr>c_mems := c_mems cx @ [r]\<rparr>)) (\<lambda>_.
      ret r)))))))))" (is "settles ?m") if "m_ctx (M b) = cr" for M and b :: u32
  proof (rule settlesI)
    fix s r t assume s: "cl_typed s" and run: "?m s = Some (r, t)" and r: "settled r"
    let ?s = "s\<lparr>cl_mems := cl_mems s @ [Some (M b)]\<rparr>"
    have "\<exists>cx. cr < length (cl_contexts s) \<and> cl_contexts s ! cr = Some cx"
      using run r by (auto simp: act_simps split: option.splits if_splits)
    then obtain cx where cx: "cr < length (cl_contexts s)" "cl_contexts s ! cr = Some cx" by blast
    have typed: "cl_typed ?s" using cx(1) that by (intro typed_add(6) s) (simp add: mem_ok_def)
    then have still: "still (length (cl_devices ?s)) (length (cl_contexts ?s)) (length (cl_queues ?s))
        (length (cl_programs ?s)) (length (cl_mems ?s)) (length (cl_events ?s)) ?s"
      by (simp add: still_def sized_def)
    have ok: "context_ok (length (cl_queues ?s)) (length (cl_programs ?s)) (length (cl_mems ?s))
        (cx\<lparr>c_mems := c_mems cx @ [length (cl_mems s)]\<rparr>)"
      using typed_nth(2) [OF s cx] by (auto simp: context_ok_def)
    have "andThen (from_option Bad_pointer (c_queue cx)) (\<lambda>q.
      andThen (object cl_queues q) (\<lambda>qu.
      andThen (in_host (mango_task_graph_add_buffer (q_tgx qu) (Some b))) (\<lambda>g.
      andThen (put_queue q (qu\<lparr>q_tgx := Some g\<rparr>)) (\<lambda>_.
      andThen (put_context cr (cx\<lparr>c_mems := c_mems cx @ [length (cl_mems s)]\<rparr>)) (\<lambda>_.
      ret (length (cl_mems s))))))) ?s = Some (r, t)"
      using run cx by (simp add: andThen_run [of "reads _"] andThen_run [of "modify _"]
          andThen_run [of "object cl_contexts _"] reads_run modify_run object_run)
    from keepsD [OF still_add_mem [OF ok] still this] show "cl_typed t" by (simp add: still_def sized_def)
  qed
  have regs: "keeps cl_typed (extractKernelIDs ks n)" "keeps cl_typed (register_mem P fl sz j ins outs)" for ks n j ins outs
    unfolding extractKernelIDs_def register_mem_def by (auto intro!: typing)
  show ?thesis
    unfolding cl_create_buffer_def Some option.case
    by (intro settles_andThen [OF settles_keeps [OF regs(1)]] settles_andThen [OF settles_keeps [OF regs(2)]]
        tail settles_keeps [OF lift_throw] settles_if) simp
qed (simp add: cl_create_buffer_def settles_keeps lift_throw)

text \<open>Loading the binaries of a program touches the host only.\<close>

lemma set_function_ok:
  assumes "program_ok nc nd p" and "\<And>f. points nd (mf_device f) \<Longrightarrow> points nd (mf_device (g f))"
  shows "program_ok nc nd (set_function a g p)"
proof -
  have sub: "set (sm_assign a f m) \<subseteq> insert (a, f) (set m)" for f and m :: "(u64, mango_kernel_function) smap"
    by (induction a f m rule: sm_assign.induct) auto
  have "f = f' \<or> f \<in> snd ` set m" if "f \<in> snd ` set (sm_assign a f' m)"
    for f f' and m :: "(u64, mango_kernel_function) smap"
  proof -
    from that obtain k where "(k, f) \<in> set (sm_assign a f' m)" by auto
    with sub have "(k, f) \<in> insert (a, f') (set m)" by blast
    then show ?thesis by force
  qed
  with assms function_at_ok [OF assms(1), of a] show ?thesis
    by (fastforce simp: program_ok_def set_function_def)
qed

lemma load_binary_run:
  assumes "load_binary P ds bs i p s = Some (Inr (Some p'), t)" and "program_ok nc (length (cl_devices s)) p"
  shows "program_ok nc (length (cl_devices s)) p' \<and> t = s\<lparr>cl_host := cl_host t\<rparr>"
  using assms
  by (auto simp: load_binary_def act_simps Let_def split: option.splits sum.splits if_splits
      intro!: set_function_ok)

lemma load_binary_failed:
  "load_binary P ds bs i p s = Some (r, t) \<Longrightarrow> t = s\<lparr>cl_host := cl_host t\<rparr>"
  by (auto simp: load_binary_def act_simps Let_def split: option.splits sum.splits if_splits)

lemma load_binaries_run:
  assumes "load_binaries P ds bs n p s = Some (r, t)" and "program_ok nc (length (cl_devices s)) p"
  shows "t = s\<lparr>cl_host := cl_host t\<rparr>
    \<and> (\<forall>p' st. r = Inr (Some p', st) \<longrightarrow> program_ok nc (length (cl_devices s)) p')"
proof -
  have "t = s\<lparr>cl_host := cl_host t\<rparr>
      \<and> (\<forall>p' st. r = Inr (Some p', st) \<longrightarrow> program_ok nc (length (cl_devices s)) p')"
    if "foldEach is (po, st) (\<lambda>i (p, st).
       case p of None \<Rightarrow> ret (None, st)
       | Some p \<Rightarrow>
           andThen (load_binary P ds bs i p) (\<lambda>p'.
           ret (p', st @ [if p' = None then CL_INVALID_BINARY else CL_SUCCESS]))) s = Some (r, t)"
      and "\<And>p. po = Some p \<Longrightarrow> program_ok nc (length (cl_devices s)) p" for "is" po st s
    using that
  proof (induction "is" arbitrary: po st s)
    case Nil
    then show ?case by (auto simp: act_simps)
  next
    case (Cons i js)
    show ?case
    proof (cases po)
      case None
      with Cons.prems Cons.IH [of None st s] show ?thesis by (simp add: act_simps)
    next
      case (Some p)
      from Cons.prems(1) Some obtain q u where q: "load_binary P ds bs i p s = Some (q, u)"
        by (auto simp: act_simps split: option.splits)
      note u = load_binary_failed [OF q]
      show ?thesis
      proof (cases q)
        case (Inl e)
        with Cons.prems(1) Some q u show ?thesis by (auto simp: act_simps)
      next
        case (Inr p')
        have dev: "cl_devices u = cl_devices s" by (subst u) simp
        have ok: "program_ok nc (length (cl_devices u)) x" if "p' = Some x" for x
          using load_binary_run [of P ds bs i p s x u nc] q Inr that Cons.prems(2) [OF Some] dev by simp
        note IH = Cons.IH [of p' "st @ [if p' = None then CL_INVALID_BINARY else CL_SUCCESS]" u, OF _ ok]
        have "t = u\<lparr>cl_host := cl_host t\<rparr>
            \<and> (\<forall>p' st. r = Inr (Some p', st) \<longrightarrow> program_ok nc (length (cl_devices u)) p')"
          by (rule IH) (use Cons.prems(1) Some q Inr in \<open>simp_all add: act_simps\<close>)
        moreover have "u\<lparr>cl_host := h\<rparr> = s\<lparr>cl_host := h\<rparr>" for h by (subst u) simp
        ultimately show ?thesis using dev by simp
      qed
    qed
  qed
  from this [of "[0..<n]" "Some p" "[]" s] assms show ?thesis by (auto simp: load_binaries_def)
qed

lemma check_devices_run:
  assumes "checkDevicesInContext c ds n s = Some (r, t)"
  shows "t = s" and "r = Inr b \<Longrightarrow> 0 < n \<Longrightarrow> c < length (cl_contexts s)"
proof -
  have looks: "t = s" if "foldEach is ok (\<lambda>i ok. if \<not> ok then ret False
       else andThen (object cl_contexts c) (\<lambda>cx.
            andThen (at_index ds i) (\<lambda>d. ret (d \<in> set (c_devices cx))))) s = Some (r, t)"
    for "is" ok and s :: "'w cl" and r t
    using that by (induction "is" arbitrary: ok) (auto simp: act_simps split: if_splits option.splits)
  with assms show "t = s" unfolding checkDevicesInContext_def by blast
  assume r: "r = Inr b" and "0 < n"
  then have "[0..<n] = 0 # [1..<n]" by (simp add: upt_conv_Cons)
  with assms r show "c < length (cl_contexts s)"
    by (auto simp: checkDevicesInContext_def act_simps split: option.splits if_splits)
qed

text \<open>The end of the constructor: the new program is stored and bound to its context.\<close>

lemma settles_store_program:
  assumes "cl_typed s" and "program_ok (length (cl_contexts s)) (length (cl_devices s)) p"
    and "andThen (reads (\<lambda>s. length (cl_programs s))) (\<lambda>r.
       andThen (modify (\<lambda>s. s\<lparr>cl_programs := cl_programs s @ [Some p]\<rparr>)) (\<lambda>_.
       andThen (object cl_contexts c) (\<lambda>cx.
       andThen (put_context c (cx\<lparr>c_program := Some r\<rparr>)) (\<lambda>_.
       ret (Inr r, st))))) s = Some (q, t)" and "settled q"
  shows "cl_typed t"
proof -
  let ?r = "length (cl_programs s)" and ?s = "s\<lparr>cl_programs := cl_programs s @ [Some p]\<rparr>"
  have s: "cl_typed ?s" by (rule typed_add(4) [OF assms(1,2)])
  obtain cx where cx: "c < length (cl_contexts s)" "cl_contexts s ! c = Some cx"
    using assms(3,4) by (auto simp: act_simps split: if_splits option.splits)
  have "cl_typed (?s\<lparr>cl_contexts := (cl_contexts ?s)[c := Some (cx\<lparr>c_program := Some ?r\<rparr>)]\<rparr>)"
    using typed_nth(2) [OF assms(1) cx] by (intro typed_put(2) s) (auto simp: context_ok_def)
  with assms(3) cx show ?thesis by (simp add: act_simps put_simps)
qed

lemma settles_program: "settles (cl_create_program_with_binary P c n ds bs)"
proof (rule settlesI)
  fix s r t
  assume s: "cl_typed s" and run: "cl_create_program_with_binary P c n ds bs s = Some (r, t)" and r: "settled r"
  show "cl_typed t"
  proof (cases "c = None \<or> ds = None \<or> n = 0")
    case True
    with run s show ?thesis
      by (auto simp: cl_create_program_with_binary_def act_simps split: option.splits)
  next
    case False
    then have pos: "0 < unat n" by (simp add: unat_gt_0)
    from False obtain cr dl where some: "c = Some cr" "ds = Some dl" by auto
    from run some False obtain q u where q: "checkDevicesInContext cr dl (unat n) s = Some (q, u)"
      by (auto simp: cl_create_program_with_binary_def act_simps split: option.splits)
    note u = check_devices_run(1) [OF q]
    show ?thesis
    proof (cases "q = Inr True \<and> bs \<noteq> None")
      case False
      with run some q u s \<open>\<not> (c = None \<or> ds = None \<or> n = 0)\<close> show ?thesis
        by (cases q) (auto simp: cl_create_program_with_binary_def act_simps split: option.splits if_splits)
    next
      case True
      then obtain bl where bl: "bs = Some bl" "q = Inr True" by auto
      have "program_ok (length (cl_contexts s)) (length (cl_devices s)) \<lparr>p_ctx = cr, p_functions = []\<rparr>"
        using check_devices_run(2) [OF q bl(2) pos] by (simp add: program_ok_def)
      note load = load_binaries_run [OF _ this]
      from run some q u bl \<open>\<not> (c = None \<or> ds = None \<or> n = 0)\<close> obtain x v where
        x: "load_binaries P dl bl (unat n) \<lparr>p_ctx = cr, p_functions = []\<rparr> s = Some (x, v)"
        by (auto simp: cl_create_program_with_binary_def act_simps split: option.splits)
      from load [OF x] have v: "v = s\<lparr>cl_host := cl_host v\<rparr>" by blast
      with s have typed: "cl_typed v" by (metis typed_host)
      show ?thesis
      proof (cases "\<exists>p st. x = Inr (Some p, st)")
        case False
        with run some q u bl x typed \<open>\<not> (c = None \<or> ds = None \<or> n = 0)\<close> show ?thesis
          by (cases x) (auto simp: cl_create_program_with_binary_def act_simps split: option.splits prod.splits)
      next
        case True
        then obtain p st where p: "x = Inr (Some p, st)" by blast
        with load [OF x] have "program_ok (length (cl_contexts s)) (length (cl_devices s)) p" by blast
        moreover have "cl_contexts v = cl_contexts s" "cl_devices v = cl_devices s" by (subst v, simp)+
        ultimately have "program_ok (length (cl_contexts v)) (length (cl_devices v)) p" by simp
        from settles_store_program [OF typed this, of cr st r t] r run some q u bl x p
          \<open>\<not> (c = None \<or> ds = None \<or> n = 0)\<close>
        show ?thesis by (simp add: cl_create_program_with_binary_def andThen_run [of "checkDevicesInContext _ _ _"]
              andThen_run [of "load_binaries _ _ _ _ _"])
      qed
    qed
  qed
qed

section \<open>All calls\<close>

lemma type_set_buffers [typing]:
  "keeps cl_typed (clSetInputBufferIDs p b ids)" "keeps cl_typed (clSetOutputBufferIDs p b ids)"
proof -
  have put: "keeps cl_typed (andThen (object cl_programs pr) (\<lambda>p. put_program pr (set_function a g p)))"
    if "\<And>f. mf_device (g f) = mf_device f" for pr a g
    using that
    by (auto simp: keeps_def act_simps put_simps split: option.splits
        intro!: typed_put(4) set_function_ok dest: typed_nth(4))
  show "keeps cl_typed (clSetInputBufferIDs p b ids)" "keeps cl_typed (clSetOutputBufferIDs p b ids)"
    unfolding clSetInputBufferIDs_def clSetOutputBufferIDs_def
    by (intro keeps_andThen [OF keeps_assert] keeps_andThen [OF keeps_from_option] put; simp)+
qed

lemma type_allocation [typing]: "keeps cl_typed (clKernelAndBufferAllocation P q)"
  unfolding clKernelAndBufferAllocation_def
  by (intro keeps_andThen [OF keeps_from_option] keeps_still still_queue_then keeps_andThen [OF still_host]
      keeps_andThen [OF still_put(1)] keeps_ret) simp

lemma type_release [typing]:
  "keeps cl_typed (clReleaseDevice h)" "keeps cl_typed (clReleaseContext P h)"
  "keeps cl_typed (clReleaseCommandQueue h)" "keeps cl_typed (clReleaseMemObject h)"
  "keeps cl_typed (clReleaseProgram h)" "keeps cl_typed (clReleaseKernel h)" "keeps cl_typed (clReleaseEvent h)"
  unfolding clReleaseDevice_def clReleaseContext_def clReleaseCommandQueue_def clReleaseMemObject_def
    clReleaseProgram_def clReleaseKernel_def clReleaseEvent_def
  by (auto intro!: typing typed_put split: option.split)

lemma type_info [typing]: "keeps cl_typed (clGetInfo x rq)"
  by (cases x) (auto intro!: typing split: option.split simp: entry_defs cl_get_device_info_def
    cl_get_context_info_def cl_get_command_queue_info_def cl_get_program_info_def
    cl_get_kernel_info_def cl_get_event_info_def cl_get_mem_object_info_def)

lemma settles_new:
  "settles (clCreateCommandQueue c d e)" "settles (clCreateProgramWithBinary P c n ds bs e)"
  "settles (clCreateBuffer P c fl sz p ni ki no ko i e)"
  unfolding clCreateCommandQueue_def clCreateProgramWithBinary_def clCreateBuffer_def handle_of_def
  by (intro settles_catch settles_andThen settles_queue settles_program settles_buffer settles_ret frame_prod;
      auto intro: settles_ret)+

lemmas kept_calls = clGetDeviceIDs_def clCreateContext_def clCreateContextFromType_def clCreateKernel_def
  clSetKernelArg_def clEnqueueTask_def clEnqueueNDRangeKernel_def clEnqueueWriteBuffer_def
  clEnqueueReadBuffer_def handle_of_def event_of_def

lemma settles_run_cl: "settles (run_cl P c)"
proof (cases c)
  case (Create_command_queue x1 x2 x3)
  then show ?thesis by (simp add: settles_andThen settles_new settles_ret)
next
  case (Create_program x1 x2 x3 x4 x5)
  then show ?thesis by (simp add: settles_andThen settles_new settles_ret)
next
  case (Create_buffer x1 x2 x3 x4 x5 x6 x7 x8 x9 x10)
  then show ?thesis by (simp add: settles_andThen settles_new settles_ret)
next
  case (Unimplemented x)
  then show ?thesis by (simp add: settles_keeps lift_unimplemented)
qed (simp only: run_cl.simps kept_calls; intro settles_keeps typing; simp)+

text \<open>The states of a program in which every call so far has returned or thrown.\<close>

inductive cl_runs :: "'w platform \<Rightarrow> 'w cl \<Rightarrow> bool" for P where
  start: "cl_runs P (cl_init w)"
| call: "cl_runs P s \<Longrightarrow> run_cl P c s = Some (r, t) \<Longrightarrow> settled r \<Longrightarrow> cl_runs P t"

end
