(* ===== verification/CL_Lifecycle.thy ===== *)
theory CL_Lifecycle
  imports CL_Props CL_Typed
begin

text \<open>
  The life of the OpenCL objects: what the handles inside them point to, what releasing a
  queue does, and the way of the data of a buffer through the layer.
\<close>

section \<open>Handles\<close>



section \<open>Releasing a queue\<close>






section \<open>Data through the layer\<close>

text \<open>
  C24. On a platform whose memory gives back what was written, a buffer written and read
  through the OpenCL layer on a queue of its context gives the caller the written bytes and
  leaves the rest of the caller's memory alone; the queue ends with the events of the two
  commands, in their order.
\<close>

theorem cl_write_read_roundtrip:
  assumes "q < length (cl_queues s)" and "cl_queues s ! q = Some qu" and "b < length (cl_mems s)"
    and "cl_mems s ! b = Some m" and "q_ctx qu = m_ctx m"
    and "cxt (cl_host s) = Cxt_live" and "sm_at (cxt_buffers (cl_host s)) (m_buffer m) = Some br"
    and "br < length (hbuffers (cl_host s))" and "hbuffers (cl_host s) ! br = buf" and "\<not> b_fifo buf"
    and "b_event buf < length (hevents (cl_host s))" and "0 < ev_id (hevents (cl_host s) ! b_event buf)"
    and "length mem = unat (b_size buf)" and "length mem \<le> length room"
    and "\<And>w. fst (hn_read_memory P (b_tile buf) (b_phy buf) (length mem) (b_cluster buf)
           (hn_write_memory P (b_tile buf) (b_phy buf) mem (b_cluster buf) w)) = mem"
  shows "\<exists>t u. clEnqueueWriteBuffer P (Some q) (Some b) (Some mem) 0 None s
        = Some (Inr (CL_SUCCESS, Some (length (cl_events s))), t)
     \<and> clEnqueueReadBuffer P (Some q) (Some b) (Some room) 0 None t
        = Some (Inr (CL_SUCCESS, Some (Suc (length (cl_events s)), mem @ drop (length mem) room)), u)
     \<and> cl_queues u = (cl_queues s)[q := Some (qu\<lparr>q_events :=
          q_events qu @ [length (cl_events s), Suc (length (cl_events s))]\<rparr>)]"
proof -
  obtain h h' where "mango_write P (Some mem) (m_buffer m) DIRECT 0 (cl_host s)
        = Some (Inr (ev_id (hevents (cl_host s) ! b_event buf)), h)"
      "mango_read P (Some room) (m_buffer m) DIRECT 0 h
        = Some (Inr (ev_id (hevents (cl_host s) ! b_event buf), mem @ drop (length mem) room), h')"
    using direct_roundtrip [OF assms(6-15)] by blast
  with assms(1-5) show ?thesis
    by (simp add: clEnqueueWriteBuffer_def clEnqueueReadBuffer_def event_of_def cl_enqueue_write_buffer_def
        cl_enqueue_read_buffer_def check_wait_list_def await_list_def push_event_def put_simps act_simps)
qed

definition store_cl :: "store cl" where
  "store_cl = (cl_init (\<lambda>_. []))\<lparr>cl_host := store_host,
     cl_contexts := [Some \<lparr>c_queue = Some 0, c_program = None, c_devices = [], c_mems = [0]\<rparr>],
     cl_queues := [Some \<lparr>q_ctx = 0, q_device = 0, q_tgx = None, q_events = []\<rparr>],
     cl_mems := [Some \<lparr>m_ctx = 0, m_buffer = 7, m_id = 7, m_type = CL_MEM_OBJECT_BUFFER, m_host_ptr = 0,
       m_flags = 1, m_size = 3\<rparr>]\<rparr>"

theorem cl_write_read_roundtrip_witness:
  "\<exists>t u. clEnqueueWriteBuffer store_platform (Some 0) (Some 0) (Some [1, 2, 3]) 0 None store_cl
        = Some (Inr (CL_SUCCESS, Some 0), t)
     \<and> clEnqueueReadBuffer store_platform (Some 0) (Some 0) (Some [9, 9, 9, 9]) 0 None t
        = Some (Inr (CL_SUCCESS, Some (1, [1, 2, 3, 9])), u)"
  using cl_write_read_roundtrip [of 0 store_cl "the (cl_queues store_cl ! 0)" 0 "the (cl_mems store_cl ! 0)" 0
      "hbuffers store_host ! 0" "[1, 2, 3]" "[9, 9, 9, 9]" store_platform]
  by (simp add: store_cl_def cl_init_def store_host_def store_platform_def host_init_def new_event_def) blast

end
