(* ===== verification/Spec2Isabelle.thy ===== *)
theory Spec2Isabelle
  imports Dev_Props Host_Fifo Host_Profiling Host_Layout Host_Directory CL_Lifecycle
begin

text \<open>
  A verification library for libmango, the programming library of the MANGO heterogeneous
  platform, and for the OpenCL layer on top of it.

  \<^bold>\<open>The program.\<close> A host process registers kernels, memory buffers and events with a
  context, asks a resource manager (BarbequeRTRM) to place them on the units of the platform,
  writes kernel images and TLB entries through the HN library, starts kernels and moves data.
  A kernel runs on a unit (GN, PEAK or NU+) with a small runtime of its own. Host and devices
  synchronise through one mechanism: an event is the address of a synchronisation register,
  reading the register takes its value and leaves 0, and writing it adds the value or
  overwrites it. The OpenCL layer turns \<^verbatim>\<open>cl...\<close> calls into calls of the C interface.

  \<^bold>\<open>Effects.\<close> A stateful function of the host is an action \<open>('s, 'a) act\<close> of
  \<open>Mango_Prelude\<close>: it maps a state to \<open>None\<close> (it never returns), or to a new
  state with a value or a \<open>fault\<close>. A fault is an assertion that fails, an access out of
  bounds, a null or dangling pointer, a double deletion, a non-terminating join, or a thrown
  exception; every branch of the source that ends in one is a branch of the model. Objects
  behind shared pointers live in stores (lists in the state record) and are named by their
  index, so aliasing is explicit. Spin loops are \<open>partial_function (option)\<close>: there is no
  fuel in the development, and a claim that a call returns is a claim that its result is
  \<open>Some\<close>. Machine integers are words of the width of the C type.

  \<^bold>\<open>Theories.\<close>
  \<^item> \<open>Mango_Prelude\<close>: actions with their laws, folds over lists of actions, sorted
    association maps (\<^verbatim>\<open>std::map\<close>), frame rules (\<open>keeps\<close>).
  \<^item> \<open>Mango_Types\<close>: \<^verbatim>\<open>host/include/mango_types.h\<close> and \<^verbatim>\<open>mango_types_c.h\<close>, the
    enumerations with their codes and casts, units and memory banks.
  \<^item> \<open>Dev_Runtime\<close>, \<open>Dev_Arch\<close>: the device runtime \<^verbatim>\<open>dev/src/mango_hn.c\<close> over the
    operations of a unit (locale \<open>sync_arch\<close>: what a read and a write of a register do),
    and the units of \<^verbatim>\<open>dev/src/gn\<close>, \<^verbatim>\<open>peak\<close> and \<^verbatim>\<open>nuplus\<close>, for each of which the
    locale is interpreted.
  \<^item> \<open>Hex_Text\<close>: the readers of hexadecimal arguments (\<^verbatim>\<open>strtol\<close>, \<^verbatim>\<open>nuplus_atox\<close>).
  \<^item> \<open>Dev_Barrier\<close>, \<open>Dev_Threads\<close>: barrier and join of a work group as interleavings of
    threads, one step per access to a register, with safety (nobody passes early), progress
    (some step is possible until all have passed) and reuse of the barrier.
  \<^item> \<open>Dev_Props\<close>: exact results of waits, the step machines against the code, spawn,
    start-up.
  \<^item> \<open>Host_State\<close>: the state of the host library, its stores and the platform, a record of
    functions for the HN library, the resource manager and the file system.
  \<^item> \<open>Host_Event\<close> (\<^verbatim>\<open>event.cpp\<close>), \<open>Host_Buffer\<close> (\<^verbatim>\<open>buffer.cpp\<close>), \<open>Host_Kernel\<close>
    (\<^verbatim>\<open>kernel.cpp\<close>, \<^verbatim>\<open>tlb.h\<close>), \<open>Host_MM\<close> (\<^verbatim>\<open>mm.cpp\<close>, \<^verbatim>\<open>task_graph.h\<close>),
    \<open>Host_Args\<close> (\<^verbatim>\<open>kernel_arguments.cpp\<close>), \<open>Host_Context\<close> (\<^verbatim>\<open>context.cpp\<close>),
    \<open>Host_Api\<close> (\<^verbatim>\<open>mango.cpp\<close>): one definition per operation, in the order of the files.
  \<^item> \<open>Host_Fifo\<close>: the two threads of a FIFO buffer as a machine with one step per access,
    its invariant and its progress.
  \<^item> \<open>Host_Invariant\<close>, \<open>Host_Reach\<close>: the skeleton of a state (ids, ownership of events and
    the maps of the context), the operations' frame lemmas on it, the states a client can
    reach and the invariant of all of them.
  \<^item> \<open>Host_Directory\<close>: an abstract directory of ids and events, and that every call of the
    C interface refines a step of it.
  \<^item> \<open>Host_Layout\<close>: the memory manager's loops on a whole task graph.
  \<^item> \<open>Host_Profiling\<close> (\<^verbatim>\<open>profiling.h\<close>, \<^verbatim>\<open>profiling.cpp\<close>): the hardware counters of the
    profiling build.
  \<^item> \<open>Host_Props\<close>: registration, deregistration, waits, allocation, transfers, removal from
    task graphs.
  \<^item> \<open>CL_State\<close>, \<open>CL_Objects\<close>, \<open>CL_Commands\<close>, \<open>CL_Info\<close>: the OpenCL layer
    \<^verbatim>\<open>host/OpenCL\<close>: constants and object stores; devices, contexts, queues, programs,
    kernels, buffers; events, enqueue operations, arguments, releases and the entry points of
    \<^verbatim>\<open>cl.cpp\<close>; queries. \<open>CL_Stubs\<close>: the entry points that only print a line and return
    a constant.
  \<^item> \<open>CL_Reach\<close>, \<open>CL_Quiet\<close>, \<open>CL_Props\<close>: states that calls of the layer reach, calls
    that change nothing when they give an error, and the properties of the layer.
  \<^item> \<open>CL_Handles\<close>, \<open>CL_Typed\<close>, \<open>CL_Lifecycle\<close>: what each handle inside an object points
    to, that every call keeps it, the release of a queue and data through the layer.

  \<^bold>\<open>What is shown.\<close>
  \<^item> Consistency: in every state that calls of the C interface or of the OpenCL layer reach,
    in any order and with any outcome, the maps of the context agree with the objects, and the
    handles inside the layer's objects are of the kind their fields call for. The bound on
    the maps is that at most \<open>2^32\<close> events have been made, the range of the id generator.
    What the calls promise about ids and their events is an abstract machine; each call
    refines a step of it.
  \<^item> Synchronisation: the exact condition under which waits return and what they leave, for
    host and devices; safety and progress of barrier, join and FIFO transfer under every
    interleaving; the deadlocks of the copies of the wait that consume the awaited value.
  \<^item> Data paths: bytes written to a buffer are read back, arguments printed by the host are
    read back by each device's start-up code, hexadecimal readers invert the printer.
  \<^item> Layout: for every task graph whose buffers need less than 2 GB, all the buffers of each
    kernel get aligned, disjoint regions; a PEAK kernel with large buffers runs into the
    window of the events.
  \<^item> OpenCL: the queue after \<^verbatim>\<open>clFinish\<close>, when \<^verbatim>\<open>clFinish\<close> returns, enqueue errors,
    queries that respect the caller's room, a release of a queue that cannot return, and
    bytes written and read back through the layer.
  \<^item> Profiling: a reading of the counters gives each core its gains since the last one.

  \<^bold>\<open>Parameters.\<close> The HN library, BarbequeRTRM and the file system are the fields of the
  record \<open>platform\<close>; the start-up code of GN has the operating system's answers in a record
  of their own. What a theorem needs of them is a hypothesis (\<open>sync_arch\<close> for registers,
  memory that gives back what was written), and witnesses discharge it on concrete functions:
  \<open>bank_platform\<close>, \<open>store_platform\<close> and the units' own models.

  \<^bold>\<open>Not modelled.\<close> Console output and the logger; the timings of the profiling build,
  statistics that Boost keeps over the clock, and the printing of its counters; debug output and
  inline assembly of the devices; the Python generator of kernel entry points; the vendored
  \<^verbatim>\<open>cl_platform.h\<close>; prototypes in headers. The interleaving
  machines cover the barrier, the join of a group and the FIFO transfer; elsewhere a call runs
  without interference from devices. Allocation failure (\<^verbatim>\<open>std::bad_alloc\<close>) is not modelled.
\<close>

end
